(* ===== verification/Prelude.thy ===== *)
theory Prelude
  imports Main "HOL-Library.Word"
begin

text \<open>
  What every component of the model shares: the machine integers of the source, the three-way
  outcome of a fallible Rust function (a value, an \<^verbatim>\<open>Err\<close>, a panic), big-endian byte
  conversions, and the collections of hints the component theories extend.
\<close>

named_theorems byte_simps \<open>big-endian conversions and cursor arithmetic\<close>
named_theorems run_simps \<open>unfolding of the session's effectful primitives\<close>

section \<open>Machine integers\<close>

type_synonym u8 = "8 word"
type_synonym u16 = "16 word"
type_synonym u32 = "32 word"
type_synonym u64 = "64 word"

text \<open>Big-endian composition of bytes, as the byte readers compute it.\<close>

definition be16 :: "u8 \<Rightarrow> u8 \<Rightarrow> u16" where
  "be16 a b = word_of_nat (256 * unat a + unat b)"

definition be32 :: "u8 \<Rightarrow> u8 \<Rightarrow> u8 \<Rightarrow> u8 \<Rightarrow> u32" where
  "be32 a b c d = word_of_nat (16777216 * unat a + 65536 * unat b + 256 * unat c + unat d)"

text \<open>\<^verbatim>\<open>to_be_bytes\<close> of the unsigned integers.\<close>

definition be16_bytes :: "u16 \<Rightarrow> u8 list" where
  "be16_bytes w = [word_of_nat (unat w div 256), word_of_nat (unat w mod 256)]"

definition be32_bytes :: "u32 \<Rightarrow> u8 list" where
  "be32_bytes w =
     [word_of_nat (unat w div 16777216), word_of_nat (unat w div 65536 mod 256),
      word_of_nat (unat w div 256 mod 256), word_of_nat (unat w mod 256)]"

lemma unat_u8_less [simp, intro]: "unat (a :: u8) < 256"
  using unsigned_less [of a] by simp

lemma unat_u16_less [simp, intro]: "unat (a :: u16) < 65536"
  using unsigned_less [of a] by simp

lemma unat_u32_less [simp, intro]: "unat (a :: u32) < 4294967296"
  using unsigned_less [of a] by simp

lemma unat_of_nat_u8: "n < 256 \<Longrightarrow> unat (word_of_nat n :: u8) = n"
  by (simp add: unat_of_nat)

lemma unat_of_nat_u16: "n < 65536 \<Longrightarrow> unat (word_of_nat n :: u16) = n"
  by (simp add: unat_of_nat)

lemma unat_of_nat_u32: "n < 4294967296 \<Longrightarrow> unat (word_of_nat n :: u32) = n"
  by (simp add: unat_of_nat)

lemma unat_be16 [byte_simps]: "unat (be16 a b) = 256 * unat a + unat b"
proof -
  have "256 * unat a + unat b < 65536"
    using unat_u8_less [of a] unat_u8_less [of b] by linarith
  then show ?thesis by (simp only: be16_def unat_of_nat_u16)
qed

lemma unat_be32 [byte_simps]:
  "unat (be32 a b c d) = 16777216 * unat a + 65536 * unat b + 256 * unat c + unat d"
proof -
  have "16777216 * unat a + 65536 * unat b + 256 * unat c + unat d < 4294967296"
    using unat_u8_less [of a] unat_u8_less [of b] unat_u8_less [of c] unat_u8_less [of d]
    by linarith
  then show ?thesis by (simp only: be32_def unat_of_nat_u32)
qed

lemma length_be16_bytes [simp]: "length (be16_bytes w) = 2"
  by (simp add: be16_bytes_def)

lemma length_be32_bytes [simp]: "length (be32_bytes w) = 4"
  by (simp add: be32_bytes_def)

text \<open>Reading what was written gives it back, and writing what was read does too.\<close>

lemma be16_of_bytes [simp]:
  "be16 (word_of_nat (unat w div 256)) (word_of_nat (unat w mod 256)) = w"
proof (rule word_unat_eq_iff [THEN iffD2])
  have "unat w div 256 < 256" using unat_u16_less [of w] by linarith
  then show "unat (be16 (word_of_nat (unat w div 256)) (word_of_nat (unat w mod 256))) = unat w"
    by (simp add: unat_be16 unat_of_nat_u8)
qed

lemma be16_0_left [simp]: "be16 0 b = ucast b"
  by (simp add: be16_def)

lemma be16_bytes_be16 [simp]: "be16_bytes (be16 a b) = [a, b]"
  by (simp add: be16_bytes_def unat_be16)

lemma div_256_steps:
  fixes n :: nat
  shows "n div 65536 = n div 256 div 256" and "n div 16777216 = n div 256 div 256 div 256"
  by (simp_all flip: div_mult2_eq)

lemma radix_div_mod:
  fixes h l :: nat
  assumes "l < 256"
  shows "(256 * h + l) div 256 = h" and "(256 * h + l) mod 256 = l"
  using assms by simp_all

lemma be32_horner:
  "16777216 * p + 65536 * q + 256 * r + s = 256 * (256 * (256 * p + q) + r) + (s :: nat)"
  by simp

lemma be32_of_bytes [simp]:
  "be32 (word_of_nat (unat w div 16777216)) (word_of_nat (unat w div 65536 mod 256))
     (word_of_nat (unat w div 256 mod 256)) (word_of_nat (unat w mod 256)) = w"
proof (rule word_unat_eq_iff [THEN iffD2])
  have 1: "unat w div 16777216 < 256" using unat_u32_less [of w] by linarith
  have "16777216 * (unat w div 16777216) + 65536 * (unat w div 65536 mod 256)
      + 256 * (unat w div 256 mod 256) + unat w mod 256 = unat w"
    using mult_div_mod_eq [of 256 "unat w"] mult_div_mod_eq [of 256 "unat w div 256"]
      mult_div_mod_eq [of 256 "unat w div 256 div 256"]
    unfolding div_256_steps by linarith
  with 1 show "unat (be32 (word_of_nat (unat w div 16777216))
      (word_of_nat (unat w div 65536 mod 256)) (word_of_nat (unat w div 256 mod 256))
      (word_of_nat (unat w mod 256))) = unat w"
    by (simp add: unat_be32 unat_of_nat_u8)
qed

lemma be32_bytes_be32 [simp]: "be32_bytes (be32 a b c d) = [a, b, c, d]"
proof -
  have "be32_bytes (be32 a b c d) =
      [word_of_nat (unat a), word_of_nat (unat b), word_of_nat (unat c), word_of_nat (unat d)]"
    unfolding be32_bytes_def unat_be32 be32_horner div_256_steps
    by (simp only: radix_div_mod unat_u8_less)
  then show ?thesis by simp
qed

lemma be16_bytes_cases:
  obtains a b where "be16_bytes w = [a, b]" and "be16 a b = w"
  by (simp add: be16_bytes_def)

lemma be32_bytes_cases:
  obtains a b c d where "be32_bytes w = [a, b, c, d]" and "be32 a b c d = w"
  by (simp add: be32_bytes_def)

section \<open>Outcomes of fallible code\<close>

text \<open>
  A Rust function that returns \<^verbatim>\<open>Result\<close> ends in \<^verbatim>\<open>Ok\<close>, in \<^verbatim>\<open>Err\<close>, or in a panic, which no
  caller of this program catches. The kinds of panic are the ones the source can reach.
\<close>

datatype panic =
    UnwrapNone            \<comment> \<open>\<^verbatim>\<open>unwrap\<close> on \<^verbatim>\<open>None\<close>\<close>
  | UnwrapErr             \<comment> \<open>\<^verbatim>\<open>unwrap\<close> on \<^verbatim>\<open>Err\<close>\<close>
  | ArithmeticOverflow    \<comment> \<open>\<^verbatim>\<open>+\<close> out of range, in a build with overflow checks\<close>
  | AdvanceOutOfRange     \<comment> \<open>\<^verbatim>\<open>Buf::advance\<close> past the end\<close>
  | ExplicitPanic         \<comment> \<open>\<^verbatim>\<open>panic!\<close>\<close>

datatype (dead 'e, 'a) outcome = Ok 'a | Err 'e | Panicked panic

primrec bindO :: "('e, 'a) outcome \<Rightarrow> ('a \<Rightarrow> ('e, 'b) outcome) \<Rightarrow> ('e, 'b) outcome" where
  "bindO (Ok x) f = f x"
| "bindO (Err e) f = Err e"
| "bindO (Panicked p) f = Panicked p"

lemma map_outcome_bindO: "map_outcome h (bindO m f) = bindO m (\<lambda>x. map_outcome h (f x))"
  by (cases m) simp_all

lemma bindO_eq_Ok: "bindO m f = Ok y \<longleftrightarrow> (\<exists>x. m = Ok x \<and> f x = Ok y)"
  by (cases m) simp_all

lemma bindO_eq_Panicked:
  "bindO m f = Panicked p \<longleftrightarrow> m = Panicked p \<or> (\<exists>x. m = Ok x \<and> f x = Panicked p)"
  by (cases m) simp_all

lemma map_outcome_eq_Err [simp]: "map_outcome h m = Err e \<longleftrightarrow> m = Err e"
  by (cases m) auto

lemma map_outcome_eq_Panicked [simp]: "map_outcome h m = Panicked p \<longleftrightarrow> m = Panicked p"
  by (cases m) auto

text \<open>\<^verbatim>\<open>a + b\<close> on \<^verbatim>\<open>u8\<close>: a panic on overflow in a build with overflow checks, else it wraps.\<close>

definition add_u8 :: "bool \<Rightarrow> u8 \<Rightarrow> u8 \<Rightarrow> ('e, u8) outcome" where
  "add_u8 checks a b =
     (if checks \<and> 256 \<le> unat a + unat b then Panicked ArithmeticOverflow else Ok (a + b))"

lemma unat_add_u8: "unat ((a :: u8) + b) = (unat a + unat b) mod 256"
  by (simp add: unat_word_ariths)

lemma radix_less:
  fixes l l' :: nat
  assumes "l < 256" and "l' < 256"
  shows "256 * h + l < 256 * h' + l' \<longleftrightarrow> h < h' \<or> h = h' \<and> l < l'"
  using assms by (cases h h' rule: linorder_cases) auto

lemma radix_eq:
  fixes l l' :: nat
  assumes "l < 256" and "l' < 256"
  shows "256 * h + l = 256 * h' + l' \<longleftrightarrow> h = h' \<and> l = l'"
  using assms by (cases h h' rule: linorder_cases) auto

text \<open>Widening casts keep the value.\<close>

lemma unat_ucast_u16_u32 [simp]: "unat (ucast (x :: u16) :: u32) = unat x"
  by transfer simp

lemma unat_ucast_u8_u16 [simp]: "unat (ucast (x :: u8) :: u16) = unat x"
  by transfer simp

section \<open>Lists\<close>

lemma drop_eq_Cons_length: "drop n xs = y # ys \<Longrightarrow> n < length xs"
  by (metis drop_eq_Nil list.distinct(1) not_le)

lemma length_eq_4_conv: "length xs = 4 \<longleftrightarrow> (\<exists>a b c d. xs = [a, b, c, d])"
  by (auto simp: numeral_eq_Suc length_Suc_conv)

lemma length_ge_10E:
  assumes "10 \<le> length xs"
  obtains a b c d e f g h i j ys where "xs = [a, b, c, d, e, f, g, h, i, j] @ ys"
  using assms that by (auto simp: eval_nat_numeral Suc_le_length_iff)

end
