(* ===== verification/Net.thy ===== *)
theory Net
  imports Prelude
begin

text \<open>
  The parts of Rust's \<^verbatim>\<open>std::net\<close> and \<^verbatim>\<open>core::time\<close> the source uses: IP addresses with the
  order of their octets (the BGP identifier comparison of collision detection), socket
  addresses, and durations, kept as a count of nanoseconds.
\<close>

section \<open>Addresses\<close>

datatype Ipv4Addr = Ipv4Addr u8 u8 u8 u8

fun ipv4_octets :: "Ipv4Addr \<Rightarrow> u8 list" where
  "ipv4_octets (Ipv4Addr a b c d) = [a, b, c, d]"

fun ipv4_bits :: "Ipv4Addr \<Rightarrow> u32" where
  "ipv4_bits (Ipv4Addr a b c d) = be32 a b c d"

text \<open>\<^verbatim>\<open>Ipv4Addr::from(<[u8; 4]>::try_from(v).unwrap())\<close>: a vector of any other length panics.\<close>

definition ipv4_from_vec :: "u8 list \<Rightarrow> ('e, Ipv4Addr) outcome" where
  "ipv4_from_vec v = (case v of [a, b, c, d] \<Rightarrow> Ok (Ipv4Addr a b c d) | _ \<Rightarrow> Panicked UnwrapErr)"

definition ipv4_from_be :: "u32 \<Rightarrow> Ipv4Addr" where
  "ipv4_from_be w = (case be32_bytes w of [a, b, c, d] \<Rightarrow> Ipv4Addr a b c d | _ \<Rightarrow> Ipv4Addr 0 0 0 0)"

datatype Ipv6Addr = Ipv6Addr (ipv6_octets: "u8 list")

definition ipv6_from_vec :: "u8 list \<Rightarrow> ('e, Ipv6Addr) outcome" where
  "ipv6_from_vec v = (if length v = 16 then Ok (Ipv6Addr v) else Panicked UnwrapErr)"

datatype IpAddr = V4 Ipv4Addr | V6 Ipv6Addr

record SocketAddr =
  sock_ip :: IpAddr
  sock_port :: u16

lemma ipv4_bits_inj: "ipv4_bits x = ipv4_bits y \<longleftrightarrow> x = y"
proof
  assume eq: "ipv4_bits x = ipv4_bits y"
  obtain a b c d a' b' c' d' where x: "x = Ipv4Addr a b c d" and y: "y = Ipv4Addr a' b' c' d'"
    by (metis Ipv4Addr.exhaust)
  have "be32_bytes (ipv4_bits x) = be32_bytes (ipv4_bits y)" using eq by simp
  then show "x = y" by (simp add: x y)
qed simp

lemma ipv4_from_be_bits [simp]: "ipv4_from_be (be32 a b c d) = Ipv4Addr a b c d"
  by (simp add: ipv4_from_be_def)

lemma ipv4_bits_from_be [simp]: "ipv4_bits (ipv4_from_be w) = w"
  by (simp add: ipv4_from_be_def be32_bytes_def)

lemma ipv4_from_vec_4 [simp]:
  "length v = 4 \<Longrightarrow> ipv4_from_vec v = Ok (Ipv4Addr (v ! 0) (v ! 1) (v ! 2) (v ! 3))"
  by (auto simp: length_eq_4_conv ipv4_from_vec_def)

text \<open>
  Rust orders \<^verbatim>\<open>Ipv4Addr\<close> by its octets; since they are big-endian this is the order of the
  32-bit value, which makes the type a linear order of the library.
\<close>

instantiation Ipv4Addr :: linorder
begin

definition less_eq_Ipv4Addr :: "Ipv4Addr \<Rightarrow> Ipv4Addr \<Rightarrow> bool" where
  "less_eq_Ipv4Addr x y \<longleftrightarrow> ipv4_bits x \<le> ipv4_bits y"

definition less_Ipv4Addr :: "Ipv4Addr \<Rightarrow> Ipv4Addr \<Rightarrow> bool" where
  "less_Ipv4Addr x y \<longleftrightarrow> ipv4_bits x < ipv4_bits y"

instance
proof
  fix x y z :: Ipv4Addr
  show "(x < y) = (x \<le> y \<and> \<not> y \<le> x)"
    by (auto simp: less_eq_Ipv4Addr_def less_Ipv4Addr_def)
  show "x \<le> x" by (simp add: less_eq_Ipv4Addr_def)
  show "x \<le> y \<Longrightarrow> y \<le> z \<Longrightarrow> x \<le> z" by (simp add: less_eq_Ipv4Addr_def)
  show "x \<le> y \<Longrightarrow> y \<le> x \<Longrightarrow> x = y"
    by (simp add: less_eq_Ipv4Addr_def ipv4_bits_inj [symmetric])
  show "x \<le> y \<or> y \<le> x" by (auto simp: less_eq_Ipv4Addr_def)
qed

end

text \<open>The order is the lexicographic order of the octets.\<close>

lemma Ipv4Addr_less_lexicographic:
  "Ipv4Addr a b c d < Ipv4Addr a' b' c' d' \<longleftrightarrow>
     a < a' \<or> a = a' \<and> (b < b' \<or> b = b' \<and> (c < c' \<or> c = c' \<and> d < d'))"
proof -
  have eqs: "\<And>x y :: u8. x = y \<longleftrightarrow> unat x = unat y" by (simp add: word_unat_eq_iff)
  show ?thesis
    unfolding less_Ipv4Addr_def ipv4_bits.simps word_less_nat_alt unat_be32 eqs be32_horner
    by (simp only: radix_less radix_eq unat_u8_less conj_assoc disj_assoc conj_disj_distribL)
qed

section \<open>Durations\<close>

type_synonym Duration = nat

definition from_secs :: "nat \<Rightarrow> Duration" where
  "from_secs s = s * 1000000000"

text \<open>\<^verbatim>\<open>Duration / u32\<close> rounds down to a nanosecond.\<close>

definition duration_div :: "Duration \<Rightarrow> nat \<Rightarrow> Duration" where
  "duration_div d n = d div n"

lemma from_secs_mono [simp]: "from_secs a \<le> from_secs b \<longleftrightarrow> a \<le> b"
  by (simp add: from_secs_def)

lemma from_secs_inject [simp]: "from_secs a = from_secs b \<longleftrightarrow> a = b"
  by (simp add: from_secs_def)

end
