(* ===== verification/Config.thy ===== *)
theory Config
  imports Net
begin

text \<open>
  The configuration of \<^verbatim>\<open>src/config.rs\<close>: plain data, and the built-in configuration
  \<^verbatim>\<open>Bgp::new\<close>. A \<^verbatim>\<open>HashMap\<close> is a finite partial map.
\<close>

record BgpGlobalConfig =
  as_ :: u32
  global_router_id :: Ipv4Addr

record BgpGlobalBase =
  global_config :: BgpGlobalConfig

datatype PeerType = Internal | External

record BgpNeighborBaseConfig =
  router_id :: Ipv4Addr
  peer_group :: string
  config_neighbor_address :: IpAddr
  neighbor_port :: u16
  enabled :: bool
  peer_as :: u32
  local_as :: u32
  peer_type :: PeerType

record BgpCommonNeighborGroupTimersConfig =
  connect_retry :: u16
  timers_hold_time :: u16
  keepalive_internal :: u16
  minimum_advertisement_interval :: u16
  restart_time :: u16

record BgpNeighborBaseTimers =
  timers_config :: BgpCommonNeighborGroupTimersConfig

record Neighbor =
  neighbor_address :: IpAddr
  neighbor_config :: BgpNeighborBaseConfig
  neighbor_timers :: BgpNeighborBaseTimers

record BgpPeerGroupBaseConfig =
  group_config_name :: string
  group_peer_as :: u32
  group_local_as :: u32
  group_peer_type :: PeerType

record PeerGroup =
  peer_group_name :: string
  group_config :: BgpPeerGroupBaseConfig

type_synonym BgpNeighborList = "IpAddr \<rightharpoonup> Neighbor"
type_synonym BgpPeerGroupList = "string \<rightharpoonup> PeerGroup"

record Bgp =
  bgp_global :: BgpGlobalBase
  neighbors :: BgpNeighborList
  peer_groups :: BgpPeerGroupList

definition Bgp_new :: Bgp where
  "Bgp_new =
     \<lparr>bgp_global = \<lparr>global_config = \<lparr>as_ = 65000, global_router_id = Ipv4Addr 192 0 2 1\<rparr>\<rparr>,
      neighbors = Map.empty,
      peer_groups = Map.empty\<rparr>"

end
