(* ===== verification/Errors.thy ===== *)
theory Errors
  imports Prelude
begin

text \<open>
  The errors of \<^verbatim>\<open>src/error.rs\<close>: codes, subcodes, their numbers on the wire, and the
  conversions the \<^verbatim>\<open>?\<close> operator applies to errors of the byte reader and of sockets.
\<close>

section \<open>Codes and subcodes\<close>

datatype LocalLogicErrorSubcode = BufferTooShortError | IOError

datatype MsgHeaderErrorSubcode = ConnectionNotSync | BadMessageLength | BadMessageType

datatype OpenMsgErrorSubcode =
    UnsupportedVersionNumber
  | BadPeerAs
  | BadBgpIdentifier
  | UnsupportedOptionalParameter
  | UnacceptableHoldTime
  | UnSupportedCapability

datatype UpdateMsgErrorSubcode =
    MalformedAttributeList
  | UnrecognizedWellKnownAttribute
  | MissingWellKnownAttribute
  | AttributeFlagsError
  | AttributeLengthError
  | InvalidOriginAttribute
  | InvalidNextHopAttribute
  | OptionalAttributeError
  | InvalidNetworkField
  | MalformedAsPath

datatype ErrorSubCode =
    LocalSub LocalLogicErrorSubcode
  | HeaderSub MsgHeaderErrorSubcode
  | OpenSub OpenMsgErrorSubcode
  | UpdateSub UpdateMsgErrorSubcode
  | Undefined

datatype ErrorCode =
    LocalLogicError
  | MessageHeaderError
  | OpenMessageError
  | UpdateMessageError
  | HoldTimerExpired
  | FiniteStateMachineError
  | Cease

text \<open>The discriminants, as \<^verbatim>\<open>code as u8\<close> reads them.\<close>

fun LocalLogicErrorSubcode_u8 :: "LocalLogicErrorSubcode \<Rightarrow> u8" where
  "LocalLogicErrorSubcode_u8 BufferTooShortError = 1"
| "LocalLogicErrorSubcode_u8 IOError = 2"

fun MsgHeaderErrorSubcode_u8 :: "MsgHeaderErrorSubcode \<Rightarrow> u8" where
  "MsgHeaderErrorSubcode_u8 ConnectionNotSync = 1"
| "MsgHeaderErrorSubcode_u8 BadMessageLength = 2"
| "MsgHeaderErrorSubcode_u8 BadMessageType = 3"

fun OpenMsgErrorSubcode_u8 :: "OpenMsgErrorSubcode \<Rightarrow> u8" where
  "OpenMsgErrorSubcode_u8 UnsupportedVersionNumber = 1"
| "OpenMsgErrorSubcode_u8 BadPeerAs = 2"
| "OpenMsgErrorSubcode_u8 BadBgpIdentifier = 3"
| "OpenMsgErrorSubcode_u8 UnsupportedOptionalParameter = 4"
| "OpenMsgErrorSubcode_u8 UnacceptableHoldTime = 6"
| "OpenMsgErrorSubcode_u8 UnSupportedCapability = 7"

fun UpdateMsgErrorSubcode_u8 :: "UpdateMsgErrorSubcode \<Rightarrow> u8" where
  "UpdateMsgErrorSubcode_u8 MalformedAttributeList = 1"
| "UpdateMsgErrorSubcode_u8 UnrecognizedWellKnownAttribute = 2"
| "UpdateMsgErrorSubcode_u8 MissingWellKnownAttribute = 3"
| "UpdateMsgErrorSubcode_u8 AttributeFlagsError = 4"
| "UpdateMsgErrorSubcode_u8 AttributeLengthError = 5"
| "UpdateMsgErrorSubcode_u8 InvalidOriginAttribute = 6"
| "UpdateMsgErrorSubcode_u8 InvalidNextHopAttribute = 8"
| "UpdateMsgErrorSubcode_u8 OptionalAttributeError = 9"
| "UpdateMsgErrorSubcode_u8 InvalidNetworkField = 10"
| "UpdateMsgErrorSubcode_u8 MalformedAsPath = 11"

fun ErrorCode_u8 :: "ErrorCode \<Rightarrow> u8" where
  "ErrorCode_u8 LocalLogicError = 0"
| "ErrorCode_u8 MessageHeaderError = 1"
| "ErrorCode_u8 OpenMessageError = 2"
| "ErrorCode_u8 UpdateMessageError = 3"
| "ErrorCode_u8 HoldTimerExpired = 4"
| "ErrorCode_u8 FiniteStateMachineError = 5"
| "ErrorCode_u8 Cease = 6"

fun ErrorSubCode_u8 :: "ErrorSubCode \<Rightarrow> u8" where
  "ErrorSubCode_u8 (LocalSub s) = LocalLogicErrorSubcode_u8 s"
| "ErrorSubCode_u8 (HeaderSub s) = MsgHeaderErrorSubcode_u8 s"
| "ErrorSubCode_u8 (OpenSub s) = OpenMsgErrorSubcode_u8 s"
| "ErrorSubCode_u8 (UpdateSub s) = UpdateMsgErrorSubcode_u8 s"
| "ErrorSubCode_u8 Undefined = 0"

section \<open>Errors\<close>

record Error =
  err_code :: ErrorCode
  err_subcode :: ErrorSubCode
  err_data :: "u8 list option"

type_synonym 'a Result = "(Error, 'a) outcome"

definition Error_new :: "ErrorCode \<Rightarrow> ErrorSubCode \<Rightarrow> u8 list option \<Rightarrow> Error" where
  "Error_new code subcode data = \<lparr>err_code = code, err_subcode = subcode, err_data = data\<rparr>"

text \<open>The \<^verbatim>\<open>From\<close> implementations that make a subcode of each group an \<^verbatim>\<open>ErrorSubCode\<close>.\<close>

definition ErrorSubCode_from_local :: "LocalLogicErrorSubcode \<Rightarrow> ErrorSubCode" where
  [simp]: "ErrorSubCode_from_local subcode = LocalSub subcode"

definition ErrorSubCode_from_header :: "MsgHeaderErrorSubcode \<Rightarrow> ErrorSubCode" where
  [simp]: "ErrorSubCode_from_header subcode = HeaderSub subcode"

definition ErrorSubCode_from_open :: "OpenMsgErrorSubcode \<Rightarrow> ErrorSubCode" where
  [simp]: "ErrorSubCode_from_open subcode = OpenSub subcode"

definition ErrorSubCode_from_update :: "UpdateMsgErrorSubcode \<Rightarrow> ErrorSubCode" where
  [simp]: "ErrorSubCode_from_update subcode = UpdateSub subcode"

definition new_local :: "LocalLogicErrorSubcode \<Rightarrow> u8 list option \<Rightarrow> Error" where
  "new_local subcode data = Error_new LocalLogicError (ErrorSubCode_from_local subcode) data"

definition new_header :: "MsgHeaderErrorSubcode \<Rightarrow> u8 list option \<Rightarrow> Error" where
  "new_header subcode data = Error_new MessageHeaderError (ErrorSubCode_from_header subcode) data"

definition new_open :: "OpenMsgErrorSubcode \<Rightarrow> u8 list option \<Rightarrow> Error" where
  "new_open subcode data = Error_new OpenMessageError (ErrorSubCode_from_open subcode) data"

definition new_update :: "UpdateMsgErrorSubcode \<Rightarrow> u8 list option \<Rightarrow> Error" where
  "new_update subcode data = Error_new UpdateMessageError (ErrorSubCode_from_update subcode) data"

definition err_local :: "LocalLogicErrorSubcode \<Rightarrow> u8 list option \<Rightarrow> 'a Result" where
  "err_local subcode data = Err (new_local subcode data)"

definition err_header :: "MsgHeaderErrorSubcode \<Rightarrow> u8 list option \<Rightarrow> 'a Result" where
  "err_header subcode data = Err (new_header subcode data)"

definition err_open :: "OpenMsgErrorSubcode \<Rightarrow> u8 list option \<Rightarrow> 'a Result" where
  "err_open subcode data = Err (new_open subcode data)"

definition err_update :: "UpdateMsgErrorSubcode \<Rightarrow> u8 list option \<Rightarrow> 'a Result" where
  "err_update subcode data = Err (new_update subcode data)"

text \<open>\<^verbatim>\<open>impl From<octets::BufferTooShortError> for Error\<close> and \<^verbatim>\<open>impl From<std::io::Error>\<close>.\<close>

definition from_BufferTooShortError :: Error where
  "from_BufferTooShortError = Error_new LocalLogicError (ErrorSubCode_from_local BufferTooShortError) None"

definition from_io_error :: Error where
  "from_io_error = Error_new LocalLogicError (ErrorSubCode_from_local IOError) None"

text \<open>The \<^verbatim>\<open>?\<close> operator on a result of the byte reader.\<close>

definition oct_try :: "'a option \<Rightarrow> 'a Result" where
  "oct_try r = (case r of None \<Rightarrow> Err from_BufferTooShortError | Some x \<Rightarrow> Ok x)"

lemma oct_try_simps [simp]:
  "oct_try None = Err from_BufferTooShortError"
  "oct_try (Some x) = Ok x"
  by (simp_all add: oct_try_def)

lemmas error_defs = Error_new_def new_local_def new_header_def new_open_def new_update_def
  err_local_def err_header_def err_open_def err_update_def
  from_BufferTooShortError_def from_io_error_def

lemma new_local_too_short [simp]: "new_local BufferTooShortError None = from_BufferTooShortError"
  by (simp add: error_defs)

lemma map_outcome_err [simp]:
  "map_outcome h (err_local s1 d) = err_local s1 d"
  "map_outcome h (err_header s2 d) = err_header s2 d"
  "map_outcome h (err_open s3 d) = err_open s3 d"
  "map_outcome h (err_update s4 d) = err_update s4 d"
  by (simp_all add: err_local_def err_header_def err_open_def err_update_def)

lemma err_not_Ok [simp]:
  "err_local s1 d \<noteq> Ok x" "err_header s2 d \<noteq> Ok x" "err_open s3 d \<noteq> Ok x" "err_update s4 d \<noteq> Ok x"
  by (simp_all add: err_local_def err_header_def err_open_def err_update_def)

lemma err_not_Panicked [simp]:
  "err_local s1 d \<noteq> Panicked p" "err_header s2 d \<noteq> Panicked p"
  "err_open s3 d \<noteq> Panicked p" "err_update s4 d \<noteq> Panicked p"
  by (simp_all add: err_local_def err_header_def err_open_def err_update_def)

text \<open>The subcode numbers of one group never collide, so the notification's pair names one error.\<close>

lemma ErrorCode_u8_inj: "ErrorCode_u8 a = ErrorCode_u8 b \<longleftrightarrow> a = b"
  by (cases a; cases b) simp_all

lemma UpdateMsgErrorSubcode_u8_inj:
  "UpdateMsgErrorSubcode_u8 a = UpdateMsgErrorSubcode_u8 b \<longleftrightarrow> a = b"
  by (cases a; cases b) simp_all

lemma OpenMsgErrorSubcode_u8_inj:
  "OpenMsgErrorSubcode_u8 a = OpenMsgErrorSubcode_u8 b \<longleftrightarrow> a = b"
  by (cases a; cases b) simp_all

lemma MsgHeaderErrorSubcode_u8_inj:
  "MsgHeaderErrorSubcode_u8 a = MsgHeaderErrorSubcode_u8 b \<longleftrightarrow> a = b"
  by (cases a; cases b) simp_all

text \<open>The errors the constructors build: the subcode is of the group the code names.\<close>

fun error_wf :: "Error \<Rightarrow> bool" where
  "error_wf e = (case err_code e of
     LocalLogicError \<Rightarrow> (case err_subcode e of LocalSub s \<Rightarrow> True | _ \<Rightarrow> False)
   | MessageHeaderError \<Rightarrow> (case err_subcode e of HeaderSub s \<Rightarrow> True | _ \<Rightarrow> False)
   | OpenMessageError \<Rightarrow> (case err_subcode e of OpenSub s \<Rightarrow> True | _ \<Rightarrow> False)
   | UpdateMessageError \<Rightarrow> (case err_subcode e of UpdateSub s \<Rightarrow> True | _ \<Rightarrow> False)
   | _ \<Rightarrow> err_subcode e = Undefined)"

lemma LocalLogicErrorSubcode_u8_inj:
  "LocalLogicErrorSubcode_u8 a = LocalLogicErrorSubcode_u8 b \<longleftrightarrow> a = b"
  by (cases a; cases b) simp_all

lemmas subcode_inj = LocalLogicErrorSubcode_u8_inj MsgHeaderErrorSubcode_u8_inj
  OpenMsgErrorSubcode_u8_inj UpdateMsgErrorSubcode_u8_inj

lemma error_numbers_inj:
  assumes "error_wf e" and "error_wf e'"
    and "ErrorCode_u8 (err_code e) = ErrorCode_u8 (err_code e')"
    and "ErrorSubCode_u8 (err_subcode e) = ErrorSubCode_u8 (err_subcode e')"
  shows "err_code e = err_code e' \<and> err_subcode e = err_subcode e'"
  using assms by (auto simp: ErrorCode_u8_inj subcode_inj split: ErrorCode.splits ErrorSubCode.splits)

end
