(* ===== verification/Octets.thy ===== *)
theory Octets
  imports Errors
begin

text \<open>
  The interface of the two byte-buffer crates the decoders are written against. Their code is
  not in the repository, so a decoder of the model takes their operations as a record of
  functions: \<open>octets\<close> is the reading cursor of the crate \<^verbatim>\<open>octets\<close>, \<open>bytes_mut\<close> the growing
  receive buffer of the crate \<^verbatim>\<open>bytes\<close>. The two locales state what their documentation
  promises: a cursor behaves like a byte slice with an offset that only moves forward, a
  \<^verbatim>\<open>BytesMut\<close> like a byte vector that can be consumed from the front. \<open>ref_octets\<close> and
  \<open>ref_bytes\<close> are the slice and the vector themselves, the instances at which witnesses evaluate.
\<close>

section \<open>Operations\<close>

record 'b octets =
  oct_with_slice :: "u8 list \<Rightarrow> 'b"
  oct_get_u8 :: "'b \<Rightarrow> (u8 \<times> 'b) option"
  oct_get_u16 :: "'b \<Rightarrow> (u16 \<times> 'b) option"
  oct_get_u32 :: "'b \<Rightarrow> (u32 \<times> 'b) option"
  oct_get_bytes :: "'b \<Rightarrow> nat \<Rightarrow> ('b \<times> 'b) option"
  oct_get_bytes_with_u16_length :: "'b \<Rightarrow> ('b \<times> 'b) option"
  oct_skip :: "'b \<Rightarrow> nat \<Rightarrow> 'b option"
  oct_cap :: "'b \<Rightarrow> nat"
  oct_off :: "'b \<Rightarrow> nat"
  oct_buf :: "'b \<Rightarrow> u8 list"
  oct_to_vec :: "'b \<Rightarrow> u8 list"

record 'm bytes_mut =
  bm_with_capacity :: "nat \<Rightarrow> 'm"
  bm_len :: "'m \<Rightarrow> nat"
  bm_slice :: "'m \<Rightarrow> u8 list"
  bm_reserve :: "'m \<Rightarrow> nat \<Rightarrow> 'm"
  bm_advance :: "'m \<Rightarrow> nat \<Rightarrow> 'm option"   \<comment> \<open>\<^verbatim>\<open>None\<close>: the documented panic\<close>
  bm_read_buf :: "'m \<Rightarrow> u8 list \<Rightarrow> 'm"      \<comment> \<open>a socket read appends what arrived\<close>

section \<open>The reference cursor\<close>

datatype cursor = Cursor (cur_buf: "u8 list") (cur_off: nat)

definition rem :: "cursor \<Rightarrow> u8 list" where
  "rem c = drop (cur_off c) (cur_buf c)"

definition adv :: "cursor \<Rightarrow> nat \<Rightarrow> cursor" where
  "adv c n = Cursor (cur_buf c) (cur_off c + n)"

definition ref_get_u8 :: "cursor \<Rightarrow> (u8 \<times> cursor) option" where
  "ref_get_u8 c = (case rem c of a # _ \<Rightarrow> Some (a, adv c 1) | _ \<Rightarrow> None)"

definition ref_get_u16 :: "cursor \<Rightarrow> (u16 \<times> cursor) option" where
  "ref_get_u16 c = (case rem c of a # b # _ \<Rightarrow> Some (be16 a b, adv c 2) | _ \<Rightarrow> None)"

definition ref_get_u32 :: "cursor \<Rightarrow> (u32 \<times> cursor) option" where
  "ref_get_u32 c = (case rem c of a # b # d # e # _ \<Rightarrow> Some (be32 a b d e, adv c 4) | _ \<Rightarrow> None)"

definition ref_get_bytes :: "cursor \<Rightarrow> nat \<Rightarrow> (cursor \<times> cursor) option" where
  "ref_get_bytes c n =
     (if n \<le> length (rem c) then Some (Cursor (take n (rem c)) 0, adv c n) else None)"

definition ref_get_bytes_with_u16_length :: "cursor \<Rightarrow> (cursor \<times> cursor) option" where
  "ref_get_bytes_with_u16_length c =
     (case ref_get_u16 c of None \<Rightarrow> None | Some (n, c') \<Rightarrow> ref_get_bytes c' (unat n))"

definition ref_skip :: "cursor \<Rightarrow> nat \<Rightarrow> cursor option" where
  "ref_skip c n = (if n \<le> length (rem c) then Some (adv c n) else None)"

definition ref_octets :: "cursor octets" where
  "ref_octets =
     \<lparr>oct_with_slice = (\<lambda>bs. Cursor bs 0),
      oct_get_u8 = ref_get_u8,
      oct_get_u16 = ref_get_u16,
      oct_get_u32 = ref_get_u32,
      oct_get_bytes = ref_get_bytes,
      oct_get_bytes_with_u16_length = ref_get_bytes_with_u16_length,
      oct_skip = ref_skip,
      oct_cap = (\<lambda>c. length (rem c)),
      oct_off = cur_off,
      oct_buf = cur_buf,
      oct_to_vec = rem\<rparr>"

definition ref_bytes :: "u8 list bytes_mut" where
  "ref_bytes =
     \<lparr>bm_with_capacity = (\<lambda>_. []),
      bm_len = length,
      bm_slice = (\<lambda>bs. bs),
      bm_reserve = (\<lambda>bs _. bs),
      bm_advance = (\<lambda>bs n. if n \<le> length bs then Some (drop n bs) else None),
      bm_read_buf = (\<lambda>bs new. bs @ new)\<rparr>"

lemma ref_octets_simps [simp]:
  "oct_with_slice ref_octets bs = Cursor bs 0"
  "oct_get_u8 ref_octets = ref_get_u8"
  "oct_get_u16 ref_octets = ref_get_u16"
  "oct_get_u32 ref_octets = ref_get_u32"
  "oct_get_bytes ref_octets = ref_get_bytes"
  "oct_get_bytes_with_u16_length ref_octets = ref_get_bytes_with_u16_length"
  "oct_skip ref_octets = ref_skip"
  "oct_cap ref_octets c = length (rem c)"
  "oct_off ref_octets = cur_off"
  "oct_buf ref_octets = cur_buf"
  "oct_to_vec ref_octets = rem"
  by (simp_all add: ref_octets_def)

lemma ref_bytes_simps [simp]:
  "bm_with_capacity ref_bytes n = []"
  "bm_len ref_bytes = length"
  "bm_slice ref_bytes bs = bs"
  "bm_reserve ref_bytes bs n = bs"
  "bm_advance ref_bytes bs n = (if n \<le> length bs then Some (drop n bs) else None)"
  "bm_read_buf ref_bytes bs new = bs @ new"
  by (simp_all add: ref_bytes_def)

lemma rem_Cursor_0 [simp]: "rem (Cursor bs 0) = bs"
  by (simp add: rem_def)

lemma rem_adv [simp]: "rem (adv c n) = drop n (rem c)"
  by (simp add: rem_def adv_def add.commute)

lemma adv_adv [simp]: "adv (adv c m) n = adv c (m + n)"
  by (simp add: adv_def)

lemma adv_inject [simp]: "adv c m = adv c n \<longleftrightarrow> m = n"
  by (simp add: adv_def)

lemma adv_0 [simp]: "adv c 0 = c"
  by (simp add: adv_def)

lemma cur_off_adv [simp]: "cur_off (adv c n) = cur_off c + n"
  by (simp add: adv_def)

lemma cur_buf_adv [simp]: "cur_buf (adv c n) = cur_buf c"
  by (simp add: adv_def)

text \<open>What a successful read says about the bytes: the shape the decoder proofs work with.\<close>

lemma ref_get_u8_Some: "ref_get_u8 c = Some (x, c') \<longleftrightarrow> (\<exists>ys. rem c = x # ys) \<and> c' = adv c 1"
  by (auto simp: ref_get_u8_def split: list.splits)

lemma ref_get_u16_Some:
  "ref_get_u16 c = Some (x, c') \<longleftrightarrow>
     (\<exists>a b ys. rem c = a # b # ys \<and> x = be16 a b) \<and> c' = adv c 2"
  by (auto simp: ref_get_u16_def split: list.splits)

lemma ref_get_u32_Some:
  "ref_get_u32 c = Some (x, c') \<longleftrightarrow>
     (\<exists>p q r s ys. rem c = p # q # r # s # ys \<and> x = be32 p q r s) \<and> c' = adv c 4"
  by (auto simp: ref_get_u32_def split: list.splits)

lemma ref_get_bytes_Some:
  "ref_get_bytes c n = Some (s, c') \<longleftrightarrow>
     n \<le> length (rem c) \<and> s = Cursor (take n (rem c)) 0 \<and> c' = adv c n"
  by (auto simp: ref_get_bytes_def)

lemma ref_skip_Some: "ref_skip c n = Some c' \<longleftrightarrow> n \<le> length (rem c) \<and> c' = adv c n"
  by (auto simp: ref_skip_def)

lemma ref_get_bytes_with_u16_length_Some:
  "ref_get_bytes_with_u16_length c = Some (s, c') \<longleftrightarrow>
     (\<exists>a b ys. rem c = a # b # ys \<and> unat (be16 a b) \<le> length ys \<and>
        s = Cursor (take (unat (be16 a b)) ys) 0 \<and> c' = adv c (2 + unat (be16 a b)))"
  by (auto simp: ref_get_bytes_with_u16_length_def ref_get_bytes_def ref_get_u16_def
      split: list.splits)

lemmas ref_read_Some = ref_get_u8_Some ref_get_u16_Some ref_get_u32_Some ref_get_bytes_Some
  ref_skip_Some ref_get_bytes_with_u16_length_Some

lemma oct_try_eq_Ok [simp]: "oct_try r = Ok x \<longleftrightarrow> r = Some x"
  by (cases r) simp_all

lemma oct_try_not_Panicked [simp]: "oct_try r \<noteq> Panicked p"
  by (cases r) simp_all

text \<open>Reading where the bytes are known, and where there are too few.\<close>

lemma ref_get_u8_Cons [simp]: "rem c = a # ys \<Longrightarrow> ref_get_u8 c = Some (a, adv c 1)"
  by (simp add: ref_get_u8_def)

lemma ref_get_u16_Cons [simp]: "rem c = a # b # ys \<Longrightarrow> ref_get_u16 c = Some (be16 a b, adv c 2)"
  by (simp add: ref_get_u16_def)

lemma ref_get_u32_Cons [simp]:
  "rem c = a # b # d # e # ys \<Longrightarrow> ref_get_u32 c = Some (be32 a b d e, adv c 4)"
  by (simp add: ref_get_u32_def)

section \<open>The documented contracts\<close>

text \<open>
  \<open>cur\<close> reads the slice and the offset off a cursor of the crate. Each law says that the
  crate's operation does to them what the reference cursor does.
\<close>

locale octets_api =
  fixes ops :: "'b octets" and cur :: "'b \<Rightarrow> cursor"
  assumes with_slice_law: "cur (oct_with_slice ops bs) = Cursor bs 0"
    and get_u8_law: "map_option (map_prod id cur) (oct_get_u8 ops b) = ref_get_u8 (cur b)"
    and get_u16_law: "map_option (map_prod id cur) (oct_get_u16 ops b) = ref_get_u16 (cur b)"
    and get_u32_law: "map_option (map_prod id cur) (oct_get_u32 ops b) = ref_get_u32 (cur b)"
    and get_bytes_law:
      "map_option (map_prod cur cur) (oct_get_bytes ops b n) = ref_get_bytes (cur b) n"
    and get_bytes_with_u16_length_law:
      "map_option (map_prod cur cur) (oct_get_bytes_with_u16_length ops b)
         = ref_get_bytes_with_u16_length (cur b)"
    and skip_law: "map_option cur (oct_skip ops b n) = ref_skip (cur b) n"
    and cap_law: "oct_cap ops b = length (rem (cur b))"
    and off_law: "oct_off ops b = cur_off (cur b)"
    and buf_law: "oct_buf ops b = cur_buf (cur b)"
    and to_vec_law: "oct_to_vec ops b = rem (cur b)"

locale bytes_mut_api =
  fixes bm :: "'m bytes_mut"
  assumes with_capacity_law: "bm_slice bm (bm_with_capacity bm n) = []"
    and len_law: "bm_len bm m = length (bm_slice bm m)"
    and reserve_law: "bm_slice bm (bm_reserve bm m n) = bm_slice bm m"
    and advance_law:
      "map_option (bm_slice bm) (bm_advance bm m n)
         = (if n \<le> length (bm_slice bm m) then Some (drop n (bm_slice bm m)) else None)"
    and read_buf_law: "bm_slice bm (bm_read_buf bm m new) = bm_slice bm m @ new"

interpretation ref: octets_api ref_octets id
  by unfold_locales (simp_all add: option.map_id prod.map_id0)

interpretation refm: bytes_mut_api ref_bytes
  by unfold_locales simp_all

section \<open>Simulation rules\<close>

text \<open>
  Every decoder is a chain of reads, so running it on the crate's cursor and looking at the
  slice and the offset gives what running it on the reference cursor gives. The rules below
  push the view \<open>cur\<close> through one read each.
\<close>

lemma bind_sim:
  assumes "map_outcome k m = m'" and "\<And>x. map_outcome h (f x) = g (k x)"
  shows "map_outcome h (bindO m f) = bindO m' g"
  using assms by (cases m) auto

lemma bind_same:
  assumes "\<And>x. map_outcome h (f x) = g x"
  shows "map_outcome h (bindO m f) = bindO m g"
  using assms by (cases m) auto

lemma map_outcome_oct_try: "map_outcome k (oct_try r) = oct_try (map_option k r)"
  by (cases r) simp_all

context octets_api begin

lemma try_laws:
  "map_outcome (map_prod id cur) (oct_try (oct_get_u8 ops b)) = oct_try (ref_get_u8 (cur b))"
  "map_outcome (map_prod id cur) (oct_try (oct_get_u16 ops b)) = oct_try (ref_get_u16 (cur b))"
  "map_outcome (map_prod id cur) (oct_try (oct_get_u32 ops b)) = oct_try (ref_get_u32 (cur b))"
  "map_outcome (map_prod cur cur) (oct_try (oct_get_bytes ops b n))
     = oct_try (ref_get_bytes (cur b) n)"
  "map_outcome (map_prod cur cur) (oct_try (oct_get_bytes_with_u16_length ops b))
     = oct_try (ref_get_bytes_with_u16_length (cur b))"
  "map_outcome cur (oct_try (oct_skip ops b n)) = oct_try (ref_skip (cur b) n)"
  by (simp_all add: map_outcome_oct_try get_u8_law get_u16_law get_u32_law get_bytes_law
      get_bytes_with_u16_length_law skip_law)

lemmas read_sims = try_laws [THEN bind_sim]

lemmas view_laws = with_slice_law cap_law off_law buf_law to_vec_law

end

end
