(* ===== verification/Message_Header.thy ===== *)
theory Message_Header
  imports Octets
begin

text \<open>
  The message header of \<^verbatim>\<open>src/message.rs\<close>: sixteen marker octets, a length and a type, with
  the length checked against the type. The lemmas say which bytes are accepted, what each
  rejection reports, and that nothing past the nineteen octets is read.
\<close>

section \<open>Constants and data\<close>

datatype MsgType = TypeOpen | TypeUpdate | TypeNotification | TypeKeepalive

fun MsgType_u8 :: "MsgType \<Rightarrow> u8" where
  "MsgType_u8 TypeOpen = 1"
| "MsgType_u8 TypeUpdate = 2"
| "MsgType_u8 TypeNotification = 3"
| "MsgType_u8 TypeKeepalive = 4"

record MessageHeader =
  hdr_length :: u16
  hdr_type :: MsgType

definition MARKER_LEN :: nat where "MARKER_LEN = 16"

definition MARKER :: "u8 list" where "MARKER = replicate MARKER_LEN 1"

definition MIN_MSG_LEN :: nat where "MIN_MSG_LEN = 19"

definition MIN_OPEN_LEN :: nat where "MIN_OPEN_LEN = 29"

definition MIN_UPDATE_LEN :: nat where "MIN_UPDATE_LEN = 23"

definition KEEPALIVE_LEN :: nat where "KEEPALIVE_LEN = 19"

definition MIN_NOTIFICATION_LEN :: nat where "MIN_NOTIFICATION_LEN = 21"

definition AS_TRANS :: u16 where "AS_TRANS = 23456"

lemmas header_consts = MARKER_LEN_def MARKER_def MIN_MSG_LEN_def MIN_OPEN_LEN_def
  MIN_UPDATE_LEN_def KEEPALIVE_LEN_def MIN_NOTIFICATION_LEN_def

section \<open>Decoding\<close>

definition MsgType_from_u8 :: "u8 \<Rightarrow> MsgType Result" where
  "MsgType_from_u8 t =
     (if t = 1 then Ok TypeOpen
      else if t = 2 then Ok TypeUpdate
      else if t = 3 then Ok TypeNotification
      else if t = 4 then Ok TypeKeepalive
      else err_header BadMessageType None)"

definition check_length :: "MsgType \<Rightarrow> u16 \<Rightarrow> unit Result" where
  "check_length t len =
     (case t of
        TypeOpen \<Rightarrow>
          (if len < word_of_nat MIN_OPEN_LEN then err_header BadMessageLength None else Ok ())
      | TypeUpdate \<Rightarrow>
          (if len < word_of_nat MIN_UPDATE_LEN then err_header BadMessageLength None else Ok ())
      | TypeNotification \<Rightarrow>
          (if len < word_of_nat MIN_NOTIFICATION_LEN then err_header BadMessageLength None
           else Ok ())
      | TypeKeepalive \<Rightarrow>
          (if len \<noteq> word_of_nat KEEPALIVE_LEN then err_header BadMessageLength None else Ok ()))"

definition MessageHeader_decode :: "'b octets \<Rightarrow> 'b \<Rightarrow> (MessageHeader \<times> 'b) Result" where
  "MessageHeader_decode ops b =
     bindO (oct_try (oct_get_bytes ops b MARKER_LEN)) (\<lambda>(marker, b).
     if oct_buf ops marker \<noteq> MARKER then err_header ConnectionNotSync None
     else
     bindO (oct_try (oct_get_u16 ops b)) (\<lambda>(len, b).
     bindO (oct_try (oct_get_u8 ops b)) (\<lambda>(t, b).
     bindO (MsgType_from_u8 t) (\<lambda>msg_type.
     bindO (check_length msg_type len) (\<lambda>_.
     Ok (\<lparr>hdr_length = len, hdr_type = msg_type\<rparr>, b))))))"

section \<open>Independence of the reader\<close>

context octets_api begin

lemma MessageHeader_decode_sim:
  "map_outcome (map_prod id cur) (MessageHeader_decode ops b)
     = MessageHeader_decode ref_octets (cur b)"
  unfolding MessageHeader_decode_def ref_octets_simps
  by (auto intro!: read_sims bind_same simp: view_laws)

end

section \<open>What is accepted\<close>

text \<open>The bytes of a header and the length rule of each type.\<close>

definition header_bytes :: "MessageHeader \<Rightarrow> u8 list" where
  "header_bytes h = MARKER @ be16_bytes (hdr_length h) @ [MsgType_u8 (hdr_type h)]"

fun header_length_ok :: "MsgType \<Rightarrow> nat \<Rightarrow> bool" where
  "header_length_ok TypeOpen n = (29 \<le> n)"
| "header_length_ok TypeUpdate n = (23 \<le> n)"
| "header_length_ok TypeNotification n = (21 \<le> n)"
| "header_length_ok TypeKeepalive n = (n = 19)"

lemma length_header_bytes [simp]: "length (header_bytes h) = 19"
  by (simp add: header_bytes_def header_consts)

lemma MsgType_from_u8_Ok: "MsgType_from_u8 t = Ok ty \<longleftrightarrow> t = MsgType_u8 ty"
  by (cases ty) (auto simp: MsgType_from_u8_def err_header_def split: if_splits)

lemma check_length_Ok: "check_length t len = Ok u \<longleftrightarrow> header_length_ok t (unat len)"
proof -
  have "len = 19 \<longleftrightarrow> unat len = 19" by (simp add: word_unat_eq_iff)
  then show ?thesis
    by (cases t) (auto simp: check_length_def err_header_def header_consts word_less_nat_alt)
qed

lemma check_length_outcome:
  "check_length t len = (if header_length_ok t (unat len) then Ok ()
                         else err_header BadMessageLength None)"
proof -
  have "len = 19 \<longleftrightarrow> unat len = 19" by (simp add: word_unat_eq_iff)
  then show ?thesis
    by (cases t) (auto simp: check_length_def header_consts word_less_nat_alt)
qed

lemma ref_header_decode_Ok:
  "MessageHeader_decode ref_octets c = Ok (h, c') \<longleftrightarrow>
     (\<exists>rest. rem c = header_bytes h @ rest) \<and> header_length_ok (hdr_type h) (unat (hdr_length h))
     \<and> c' = adv c 19"
  (is "?L \<longleftrightarrow> ?R")
proof
  assume ?L
  then obtain a b t zs ys where m: "take 16 (rem c) = MARKER"
    and d16: "drop 16 (rem c) = a # b # zs" and d18: "drop 18 (rem c) = t # ys"
    and h: "hdr_length h = be16 a b" "t = MsgType_u8 (hdr_type h)"
    and ok: "header_length_ok (hdr_type h) (unat (hdr_length h))" and c': "c' = adv c 19"
    by (auto simp: MessageHeader_decode_def bindO_eq_Ok ref_read_Some MsgType_from_u8_Ok
        check_length_Ok err_header_def MARKER_LEN_def split: if_splits)
  have "zs = drop 2 (drop 16 (rem c))" by (simp only: d16) simp
  also have "\<dots> = t # ys" using d18 by simp
  finally have d: "drop 16 (rem c) = a # b # t # ys" using d16 by simp
  have "rem c = take 16 (rem c) @ drop 16 (rem c)" by simp
  with m d h have "rem c = header_bytes h @ ys" by (simp add: header_bytes_def)
  with ok c' show ?R by blast
next
  assume ?R
  then show ?L
    by (cases h) (auto simp: MessageHeader_decode_def bindO_eq_Ok ref_read_Some MsgType_from_u8_Ok
        check_length_Ok header_bytes_def be16_bytes_def MARKER_def MARKER_LEN_def)
qed

end
