(* ===== verification/Open_Msg.thy ===== *)
theory Open_Msg
  imports Config Message_Header
begin

text \<open>
  The OPEN message of \<^verbatim>\<open>src/message.rs\<close>: the two capabilities, the loop over the optional
  parameters, the body decoder with its checks on version, hold time and identifier, and the
  message the local speaker builds from its configuration.
\<close>

section \<open>Capabilities\<close>

record MpExtCap =
  afi :: u16
  safi :: u8

record FourOctetAsCap =
  cap_as_num :: u32

definition MpExtCap_decode :: "'b octets \<Rightarrow> 'b \<Rightarrow> (MpExtCap \<times> 'b) Result" where
  "MpExtCap_decode ops b =
     bindO (oct_try (oct_get_u16 ops b)) (\<lambda>(a, b).
     bindO (oct_try (oct_skip ops b 1)) (\<lambda>b.
     bindO (oct_try (oct_get_u8 ops b)) (\<lambda>(s, b).
     Ok (\<lparr>afi = a, safi = s\<rparr>, b))))"

definition FourOctetAsCap_decode :: "'b octets \<Rightarrow> 'b \<Rightarrow> (FourOctetAsCap \<times> 'b) Result" where
  "FourOctetAsCap_decode ops b =
     bindO (oct_try (oct_get_u32 ops b)) (\<lambda>(n, b). Ok (\<lparr>cap_as_num = n\<rparr>, b))"

section \<open>Optional parameters\<close>

record OptParams =
  mp_ext_caps :: "MpExtCap list option"
  four_octet_as_cap :: "FourOctetAsCap option"

definition push_mp_ext :: "MpExtCap \<Rightarrow> OptParams \<Rightarrow> OptParams" where
  "push_mp_ext c p = p\<lparr>mp_ext_caps := Some ((case mp_ext_caps p of None \<Rightarrow> [] | Some cs \<Rightarrow> cs) @ [c])\<rparr>"

text \<open>One round of the loop: a type, a length of one or two octets, and the value.\<close>

definition param_length :: "'b octets \<Rightarrow> bool \<Rightarrow> 'b \<Rightarrow> (u16 \<times> 'b) Result" where
  "param_length ops ext_op b =
     (if ext_op then oct_try (oct_get_u16 ops b)
      else bindO (oct_try (oct_get_u8 ops b)) (\<lambda>(n, b). Ok (ucast n, b)))"

definition OptParam_decode :: "'b octets \<Rightarrow> bool \<Rightarrow> OptParams \<Rightarrow> 'b \<Rightarrow> (OptParams \<times> 'b) Result" where
  "OptParam_decode ops ext_op p b =
     bindO (oct_try (oct_get_u8 ops b)) (\<lambda>(param_type, b).
     bindO (param_length ops ext_op b) (\<lambda>(param_len, b).
     if param_type = 1 then
       (if param_len \<noteq> 4 then err_open UnSupportedCapability None
        else bindO (MpExtCap_decode ops b) (\<lambda>(c, b). Ok (push_mp_ext c p, b)))
     else if param_type = 63 then
       (if param_len \<noteq> 4 then err_open UnSupportedCapability None
        else bindO (FourOctetAsCap_decode ops b) (\<lambda>(c, b).
          Ok (p\<lparr>four_octet_as_cap := Some c\<rparr>, b)))
     else err_open UnsupportedOptionalParameter None))"

fun OptParams_loop :: "'b octets \<Rightarrow> bool \<Rightarrow> nat \<Rightarrow> OptParams \<Rightarrow> 'b \<Rightarrow> (OptParams \<times> 'b) Result" where
  "OptParams_loop ops ext_op 0 p b = Ok (p, b)"
| "OptParams_loop ops ext_op (Suc n) p b =
     bindO (OptParam_decode ops ext_op p b) (\<lambda>(p, b). OptParams_loop ops ext_op n p b)"

definition OptParams_decode :: "'b octets \<Rightarrow> u16 \<Rightarrow> bool \<Rightarrow> 'b \<Rightarrow> (OptParams \<times> 'b) Result" where
  "OptParams_decode ops opt_params_len ext_op b =
     OptParams_loop ops ext_op (unat opt_params_len)
       \<lparr>mp_ext_caps = None, four_octet_as_cap = None\<rparr> b"

section \<open>The message\<close>

record OpenMsg =
  version :: u8
  as_number :: u32
  open_hold_time :: u16
  bgp_identifier :: Ipv4Addr
  ext_opt_param :: bool
  opt_params_len :: u16
  opt_params :: OptParams

definition OpenMsg_decode :: "'b octets \<Rightarrow> 'b \<Rightarrow> (OpenMsg \<times> 'b) Result" where
  "OpenMsg_decode ops b =
     bindO (oct_try (oct_get_u8 ops b)) (\<lambda>(ver, b).
     if ver \<noteq> 4 then err_open UnsupportedVersionNumber None
     else
     bindO (oct_try (oct_skip ops b 3)) (\<lambda>b.
     bindO (oct_try (oct_get_u16 ops b)) (\<lambda>(as_num, b).
     bindO (oct_try (oct_skip ops b 2)) (\<lambda>b.
     bindO (oct_try (oct_get_u16 ops b)) (\<lambda>(hold, b).
     if hold \<noteq> 0 \<and> hold < 3 then err_open UnacceptableHoldTime None
     else
     bindO (oct_try (oct_skip ops b 2)) (\<lambda>b.
     bindO (oct_try (oct_get_u32 ops b)) (\<lambda>(ident, b).
     if ident = 0 \<or> ident = 4294967295 then err_open BadBgpIdentifier None
     else
     bindO (oct_try (oct_get_u8 ops b)) (\<lambda>(non_ext_op_len, b).
     bindO (oct_try (oct_get_u8 ops b)) (\<lambda>(non_ext_op_type, b).
     bindO (oct_try (oct_get_u16 ops b)) (\<lambda>(ext_opt_parm_len, b).
     let (n, ext) = (if non_ext_op_type = 255 then (ext_opt_parm_len, True)
                     else (ucast non_ext_op_len, False))
     in bindO (OptParams_decode ops n ext b) (\<lambda>(params, b).
     Ok (\<lparr>version = ver, as_number = ucast as_num, open_hold_time = hold,
          bgp_identifier = ipv4_from_be ident, ext_opt_param = ext, opt_params_len = n,
          opt_params = params\<rparr>, b))))))))))))"

definition OpenMsg_from_conf :: "Neighbor \<Rightarrow> OpenMsg" where
  "OpenMsg_from_conf conf =
     \<lparr>version = 4,
      as_number = local_as (neighbor_config conf),
      open_hold_time = timers_hold_time (timers_config (neighbor_timers conf)),
      bgp_identifier = router_id (neighbor_config conf),
      ext_opt_param = False,
      opt_params_len = 0,
      opt_params = \<lparr>mp_ext_caps = None, four_octet_as_cap = None\<rparr>\<rparr>"

section \<open>Independence of the reader\<close>

context octets_api begin

lemma MpExtCap_decode_sim:
  "map_outcome (map_prod id cur) (MpExtCap_decode ops b) = MpExtCap_decode ref_octets (cur b)"
  unfolding MpExtCap_decode_def ref_octets_simps
  by (auto intro!: read_sims)

lemma FourOctetAsCap_decode_sim:
  "map_outcome (map_prod id cur) (FourOctetAsCap_decode ops b)
     = FourOctetAsCap_decode ref_octets (cur b)"
  unfolding FourOctetAsCap_decode_def ref_octets_simps
  by (auto intro!: read_sims)

lemma param_length_sim:
  "map_outcome (map_prod id cur) (param_length ops ext_op b)
     = param_length ref_octets ext_op (cur b)"
  unfolding param_length_def ref_octets_simps
  by (auto intro!: read_sims simp: try_laws)

lemmas cap_sims = MpExtCap_decode_sim [THEN bind_sim] FourOctetAsCap_decode_sim [THEN bind_sim]
  param_length_sim [THEN bind_sim]

lemma OptParam_decode_sim:
  "map_outcome (map_prod id cur) (OptParam_decode ops ext_op p b)
     = OptParam_decode ref_octets ext_op p (cur b)"
  unfolding OptParam_decode_def ref_octets_simps
  by (auto intro!: read_sims cap_sims)

lemma OptParams_loop_sim:
  "map_outcome (map_prod id cur) (OptParams_loop ops ext_op n p b)
     = OptParams_loop ref_octets ext_op n p (cur b)"
proof (induction n arbitrary: p b)
  case (Suc n)
  then show ?case by (auto intro!: OptParam_decode_sim [THEN bind_sim])
qed simp

lemma OptParams_decode_sim:
  "map_outcome (map_prod id cur) (OptParams_decode ops n ext_op b)
     = OptParams_decode ref_octets n ext_op (cur b)"
  by (simp add: OptParams_decode_def OptParams_loop_sim)

lemma OpenMsg_decode_sim:
  "map_outcome (map_prod id cur) (OpenMsg_decode ops b) = OpenMsg_decode ref_octets (cur b)"
  unfolding OpenMsg_decode_def ref_octets_simps
  by (auto intro!: read_sims OptParams_decode_sim [THEN bind_sim] simp: Let_def)

end

section \<open>The optional parameters\<close>

text \<open>
  Bytes of a list of capabilities, as the loop wants them. Every parameter it accepts is six
  octets (seven with two-octet lengths), so the rounds determine what is consumed.
\<close>

datatype capability = CapMpExt u16 u8 u8 | CapFourOctetAs u32

fun capability_bytes :: "bool \<Rightarrow> capability \<Rightarrow> u8 list" where
  "capability_bytes ext (CapMpExt a r s) =
     1 # (if ext then [0, 4] else [4]) @ be16_bytes a @ [r, s]"
| "capability_bytes ext (CapFourOctetAs n) =
     63 # (if ext then [0, 4] else [4]) @ be32_bytes n"

fun add_capability :: "capability \<Rightarrow> OptParams \<Rightarrow> OptParams" where
  "add_capability (CapMpExt a r s) p = push_mp_ext \<lparr>afi = a, safi = s\<rparr> p"
| "add_capability (CapFourOctetAs n) p = p\<lparr>four_octet_as_cap := Some \<lparr>cap_as_num = n\<rparr>\<rparr>"

definition param_size :: "bool \<Rightarrow> nat" where
  "param_size ext = (if ext then 7 else 6)"

lemma length_capability_bytes [simp]: "length (capability_bytes ext k) = param_size ext"
  by (cases k) (simp_all add: param_size_def)

lemma OptParam_decode_bytes:
  "rem c = capability_bytes ext k @ rest \<Longrightarrow>
     OptParam_decode ref_octets ext p c = Ok (add_capability k p, adv c (param_size ext))"
  by (cases k)
    (simp_all add: OptParam_decode_def param_length_def MpExtCap_decode_def FourOctetAsCap_decode_def
      ref_skip_def param_size_def be16_bytes_def be32_bytes_def)

lemma OptParams_loop_bytes:
  "rem c = concat (map (capability_bytes ext) ks) @ rest \<Longrightarrow>
     OptParams_loop ref_octets ext (length ks) p c =
       Ok (fold add_capability ks p, adv c (length ks * param_size ext))"
proof (induction ks arbitrary: c p)
  case (Cons k ks)
  then have "rem (adv c (param_size ext)) = concat (map (capability_bytes ext) ks) @ rest"
    by simp
  from Cons.IH [OF this] Cons.prems show ?case
    by (simp add: OptParam_decode_bytes)
qed simp

lemma OptParam_decode_Ok:
  "OptParam_decode ref_octets ext p c = Ok (p', c') \<Longrightarrow>
     c' = adv c (param_size ext) \<and> param_size ext \<le> length (rem c)"
  by (auto simp: OptParam_decode_def param_length_def MpExtCap_decode_def
      FourOctetAsCap_decode_def bindO_eq_Ok ref_read_Some err_open_def param_size_def
      dest: drop_eq_Cons_length split: if_splits)

lemma OptParams_loop_Ok:
  "OptParams_loop ref_octets ext n p c = Ok (p', c') \<Longrightarrow>
     c' = adv c (n * param_size ext) \<and> n * param_size ext \<le> length (rem c)"
proof (induction n arbitrary: p c)
  case (Suc n)
  then obtain p1 c1 where 1: "OptParam_decode ref_octets ext p c = Ok (p1, c1)"
    and 2: "OptParams_loop ref_octets ext n p1 c1 = Ok (p', c')"
    by (auto simp: bindO_eq_Ok)
  from OptParam_decode_Ok [OF 1] Suc.IH [OF 2] show ?case by (auto simp: algebra_simps)
qed simp

lemma OptParam_decode_not_Panicked [simp]: "OptParam_decode ref_octets ext p c \<noteq> Panicked q"
  by (auto simp: OptParam_decode_def param_length_def MpExtCap_decode_def
      FourOctetAsCap_decode_def bindO_eq_Panicked err_open_def split: if_splits)

lemma OptParams_loop_not_Panicked [simp]: "OptParams_loop ref_octets ext n p c \<noteq> Panicked q"
  by (induction n arbitrary: p c) (auto simp: bindO_eq_Panicked)

end
