(* ===== verification/Update_Msg.thy ===== *)
theory Update_Msg
  imports Open_Msg
begin

text \<open>
  The UPDATE message of \<^verbatim>\<open>src/message.rs\<close>: prefixes, path attributes and the three loops
  that read a field to its end. A loop is a \<^verbatim>\<open>partial_function\<close>, so that not returning would be
  the value \<open>None\<close>; the locale of element decoders shows once that it returns, and what it
  consumes, for every decoder that makes progress. \<open>chk\<close> says whether the build has overflow
  checks (a debug build has them, a release build does not).
\<close>

section \<open>Prefixes\<close>

record Cidr =
  cidr_length :: u8
  cidr_prefix :: IpAddr

definition Cidr_decode :: "bool \<Rightarrow> 'b octets \<Rightarrow> 'b \<Rightarrow> (Cidr \<times> 'b) Result" where
  "Cidr_decode chk ops b =
     bindO (oct_try (oct_get_u8 ops b)) (\<lambda>(len, b).
     bindO (add_u8 chk len 7) (\<lambda>sum.
     let padded_length = unat sum div 8 in
     bindO (oct_try (oct_get_bytes ops b padded_length)) (\<lambda>(sub, b).
     let padded_prefix = oct_to_vec ops sub in
     if padded_length > 4 then
       bindO (ipv6_from_vec (padded_prefix @ replicate (16 - padded_length) 0)) (\<lambda>a.
       Ok (\<lparr>cidr_length = len, cidr_prefix = V6 a\<rparr>, b))
     else
       bindO (ipv4_from_vec (padded_prefix @ replicate (4 - padded_length) 0)) (\<lambda>a.
       Ok (\<lparr>cidr_length = len, cidr_prefix = V4 a\<rparr>, b)))))"

section \<open>Path attributes\<close>

record PathAttributeFlags =
  flag_optional :: bool
  flag_transitive :: bool
  flag_partial :: bool
  flag_extended_length :: bool

definition flags_of_u8 :: "u8 \<Rightarrow> PathAttributeFlags" where
  "flags_of_u8 flags =
     \<lparr>flag_optional = and flags 128 \<noteq> 0,
      flag_transitive = and flags 64 \<noteq> 0,
      flag_partial = and flags 32 \<noteq> 0,
      flag_extended_length = and flags 16 \<noteq> 0\<rparr>"

definition PathAttributeFlags_decode :: "'b octets \<Rightarrow> 'b \<Rightarrow> (PathAttributeFlags \<times> 'b) Result" where
  "PathAttributeFlags_decode ops b =
     bindO (oct_try (oct_get_u8 ops b)) (\<lambda>(flags, b). Ok (flags_of_u8 flags, b))"

datatype Origin = Igp | Egp | Incomplete

datatype AsPathSegmentType = AsSet | AsSequence

datatype AsNum = AsNum u32

fun is_mappable :: "AsNum \<Rightarrow> bool" where
  "is_mappable (AsNum n) = (drop_bit 16 n = 0)"

fun to_two_octets :: "AsNum \<Rightarrow> u16" where
  "to_two_octets (AsNum n) = (if is_mappable (AsNum n) then ucast n else AS_TRANS)"

record AsPathSegment =
  segment_type :: AsPathSegmentType
  segment_length :: u8
  segment_value :: "AsNum list"

record Aggregator =
  aggr_as_num :: u32
  aggr_ip_addr :: Ipv4Addr

datatype PathAttributeValue =
    AttrOrigin Origin
  | AttrAsPath AsPathSegment
  | AttrNextHop Ipv4Addr
  | AttrMultiExitDisc u32
  | AttrLocalPref u32
  | AttrAtomicAggregate bool
  | AttrAggregator Aggregator
  | AttrUnknown "u8 list"

text \<open>The \<^verbatim>\<open>Into<PathAttributeValue>\<close> implementations.\<close>

definition Origin_into_value :: "Origin \<Rightarrow> PathAttributeValue" where
  [simp]: "Origin_into_value v = AttrOrigin v"

definition AsPathSegment_into_value :: "AsPathSegment \<Rightarrow> PathAttributeValue" where
  [simp]: "AsPathSegment_into_value v = AttrAsPath v"

definition Aggregator_into_value :: "Aggregator \<Rightarrow> PathAttributeValue" where
  [simp]: "Aggregator_into_value v = AttrAggregator v"

record PathAttribute =
  attr_flags :: PathAttributeFlags
  attr_type_code :: u8
  attr_len :: u16
  attr_value :: PathAttributeValue

definition Origin_decode :: "'b octets \<Rightarrow> 'b \<Rightarrow> u16 \<Rightarrow> (PathAttributeValue \<times> 'b) Result" where
  "Origin_decode ops b len =
     (if len \<noteq> 1 then err_update AttributeLengthError None
      else bindO (oct_try (oct_get_u8 ops b)) (\<lambda>(origin, b).
        if origin = 0 then Ok (AttrOrigin Igp, b)
        else if origin = 1 then Ok (AttrOrigin Egp, b)
        else if origin = 2 then Ok (AttrOrigin Incomplete, b)
        else err_update InvalidOriginAttribute None))"

definition AsPathSegmentType_decode ::
    "'b octets \<Rightarrow> 'b \<Rightarrow> (AsPathSegmentType \<times> 'b) Result" where
  "AsPathSegmentType_decode ops b =
     bindO (oct_try (oct_get_u8 ops b)) (\<lambda>(t, b).
       if t = 1 then Ok (AsSet, b)
       else if t = 2 then Ok (AsSequence, b)
       else err_update MalformedAsPath None)"

fun as_numbers :: "'b octets \<Rightarrow> nat \<Rightarrow> AsNum list \<Rightarrow> 'b \<Rightarrow> (AsNum list \<times> 'b) Result" where
  "as_numbers ops 0 acc b = Ok (acc, b)"
| "as_numbers ops (Suc n) acc b =
     bindO (oct_try (oct_get_u16 ops b)) (\<lambda>(a, b).
     as_numbers ops n (acc @ [AsNum (ucast a)]) b)"

definition AsPathSegment_decode :: "'b octets \<Rightarrow> 'b \<Rightarrow> u16 \<Rightarrow> (AsPathSegment \<times> 'b) Result" where
  "AsPathSegment_decode ops b len =
     bindO (AsPathSegmentType_decode ops b) (\<lambda>(t, b).
     bindO (oct_try (oct_get_u8 ops b)) (\<lambda>(n, b).
     if (ucast n :: u16) * 2 + 2 \<noteq> len then err_update MalformedAsPath None
     else
     bindO (as_numbers ops (unat n) [] b) (\<lambda>(vs, b).
     Ok (\<lparr>segment_type = t, segment_length = n, segment_value = vs\<rparr>, b))))"

definition ipv4_decode :: "'b octets \<Rightarrow> 'b \<Rightarrow> (Ipv4Addr \<times> 'b) Result" where
  "ipv4_decode ops b =
     bindO (oct_try (oct_get_bytes ops b 4)) (\<lambda>(sub, b).
     bindO (ipv4_from_vec (oct_to_vec ops sub)) (\<lambda>a. Ok (a, b)))"

definition aggregator_as_decode :: "'b octets \<Rightarrow> bool \<Rightarrow> 'b \<Rightarrow> (u32 \<times> 'b) Result" where
  "aggregator_as_decode ops four_octets b =
     (if four_octets then oct_try (oct_get_u32 ops b)
      else bindO (oct_try (oct_get_u16 ops b)) (\<lambda>(n, b). Ok (ucast n, b)))"

definition Aggregator_decode :: "'b octets \<Rightarrow> 'b \<Rightarrow> bool \<Rightarrow> (Aggregator \<times> 'b) Result" where
  "Aggregator_decode ops b four_octets =
     bindO (aggregator_as_decode ops four_octets b) (\<lambda>(n, b).
     bindO (ipv4_decode ops b) (\<lambda>(a, b).
     Ok (\<lparr>aggr_as_num = n, aggr_ip_addr = a\<rparr>, b)))"

definition PathAttributeValue_decode ::
    "'b octets \<Rightarrow> 'b \<Rightarrow> OpenMsg \<Rightarrow> PathAttribute \<Rightarrow> (PathAttributeValue \<times> 'b) Result" where
  "PathAttributeValue_decode ops b peer attr =
     (let code = attr_type_code attr in
      if code = 1 then Origin_decode ops b (attr_len attr)
      else if code = 2 then
        bindO (AsPathSegment_decode ops b (attr_len attr)) (\<lambda>(s, b). Ok (AsPathSegment_into_value s, b))
      else if code = 3 then
        (if attr_len attr \<noteq> 4 then err_update AttributeLengthError None
         else bindO (ipv4_decode ops b) (\<lambda>(a, b). Ok (AttrNextHop a, b)))
      else if code = 4 then
        bindO (oct_try (oct_get_u32 ops b)) (\<lambda>(n, b). Ok (AttrMultiExitDisc n, b))
      else if code = 5 then
        bindO (oct_try (oct_get_u32 ops b)) (\<lambda>(n, b). Ok (AttrLocalPref n, b))
      else if code = 6 then Ok (AttrAtomicAggregate True, b)
      else if code = 7 then
        bindO (Aggregator_decode ops b (four_octet_as_cap (opt_params peer) \<noteq> None)) (\<lambda>(g, b).
        Ok (Aggregator_into_value g, b))
      else
        bindO (oct_try (oct_get_bytes ops b (unat (attr_len attr)))) (\<lambda>(sub, b).
        Ok (AttrUnknown (oct_to_vec ops sub), b)))"

definition attr_length_decode :: "'b octets \<Rightarrow> bool \<Rightarrow> 'b \<Rightarrow> (u16 \<times> 'b) Result" where
  "attr_length_decode ops extended b =
     (if extended then oct_try (oct_get_u16 ops b)
      else bindO (oct_try (oct_get_u8 ops b)) (\<lambda>(n, b). Ok (ucast n, b)))"

definition PathAttribute_decode :: "'b octets \<Rightarrow> OpenMsg \<Rightarrow> 'b \<Rightarrow> (PathAttribute \<times> 'b) Result" where
  "PathAttribute_decode ops peer b =
     bindO (PathAttributeFlags_decode ops b) (\<lambda>(flags, b).
     bindO (oct_try (oct_get_u8 ops b)) (\<lambda>(code, b).
     bindO (attr_length_decode ops (flag_extended_length flags) b) (\<lambda>(len, b).
     let attr = \<lparr>attr_flags = flags, attr_type_code = code, attr_len = len,
                 attr_value = AttrUnknown []\<rparr>
     in bindO (PathAttributeValue_decode ops b peer attr) (\<lambda>(v, b).
     Ok (attr\<lparr>attr_value := v\<rparr>, b)))))"

section \<open>The message\<close>

record UpdateMsg =
  withdrawn_routes :: "Cidr list"
  path_attributes :: "PathAttribute list"
  nlri :: "(u8 \<times> IpAddr) list"

text \<open>\<^verbatim>\<open>while buf.cap() > 0 { v.push(decode(buf)?) }\<close>\<close>

partial_function (option) decode_while ::
    "'b octets \<Rightarrow> ('b \<Rightarrow> ('a \<times> 'b) Result) \<Rightarrow> 'a list \<Rightarrow> 'b \<Rightarrow> ('a list \<times> 'b) Result option" where
  "decode_while ops dec acc b =
     (if oct_cap ops b > 0 then
        (case dec b of
           Ok (x, b') \<Rightarrow> decode_while ops dec (acc @ [x]) b'
         | Err e \<Rightarrow> Some (Err e)
         | Panicked p \<Rightarrow> Some (Panicked p))
      else Some (Ok (acc, b)))"

text \<open>Sequencing of computations that may not return.\<close>

definition bindL ::
    "('e, 'a) outcome option \<Rightarrow> ('a \<Rightarrow> ('e, 'b) outcome option) \<Rightarrow> ('e, 'b) outcome option" where
  "bindL m f = (case m of
     None \<Rightarrow> None
   | Some (Ok x) \<Rightarrow> f x
   | Some (Err e) \<Rightarrow> Some (Err e)
   | Some (Panicked p) \<Rightarrow> Some (Panicked p))"

definition nlri_item_decode :: "bool \<Rightarrow> 'b octets \<Rightarrow> 'b \<Rightarrow> ((u8 \<times> IpAddr) \<times> 'b) Result" where
  "nlri_item_decode chk ops b =
     bindO (oct_try (oct_get_u8 ops b)) (\<lambda>(len, b).
     bindO (Cidr_decode chk ops b) (\<lambda>(prefix, b).
     Ok ((len, cidr_prefix prefix), b)))"

definition UpdateMsg_decode ::
    "bool \<Rightarrow> 'b octets \<Rightarrow> OpenMsg \<Rightarrow> 'b \<Rightarrow> (UpdateMsg \<times> 'b) Result option" where
  "UpdateMsg_decode chk ops peer b =
     bindL (Some (oct_try (oct_get_bytes_with_u16_length ops b))) (\<lambda>(withdrawn_buf, b).
     bindL (decode_while ops (Cidr_decode chk ops) [] withdrawn_buf) (\<lambda>(withdrawn, _).
     bindL (Some (oct_try (oct_get_bytes_with_u16_length ops b))) (\<lambda>(attrs_buf, b).
     bindL (decode_while ops (PathAttribute_decode ops peer) [] attrs_buf) (\<lambda>(attrs, attrs_buf).
     if oct_cap ops attrs_buf \<noteq> 0 then Some (err_update MalformedAttributeList None)
     else
     bindL (decode_while ops (nlri_item_decode chk ops) [] b) (\<lambda>(items, b).
     if oct_cap ops b \<noteq> 0 then Some (err_update InvalidNetworkField None)
     else
     Some (Ok (\<lparr>withdrawn_routes = withdrawn, path_attributes = attrs, nlri = items\<rparr>, b)))))))"

section \<open>Independence of the reader\<close>

context octets_api begin

lemma Cidr_decode_sim:
  "map_outcome (map_prod id cur) (Cidr_decode chk ops b) = Cidr_decode chk ref_octets (cur b)"
  unfolding Cidr_decode_def ref_octets_simps Let_def
  by (auto intro!: read_sims bind_same simp: view_laws)

lemma nlri_item_decode_sim:
  "map_outcome (map_prod id cur) (nlri_item_decode chk ops b)
     = nlri_item_decode chk ref_octets (cur b)"
  unfolding nlri_item_decode_def ref_octets_simps
  by (auto intro!: read_sims Cidr_decode_sim [THEN bind_sim])

lemma PathAttributeFlags_decode_sim:
  "map_outcome (map_prod id cur) (PathAttributeFlags_decode ops b)
     = PathAttributeFlags_decode ref_octets (cur b)"
  unfolding PathAttributeFlags_decode_def ref_octets_simps by (auto intro!: read_sims)

lemma Origin_decode_sim:
  "map_outcome (map_prod id cur) (Origin_decode ops b len) = Origin_decode ref_octets (cur b) len"
  unfolding Origin_decode_def ref_octets_simps by (auto intro!: read_sims)

lemma AsPathSegmentType_decode_sim:
  "map_outcome (map_prod id cur) (AsPathSegmentType_decode ops b)
     = AsPathSegmentType_decode ref_octets (cur b)"
  unfolding AsPathSegmentType_decode_def ref_octets_simps by (auto intro!: read_sims)

lemma as_numbers_sim:
  "map_outcome (map_prod id cur) (as_numbers ops n acc b) = as_numbers ref_octets n acc (cur b)"
proof (induction n arbitrary: acc b)
  case (Suc n)
  then show ?case by (auto intro!: read_sims)
qed simp

lemma AsPathSegment_decode_sim:
  "map_outcome (map_prod id cur) (AsPathSegment_decode ops b len)
     = AsPathSegment_decode ref_octets (cur b) len"
  unfolding AsPathSegment_decode_def ref_octets_simps
  by (auto intro!: read_sims AsPathSegmentType_decode_sim [THEN bind_sim]
      as_numbers_sim [THEN bind_sim])

lemma ipv4_decode_sim:
  "map_outcome (map_prod id cur) (ipv4_decode ops b) = ipv4_decode ref_octets (cur b)"
  unfolding ipv4_decode_def ref_octets_simps
  by (auto intro!: read_sims bind_same simp: view_laws)

lemma aggregator_as_decode_sim:
  "map_outcome (map_prod id cur) (aggregator_as_decode ops four b)
     = aggregator_as_decode ref_octets four (cur b)"
  unfolding aggregator_as_decode_def ref_octets_simps
  by (auto intro!: read_sims simp: try_laws)

lemma Aggregator_decode_sim:
  "map_outcome (map_prod id cur) (Aggregator_decode ops b four)
     = Aggregator_decode ref_octets (cur b) four"
  unfolding Aggregator_decode_def ref_octets_simps
  by (auto intro!: aggregator_as_decode_sim [THEN bind_sim] ipv4_decode_sim [THEN bind_sim])

lemma PathAttributeValue_decode_sim:
  "map_outcome (map_prod id cur) (PathAttributeValue_decode ops b peer attr)
     = PathAttributeValue_decode ref_octets (cur b) peer attr"
  unfolding PathAttributeValue_decode_def ref_octets_simps Let_def
  by (auto intro!: read_sims AsPathSegment_decode_sim [THEN bind_sim] Origin_decode_sim
      ipv4_decode_sim [THEN bind_sim] Aggregator_decode_sim [THEN bind_sim] simp: view_laws)

lemma attr_length_decode_sim:
  "map_outcome (map_prod id cur) (attr_length_decode ops ext b)
     = attr_length_decode ref_octets ext (cur b)"
  unfolding attr_length_decode_def ref_octets_simps
  by (auto intro!: read_sims simp: try_laws)

lemma PathAttribute_decode_sim:
  "map_outcome (map_prod id cur) (PathAttribute_decode ops peer b)
     = PathAttribute_decode ref_octets peer (cur b)"
  unfolding PathAttribute_decode_def ref_octets_simps Let_def
  by (auto intro!: read_sims PathAttributeFlags_decode_sim [THEN bind_sim]
      attr_length_decode_sim [THEN bind_sim] PathAttributeValue_decode_sim [THEN bind_sim])

end

end
