(* ===== verification/Update_Facts.thy ===== *)
theory Update_Facts
  imports Update_Msg
begin

text \<open>
  What the UPDATE decoders do: how many octets each element takes, when a prefix makes the
  process panic, and that the three reading loops always return and leave nothing unread.
\<close>

section \<open>The reading loop, for every decoder that makes progress\<close>

locale element_decoder =
  fixes dec :: "cursor \<Rightarrow> ('a \<times> cursor) Result"
  assumes progress: "dec c = Ok (x, c') \<Longrightarrow> \<exists>n. 0 < n \<and> n \<le> length (rem c) \<and> c' = adv c n"
begin

lemma loop_returns: "decode_while ref_octets dec acc c \<noteq> None"
proof (induction "length (rem c)" arbitrary: acc c rule: less_induct)
  case less
  show ?case
  proof (cases "dec c")
    case (Ok r)
    obtain x c' where r: "r = (x, c')" by force
    with Ok obtain n where "0 < n" "n \<le> length (rem c)" and c': "c' = adv c n"
      using progress by blast
    then have "length (rem c') < length (rem c)" by simp
    then show ?thesis using less Ok r by (subst decode_while.simps) simp
  qed (simp_all add: decode_while.simps [of ref_octets dec acc c])
qed

lemma loop_exhausts:
  "decode_while ref_octets dec acc c = Some (Ok (xs, c')) \<Longrightarrow>
     c' = adv c (length (rem c)) \<and>
     (\<exists>ys. xs = acc @ ys \<and> length ys \<le> length (rem c))"
proof (induction "length (rem c)" arbitrary: acc c rule: less_induct)
  case less
  show ?case
  proof (cases "rem c = []")
    case True
    with less.prems show ?thesis by (simp add: decode_while.simps [of ref_octets dec acc c])
  next
    case False
    with less.prems obtain x c1 where d: "dec c = Ok (x, c1)"
      and w: "decode_while ref_octets dec (acc @ [x]) c1 = Some (Ok (xs, c'))"
      by (subst (asm) decode_while.simps) (auto split: outcome.splits)
    from progress [OF d] obtain n where n: "0 < n" "n \<le> length (rem c)" "c1 = adv c n" by blast
    then have "length (rem c1) < length (rem c)" by simp
    from less.hyps [OF this w] n show ?thesis by auto
  qed
qed

lemma loop_panics:
  "decode_while ref_octets dec acc c = Some (Panicked p) \<Longrightarrow> \<exists>n. dec (adv c n) = Panicked p"
proof (induction "length (rem c)" arbitrary: acc c rule: less_induct)
  case less
  show ?case
  proof (cases "dec c")
    case (Ok r)
    obtain x c' where r: "r = (x, c')" by force
    with Ok obtain n where n: "0 < n" "n \<le> length (rem c)" and c': "c' = adv c n"
      using progress by blast
    then have "length (rem c') < length (rem c)" by simp
    moreover have "decode_while ref_octets dec (acc @ [x]) c' = Some (Panicked p)"
      using less.prems Ok r n by (subst (asm) decode_while.simps) (simp split: if_splits)
    ultimately obtain k where "dec (adv c' k) = Panicked p" using less.hyps by blast
    then show ?thesis using c' by auto
  next
    case (Err e)
    with less.prems show ?thesis by (subst (asm) decode_while.simps) (simp split: if_splits)
  next
    case (Panicked q)
    with less.prems have "dec (adv c 0) = Panicked p"
      by (subst (asm) decode_while.simps) (simp split: if_splits)
    then show ?thesis by blast
  qed
qed

end

locale element_reader = octets_api ops cur + element_decoder dec
  for ops :: "'b octets" and cur :: "'b \<Rightarrow> cursor" and dec :: "cursor \<Rightarrow> ('a \<times> cursor) Result" +
  fixes read :: "'b \<Rightarrow> ('a \<times> 'b) Result"
  assumes read_sim: "map_outcome (map_prod id cur) (read b) = dec (cur b)"
begin

lemma loop_sim:
  "map_option (map_outcome (map_prod id cur)) (decode_while ops read acc b)
     = decode_while ref_octets dec acc (cur b)"
proof (induction "length (rem (cur b))" arbitrary: acc b rule: less_induct)
  case less
  show ?case
  proof (cases "read b")
    case (Ok r)
    obtain x b' where r: "r = (x, b')" by force
    with Ok read_sim [of b] have d: "dec (cur b) = Ok (x, cur b')" by simp
    from progress [OF d] have "length (rem (cur b')) < length (rem (cur b))" by auto
    from less [OF this] show ?thesis
      using Ok r d decode_while.simps [of ops read acc b]
        decode_while.simps [of ref_octets dec acc "cur b"]
      by (simp add: cap_law)
  next
    case (Err e)
    with read_sim [of b] have d: "dec (cur b) = Err e" by simp
    with Err show ?thesis
      using decode_while.simps [of ops read acc b]
        decode_while.simps [of ref_octets dec acc "cur b"]
      by (simp add: cap_law)
  next
    case (Panicked p)
    with read_sim [of b] have d: "dec (cur b) = Panicked p" by simp
    with Panicked show ?thesis
      using decode_while.simps [of ops read acc b]
        decode_while.simps [of ref_octets dec acc "cur b"]
      by (simp add: cap_law)
  qed
qed

end

section \<open>Prefixes\<close>

definition padded_octets :: "u8 \<Rightarrow> nat" where
  "padded_octets len = (unat len + 7) div 8"

text \<open>The decoder on a nonempty field, every case.\<close>

lemma Cidr_decode_cases:
  assumes "rem c = len # ys"
  shows "Cidr_decode chk ref_octets c =
    (if 248 < unat len then
       (if chk then Panicked ArithmeticOverflow
        else Ok (\<lparr>cidr_length = len, cidr_prefix = V4 (Ipv4Addr 0 0 0 0)\<rparr>, adv c 1))
     else if length ys < padded_octets len then Err from_BufferTooShortError
     else if unat len \<le> 32 then
       Ok (\<lparr>cidr_length = len,
            cidr_prefix = V4 (let v = take (padded_octets len) ys
                                @ replicate (4 - padded_octets len) 0
                              in Ipv4Addr (v ! 0) (v ! 1) (v ! 2) (v ! 3))\<rparr>,
           adv c (1 + padded_octets len))
     else if unat len \<le> 128 then
       Ok (\<lparr>cidr_length = len,
            cidr_prefix = V6 (Ipv6Addr (take (padded_octets len) ys
                                @ replicate (16 - padded_octets len) 0))\<rparr>,
           adv c (1 + padded_octets len))
     else Panicked UnwrapErr)"
proof (cases "248 < unat len")
  case True
  have "unat len < 256" by simp
  with True obtain d where d: "unat len + 7 = 256 + d" "d < 7"
    by (intro that [of "unat len + 7 - 256"]) linarith+
  then have p: "unat (len + 7) div 8 = 0" by (simp add: unat_add_u8)
  from True have "256 \<le> unat len + unat (7 :: u8)" by simp
  with True assms p show ?thesis
    by (simp add: Cidr_decode_def add_u8_def ref_get_bytes_def)
next
  case False
  then have p: "unat (len + 7) div 8 = padded_octets len"
    by (simp add: unat_add_u8 padded_octets_def)
  have le4: "4 < padded_octets len \<longleftrightarrow> 32 < unat len"
    and le16: "padded_octets len \<le> 16 \<longleftrightarrow> unat len \<le> 128"
    by (auto simp: padded_octets_def)
  from False have "\<not> 256 \<le> unat len + unat (7 :: u8)" by simp
  with False assms p le4 le16 show ?thesis
    by (auto simp: Cidr_decode_def add_u8_def ref_get_bytes_def ipv6_from_vec_def Let_def)
qed

lemma Cidr_decode_empty: "rem c = [] \<Longrightarrow> Cidr_decode chk ref_octets c = Err from_BufferTooShortError"
  by (simp add: Cidr_decode_def ref_get_u8_def)

lemma Cidr_decode_progress:
  assumes "Cidr_decode chk ref_octets c = Ok (x, c')"
  shows "\<exists>n. 0 < n \<and> n \<le> length (rem c) \<and> c' = adv c n"
proof (cases "rem c")
  case Nil
  with assms show ?thesis by (simp add: Cidr_decode_empty)
next
  case (Cons len ys)
  with assms show ?thesis by (auto simp: Cidr_decode_cases split: if_splits)
qed

interpretation cidr: element_decoder "Cidr_decode chk ref_octets" for chk
  by unfold_locales (rule Cidr_decode_progress)

interpretation cidr_reader:
  element_reader ref_octets id "Cidr_decode chk ref_octets" "Cidr_decode chk ref_octets" for chk
  by unfold_locales (simp add: prod.map_id0 outcome.map_id)

lemma Cidr_decode_panics:
  "(\<exists>p. Cidr_decode chk ref_octets c = Panicked p) \<longleftrightarrow>
     (\<exists>len ys. rem c = len # ys \<and>
        (if 248 < unat len then chk else 128 < unat len \<and> padded_octets len \<le> length ys))"
proof (cases "rem c")
  case Nil
  then show ?thesis by (simp add: Cidr_decode_empty)
next
  case (Cons len ys)
  then show ?thesis by (auto simp: Cidr_decode_cases)
qed

section \<open>Network layer reachability information\<close>

lemma nlri_item_decode_progress:
  assumes "nlri_item_decode chk ref_octets c = Ok (x, c')"
  shows "\<exists>n. 0 < n \<and> n \<le> length (rem c) \<and> c' = adv c n"
proof -
  from assms obtain a ys p c1 where a: "rem c = a # ys"
    and p: "Cidr_decode chk ref_octets (adv c 1) = Ok (p, c1)" and c1: "c1 = c'"
    by (auto simp: nlri_item_decode_def bindO_eq_Ok ref_get_u8_Some)
  from Cidr_decode_progress [OF p] obtain n where "0 < n" "n \<le> length ys" "c' = adv c (1 + n)"
    using a c1 by auto
  then show ?thesis using a by (intro exI [of _ "1 + n"]) simp
qed

interpretation nlri_item: element_decoder "nlri_item_decode chk ref_octets" for chk
  by unfold_locales (rule nlri_item_decode_progress)

interpretation nlri_item_reader:
  element_reader ref_octets id "nlri_item_decode chk ref_octets" "nlri_item_decode chk ref_octets"
  for chk
  by unfold_locales (simp add: prod.map_id0 outcome.map_id)

section \<open>Path attributes\<close>

text \<open>The octets of an attribute's header and value, as the decoder takes them.\<close>

definition attr_header_octets :: "bool \<Rightarrow> nat" where
  "attr_header_octets extended = (if extended then 4 else 3)"

definition attr_value_octets :: "bool \<Rightarrow> u8 \<Rightarrow> u16 \<Rightarrow> nat" where
  "attr_value_octets four_octets code len =
     (if code = 1 then 1
      else if code = 3 \<or> code = 4 \<or> code = 5 then 4
      else if code = 6 then 0
      else if code = 7 then (if four_octets then 8 else 6)
      else unat len)"

lemma as_numbers_Ok:
  "as_numbers ref_octets n acc c = Ok (vs, c') \<Longrightarrow>
     c' = adv c (2 * n) \<and> 2 * n \<le> length (rem c) \<and> length vs = length acc + n"
proof (induction n arbitrary: acc c)
  case (Suc n)
  then obtain a b ys where r: "rem c = a # b # ys"
    and w: "as_numbers ref_octets n (acc @ [AsNum (ucast (be16 a b))]) (adv c 2) = Ok (vs, c')"
    by (auto simp: bindO_eq_Ok ref_get_u16_Some)
  from Suc.IH [OF w] r show ?case by auto
qed simp

lemma as_numbers_not_Panicked [simp]: "as_numbers ref_octets n acc c \<noteq> Panicked p"
  by (induction n arbitrary: acc c) (auto simp: bindO_eq_Panicked)

lemma unat_as_path_length: "unat ((ucast (n :: u8) :: u16) * 2 + 2) = 2 * unat n + 2"
proof -
  have "2 * unat n + 2 < 65536" using unat_u8_less [of n] by linarith
  moreover have "(ucast n :: u16) * 2 + 2 = word_of_nat (2 * unat n + 2)"
    by simp
  ultimately show ?thesis by (simp only: unat_of_nat_u16)
qed

lemma AsPathSegment_decode_Ok:
  assumes "AsPathSegment_decode ref_octets c len = Ok (s, c')"
  shows "c' = adv c (unat len)" and "unat len \<le> length (rem c)"
    and "length (segment_value s) = unat (segment_length s)"
    and "unat len = 2 * unat (segment_length s) + 2"
proof -
  from assms obtain t n ys zs vs where r: "rem c = t # ys" "drop 1 (rem c) = n # zs"
    and l: "(ucast n :: u16) * 2 + 2 = len"
    and w: "as_numbers ref_octets (unat n) [] (adv c 2) = Ok (vs, c')"
    and s: "segment_length s = n" "segment_value s = vs"
    by (auto simp: AsPathSegment_decode_def AsPathSegmentType_decode_def bindO_eq_Ok
        ref_get_u8_Some err_update_def eval_nat_numeral split: if_splits)
  have len: "unat len = 2 * unat n + 2" using l unat_as_path_length [of n] by simp
  from as_numbers_Ok [OF w] have w': "c' = adv c (2 + 2 * unat n)"
    "2 * unat n \<le> length (rem c) - 2" "length vs = unat n" by simp_all
  from r have "2 \<le> length (rem c)" by (cases ys) auto
  with w' len s show "c' = adv c (unat len)" "unat len \<le> length (rem c)"
    "length (segment_value s) = unat (segment_length s)"
    "unat len = 2 * unat (segment_length s) + 2"
    by (auto simp: add.commute)
qed

lemma ipv4_decode_ref:
  "ipv4_decode ref_octets c =
     (if 4 \<le> length (rem c)
      then Ok (Ipv4Addr (rem c ! 0) (rem c ! 1) (rem c ! 2) (rem c ! 3), adv c 4)
      else Err from_BufferTooShortError)"
  by (simp add: ipv4_decode_def ref_get_bytes_def)

lemma aggregator_as_decode_Ok:
  "aggregator_as_decode ref_octets four c = Ok (n, c') \<Longrightarrow>
     c' = adv c (if four then 4 else 2) \<and> (if four then 4 else 2) \<le> length (rem c)"
  by (auto simp: aggregator_as_decode_def bindO_eq_Ok ref_read_Some split: if_splits)

lemma Aggregator_decode_Ok:
  "Aggregator_decode ref_octets c four = Ok (g, c') \<Longrightarrow>
     c' = adv c (if four then 8 else 6) \<and> (if four then 8 else 6) \<le> length (rem c)"
  by (auto simp: Aggregator_decode_def bindO_eq_Ok ipv4_decode_ref
      dest!: aggregator_as_decode_Ok split: if_splits)

lemma PathAttributeValue_decode_Ok:
  assumes "PathAttributeValue_decode ref_octets c peer attr = Ok (v, c')"
  defines "n \<equiv> attr_value_octets (four_octet_as_cap (opt_params peer) \<noteq> None)
                 (attr_type_code attr) (attr_len attr)"
  shows "c' = adv c n \<and> n \<le> length (rem c)"
proof -
  have as: "\<And>s c'. AsPathSegment_decode ref_octets c (attr_len attr) = Ok (s, c') \<Longrightarrow>
      c' = adv c (unat (attr_len attr)) \<and> unat (attr_len attr) \<le> length (rem c)"
    using AsPathSegment_decode_Ok by blast
  show ?thesis
    using assms(1) unfolding n_def
    by (auto simp: PathAttributeValue_decode_def Let_def bindO_eq_Ok Origin_decode_def
        err_update_def ipv4_decode_ref ref_read_Some attr_value_octets_def
        dest!: as Aggregator_decode_Ok split: if_splits)
qed

lemma attr_length_decode_Ok:
  "attr_length_decode ref_octets ext c = Ok (n, c') \<Longrightarrow>
     c' = adv c (if ext then 2 else 1) \<and> (if ext then 2 else 1) \<le> length (rem c)"
  by (auto simp: attr_length_decode_def bindO_eq_Ok ref_read_Some split: if_splits)

lemma PathAttribute_decode_Ok:
  assumes "PathAttribute_decode ref_octets peer c = Ok (a, c')"
  defines "n \<equiv> attr_header_octets (flag_extended_length (attr_flags a))
      + attr_value_octets (four_octet_as_cap (opt_params peer) \<noteq> None)
          (attr_type_code a) (attr_len a)"
  shows "c' = adv c n \<and> n \<le> length (rem c)"
proof -
  let ?attr = "\<lambda>f code len. \<lparr>attr_flags = f, attr_type_code = code, attr_len = len,
                 attr_value = AttrUnknown []\<rparr>"
  from assms(1) obtain f code len c3 v where
    l: "attr_length_decode ref_octets (flag_extended_length f) (adv c 2) = Ok (len, c3)"
    and v: "PathAttributeValue_decode ref_octets c3 peer (?attr f code len) = Ok (v, c')"
    and a: "a = (?attr f code len)\<lparr>attr_value := v\<rparr>"
    by (auto simp: PathAttribute_decode_def PathAttributeFlags_decode_def bindO_eq_Ok
        ref_get_u8_Some Let_def numeral_2_eq_2)
  from attr_length_decode_Ok [OF l] have
    h: "c3 = adv c (attr_header_octets (flag_extended_length f))"
      "attr_header_octets (flag_extended_length f) \<le> length (rem c)"
    by (auto simp: attr_header_octets_def split: if_splits)
  from PathAttributeValue_decode_Ok [OF v] h show ?thesis
    unfolding n_def a by auto
qed

lemma path_attribute_fixed_lengths:
  assumes "PathAttribute_decode ref_octets peer c = Ok (a, c')"
  shows "(attr_type_code a = 1 \<longrightarrow> attr_len a = 1) \<and> (attr_type_code a = 3 \<longrightarrow> attr_len a = 4)"
  using assms
  by (auto simp: PathAttribute_decode_def bindO_eq_Ok PathAttributeValue_decode_def Origin_decode_def
      Let_def split: if_splits)

lemma PathAttribute_decode_progress:
  assumes "PathAttribute_decode ref_octets peer c = Ok (a, c')"
  shows "\<exists>n. 0 < n \<and> n \<le> length (rem c) \<and> c' = adv c n"
  using PathAttribute_decode_Ok [OF assms]
  by (auto simp: attr_header_octets_def split: if_splits)

interpretation path_attr: element_decoder "PathAttribute_decode ref_octets peer" for peer
  by unfold_locales (rule PathAttribute_decode_progress)

interpretation path_attr_reader:
  element_reader ref_octets id "PathAttribute_decode ref_octets peer"
    "PathAttribute_decode ref_octets peer"
  for peer
  by unfold_locales (simp add: prod.map_id0 outcome.map_id)

section \<open>The whole message\<close>

lemma bindL_simps [simp]:
  "bindL None f = None"
  "bindL (Some (Ok x)) f = f x"
  "bindL (Some (Err e)) f = Some (Err e)"
  "bindL (Some (Panicked p)) f = Some (Panicked p)"
  by (simp_all add: bindL_def)

lemma bindL_cases:
  obtains "m = None" | x where "m = Some (Ok x)" | e where "m = Some (Err e)"
  | p where "m = Some (Panicked p)"
  by (metis option.exhaust outcome.exhaust)

lemma bindL_eq_None: "bindL m f = None \<longleftrightarrow> m = None \<or> (\<exists>x. m = Some (Ok x) \<and> f x = None)"
  by (cases m rule: bindL_cases) simp_all

lemma bindL_eq_Ok: "bindL m f = Some (Ok y) \<longleftrightarrow> (\<exists>x. m = Some (Ok x) \<and> f x = Some (Ok y))"
  by (cases m rule: bindL_cases) simp_all

lemma bindL_eq_Panicked:
  "bindL m f = Some (Panicked p) \<longleftrightarrow>
     m = Some (Panicked p) \<or> (\<exists>x. m = Some (Ok x) \<and> f x = Some (Panicked p))"
  by (cases m rule: bindL_cases) simp_all

lemma bindL_sim:
  assumes "map_option (map_outcome k) m = m'"
    and "\<And>x. map_option (map_outcome h) (f x) = g (k x)"
  shows "map_option (map_outcome h) (bindL m f) = bindL m' g"
  using assms by (cases m rule: bindL_cases) auto

lemma bindL_cong_Ok:
  assumes "\<And>x. m = Some (Ok x) \<Longrightarrow> f x = g x"
  shows "bindL m f = bindL m g"
  using assms by (cases m rule: bindL_cases) simp_all

text \<open>A loop that ends without an error has read its field to the end, whatever the reader.\<close>

lemma decode_while_leaves_nothing:
  assumes "decode_while ops dec acc b = Some (Ok (xs, b'))"
  shows "oct_cap ops b' = 0"
proof -
  have "\<forall>xs b'. r = Ok (xs, b') \<longrightarrow> oct_cap ops b' = 0"
    if "decode_while ops dec acc b = Some r" for r
    using that
    by (rule decode_while.raw_induct
        [where P = "\<lambda>ops dec acc b r. \<forall>xs b'. r = Ok (xs, b') \<longrightarrow> oct_cap ops b' = 0", rotated])
      (auto split: if_splits outcome.splits)
  with assms show ?thesis by blast
qed

text \<open>The decoder without the two checks after the loops.\<close>

definition UpdateMsg_decode_unchecked ::
    "bool \<Rightarrow> 'b octets \<Rightarrow> OpenMsg \<Rightarrow> 'b \<Rightarrow> (UpdateMsg \<times> 'b) Result option" where
  "UpdateMsg_decode_unchecked chk ops peer b =
     bindL (Some (oct_try (oct_get_bytes_with_u16_length ops b))) (\<lambda>(withdrawn_buf, b).
     bindL (decode_while ops (Cidr_decode chk ops) [] withdrawn_buf) (\<lambda>(withdrawn, _).
     bindL (Some (oct_try (oct_get_bytes_with_u16_length ops b))) (\<lambda>(attrs_buf, b).
     bindL (decode_while ops (PathAttribute_decode ops peer) [] attrs_buf) (\<lambda>(attrs, _).
     bindL (decode_while ops (nlri_item_decode chk ops) [] b) (\<lambda>(items, b).
     Some (Ok (\<lparr>withdrawn_routes = withdrawn, path_attributes = attrs, nlri = items\<rparr>, b)))))))"

context octets_api begin

lemma cidr_element_reader:
  "element_reader ops cur (Cidr_decode chk ref_octets) (Cidr_decode chk ops)"
  by unfold_locales (rule Cidr_decode_sim)

lemma nlri_element_reader:
  "element_reader ops cur (nlri_item_decode chk ref_octets) (nlri_item_decode chk ops)"
  by unfold_locales (rule nlri_item_decode_sim)

lemma path_attr_element_reader:
  "element_reader ops cur (PathAttribute_decode ref_octets peer) (PathAttribute_decode ops peer)"
  by unfold_locales (rule PathAttribute_decode_sim)

lemmas loop_sims =
  cidr_element_reader [THEN element_reader.loop_sim, THEN bindL_sim]
  nlri_element_reader [THEN element_reader.loop_sim, THEN bindL_sim]
  path_attr_element_reader [THEN element_reader.loop_sim, THEN bindL_sim]

lemma prefixed_sim:
  "map_option (map_outcome (map_prod cur cur))
      (Some (oct_try (oct_get_bytes_with_u16_length ops b)))
     = Some (oct_try (ref_get_bytes_with_u16_length (cur b)))"
  by (simp add: try_laws)

lemma UpdateMsg_decode_sim:
  "map_option (map_outcome (map_prod id cur)) (UpdateMsg_decode chk ops peer b)
     = UpdateMsg_decode chk ref_octets peer (cur b)"
  unfolding UpdateMsg_decode_def ref_octets_simps
  by (auto intro!: loop_sims prefixed_sim [THEN bindL_sim] simp: view_laws err_update_def)

end

lemma ref_update_returns: "UpdateMsg_decode chk ref_octets peer c \<noteq> None"
  by (auto simp: UpdateMsg_decode_def bindL_eq_None cidr.loop_returns path_attr.loop_returns
      nlri_item.loop_returns split: if_splits)

lemma prefixed_read_advances:
  "ref_get_bytes_with_u16_length c = Some (s, c') \<Longrightarrow> \<exists>n. c' = adv c n \<and> n \<le> length (rem c)"
  by (auto simp: ref_get_bytes_with_u16_length_Some)

lemma ref_update_consumes:
  assumes "UpdateMsg_decode chk ref_octets peer c = Some (Ok (u, c'))"
  shows "c' = adv c (length (rem c))"
proof -
  from assms obtain ws w1 as a1 c1 c2 ns where
    1: "ref_get_bytes_with_u16_length c = Some (w1, c1)"
    and 2: "ref_get_bytes_with_u16_length c1 = Some (a1, c2)"
    and n: "decode_while ref_octets (nlri_item_decode chk ref_octets) [] c2 = Some (Ok (ns, c'))"
    by (auto simp: UpdateMsg_decode_def bindL_eq_Ok split: if_splits)
  from prefixed_read_advances [OF 1] obtain m where m: "c1 = adv c m" "m \<le> length (rem c)" by blast
  from prefixed_read_advances [OF 2] obtain k where k: "c2 = adv c1 k" "k \<le> length (rem c1)" by blast
  from nlri_item.loop_exhausts [OF n] m k show ?thesis by auto
qed

text \<open>A panic needs a prefix length above 128 among the octets of the message.\<close>

lemma Cidr_panic_octet:
  "Cidr_decode chk ref_octets c = Panicked p \<Longrightarrow> \<exists>a \<in> set (rem c). 128 < unat a"
  using Cidr_decode_panics [of chk c] by (auto split: if_splits)

lemma nlri_panic_octet:
  "nlri_item_decode chk ref_octets c = Panicked p \<Longrightarrow> \<exists>a \<in> set (rem c). 128 < unat a"
  by (auto simp: nlri_item_decode_def bindO_eq_Panicked ref_get_u8_Some dest!: Cidr_panic_octet)

lemma PathAttribute_decode_not_Panicked [simp]: "PathAttribute_decode ref_octets peer c \<noteq> Panicked p"
  by (auto simp: PathAttribute_decode_def PathAttributeFlags_decode_def attr_length_decode_def
      PathAttributeValue_decode_def Origin_decode_def AsPathSegment_decode_def
      AsPathSegmentType_decode_def Aggregator_decode_def aggregator_as_decode_def
      ipv4_decode_ref bindO_eq_Panicked err_update_def Let_def split: if_splits)

lemma prefixed_read_octets:
  "ref_get_bytes_with_u16_length c = Some (s, c') \<Longrightarrow>
     set (rem s) \<subseteq> set (rem c) \<and> set (rem c') \<subseteq> set (rem c)"
  by (auto simp: ref_get_bytes_with_u16_length_Some dest: in_set_takeD in_set_dropD)

lemma ref_update_panics:
  assumes "UpdateMsg_decode chk ref_octets peer c = Some (Panicked p)"
  shows "\<exists>a \<in> set (rem c). 128 < unat a"
proof -
  have w: "\<exists>a \<in> set (rem s). 128 < unat a"
    if "decode_while ref_octets (Cidr_decode chk ref_octets) [] s = Some (Panicked p)" for s
    using cidr.loop_panics [OF that] Cidr_panic_octet by (metis rem_adv in_set_dropD)
  have n: "\<exists>a \<in> set (rem s). 128 < unat a"
    if "decode_while ref_octets (nlri_item_decode chk ref_octets) [] s = Some (Panicked p)" for s
    using nlri_item.loop_panics [OF that] nlri_panic_octet by (metis rem_adv in_set_dropD)
  from assms show ?thesis
    by (auto simp: UpdateMsg_decode_def bindL_eq_Panicked err_update_def
        dest!: w n path_attr.loop_panics dest: prefixed_read_octets [THEN conjunct1, THEN subsetD]
          prefixed_read_octets [THEN conjunct2, THEN subsetD] split: if_splits)
qed

end
