(* ===== verification/Message_Codec.thy ===== *)
theory Message_Codec
  imports Update_Facts
begin

text \<open>
  NOTIFICATION and KEEPALIVE, the four kinds of message, and \<^verbatim>\<open>Message::decode\<close> and
  \<^verbatim>\<open>Message::encode\<close> of \<^verbatim>\<open>src/message.rs\<close>. Decoding takes the receive buffer and gives the
  result together with the buffer it leaves: only a success consumes octets, an error at most
  reserves room. The facts are proved on the reference buffers and carried to any pair of
  crates that keeps the documented contracts by the locale \<open>codec\<close>.
\<close>

section \<open>Messages\<close>

datatype KeepaliveMsg = KeepaliveMsg

record NotificationMsg =
  error_code :: u8
  error_subcode :: u8
  notification_data :: "u8 list option"

datatype Message =
    MsgOpen OpenMsg
  | MsgUpdate UpdateMsg
  | MsgKeepalive KeepaliveMsg
  | MsgNotification NotificationMsg

text \<open>The \<^verbatim>\<open>From\<close> implementations that make each kind a message.\<close>

definition Message_from_OpenMsg :: "OpenMsg \<Rightarrow> Message" where
  [simp]: "Message_from_OpenMsg msg = MsgOpen msg"

definition Message_from_UpdateMsg :: "UpdateMsg \<Rightarrow> Message" where
  [simp]: "Message_from_UpdateMsg msg = MsgUpdate msg"

definition Message_from_KeepaliveMsg :: "KeepaliveMsg \<Rightarrow> Message" where
  [simp]: "Message_from_KeepaliveMsg msg = MsgKeepalive msg"

definition Message_from_NotificationMsg :: "NotificationMsg \<Rightarrow> Message" where
  [simp]: "Message_from_NotificationMsg msg = MsgNotification msg"

definition KeepaliveMsg_decode :: "'b octets \<Rightarrow> 'b \<Rightarrow> (KeepaliveMsg \<times> 'b) Result" where
  "KeepaliveMsg_decode ops b = Ok (KeepaliveMsg, b)"

definition KeepaliveMsg_new :: KeepaliveMsg where
  "KeepaliveMsg_new = KeepaliveMsg"

definition NotificationMsg_decode :: "'b octets \<Rightarrow> 'b \<Rightarrow> (NotificationMsg \<times> 'b) Result" where
  "NotificationMsg_decode ops b =
     bindO (oct_try (oct_get_u8 ops b)) (\<lambda>(code, b).
     bindO (oct_try (oct_get_u8 ops b)) (\<lambda>(subcode, b).
     bindO (oct_try (oct_get_bytes ops b (oct_cap ops b))) (\<lambda>(sub, b).
     Ok (\<lparr>error_code = code, error_subcode = subcode,
          notification_data = Some (oct_to_vec ops sub)\<rparr>, b))))"

definition NotificationMsg_from_enum ::
    "ErrorCode \<Rightarrow> ErrorSubCode \<Rightarrow> u8 list option \<Rightarrow> NotificationMsg" where
  "NotificationMsg_from_enum code subcode data =
     \<lparr>error_code = ErrorCode_u8 code, error_subcode = ErrorSubCode_u8 subcode,
      notification_data = data\<rparr>"

definition NotificationMsg_from_error :: "Error \<Rightarrow> NotificationMsg" where
  "NotificationMsg_from_error err =
     \<lparr>error_code = ErrorCode_u8 (err_code err), error_subcode = ErrorSubCode_u8 (err_subcode err),
      notification_data = err_data err\<rparr>"

section \<open>Encoding and decoding\<close>

text \<open>The encoder of the source is a stub: it allocates a buffer and returns it.\<close>

definition Message_encode :: "'m bytes_mut \<Rightarrow> Message \<Rightarrow> 'm Result" where
  "Message_encode bm msg = Ok (bm_with_capacity bm 4096)"

text \<open>\<^verbatim>\<open>match header.msg_type\<close>: the body decoder of each type.\<close>

definition body_decode ::
    "bool \<Rightarrow> 'b octets \<Rightarrow> OpenMsg option \<Rightarrow> MsgType \<Rightarrow> 'b \<Rightarrow> (Message \<times> 'b) Result option" where
  "body_decode chk ops peer t b = (case t of
     TypeOpen \<Rightarrow> Some (bindO (OpenMsg_decode ops b) (\<lambda>(m, b). Ok (MsgOpen m, b)))
   | TypeUpdate \<Rightarrow> (case peer of
       None \<Rightarrow> Some (err_header ConnectionNotSync None)
     | Some p \<Rightarrow> bindL (UpdateMsg_decode chk ops p b) (\<lambda>(m, b). Some (Ok (MsgUpdate m, b))))
   | TypeKeepalive \<Rightarrow>
       Some (bindO (KeepaliveMsg_decode ops b) (\<lambda>(m, b). Ok (MsgKeepalive m, b)))
   | TypeNotification \<Rightarrow>
       Some (bindO (NotificationMsg_decode ops b) (\<lambda>(m, b). Ok (MsgNotification m, b))))"

definition Message_decode ::
    "bool \<Rightarrow> 'b octets \<Rightarrow> 'm bytes_mut \<Rightarrow> 'm \<Rightarrow> OpenMsg option \<Rightarrow> (Message Result \<times> 'm) option" where
  "Message_decode chk ops bm buf peer =
     (if bm_len bm buf < MIN_MSG_LEN then
        Some (err_local BufferTooShortError None,
              bm_reserve bm buf (MIN_MSG_LEN - bm_len bm buf))
      else (case MessageHeader_decode ops (oct_with_slice ops (bm_slice bm buf)) of
        Err e \<Rightarrow> Some (Err e, buf)
      | Panicked p \<Rightarrow> Some (Panicked p, buf)
      | Ok (header, oct) \<Rightarrow>
          if bm_len bm buf < unat (hdr_length header) then
            Some (err_local BufferTooShortError None,
                  bm_reserve bm buf (unat (hdr_length header) - bm_len bm buf))
          else (case oct_try (oct_get_bytes ops oct (unat (hdr_length header))) of
            Err e \<Rightarrow> Some (Err e, buf)
          | Panicked p \<Rightarrow> Some (Panicked p, buf)
          | Ok (body, _) \<Rightarrow>
             (case body_decode chk ops peer (hdr_type header) body of
                None \<Rightarrow> None
              | Some (Err e) \<Rightarrow> Some (Err e, buf)
              | Some (Panicked p) \<Rightarrow> Some (Panicked p, buf)
              | Some (Ok (msg, body)) \<Rightarrow>
                 (case bm_advance bm buf (oct_off ops body + MIN_MSG_LEN) of
                    None \<Rightarrow> Some (Panicked AdvanceOutOfRange, buf)
                  | Some buf' \<Rightarrow> Some (Ok msg, buf'))))))"

section \<open>Independence of the buffers\<close>

context octets_api begin

lemma NotificationMsg_decode_sim:
  "map_outcome (map_prod id cur) (NotificationMsg_decode ops b)
     = NotificationMsg_decode ref_octets (cur b)"
  unfolding NotificationMsg_decode_def ref_octets_simps
  by (auto intro!: read_sims simp: view_laws)

lemma body_decode_sim:
  "map_option (map_outcome (map_prod id cur)) (body_decode chk ops peer t b)
     = body_decode chk ref_octets peer t (cur b)"
  by (cases t)
    (auto simp: body_decode_def KeepaliveMsg_decode_def split: option.splits
      intro!: OpenMsg_decode_sim [THEN bind_sim] NotificationMsg_decode_sim [THEN bind_sim]
        UpdateMsg_decode_sim [THEN bindL_sim])

end

locale codec = octets_api ops cur + bytes_mut_api bm
  for ops :: "'b octets" and cur :: "'b \<Rightarrow> cursor" and bm :: "'m bytes_mut"
begin

lemma Message_decode_sim:
  "map_option (map_prod id (bm_slice bm)) (Message_decode chk ops bm buf peer)
     = Message_decode chk ref_octets ref_bytes (bm_slice bm buf) peer"
proof -
  let ?bs = "bm_slice bm buf" and ?b = "oct_with_slice ops (bm_slice bm buf)"
  have h: "map_outcome (map_prod id cur) (MessageHeader_decode ops ?b)
      = MessageHeader_decode ref_octets (Cursor ?bs 0)"
    using MessageHeader_decode_sim [of ?b] by (simp add: with_slice_law)
  show ?thesis
  proof (cases "MessageHeader_decode ops ?b")
    case (Ok r)
    obtain header oct where r: "r = (header, oct)" by force
    with Ok h have h': "MessageHeader_decode ref_octets (Cursor ?bs 0) = Ok (header, cur oct)"
      by simp
    have g: "map_option (map_prod cur cur) (oct_get_bytes ops oct (unat (hdr_length header)))
        = ref_get_bytes (cur oct) (unat (hdr_length header))"
      by (rule get_bytes_law)
    show ?thesis
    proof (cases "oct_get_bytes ops oct (unat (hdr_length header))")
      case None
      with g have "ref_get_bytes (cur oct) (unat (hdr_length header)) = None" by simp
      with None Ok r h' show ?thesis
        by (simp add: Message_decode_def len_law reserve_law err_local_def)
    next
      case (Some sr)
      obtain body rest where sr: "sr = (body, rest)" by force
      with Some g have g': "ref_get_bytes (cur oct) (unat (hdr_length header)) = Some (cur body, cur rest)"
        by simp
      have bd: "map_option (map_outcome (map_prod id cur)) (body_decode chk ops peer (hdr_type header) body)
          = body_decode chk ref_octets peer (hdr_type header) (cur body)"
        by (rule body_decode_sim)
      show ?thesis
      proof (cases "body_decode chk ops peer (hdr_type header) body" rule: bindL_cases)
        case (2 mb)
        obtain msg body' where mb: "mb = (msg, body')" by force
        with 2 bd have bd': "body_decode chk ref_octets peer (hdr_type header) (cur body)
            = Some (Ok (msg, cur body'))" by simp
        from advance_law [of buf "cur_off (cur body') + MIN_MSG_LEN"]
        show ?thesis using Ok r h' Some sr g' 2 mb bd'
          by (cases "bm_advance bm buf (cur_off (cur body') + MIN_MSG_LEN)")
            (auto simp: Message_decode_def len_law reserve_law off_law split: if_splits)
      qed (use bd Ok r h' Some sr g' in
          \<open>simp_all add: Message_decode_def len_law reserve_law flip: bd\<close>)
    qed
  next
    case (Err e)
    with h have "MessageHeader_decode ref_octets (Cursor ?bs 0) = Err e" by simp
    with Err show ?thesis
      by (simp add: Message_decode_def len_law reserve_law)
  next
    case (Panicked p)
    with h have "MessageHeader_decode ref_octets (Cursor ?bs 0) = Panicked p" by simp
    with Panicked show ?thesis
      by (simp add: Message_decode_def len_law reserve_law)
  qed
qed

end

interpretation ref_codec: codec ref_octets id ref_bytes
  by unfold_locales

end
