(* ===== verification/Update_Layout.thy ===== *)
theory Update_Layout
  imports Update_Facts
begin

text \<open>
  What an accepted UPDATE looks like, and the octets it is decoded from. The well-formedness
  predicates say of each part which values the decoder can return; the layout functions are the
  inverse of the decoder, written down independently of it. Every accepted part is well formed, and
  a well-formed part laid out in octets is decoded to itself, whatever follows it.
\<close>

section \<open>Loops\<close>

context element_decoder begin

lemma loop_typed:
  assumes "\<And>c x c'. dec c = Ok (x, c') \<Longrightarrow> P x"
    and "decode_while ref_octets dec acc c = Some (Ok (xs, c'))" and "\<forall>x \<in> set acc. P x"
  shows "\<forall>x \<in> set xs. P x"
  using assms(2,3)
proof (induction "length (rem c)" arbitrary: acc c rule: less_induct)
  case less
  show ?case
  proof (cases "rem c = []")
    case True
    with less.prems show ?thesis by (simp add: decode_while.simps [of ref_octets dec acc c])
  next
    case False
    with less.prems obtain x c1 where d: "dec c = Ok (x, c1)"
      and w: "decode_while ref_octets dec (acc @ [x]) c1 = Some (Ok (xs, c'))"
      by (subst (asm) decode_while.simps) (auto split: outcome.splits)
    from progress [OF d] have "length (rem c1) < length (rem c)" by auto
    from less.hyps [OF this w] less.prems(2) assms(1) [OF d] show ?thesis by simp
  qed
qed

text \<open>\<open>enc\<close> lays an item out and \<open>val\<close> is what the decoder makes of it.\<close>

lemma loop_round:
  assumes "\<And>x c rest. x \<in> set xs \<Longrightarrow> rem c = enc x @ rest \<Longrightarrow> dec c = Ok (val x, adv c (length (enc x)))"
    and "rem c = concat (map enc xs)"
  shows "decode_while ref_octets dec acc c = Some (Ok (acc @ map val xs, adv c (length (concat (map enc xs)))))"
  using assms
proof (induction xs arbitrary: acc c)
  case Nil
  then show ?case by (simp add: decode_while.simps [of ref_octets dec acc c])
next
  case (Cons x xs)
  from Cons.prems(2) have r: "rem c = enc x @ concat (map enc xs)" by simp
  from Cons.prems(1) [OF _ r] have d: "dec c = Ok (val x, adv c (length (enc x)))" by simp
  from progress [OF d] have "rem c \<noteq> []" by auto
  with d have "decode_while ref_octets dec acc c
      = decode_while ref_octets dec (acc @ [val x]) (adv c (length (enc x)))"
    by (simp add: decode_while.simps [of ref_octets dec acc c])
  also have "\<dots> = Some (Ok ((acc @ [val x]) @ map val xs,
      adv (adv c (length (enc x))) (length (concat (map enc xs)))))"
    by (rule Cons.IH) (use Cons.prems(1) r in simp_all)
  finally show ?case by simp
qed

end

section \<open>Prefixes\<close>

fun addr_octets :: "IpAddr \<Rightarrow> u8 list" where
  "addr_octets (V4 (Ipv4Addr a b c d)) = [a, b, c, d]"
| "addr_octets (V6 (Ipv6Addr bs)) = bs"

definition cidr_wf :: "Cidr \<Rightarrow> bool" where
  "cidr_wf p \<longleftrightarrow>
     (case cidr_prefix p of
        V4 a \<Rightarrow> unat (cidr_length p) \<le> 32
      | V6 a \<Rightarrow> 32 < unat (cidr_length p) \<and> unat (cidr_length p) \<le> 128 \<and> length (addr_octets (V6 a)) = 16) \<and>
     (\<forall>b \<in> set (drop (padded_octets (cidr_length p)) (addr_octets (cidr_prefix p))). b = 0)"

text \<open>What a build without overflow checks makes of a length octet above 248.\<close>

definition cidr_wrapped :: "Cidr \<Rightarrow> bool" where
  "cidr_wrapped p \<longleftrightarrow> 248 < unat (cidr_length p) \<and> cidr_prefix p = V4 (Ipv4Addr 0 0 0 0)"

definition cidr_octets :: "Cidr \<Rightarrow> u8 list" where
  "cidr_octets p = cidr_length p # take (padded_octets (cidr_length p)) (addr_octets (cidr_prefix p))"

lemma padded_octets_le: "unat len \<le> 8 * n \<Longrightarrow> padded_octets len \<le> n"
  by (simp add: padded_octets_def)

lemma Cidr_decode_typed:
  assumes "Cidr_decode chk ref_octets c = Ok (p, c')"
  shows "cidr_wf p \<or> \<not> chk \<and> cidr_wrapped p"
proof (cases "rem c")
  case Nil
  with assms show ?thesis by (simp add: Cidr_decode_empty)
next
  case (Cons len ys)
  show ?thesis
  proof (cases "unat len \<le> 32")
    case True
    define v where "v = take (padded_octets len) ys @ replicate (4 - padded_octets len) (0 :: u8)"
    from True have "padded_octets len \<le> 4" by (intro padded_octets_le) simp
    with assms Cons True have v: "length v = 4" "\<forall>b \<in> set (drop (padded_octets len) v). b = 0"
      and p: "p = \<lparr>cidr_length = len, cidr_prefix = V4 (Ipv4Addr (v ! 0) (v ! 1) (v ! 2) (v ! 3))\<rparr>"
      by (auto simp: Cidr_decode_cases v_def Let_def split: if_splits)
    from v(1) obtain a b d e where "v = [a, b, d, e]" by (auto simp: length_eq_4_conv)
    with v(2) p True show ?thesis by (simp add: cidr_wf_def)
  next
    case False
    then show ?thesis
      using assms Cons padded_octets_le [of len 16]
      by (auto simp: Cidr_decode_cases cidr_wf_def cidr_wrapped_def split: if_splits)
  qed
qed

lemma Cidr_decode_round:
  assumes "cidr_wf p" and "rem c = cidr_octets p @ rest"
  shows "Cidr_decode chk ref_octets c = Ok (p, adv c (length (cidr_octets p)))"
proof -
  obtain len a where p: "p = \<lparr>cidr_length = len, cidr_prefix = a\<rparr>" by (cases p)
  let ?n = "padded_octets len" and ?bs = "addr_octets a"
  have zeros: "take ?n ?bs @ replicate (length ?bs - ?n) 0 = ?bs"
    using assms(1) p by (simp add: cidr_wf_def)
      (metis append_take_drop_id length_drop replicate_eqI)
  have r: "rem c = len # take ?n ?bs @ rest" using assms(2) p by (simp add: cidr_octets_def)
  show ?thesis
  proof (cases a)
    case (V4 v4)
    obtain b1 b2 b3 b4 where v4: "v4 = Ipv4Addr b1 b2 b3 b4" by (cases v4)
    from assms(1) p V4 have l: "unat len \<le> 32" by (simp add: cidr_wf_def)
    then have n: "?n \<le> 4" by (intro padded_octets_le) simp
    from zeros V4 v4 have z: "take ?n [b1, b2, b3, b4] @ replicate (4 - ?n) 0 = [b1, b2, b3, b4]"
      by (simp add: numeral_eq_Suc)
    from n z V4 v4 l r p show ?thesis
      by (simp add: Cidr_decode_cases cidr_octets_def Let_def)
  next
    case (V6 v6)
    obtain bs where v6: "v6 = Ipv6Addr bs" by (cases v6)
    from assms(1) p V6 v6 have l: "32 < unat len" "unat len \<le> 128" "length bs = 16"
      by (simp_all add: cidr_wf_def)
    then have "?n \<le> 16" by (intro padded_octets_le) simp
    with zeros V6 v6 l r p show ?thesis
      by (simp add: Cidr_decode_cases cidr_octets_def)
  qed
qed

section \<open>Path attributes\<close>

definition flags_octet :: "PathAttributeFlags \<Rightarrow> u8" where
  "flags_octet f = (if flag_optional f then 128 else 0) + (if flag_transitive f then 64 else 0) +
     (if flag_partial f then 32 else 0) + (if flag_extended_length f then 16 else 0)"

lemma flags_round [simp]: "flags_of_u8 (flags_octet f) = f"
  by (cases f; cases "flag_optional f"; cases "flag_transitive f"; cases "flag_partial f";
      cases "flag_extended_length f") (simp_all add: flags_octet_def flags_of_u8_def)

fun origin_octet :: "Origin \<Rightarrow> u8" where
  "origin_octet Igp = 0"
| "origin_octet Egp = 1"
| "origin_octet Incomplete = 2"

fun segment_octet :: "AsPathSegmentType \<Rightarrow> u8" where
  "segment_octet AsSet = 1"
| "segment_octet AsSequence = 2"

fun two_octets :: "AsNum \<Rightarrow> bool" where
  "two_octets (AsNum n) = (unat n < 65536)"

fun asnum_octets :: "AsNum \<Rightarrow> u8 list" where
  "asnum_octets (AsNum n) = be16_bytes (ucast n)"

text \<open>Which values an attribute of a type and a length can have.\<close>

fun value_wf :: "bool \<Rightarrow> u8 \<Rightarrow> u16 \<Rightarrow> PathAttributeValue \<Rightarrow> bool" where
  "value_wf four code len (AttrOrigin x) \<longleftrightarrow> code = 1 \<and> len = 1"
| "value_wf four code len (AttrAsPath s) \<longleftrightarrow>
     code = 2 \<and> unat len = 2 * length (segment_value s) + 2 \<and>
     length (segment_value s) = unat (segment_length s) \<and> (\<forall>n \<in> set (segment_value s). two_octets n)"
| "value_wf four code len (AttrNextHop a) \<longleftrightarrow> code = 3 \<and> len = 4"
| "value_wf four code len (AttrMultiExitDisc n) \<longleftrightarrow> code = 4"
| "value_wf four code len (AttrLocalPref n) \<longleftrightarrow> code = 5"
| "value_wf four code len (AttrAtomicAggregate b) \<longleftrightarrow> code = 6 \<and> b"
| "value_wf four code len (AttrAggregator g) \<longleftrightarrow> code = 7 \<and> (four \<or> unat (aggr_as_num g) < 65536)"
| "value_wf four code len (AttrUnknown bs) \<longleftrightarrow> code \<notin> {1, 2, 3, 4, 5, 6, 7} \<and> length bs = unat len"

definition attr_wf :: "bool \<Rightarrow> PathAttribute \<Rightarrow> bool" where
  "attr_wf four a \<longleftrightarrow> (flag_extended_length (attr_flags a) \<or> unat (attr_len a) < 256) \<and>
     value_wf four (attr_type_code a) (attr_len a) (attr_value a)"

fun value_octets :: "bool \<Rightarrow> PathAttributeValue \<Rightarrow> u8 list" where
  "value_octets four (AttrOrigin x) = [origin_octet x]"
| "value_octets four (AttrAsPath s) =
     [segment_octet (segment_type s), segment_length s] @ concat (map asnum_octets (segment_value s))"
| "value_octets four (AttrNextHop a) = ipv4_octets a"
| "value_octets four (AttrMultiExitDisc n) = be32_bytes n"
| "value_octets four (AttrLocalPref n) = be32_bytes n"
| "value_octets four (AttrAtomicAggregate b) = []"
| "value_octets four (AttrAggregator g) =
     (if four then be32_bytes (aggr_as_num g) else be16_bytes (ucast (aggr_as_num g))) @
     ipv4_octets (aggr_ip_addr g)"
| "value_octets four (AttrUnknown bs) = bs"

definition attr_octets :: "bool \<Rightarrow> PathAttribute \<Rightarrow> u8 list" where
  "attr_octets four a =
     [flags_octet (attr_flags a), attr_type_code a] @
     (if flag_extended_length (attr_flags a) then be16_bytes (attr_len a) else [word_of_nat (unat (attr_len a))]) @
     value_octets four (attr_value a)"

text \<open>What the decoder returns is well formed.\<close>

lemma as_numbers_typed:
  "as_numbers ref_octets n acc c = Ok (vs, c') \<Longrightarrow> \<forall>x \<in> set acc. two_octets x \<Longrightarrow> \<forall>x \<in> set vs. two_octets x"
proof (induction n arbitrary: acc c)
  case (Suc n)
  then obtain a c1 where "as_numbers ref_octets n (acc @ [AsNum (ucast (a :: u16))]) c1 = Ok (vs, c')"
    by (auto simp: bindO_eq_Ok)
  from Suc.IH [OF this] Suc.prems(2) show ?case by auto
qed simp

lemma AsPathSegment_decode_typed:
  assumes "AsPathSegment_decode ref_octets c len = Ok (s, c')"
  shows "value_wf four 2 len (AttrAsPath s)"
proof -
  from assms obtain n c1 where "as_numbers ref_octets n [] c1 = Ok (segment_value s, c')"
    by (auto simp: AsPathSegment_decode_def bindO_eq_Ok err_update_def split: if_splits)
  from as_numbers_typed [OF this] AsPathSegment_decode_Ok(3,4) [OF assms] show ?thesis by simp
qed

lemma aggregator_as_typed:
  "aggregator_as_decode ref_octets four c = Ok (n, c') \<Longrightarrow> four \<or> unat n < 65536"
  by (auto simp: aggregator_as_decode_def bindO_eq_Ok split: if_splits)

lemma PathAttributeValue_decode_typed:
  assumes "PathAttributeValue_decode ref_octets c peer attr = Ok (v, c')"
  shows "value_wf (four_octet_as_cap (opt_params peer) \<noteq> None) (attr_type_code attr) (attr_len attr) v"
  using assms
  by (auto simp: PathAttributeValue_decode_def Let_def bindO_eq_Ok Origin_decode_def err_update_def
      Aggregator_decode_def ref_get_bytes_Some dest!: AsPathSegment_decode_typed aggregator_as_typed
      split: if_splits)

lemma attr_length_typed:
  "attr_length_decode ref_octets ext c = Ok (n, c') \<Longrightarrow> ext \<or> unat n < 256"
  by (auto simp: attr_length_decode_def bindO_eq_Ok split: if_splits)

lemma PathAttribute_decode_typed:
  assumes "PathAttribute_decode ref_octets peer c = Ok (a, c')"
  shows "attr_wf (four_octet_as_cap (opt_params peer) \<noteq> None) a"
  using assms
  by (auto simp: PathAttribute_decode_def attr_wf_def bindO_eq_Ok Let_def
      dest!: PathAttributeValue_decode_typed attr_length_typed)

text \<open>A well-formed attribute laid out is decoded to itself.\<close>

lemma be16_read:
  assumes "rem c = be16_bytes w @ rest"
  shows "ref_get_u16 c = Some (w, adv c 2)"
proof -
  obtain a b where "be16_bytes w = [a, b]" and "be16 a b = w" by (rule be16_bytes_cases)
  with assms show ?thesis by simp
qed

lemma be32_read:
  assumes "rem c = be32_bytes w @ rest"
  shows "ref_get_u32 c = Some (w, adv c 4)"
proof -
  obtain a b d e where "be32_bytes w = [a, b, d, e]" and "be32 a b d e = w" by (rule be32_bytes_cases)
  with assms show ?thesis by simp
qed

lemma ipv4_read: "rem c = ipv4_octets a @ rest \<Longrightarrow> ipv4_decode ref_octets c = Ok (a, adv c 4)"
  by (cases a) (simp add: ipv4_decode_ref)

lemma ucast_u16_back:
  assumes "unat (n :: u32) < 65536"
  shows "ucast (ucast n :: u16) = n"
proof (rule word_unat_eq_iff [THEN iffD2])
  have "unat (ucast n :: u16) = unat n" using unat_of_nat_u16 [OF assms] by simp
  then show "unat (ucast (ucast n :: u16) :: u32) = unat n" by simp
qed

lemma ucast_u8_back:
  assumes "unat (n :: u16) < 256"
  shows "ucast (ucast n :: u8) = n"
proof (rule word_unat_eq_iff [THEN iffD2])
  have "unat (ucast n :: u8) = unat n" using unat_of_nat_u8 [OF assms] by simp
  then show "unat (ucast (ucast n :: u8) :: u16) = unat n" by simp
qed

lemma length_ipv4_octets [simp]: "length (ipv4_octets a) = 4"
  by (cases a) simp

lemma length_asnums [simp]: "length (concat (map asnum_octets vs)) = 2 * length vs"
proof (induction vs)
  case (Cons v vs)
  then show ?case by (cases v) simp
qed simp

lemma as_numbers_round:
  "rem c = concat (map asnum_octets vs) @ rest \<Longrightarrow> \<forall>n \<in> set vs. two_octets n \<Longrightarrow>
     as_numbers ref_octets (length vs) acc c = Ok (acc @ vs, adv c (2 * length vs))"
proof (induction vs arbitrary: acc c)
  case (Cons v vs)
  obtain n where v: "v = AsNum n" by (cases v)
  with Cons.prems have "ref_get_u16 c = Some (ucast n, adv c 2)" and n: "unat n < 65536"
    by (auto intro: be16_read)
  with Cons.IH [of "adv c 2" "acc @ [v]"] Cons.prems v ucast_u16_back [OF n] show ?case by simp
qed simp

lemma AsPathSegment_decode_round:
  assumes "value_wf four 2 len (AttrAsPath s)" and "rem c = value_octets four (AttrAsPath s) @ rest"
  shows "AsPathSegment_decode ref_octets c len = Ok (s, adv c (unat len))"
proof -
  obtain t n vs where s: "s = \<lparr>segment_type = t, segment_length = n, segment_value = vs\<rparr>" by (cases s)
  with assms have r: "rem c = segment_octet t # n # concat (map asnum_octets vs) @ rest"
    and l: "unat len = 2 * length vs + 2" "length vs = unat n" "\<forall>n \<in> set vs. two_octets n"
    by simp_all
  from l(1,2) unat_as_path_length [of n] have len: "(ucast n :: u16) * 2 + 2 = len"
    by (intro word_unat_eq_iff [THEN iffD2]) simp
  have "rem (adv c 2) = concat (map asnum_octets vs) @ rest" using r by simp
  from as_numbers_round [OF this l(3), of "[]"] l(2)
  have v: "as_numbers ref_octets (unat n) [] (adv c 2) = Ok (vs, adv c (2 + 2 * length vs))" by simp
  have g: "ref_get_u8 (adv c 1) = Some (n, adv c 2)" using r by simp
  have t: "AsPathSegmentType_decode ref_octets c = Ok (t, adv c 1)"
    using r by (cases t) (simp_all add: AsPathSegmentType_decode_def)
  show ?thesis
    by (simp add: AsPathSegment_decode_def t g len v s l(1) del: One_nat_def)
qed

lemma PathAttributeValue_decode_round:
  assumes "value_wf (four_octet_as_cap (opt_params peer) \<noteq> None) (attr_type_code attr) (attr_len attr) v"
    and "rem c = value_octets (four_octet_as_cap (opt_params peer) \<noteq> None) v @ rest"
  shows "PathAttributeValue_decode ref_octets c peer attr =
    Ok (v, adv c (length (value_octets (four_octet_as_cap (opt_params peer) \<noteq> None) v)))"
proof (cases v)
  case (AttrOrigin x)
  with assms show ?thesis
    by (cases x) (simp_all add: PathAttributeValue_decode_def Origin_decode_def)
next
  case (AttrAsPath s)
  with assms AsPathSegment_decode_round [of _ "attr_len attr" s c rest] show ?thesis
    by (simp add: PathAttributeValue_decode_def)
next
  case (AttrNextHop a)
  with assms ipv4_read [of c a rest] show ?thesis by (simp add: PathAttributeValue_decode_def)
next
  case (AttrMultiExitDisc n)
  with assms be32_read [of c n rest] show ?thesis by (simp add: PathAttributeValue_decode_def)
next
  case (AttrLocalPref n)
  with assms be32_read [of c n rest] show ?thesis by (simp add: PathAttributeValue_decode_def)
next
  case (AttrAtomicAggregate b)
  with assms show ?thesis by (simp add: PathAttributeValue_decode_def)
next
  case (AttrAggregator g)
  obtain n a where g: "g = \<lparr>aggr_as_num = n, aggr_ip_addr = a\<rparr>" by (cases g)
  show ?thesis
  proof (cases "four_octet_as_cap (opt_params peer) \<noteq> None")
    case True
    with assms(2) AttrAggregator g have "rem c = be32_bytes n @ ipv4_octets a @ rest" by simp
    with be32_read [OF this] ipv4_read [of "adv c 4" a rest] AttrAggregator g assms(1) True show ?thesis
      by (simp add: PathAttributeValue_decode_def Aggregator_decode_def aggregator_as_decode_def)
  next
    case False
    with assms(2) AttrAggregator g have "rem c = be16_bytes (ucast n) @ ipv4_octets a @ rest" by simp
    with be16_read [OF this] ipv4_read [of "adv c 2" a rest] AttrAggregator g assms(1) False
    show ?thesis
      by (simp add: PathAttributeValue_decode_def Aggregator_decode_def aggregator_as_decode_def ucast_u16_back)
  qed
next
  case (AttrUnknown bs)
  with assms show ?thesis
    by (auto simp: PathAttributeValue_decode_def ref_get_bytes_def Let_def)
qed

lemma attr_length_round:
  assumes "ext \<or> unat len < 256"
    and "rem c = (if ext then be16_bytes len else [word_of_nat (unat len)]) @ rest"
  shows "attr_length_decode ref_octets ext c = Ok (len, adv c (if ext then 2 else 1))"
  using assms be16_read [of c len rest] by (auto simp: attr_length_decode_def ucast_u8_back)

lemma PathAttribute_decode_round:
  assumes "attr_wf (four_octet_as_cap (opt_params peer) \<noteq> None) a"
    and "rem c = attr_octets (four_octet_as_cap (opt_params peer) \<noteq> None) a @ rest"
  shows "PathAttribute_decode ref_octets peer c =
    Ok (a, adv c (length (attr_octets (four_octet_as_cap (opt_params peer) \<noteq> None) a)))"
proof -
  define four where four: "four = (four_octet_as_cap (opt_params peer) \<noteq> None)"
  note assms = assms [folded four]
  obtain f code len v where a: "a = \<lparr>attr_flags = f, attr_type_code = code, attr_len = len, attr_value = v\<rparr>"
    by (cases a)
  let ?ext = "flag_extended_length f"
  let ?lens = "if ?ext then be16_bytes len else [word_of_nat (unat len)]"
  have r: "rem c = flags_octet f # code # ?lens @ value_octets four v @ rest"
    using assms(2) a by (simp add: attr_octets_def)
  have wf: "?ext \<or> unat len < 256" "value_wf four code len v"
    using assms(1) a by (simp_all add: attr_wf_def)
  have f: "PathAttributeFlags_decode ref_octets c = Ok (f, adv c 1)"
    using r by (simp add: PathAttributeFlags_decode_def)
  have g: "ref_get_u8 (adv c 1) = Some (code, adv c 2)" using r by simp
  have "rem (adv c 2) = ?lens @ value_octets four v @ rest" using r by simp
  note l = attr_length_round [OF wf(1) this]
  have "rem (adv c (2 + (if ?ext then 2 else 1))) = value_octets four v @ rest" using r by simp
  from PathAttributeValue_decode_round [of peer, folded four, OF _ this] wf(2)
  have v: "PathAttributeValue_decode ref_octets (adv c (2 + (if ?ext then 2 else 1))) peer
      \<lparr>attr_flags = f, attr_type_code = code, attr_len = len, attr_value = AttrUnknown []\<rparr>
      = Ok (v, adv c (2 + (if ?ext then 2 else 1) + length (value_octets four v)))" by simp
  have n: "length (attr_octets four a) = 2 + (if ?ext then 2 else 1) + length (value_octets four v)"
    by (simp add: attr_octets_def a)
  show ?thesis
    unfolding PathAttribute_decode_def n four [symmetric]
    by (simp add: f g l v a Let_def split del: if_split del: One_nat_def add_2_eq_Suc add_2_eq_Suc')
qed

section \<open>Announced prefixes\<close>

text \<open>
  The decoder keeps of an announced prefix its first length octet and the address, so an item to
  lay out is the first length with the prefix the second one belongs to.
\<close>

fun nlri_octets :: "u8 \<times> Cidr \<Rightarrow> u8 list" where
  "nlri_octets (len, p) = len # cidr_octets p"

fun nlri_value :: "u8 \<times> Cidr \<Rightarrow> u8 \<times> IpAddr" where
  "nlri_value (len, p) = (len, cidr_prefix p)"

lemma nlri_item_decode_typed:
  assumes "nlri_item_decode chk ref_octets c = Ok (x, c')"
  shows "\<exists>p. (cidr_wf p \<or> \<not> chk \<and> cidr_wrapped p) \<and> snd x = cidr_prefix p"
  using assms by (auto simp: nlri_item_decode_def bindO_eq_Ok dest!: Cidr_decode_typed)

lemma nlri_item_decode_round:
  assumes "cidr_wf (snd x)" and "rem c = nlri_octets x @ rest"
  shows "nlri_item_decode chk ref_octets c = Ok (nlri_value x, adv c (length (nlri_octets x)))"
proof -
  obtain len p where x: "x = (len, p)" by force
  with assms have "rem (adv c 1) = cidr_octets p @ rest" and "cidr_wf p" by simp_all
  from Cidr_decode_round [OF this(2,1)] assms(2) x show ?thesis
    by (simp add: nlri_item_decode_def del: One_nat_def)
qed

section \<open>The message\<close>

definition update_wf :: "bool \<Rightarrow> bool \<Rightarrow> UpdateMsg \<Rightarrow> bool" where
  "update_wf chk four u \<longleftrightarrow>
     (\<forall>p \<in> set (withdrawn_routes u). cidr_wf p \<or> \<not> chk \<and> cidr_wrapped p) \<and>
     (\<forall>a \<in> set (path_attributes u). attr_wf four a) \<and>
     (\<forall>x \<in> set (nlri u). \<exists>p. (cidr_wf p \<or> \<not> chk \<and> cidr_wrapped p) \<and> snd x = cidr_prefix p)"

lemma ref_update_typed:
  assumes "UpdateMsg_decode chk ref_octets peer c = Some (Ok (u, c'))"
  shows "update_wf chk (four_octet_as_cap (opt_params peer) \<noteq> None) u"
proof -
  from assms obtain w1 ws c1 a1 as c2 c3 ns c4 where
    w: "decode_while ref_octets (Cidr_decode chk ref_octets) [] w1 = Some (Ok (ws, c1))"
    and a: "decode_while ref_octets (PathAttribute_decode ref_octets peer) [] a1 = Some (Ok (as, c2))"
    and n: "decode_while ref_octets (nlri_item_decode chk ref_octets) [] c3 = Some (Ok (ns, c4))"
    and u: "u = \<lparr>withdrawn_routes = ws, path_attributes = as, nlri = ns\<rparr>"
    by (auto simp: UpdateMsg_decode_def bindL_eq_Ok split: if_splits)
  have "\<forall>p \<in> set ws. cidr_wf p \<or> \<not> chk \<and> cidr_wrapped p"
    by (rule cidr.loop_typed [OF _ w]) (auto dest: Cidr_decode_typed)
  moreover have "\<forall>x \<in> set as. attr_wf (four_octet_as_cap (opt_params peer) \<noteq> None) x"
    by (rule path_attr.loop_typed [OF _ a]) (auto dest: PathAttribute_decode_typed)
  moreover have "\<forall>x \<in> set ns. \<exists>p. (cidr_wf p \<or> \<not> chk \<and> cidr_wrapped p) \<and> snd x = cidr_prefix p"
    by (rule nlri_item.loop_typed [OF _ n]) (auto dest: nlri_item_decode_typed)
  ultimately show ?thesis by (simp add: update_wf_def u)
qed

definition update_octets :: "bool \<Rightarrow> Cidr list \<Rightarrow> PathAttribute list \<Rightarrow> (u8 \<times> Cidr) list \<Rightarrow> u8 list" where
  "update_octets four ws as ns =
     (let w = concat (map cidr_octets ws); a = concat (map (attr_octets four) as)
      in be16_bytes (word_of_nat (length w)) @ w @ be16_bytes (word_of_nat (length a)) @ a @
         concat (map nlri_octets ns))"

lemma prefixed_read:
  assumes "length xs < 65536" and "rem c = be16_bytes (word_of_nat (length xs)) @ xs @ rest"
  shows "ref_get_bytes_with_u16_length c = Some (Cursor xs 0, adv c (2 + length xs))"
proof -
  have "rem (adv c 2) = xs @ rest" using assms(2) by simp
  with be16_read [OF assms(2)] unat_of_nat_u16 [OF assms(1)] show ?thesis
    by (simp add: ref_get_bytes_with_u16_length_def ref_get_bytes_def)
qed

lemma ref_update_round:
  assumes "\<forall>p \<in> set ws. cidr_wf p" and "\<forall>x \<in> set ns. cidr_wf (snd x)"
    and "\<forall>a \<in> set as. attr_wf (four_octet_as_cap (opt_params peer) \<noteq> None) a"
    and "length (concat (map cidr_octets ws)) < 65536"
    and "length (concat (map (attr_octets (four_octet_as_cap (opt_params peer) \<noteq> None)) as)) < 65536"
    and "rem c = update_octets (four_octet_as_cap (opt_params peer) \<noteq> None) ws as ns"
  shows "UpdateMsg_decode chk ref_octets peer c =
    Some (Ok (\<lparr>withdrawn_routes = ws, path_attributes = as, nlri = map nlri_value ns\<rparr>, adv c (length (rem c))))"
proof -
  define four where four: "four = (four_octet_as_cap (opt_params peer) \<noteq> None)"
  note assms = assms [folded four]
  let ?w = "concat (map cidr_octets ws)" and ?a = "concat (map (attr_octets four) as)"
  let ?n = "concat (map nlri_octets ns)"
  have r: "rem c = be16_bytes (word_of_nat (length ?w)) @ ?w @
      be16_bytes (word_of_nat (length ?a)) @ ?a @ ?n"
    using assms(6) by (simp add: update_octets_def Let_def)
  define c1 where c1: "c1 = adv c (2 + length ?w)"
  define c2 where c2: "c2 = adv c1 (2 + length ?a)"
  have w: "ref_get_bytes_with_u16_length c = Some (Cursor ?w 0, c1)"
    unfolding c1 by (rule prefixed_read [OF assms(4) r])
  have r1: "rem c1 = be16_bytes (word_of_nat (length ?a)) @ ?a @ ?n"
    using r by (simp add: c1)
  have a: "ref_get_bytes_with_u16_length c1 = Some (Cursor ?a 0, c2)"
    unfolding c2 by (rule prefixed_read [OF assms(5) r1])
  have r2: "rem c2 = ?n" using r1 by (simp add: c2)
  have lw: "decode_while ref_octets (Cidr_decode chk ref_octets) [] (Cursor ?w 0)
      = Some (Ok ([] @ map (\<lambda>p. p) ws, adv (Cursor ?w 0) (length ?w)))"
    by (rule cidr.loop_round [where enc = cidr_octets])
      (use assms(1) in \<open>auto intro: Cidr_decode_round\<close>)
  have la: "decode_while ref_octets (PathAttribute_decode ref_octets peer) [] (Cursor ?a 0)
      = Some (Ok ([] @ map (\<lambda>a. a) as, adv (Cursor ?a 0) (length ?a)))"
    by (rule path_attr.loop_round [where enc = "attr_octets four"])
      (use assms(3) in \<open>auto intro: PathAttribute_decode_round [of peer, folded four]\<close>)
  have ln: "decode_while ref_octets (nlri_item_decode chk ref_octets) [] c2
      = Some (Ok ([] @ map nlri_value ns, adv c2 (length ?n)))"
    by (rule nlri_item.loop_round [where enc = nlri_octets, OF _ r2])
      (use assms(2) in \<open>auto intro: nlri_item_decode_round\<close>)
  have "adv c2 (length ?n) = adv c (length (rem c))" unfolding r by (simp add: c1 c2)
  with ln r2 show ?thesis by (simp add: UpdateMsg_decode_def w a lw la)
qed

end
