(* ===== verification/Codec_Facts.thy ===== *)
theory Codec_Facts
  imports Message_Codec Update_Layout
begin

text \<open>
  What \<^verbatim>\<open>Message::decode\<close> does with a receive buffer: one equation for a buffer that starts
  with a valid header, and from it what is consumed, when more octets are asked for, and that
  every error leaves the octets where they were.
\<close>

section \<open>What the body decoders take\<close>

lemma OpenMsg_decode_Ok:
  assumes "OpenMsg_decode ref_octets c = Ok (m, c')"
  shows "c' = adv c (20 + unat (opt_params_len m) * param_size (ext_opt_param m))"
    and "20 + unat (opt_params_len m) * param_size (ext_opt_param m) \<le> length (rem c)"
    and "version m = 4"
    and "open_hold_time m = 0 \<or> 3 \<le> unat (open_hold_time m)"
    and "ipv4_bits (bgp_identifier m) \<noteq> 0" and "ipv4_bits (bgp_identifier m) \<noteq> 4294967295"
    and "unat (as_number m) < 65536"
proof -
  from assms obtain ver asn hold ident n ext params c1 ys1 a b zs where
    0: "c1 = adv c 20" and 1: "ver = 4"
    and 2: "\<not> (hold \<noteq> 0 \<and> hold < 3)" and 3: "\<not> (ident = 0 \<or> ident = 4294967295)"
    and d: "drop 18 (rem c) = a # b # zs"
    and p: "OptParams_decode ref_octets n ext c1 = Ok (params, c')"
    and m: "m = \<lparr>version = ver, as_number = ucast (asn :: u16), open_hold_time = hold,
          bgp_identifier = ipv4_from_be ident, ext_opt_param = ext, opt_params_len = n,
          opt_params = params\<rparr>"
    by (auto simp: OpenMsg_decode_def bindO_eq_Ok ref_read_Some Let_def split: if_splits prod.splits)
  have l: "20 \<le> length (rem c)"
    using arg_cong [OF d, of length] by simp
  from OptParams_loop_Ok [OF p [unfolded OptParams_decode_def]] 0 m l
  show "c' = adv c (20 + unat (opt_params_len m) * param_size (ext_opt_param m))"
    and "20 + unat (opt_params_len m) * param_size (ext_opt_param m) \<le> length (rem c)"
    by auto
  show "version m = 4" using 1 m by simp
  show "open_hold_time m = 0 \<or> 3 \<le> unat (open_hold_time m)"
    using 2 m by (auto simp: word_less_nat_alt)
  show "ipv4_bits (bgp_identifier m) \<noteq> 0" "ipv4_bits (bgp_identifier m) \<noteq> 4294967295"
    using 3 m by simp_all
  have "unat (as_number m) = unat asn" using m by simp
  then show "unat (as_number m) < 65536" by simp
qed

lemma ipv4_bits_extremes: "ipv4_bits (Ipv4Addr 0 0 0 0) = 0" "ipv4_bits (Ipv4Addr 255 255 255 255) = 4294967295"
  by (simp_all add: be32_def)

text \<open>The octets of an OPEN as the decoder reads them: the unused fields of the diagram are skipped.\<close>

definition open_octets :: "u16 \<Rightarrow> u16 \<Rightarrow> u32 \<Rightarrow> u8 list \<Rightarrow> capability list \<Rightarrow> u8 list" where
  "open_octets asn hold ident pad caps =
     [4] @ take 3 pad @ be16_bytes asn @ take 2 pad @ be16_bytes hold @ take 2 pad @ be32_bytes ident @
     [word_of_nat (length caps), 0, 0, 0] @ concat (map (capability_bytes False) caps)"

lemma open_octets_decode:
  assumes c: "rem c = open_octets asn hold ident pad caps @ rest" and pad: "length pad = 3"
    and n: "length caps < 256" and hold: "hold = 0 \<or> 3 \<le> hold" and ident: "ident \<notin> {0, 4294967295}"
  shows "OpenMsg_decode ref_octets c =
    Ok (\<lparr>version = 4, as_number = ucast asn, open_hold_time = hold, bgp_identifier = ipv4_from_be ident,
         ext_opt_param = False, opt_params_len = word_of_nat (length caps),
         opt_params = fold add_capability caps \<lparr>mp_ext_caps = None, four_octet_as_cap = None\<rparr>\<rparr>,
       adv c (length (open_octets asn hold ident pad caps)))"
proof -
  obtain p q r where p: "pad = [p, q, r]"
    using pad by (auto simp: numeral_3_eq_3 length_Suc_conv)
  have len: "length (concat (map (capability_bytes False) caps)) = length caps * 6"
    by (induction caps) (simp_all add: param_size_def)
  have u: "unat (ucast (word_of_nat (length caps) :: u8) :: u16) = length caps"
    using n by (simp add: unat_of_nat_u8)
  have w: "ucast (word_of_nat (length caps) :: u8) = (word_of_nat (length caps) :: u16)"
    using u n by (intro word_unat_eq_iff [THEN iffD2]) (simp add: unat_of_nat_u16)
  have h: "\<not> (hold \<noteq> 0 \<and> hold < 3)" using hold by auto
  obtain a1 a2 where a: "be16_bytes asn = [a1, a2]" "be16 a1 a2 = asn" by (rule be16_bytes_cases)
  obtain h1 h2 where hb: "be16_bytes hold = [h1, h2]" "be16 h1 h2 = hold" by (rule be16_bytes_cases)
  obtain i1 i2 i3 i4 where i: "be32_bytes ident = [i1, i2, i3, i4]" "be32 i1 i2 i3 i4 = ident"
    by (rule be32_bytes_cases)
  let ?n = "word_of_nat (length caps) :: u8" and ?caps = "concat (map (capability_bytes False) caps)"
  have r: "rem c = [4, p, q, r, a1, a2, p, q, h1, h2, p, q, i1, i2, i3, i4, ?n, 0, 0, 0] @ ?caps @ rest"
    by (simp add: c open_octets_def p a hb i)
  then have "rem (adv c 20) = ?caps @ rest" by simp
  from OptParams_loop_bytes [OF this]
  have o: "OptParams_decode ref_octets (ucast ?n) False (adv c 20)
      = Ok (fold add_capability caps \<lparr>mp_ext_caps = None, four_octet_as_cap = None\<rparr>, adv c (20 + length caps * 6))"
    using u by (simp add: OptParams_decode_def param_size_def)
  have l: "length (open_octets asn hold ident pad caps) = 20 + length caps * 6"
    by (simp add: open_octets_def p len)
  from h ident show ?thesis
    unfolding l by (simp add: OpenMsg_decode_def r ref_skip_def a hb i o [unfolded w] w)
qed

lemma length_open_octets:
  "length pad = 3 \<Longrightarrow> length (open_octets asn hold ident pad caps) = 20 + length caps * 6"
proof -
  have "length (concat (map (capability_bytes False) caps)) = length caps * 6"
    by (induction caps) (simp_all add: param_size_def)
  then show "length pad = 3 \<Longrightarrow> ?thesis" by (simp add: open_octets_def)
qed

lemma NotificationMsg_decode_ref:
  "NotificationMsg_decode ref_octets c =
     (case rem c of
        code # subcode # rest \<Rightarrow>
          Ok (\<lparr>error_code = code, error_subcode = subcode, notification_data = Some rest\<rparr>,
              adv c (length (rem c)))
      | _ \<Rightarrow> Err from_BufferTooShortError)"
  by (auto simp: NotificationMsg_decode_def ref_get_u8_def ref_get_bytes_def split: list.splits)

lemma OpenMsg_decode_not_Panicked [simp]: "OpenMsg_decode ref_octets c \<noteq> Panicked q"
  by (auto simp: OpenMsg_decode_def OptParams_decode_def bindO_eq_Panicked Let_def
      split: if_splits prod.splits)

lemma body_decode_Ok:
  assumes "body_decode chk ref_octets peer t c = Some (Ok (msg, c'))"
  shows "\<exists>n. c' = adv c n \<and> n \<le> length (rem c)"
proof (cases t)
  case TypeOpen
  with assms obtain m where "OpenMsg_decode ref_octets c = Ok (m, c')"
    by (auto simp: body_decode_def bindO_eq_Ok)
  from OpenMsg_decode_Ok(1,2) [OF this] show ?thesis by blast
next
  case TypeUpdate
  with assms obtain u p where "UpdateMsg_decode chk ref_octets p c = Some (Ok (u, c'))"
    by (auto simp: body_decode_def bindL_eq_Ok split: option.splits)
  from ref_update_consumes [OF this] show ?thesis by blast
next
  case TypeNotification
  with assms show ?thesis
    by (auto simp: body_decode_def bindO_eq_Ok NotificationMsg_decode_ref split: list.splits)
next
  case TypeKeepalive
  with assms have "c' = adv c 0" by (simp add: body_decode_def KeepaliveMsg_decode_def)
  then show ?thesis by blast
qed

lemma body_decode_returns: "body_decode chk ref_octets peer t c \<noteq> None"
proof
  assume "body_decode chk ref_octets peer t c = None"
  then show False
    by (cases t)
      (auto simp: body_decode_def bindL_eq_None ref_update_returns split: option.splits)
qed

lemma body_decode_panics:
  assumes "body_decode chk ref_octets peer t c = Some (Panicked p)"
  shows "t = TypeUpdate \<and> peer \<noteq> None \<and> (\<exists>a \<in> set (rem c). 128 < unat a)"
proof (cases t)
  case TypeUpdate
  with assms show ?thesis
    by (auto simp: body_decode_def bindL_eq_Panicked err_header_def dest: ref_update_panics
        split: option.splits)
qed (use assms in \<open>auto simp: body_decode_def bindO_eq_Panicked KeepaliveMsg_decode_def
      NotificationMsg_decode_ref split: list.splits\<close>)

section \<open>Decoding from the receive buffer\<close>

definition ref_decode :: "bool \<Rightarrow> u8 list \<Rightarrow> OpenMsg option \<Rightarrow> (Message Result \<times> u8 list) option" where
  "ref_decode chk bs peer = Message_decode chk ref_octets ref_bytes bs peer"

lemma ref_decode_short:
  "length bs < 19 \<Longrightarrow> ref_decode chk bs peer = Some (Err from_BufferTooShortError, bs)"
  by (simp add: ref_decode_def Message_decode_def MIN_MSG_LEN_def err_local_def)

lemma ref_decode_header:
  assumes bs: "bs = header_bytes h @ rest"
    and ok: "header_length_ok (hdr_type h) (unat (hdr_length h))"
  shows "ref_decode chk bs peer =
    (if length rest < unat (hdr_length h) then Some (Err from_BufferTooShortError, bs)
     else (case body_decode chk ref_octets peer (hdr_type h)
                  (Cursor (take (unat (hdr_length h)) rest) 0) of
       None \<Rightarrow> None
     | Some (Err e) \<Rightarrow> Some (Err e, bs)
     | Some (Panicked p) \<Rightarrow> Some (Panicked p, bs)
     | Some (Ok (msg, c)) \<Rightarrow> Some (Ok msg, drop (cur_off c + 19) bs)))"
proof -
  have h: "MessageHeader_decode ref_octets (Cursor bs 0) = Ok (h, adv (Cursor bs 0) 19)"
    using ok bs by (simp add: ref_header_decode_Ok)
  have rest: "drop 19 bs = rest" using bs by simp
  have off: "cur_off c + 19 \<le> length bs"
    if "body_decode chk ref_octets peer (hdr_type h) (Cursor (take (unat (hdr_length h)) rest) 0)
      = Some (Ok (msg, c))" and "\<not> length rest < unat (hdr_length h)" for msg c
    using body_decode_Ok [OF that(1)] that(2) bs by auto
  show ?thesis
    using h rest off bs
    by (auto simp: ref_decode_def Message_decode_def MIN_MSG_LEN_def err_local_def
        ref_get_bytes_def split: option.splits outcome.splits)
qed

lemma ref_decode_bad_header:
  assumes "19 \<le> length bs" and "MessageHeader_decode ref_octets (Cursor bs 0) = Err e"
  shows "ref_decode chk bs peer = Some (Err e, bs)"
  using assms by (simp add: ref_decode_def Message_decode_def MIN_MSG_LEN_def)

text \<open>The marker is sixteen octets of value 1 in the source; any others lose the connection's synchronization.\<close>

lemma header_decode_bad_marker:
  assumes "19 \<le> length bs" and "take 16 bs \<noteq> replicate 16 1"
  shows "MessageHeader_decode ref_octets (Cursor bs 0) = Err (new_header ConnectionNotSync None)"
  using assms by (simp add: MessageHeader_decode_def ref_get_bytes_def MARKER_def MARKER_LEN_def err_header_def)

lemma header_decode_not_Panicked [simp]: "MessageHeader_decode ref_octets c \<noteq> Panicked p"
  by (auto simp: MessageHeader_decode_def MsgType_from_u8_def check_length_outcome
      bindO_eq_Panicked split: if_splits)

lemma ref_decode_cases:
  obtains "length bs < 19" "ref_decode chk bs peer = Some (Err from_BufferTooShortError, bs)"
  | e where "19 \<le> length bs" "MessageHeader_decode ref_octets (Cursor bs 0) = Err e"
      "ref_decode chk bs peer = Some (Err e, bs)"
  | h rest where "bs = header_bytes h @ rest"
      "header_length_ok (hdr_type h) (unat (hdr_length h))"
proof (cases "length bs < 19")
  case True
  with that(1) show thesis using ref_decode_short by blast
next
  case False
  show thesis
  proof (cases "MessageHeader_decode ref_octets (Cursor bs 0)")
    case (Ok r)
    then obtain h c' where "MessageHeader_decode ref_octets (Cursor bs 0) = Ok (h, c')"
      by (cases r) auto
    then show thesis using that(3) by (auto simp: ref_header_decode_Ok)
  next
    case (Err e)
    with False that(2) show thesis using ref_decode_bad_header by (meson not_less)
  qed simp
qed

lemma ref_decode_returns: "ref_decode chk bs peer \<noteq> None"
proof (cases rule: ref_decode_cases [of bs chk peer])
  case (3 h rest)
  then show ?thesis
    using body_decode_returns [of chk peer "hdr_type h" "Cursor (take (unat (hdr_length h)) rest) 0"]
    by (auto simp: ref_decode_header split: outcome.splits)
qed simp_all

lemma ref_decode_error_keeps:
  assumes "ref_decode chk bs peer = Some (r, bs')" and "\<And>msg. r \<noteq> Ok msg"
  shows "bs' = bs"
proof (cases rule: ref_decode_cases [of bs chk peer])
  case (3 h rest)
  then show ?thesis
    using assms by (auto simp: ref_decode_header split: option.splits outcome.splits if_splits)
qed (use assms in simp_all)

lemma ref_decode_Ok:
  assumes "ref_decode chk bs peer = Some (Ok msg, bs')"
  obtains h rest n where "bs = header_bytes h @ rest"
    and "header_length_ok (hdr_type h) (unat (hdr_length h))"
    and "unat (hdr_length h) \<le> length rest" and "n \<le> unat (hdr_length h)"
    and "bs' = drop n rest"
proof (cases rule: ref_decode_cases [of bs chk peer])
  case (3 h rest)
  with assms obtain c where le: "unat (hdr_length h) \<le> length rest"
    and b: "body_decode chk ref_octets peer (hdr_type h) (Cursor (take (unat (hdr_length h)) rest) 0)
      = Some (Ok (msg, c))" and bs': "bs' = drop (cur_off c + 19) bs"
    by (auto simp: ref_decode_header split: option.splits outcome.splits if_splits)
  from body_decode_Ok [OF b] le have "cur_off c \<le> unat (hdr_length h)" by auto
  moreover have "bs' = drop (cur_off c) rest" using bs' 3 by simp
  ultimately show thesis using that 3 le by blast
qed (use assms in simp_all)

lemma ref_decode_open:
  assumes "ref_decode chk bs peer = Some (Ok (MsgOpen m), bs')"
  shows "unat (as_number m) < 65536"
proof (cases rule: ref_decode_cases [of bs chk peer])
  case (3 h rest)
  with assms obtain c where
    "body_decode chk ref_octets peer (hdr_type h) (Cursor (take (unat (hdr_length h)) rest) 0)
      = Some (Ok (MsgOpen m, c))"
    by (auto simp: ref_decode_header split: option.splits outcome.splits if_splits)
  then obtain c0 where "OpenMsg_decode ref_octets c0 = Ok (m, c)"
    by (cases "hdr_type h")
      (auto simp: body_decode_def bindO_eq_Ok bindL_eq_Ok err_header_def split: option.splits)
  then show ?thesis by (rule OpenMsg_decode_Ok(7))
qed (use assms in simp_all)

lemma ref_decode_panics:
  assumes "ref_decode chk bs peer = Some (Panicked p, bs')"
  shows "\<exists>h rest. bs = header_bytes h @ rest \<and> hdr_type h = TypeUpdate \<and> peer \<noteq> None \<and>
    (\<exists>a \<in> set rest. 128 < unat a)"
proof (cases rule: ref_decode_cases [of bs chk peer])
  case (3 h rest)
  with assms have "body_decode chk ref_octets peer (hdr_type h) (Cursor (take (unat (hdr_length h)) rest) 0)
      = Some (Panicked p)"
    by (auto simp: ref_decode_header split: option.splits outcome.splits if_splits)
  from body_decode_panics [OF this] 3(1) show ?thesis by (auto dest: in_set_takeD)
qed (use assms in simp_all)

lemma ref_decode_keepalive:
  assumes "bs = header_bytes \<lparr>hdr_length = 19, hdr_type = TypeKeepalive\<rparr> @ rest" and "19 \<le> length rest"
  shows "ref_decode chk bs peer = Some (Ok (MsgKeepalive KeepaliveMsg), rest)"
  using assms
  by (simp add: ref_decode_header body_decode_def KeepaliveMsg_decode_def)

lemma ref_decode_notification:
  assumes bs: "bs = header_bytes \<lparr>hdr_length = len, hdr_type = TypeNotification\<rparr>
      @ [code, subcode] @ data @ next_octets"
    and len: "unat len = 21 + length data" and "19 \<le> length next_octets"
  shows "ref_decode chk bs peer =
    Some (Ok (MsgNotification \<lparr>error_code = code, error_subcode = subcode,
                notification_data = Some (data @ take 19 next_octets)\<rparr>), drop 19 next_octets)"
proof -
  let ?rest = "[code, subcode] @ data @ next_octets"
  have t: "take (unat len) ?rest = code # subcode # data @ take 19 next_octets"
    using len by (simp add: add.commute [of 21] eval_nat_numeral)
  have d: "drop (40 + length data) bs = drop 19 next_octets"
    using bs by (simp add: eval_nat_numeral)
  have c: "body_decode chk ref_octets peer TypeNotification (Cursor (take (unat len) ?rest) 0)
      = Some (Ok (MsgNotification \<lparr>error_code = code, error_subcode = subcode,
                notification_data = Some (data @ take 19 next_octets)\<rparr>,
              adv (Cursor (take (unat len) ?rest) 0) (length data + 21)))"
    using assms(3) unfolding t by (simp add: body_decode_def NotificationMsg_decode_ref)
  from ref_decode_header [OF bs, of chk peer] show ?thesis
    using len assms(3) c d by simp
qed

lemma ref_decode_update:
  assumes bs: "bs = header_bytes \<lparr>hdr_length = len, hdr_type = TypeUpdate\<rparr> @ update_octets four ws as ns @ rest"
    and four: "four = (four_octet_as_cap (opt_params p) \<noteq> None)"
    and wf: "\<forall>x \<in> set ws. cidr_wf x" "\<forall>a \<in> set as. attr_wf four a" "\<forall>x \<in> set ns. cidr_wf (snd x)"
    and len: "unat len = length (update_octets four ws as ns)" "23 \<le> unat len"
  shows "ref_decode chk bs (Some p) = Some (Ok (MsgUpdate
      \<lparr>withdrawn_routes = ws, path_attributes = as, nlri = map nlri_value ns\<rparr>), rest)"
proof -
  let ?body = "update_octets four ws as ns"
  have "length ?body < 65536" unfolding len(1) [symmetric] by simp
  then have "length (concat (map cidr_octets ws)) < 65536"
    and "length (concat (map (attr_octets four) as)) < 65536"
    unfolding update_octets_def Let_def by simp_all
  note u = ref_update_round [of ws ns as p "Cursor ?body 0" chk, folded four, OF wf(1,3,2) this]
  have "take (unat len) (?body @ rest) = ?body" using len(1) by simp
  with u len show ?thesis
    unfolding ref_decode_header [of bs "\<lparr>hdr_length = len, hdr_type = TypeUpdate\<rparr>" "?body @ rest", OF bs]
    using bs by (simp add: ref_decode_header body_decode_def)
qed

end
