(* ===== verification/Connection.thy ===== *)
theory Connection
  imports Codec_Facts
begin

text \<open>
  \<^verbatim>\<open>src/connection.rs\<close>: a connection is a socket, a receive buffer and the peer's OPEN message
  once it has arrived. \<^verbatim>\<open>read_message\<close> is run against the list of what the socket's reads will
  deliver: running out of deliveries is \<open>Waiting\<close>, the future that has not completed yet.
\<close>

section \<open>Connections\<close>

text \<open>A socket of the runtime, known to the program only by identity.\<close>

datatype TcpStream = TcpStream nat

record 'm BgpConn =
  stream :: TcpStream
  buffer :: 'm
  conn_peer :: "OpenMsg option"

definition BgpConn_new :: "'m bytes_mut \<Rightarrow> TcpStream \<Rightarrow> 'm BgpConn" where
  "BgpConn_new bm s = \<lparr>stream = s, buffer = bm_with_capacity bm 4096, conn_peer = None\<rparr>"

text \<open>The address of a socket's peer is the operating system's; \<open>None\<close> is an error.\<close>

definition peer_sock :: "(TcpStream \<Rightarrow> SocketAddr option) \<Rightarrow> 'm BgpConn \<Rightarrow> SocketAddr option" where
  [simp]: "peer_sock peer_addr conn = peer_addr (stream conn)"

section \<open>Reading a message\<close>

text \<open>What one \<^verbatim>\<open>read_buf\<close> on the socket gives: octets (none at end of stream) or an error.\<close>

datatype io_read = ReadOk "u8 list" | ReadErr

datatype 'm read_result =
    Finished "Message Result" "'m BgpConn" "io_read list"  \<comment> \<open>and the reads not made\<close>
  | Waiting "'m BgpConn"
  | Diverges

fun read_message ::
    "bool \<Rightarrow> 'b octets \<Rightarrow> 'm bytes_mut \<Rightarrow> 'm BgpConn \<Rightarrow> io_read list \<Rightarrow> 'm read_result" where
  "read_message chk ops bm conn reads =
     (case Message_decode chk ops bm (buffer conn) (conn_peer conn) of
        None \<Rightarrow> Diverges
      | Some (Ok frame, buf) \<Rightarrow>
          Finished (Ok frame)
            (conn\<lparr>buffer := buf,
                  conn_peer := (case frame of MsgOpen open_msg \<Rightarrow> Some open_msg | _ \<Rightarrow> conn_peer conn)\<rparr>)
            reads
      | Some (Panicked p, buf) \<Rightarrow> Finished (Panicked p) (conn\<lparr>buffer := buf\<rparr>) reads
      | Some (Err e, buf) \<Rightarrow>
          if err_code e = LocalLogicError \<and> err_subcode e = ErrorSubCode_from_local BufferTooShortError then
            (case reads of
               [] \<Rightarrow> Waiting (conn\<lparr>buffer := buf\<rparr>)
             | ReadErr # reads \<Rightarrow> Finished (Err from_io_error) (conn\<lparr>buffer := buf\<rparr>) reads
             | ReadOk bs # reads \<Rightarrow>
                 read_message chk ops bm (conn\<lparr>buffer := bm_read_buf bm buf bs\<rparr>) reads)
          else Finished (Err e) (conn\<lparr>buffer := buf\<rparr>) reads)"

declare read_message.simps [simp del]

text \<open>\<^verbatim>\<open>write_message\<close>: the octets it hands to the socket, none in the source.\<close>

definition write_message :: "'m bytes_mut \<Rightarrow> 'm BgpConn \<Rightarrow> Message \<Rightarrow> (unit \<times> u8 list) Result" where
  "write_message bm conn msg =
     (case Message_encode bm msg of
        Ok buf \<Rightarrow> Ok ((), [])
      | Err e \<Rightarrow> Err e
      | Panicked p \<Rightarrow> Panicked p)"

section \<open>Facts on the reference buffers\<close>

fun delivered :: "io_read list \<Rightarrow> u8 list" where
  "delivered [] = []"
| "delivered (ReadOk bs # rs) = bs @ delivered rs"
| "delivered (ReadErr # rs) = delivered rs"

lemma conn_buffer_same [simp]: "conn\<lparr>buffer := buffer conn\<rparr> = conn"
  by simp

definition too_short :: "Error \<Rightarrow> bool" where
  "too_short e \<longleftrightarrow> err_code e = LocalLogicError \<and> err_subcode e = LocalSub BufferTooShortError"

lemma too_short_from [simp]: "too_short from_BufferTooShortError"
  by (simp add: too_short_def error_defs)

text \<open>How the reading loop unfolds, by the outcome of one decoding attempt.\<close>

lemma read_message_Ok:
  "Message_decode chk ops bm (buffer conn) (conn_peer conn) = Some (Ok frame, buf) \<Longrightarrow>
     read_message chk ops bm conn reads =
       Finished (Ok frame)
         (conn\<lparr>buffer := buf,
               conn_peer := (case frame of MsgOpen m \<Rightarrow> Some m | _ \<Rightarrow> conn_peer conn)\<rparr>) reads"
  by (subst read_message.simps) simp

lemma read_message_error:
  "Message_decode chk ops bm (buffer conn) (conn_peer conn) = Some (Err e, buf) \<Longrightarrow> \<not> too_short e \<Longrightarrow>
     read_message chk ops bm conn reads = Finished (Err e) (conn\<lparr>buffer := buf\<rparr>) reads"
  by (subst read_message.simps) (auto simp: too_short_def)

lemma read_message_too_short:
  "Message_decode chk ops bm (buffer conn) (conn_peer conn) = Some (Err e, buf) \<Longrightarrow> too_short e \<Longrightarrow>
     read_message chk ops bm conn reads =
       (case reads of
          [] \<Rightarrow> Waiting (conn\<lparr>buffer := buf\<rparr>)
        | ReadErr # rs \<Rightarrow> Finished (Err from_io_error) (conn\<lparr>buffer := buf\<rparr>) rs
        | ReadOk bs # rs \<Rightarrow> read_message chk ops bm (conn\<lparr>buffer := bm_read_buf bm buf bs\<rparr>) rs)"
  by (subst read_message.simps) (simp add: too_short_def)

lemma read_message_panic:
  "Message_decode chk ops bm (buffer conn) (conn_peer conn) = Some (Panicked p, buf) \<Longrightarrow>
     read_message chk ops bm conn reads = Finished (Panicked p) (conn\<lparr>buffer := buf\<rparr>) reads"
  by (subst read_message.simps) simp

lemma read_message_returns:
  "read_message chk ref_octets ref_bytes conn reads \<noteq> Diverges"
proof (induction reads arbitrary: conn)
  case Nil
  obtain r buf where d: "Message_decode chk ref_octets ref_bytes (buffer conn) (conn_peer conn) = Some (r, buf)"
    using ref_decode_returns [unfolded ref_decode_def] by (metis option.exhaust surj_pair)
  then show ?case
    by (cases r; cases "too_short (case r of Err e \<Rightarrow> e)")
      (auto simp: read_message_Ok read_message_error read_message_too_short read_message_panic)
next
  case (Cons io reads)
  obtain r buf where d: "Message_decode chk ref_octets ref_bytes (buffer conn) (conn_peer conn) = Some (r, buf)"
    using ref_decode_returns [unfolded ref_decode_def] by (metis option.exhaust surj_pair)
  with Cons.IH show ?case
    by (cases r; cases "too_short (case r of Err e \<Rightarrow> e)"; cases io)
      (auto simp: read_message_Ok read_message_error read_message_too_short read_message_panic)
qed

text \<open>
  A whole message that arrives in any number of pieces, with nothing after it, is waited on: each
  piece is appended and decoded again, and the decoder asks for more.
\<close>

lemma read_message_prefix_waits:
  assumes "\<And>n. n \<le> length (delivered reads) \<Longrightarrow>
      ref_decode chk (buffer conn @ take n (delivered reads)) (conn_peer conn)
        = Some (Err from_BufferTooShortError, buffer conn @ take n (delivered reads))"
    and "ReadErr \<notin> set reads"
  shows "read_message chk ref_octets ref_bytes conn reads
    = Waiting (conn\<lparr>buffer := buffer conn @ delivered reads\<rparr>)"
  using assms
proof (induction reads arbitrary: conn)
  case Nil
  from Nil(1) [of 0] show ?case
    using read_message_too_short
      [of chk ref_octets ref_bytes conn from_BufferTooShortError "buffer conn" "[]"]
    by (simp add: ref_decode_def)
next
  case (Cons io reads)
  then obtain bs where io: "io = ReadOk bs" by (cases io) auto
  have d: "Message_decode chk ref_octets ref_bytes (buffer conn) (conn_peer conn)
      = Some (Err from_BufferTooShortError, buffer conn)"
    using Cons.prems(1) [of 0] by (simp add: ref_decode_def)
  have A: "ref_decode chk (buffer conn @ bs @ take n (delivered reads)) (conn_peer conn)
      = Some (Err from_BufferTooShortError, buffer conn @ bs @ take n (delivered reads))"
    if "n \<le> length (delivered reads)" for n
    using Cons.prems(1) [of "length bs + n"] io that by simp
  have "read_message chk ref_octets ref_bytes (conn\<lparr>buffer := buffer conn @ bs\<rparr>) reads
      = Waiting (conn\<lparr>buffer := buffer conn @ bs @ delivered reads\<rparr>)"
    using Cons.IH [of "conn\<lparr>buffer := buffer conn @ bs\<rparr>"] A Cons.prems(2) by simp
  then show ?case using d io by (simp add: read_message_too_short)
qed

lemma ref_decode_prefix_of_message:
  assumes bs: "bs = header_bytes h @ body" and len: "length bs = unat (hdr_length h)"
    and ok: "header_length_ok (hdr_type h) (unat (hdr_length h))"
  shows "ref_decode chk (take n bs) peer = Some (Err from_BufferTooShortError, take n bs)"
proof (cases "length (take n bs) < 19")
  case True
  then show ?thesis by (rule ref_decode_short)
next
  case False
  then have "take n bs = header_bytes h @ take (n - 19) body" using bs by simp
  moreover have "length (take (n - 19) body) < unat (hdr_length h)" using bs len by simp
  ultimately show ?thesis using ref_decode_header [OF _ ok] by simp
qed

lemma read_message_finished:
  "read_message chk ops bm conn reads = Finished r conn' rest \<Longrightarrow>
     (\<forall>e. r = Err e \<longrightarrow> \<not> too_short e) \<and> stream conn' = stream conn \<and>
     conn_peer conn' = (case r of Ok (MsgOpen m) \<Rightarrow> Some m | _ \<Rightarrow> conn_peer conn)"
proof (induction reads arbitrary: conn)
  case Nil
  then show ?case
    by (subst (asm) read_message.simps)
      (auto simp: too_short_def split: option.splits outcome.splits if_splits Message.split)
next
  case (Cons io reads)
  show ?case
  proof (cases "\<exists>e buf. Message_decode chk ops bm (buffer conn) (conn_peer conn) = Some (Err e, buf) \<and> too_short e")
    case True
    then obtain e buf where "Message_decode chk ops bm (buffer conn) (conn_peer conn) = Some (Err e, buf)"
      and "too_short e" by blast
    from read_message_too_short [OF this] Cons.prems show ?thesis
      by (cases io)
        (auto simp: too_short_def error_defs dest!: Cons.IH split: outcome.split Message.split)
  next
    case False
    with Cons.prems show ?thesis
      by (subst (asm) read_message.simps)
        (auto simp: too_short_def split: option.splits outcome.splits if_splits Message.split)
  qed
qed

section \<open>Connections on any buffers\<close>

text \<open>The octets of a connection, whatever crate holds them, and the decoder and the reading loop on them.\<close>

definition view_conn :: "'m bytes_mut \<Rightarrow> 'm BgpConn \<Rightarrow> u8 list BgpConn" where
  "view_conn bm conn = \<lparr>stream = stream conn, buffer = bm_slice bm (buffer conn), conn_peer = conn_peer conn\<rparr>"

fun view_read :: "'m bytes_mut \<Rightarrow> 'm read_result \<Rightarrow> u8 list read_result" where
  "view_read bm (Finished r conn reads) = Finished r (view_conn bm conn) reads"
| "view_read bm (Waiting conn) = Waiting (view_conn bm conn)"
| "view_read bm Diverges = Diverges"

lemma view_conn_simps [simp]:
  "stream (view_conn bm conn) = stream conn"
  "buffer (view_conn bm conn) = bm_slice bm (buffer conn)"
  "conn_peer (view_conn bm conn) = conn_peer conn"
  "view_conn bm (conn\<lparr>buffer := buf\<rparr>) = (view_conn bm conn)\<lparr>buffer := bm_slice bm buf\<rparr>"
  "view_conn bm (conn\<lparr>buffer := buf, conn_peer := p\<rparr>)
     = (view_conn bm conn)\<lparr>buffer := bm_slice bm buf, conn_peer := p\<rparr>"
  by (simp_all add: view_conn_def)

context codec begin

lemma decode_ref:
  "map_option (map_prod id (bm_slice bm)) (Message_decode chk ops bm buf peer)
     = ref_decode chk (bm_slice bm buf) peer"
  by (simp add: Message_decode_sim ref_decode_def)

lemma decode_ref_Some:
  assumes "ref_decode chk (bm_slice bm buf) peer = Some (r, bs)"
  obtains buf' where "Message_decode chk ops bm buf peer = Some (r, buf')" and "bm_slice bm buf' = bs"
  using assms unfolding decode_ref [symmetric] by auto

lemma decode_to_ref:
  "Message_decode chk ops bm buf peer = Some (r, buf') \<Longrightarrow>
     ref_decode chk (bm_slice bm buf) peer = Some (r, bm_slice bm buf')"
  using decode_ref [of chk buf peer] by simp

lemma decode_returns: "Message_decode chk ops bm buf peer \<noteq> None"
  using decode_ref [of chk buf peer] ref_decode_returns [of chk "bm_slice bm buf" peer] by auto

lemma read_message_sim:
  "view_read bm (read_message chk ops bm conn reads)
     = read_message chk ref_octets ref_bytes (view_conn bm conn) reads"
proof (induction reads arbitrary: conn)
  case Nil
  obtain r buf' where "Message_decode chk ops bm (buffer conn) (conn_peer conn) = Some (r, buf')"
    using decode_returns [of chk "buffer conn" "conn_peer conn"] by auto
  with decode_to_ref [OF this] show ?case
    by (subst (1 2) read_message.simps) (auto simp: ref_decode_def split: outcome.splits Message.split)
next
  case (Cons io reads)
  obtain r buf' where "Message_decode chk ops bm (buffer conn) (conn_peer conn) = Some (r, buf')"
    using decode_returns [of chk "buffer conn" "conn_peer conn"] by auto
  with decode_to_ref [OF this] show ?case
    by (subst (1 2) read_message.simps)
      (auto simp: ref_decode_def Cons.IH read_buf_law split: outcome.splits io_read.splits Message.split)
qed

end

end
