(* ===== verification/Fsm.thy ===== *)
theory Fsm
  imports Connection
begin

text \<open>
  The data of \<^verbatim>\<open>src/fsm.rs\<close>: timer constants, events, session attributes, the six states with
  what each carries, timers and timer operations. A task handle and a channel sender are known by
  number; what is done with them is an effect, recorded by the theory \<open>Runtime\<close>.
\<close>

section \<open>Constants\<close>

definition FAR_FUTURE :: Duration where
  "FAR_FUTURE = from_secs (86400 * 365 * 30)"

definition DFLT_KEEPALIVE_FACTOR :: nat where "DFLT_KEEPALIVE_FACTOR = 3"

definition DFLT_BGP_TIMERS_CONNECT :: Duration where "DFLT_BGP_TIMERS_CONNECT = from_secs 10"

definition DFLT_BGP_HOLDTIME :: Duration where "DFLT_BGP_HOLDTIME = from_secs 9"

definition DFLT_BGP_KEEPALIVE :: Duration where "DFLT_BGP_KEEPALIVE = from_secs 3"

section \<open>Events\<close>

datatype 'm Event =
    ManualStart
  | ManualStop
  | AutomaticStart
  | ManualStartWithPassiveTcpEstablishment
  | AutomaticStartWithPassiveTcpEstablishment
  | AutomaticStartWithDampPeerOscillations
  | AutomaticStartWithDampPeerOscillationsAndPassiveTcpEstablishment
  | AutomaticStop
  | ConnectRetryTimerExpires
  | HoldTimerExpires
  | KeepaliveTimerExpires
  | DelayOpenTimerExpires
  | IdleHoldTimerExpires
  | TcpConnectionValid
  | TcpCRInvalid
  | TcpCRAcked TcpStream
  | TcpConnectionConfirmed "'m BgpConn"
  | TcpConnectionFails Error
  | BGPOpen OpenMsg bool
  | BGPOpenWithDelayOpenTimerRunning OpenMsg bool
  | BGPHeaderErr Error
  | BGPOpenMsgErr Error
  | OpenCollisionDump
  | NotifyMsgVerErr Error
  | EvNotifyMsg Error
  | EvKeepaliveMsg
  | EvUpdateMsg UpdateMsg
  | UpdateMsgErr Error
  | ProcessOneDone "'m BgpConn"

section \<open>Session attributes\<close>

record SessionAttributes =
  connect_retry_counter :: u64
  connect_retry_time :: Duration
  hold_time :: Duration
  keepalive_time :: Duration
  delay_open_time :: Duration
  delay_open :: bool
  send_notification_without_open :: bool
  collision_detect_established_state :: bool
  damp_peer_oscillations :: bool
  cur_connect_retry_time :: Duration
  cur_hold_time :: Duration
  cur_keepalive_time :: Duration
  cur_delay_open_time :: Duration

definition SessionAttributes_new :: SessionAttributes where
  "SessionAttributes_new =
     \<lparr>connect_retry_counter = 0,
      connect_retry_time = DFLT_BGP_TIMERS_CONNECT,
      hold_time = DFLT_BGP_HOLDTIME,
      keepalive_time = DFLT_BGP_KEEPALIVE,
      delay_open_time = 0,
      delay_open = False,
      send_notification_without_open = False,
      collision_detect_established_state = False,
      damp_peer_oscillations = False,
      cur_connect_retry_time = FAR_FUTURE,
      cur_hold_time = FAR_FUTURE,
      cur_keepalive_time = FAR_FUTURE,
      cur_delay_open_time = FAR_FUTURE\<rparr>"

section \<open>States\<close>

type_synonym task = nat   \<comment> \<open>a \<^verbatim>\<open>JoinHandle\<close>\<close>
type_synonym chan = nat   \<comment> \<open>an \<^verbatim>\<open>mpsc::Sender<Message>\<close>\<close>

record 's Fsm =
  fsm_state :: 's
  fsm_peer :: SocketAddr
  fsm_attr :: SessionAttributes

datatype IdleSt = IdleSt

record ConnectSt =
  co_tcp_conn_handle :: "task option"
  co_bgp_conn_handle :: "task option"
  co_bgp_out_tx :: "chan option"

record ActiveSt =
  ac_tcp_conn_handle :: "task option"
  ac_bgp_conn_handle :: "task option"
  ac_bgp_out_tx :: "chan option"

record 'm OpenSentSt =
  os_bgp_conn_handle :: "task option"
  os_bgp_out_tx :: "chan option"
  os_local_open :: "OpenMsg option"
  os_remote_syn :: bool
  os_collision_conn :: "'m BgpConn option"

record 'm OpenConfirmSt =
  oc_bgp_conn_handle :: "task option"
  oc_bgp_out_tx :: "chan option"
  oc_peer_open :: "OpenMsg option"
  oc_local_open :: "OpenMsg option"
  oc_remote_syn :: bool
  oc_collision_conn :: "'m BgpConn option"

record 'm EstablishedSt =
  es_bgp_conn_handle :: "task option"
  es_bgp_out_tx :: "chan option"
  es_peer_open :: "OpenMsg option"
  es_local_open :: "OpenMsg option"
  es_remote_syn :: bool
  es_collision_conn :: "'m BgpConn option"

datatype 'm State =
    Idle "IdleSt Fsm"
  | Connect "ConnectSt Fsm"
  | Active "ActiveSt Fsm"
  | OpenSent "'m OpenSentSt Fsm"
  | OpenConfirm "'m OpenConfirmSt Fsm"
  | Established "'m EstablishedSt Fsm"

definition Fsm_new :: "SocketAddr \<Rightarrow> IdleSt Fsm" where
  "Fsm_new peer = \<lparr>fsm_state = IdleSt, fsm_peer = peer, fsm_attr = SessionAttributes_new\<rparr>"

definition State_new :: "SocketAddr \<Rightarrow> 'm State" where
  "State_new peer = Idle (Fsm_new peer)"

fun get_attr :: "'m State \<Rightarrow> SessionAttributes" where
  "get_attr (Idle fsm) = fsm_attr fsm"
| "get_attr (Connect fsm) = fsm_attr fsm"
| "get_attr (Active fsm) = fsm_attr fsm"
| "get_attr (OpenSent fsm) = fsm_attr fsm"
| "get_attr (OpenConfirm fsm) = fsm_attr fsm"
| "get_attr (Established fsm) = fsm_attr fsm"

section \<open>Timers\<close>

datatype Operation = Stop | Restart | Update Duration

datatype TimerKind = KConnectRetry | KHold | KKeepalive | KDelayOpen | KIdleHold

definition TimerKind_new_vec :: "TimerKind list" where
  "TimerKind_new_vec = [KConnectRetry, KHold, KKeepalive, KDelayOpen, KIdleHold]"

fun TimerKind_into_Event :: "TimerKind \<Rightarrow> 'm Event" where
  "TimerKind_into_Event KConnectRetry = ConnectRetryTimerExpires"
| "TimerKind_into_Event KHold = HoldTimerExpires"
| "TimerKind_into_Event KKeepalive = KeepaliveTimerExpires"
| "TimerKind_into_Event KDelayOpen = DelayOpenTimerExpires"
| "TimerKind_into_Event KIdleHold = IdleHoldTimerExpires"

datatype Timer =
    ConnectRetry Operation
  | Hold Operation
  | Keepalive Operation
  | DelayOpen Operation
  | IdleHold Operation

text \<open>A negotiated hold time is a count of seconds of 16 bits, so never the far future.\<close>

lemma from_secs_u16_not_far: "from_secs (unat (w :: u16)) \<noteq> FAR_FUTURE"
proof
  assume "from_secs (unat w) = FAR_FUTURE"
  then have "unat w = 946080000" by (simp add: FAR_FUTURE_def)
  moreover have "unat w < 65536" by simp
  ultimately show False by linarith
qed

lemma timer_consts_not_far [simp]:
  "DFLT_BGP_TIMERS_CONNECT \<noteq> FAR_FUTURE" "FAR_FUTURE \<noteq> DFLT_BGP_TIMERS_CONNECT"
  by (simp_all add: FAR_FUTURE_def DFLT_BGP_TIMERS_CONNECT_def)

lemma TimerKind_new_vec_complete: "set TimerKind_new_vec = UNIV"
proof -
  have "k \<in> set TimerKind_new_vec" for k
    by (cases k) (simp_all add: TimerKind_new_vec_def)
  then show ?thesis by blast
qed

end
