(* ===== verification/Runtime.thy ===== *)
theory Runtime
  imports Fsm
begin

text \<open>
  How the session task acts on the rest of the program. The runtime's channels and tasks are not
  in the repository; what the session asks of them is recorded as a log of effects, and whether
  the receiving half of a channel still exists when something is sent is the context's
  \<open>cx_alive\<close>, since a send to a closed channel is an \<^verbatim>\<open>Err\<close> the source unwraps. An action runs on
  the log and ends in a value or in a panic; the effects before a panic have happened.
\<close>

section \<open>Effects and actions\<close>

datatype 'm effect =
    TimerCtr Timer                                \<comment> \<open>sent to the timer controller\<close>
  | OutMsg chan Message                           \<comment> \<open>sent to a connection task\<close>
  | SpawnTcp task SocketAddr                      \<comment> \<open>\<^verbatim>\<open>try_tcp_conn\<close>\<close>
  | SpawnProcess task "'m BgpConn" chan bool      \<comment> \<open>\<^verbatim>\<open>process\<close>, with its outgoing channel\<close>
  | SpawnProcessOne task "'m BgpConn" bool        \<comment> \<open>\<^verbatim>\<open>process_one\<close>\<close>
  | Abort task

record 'm world =
  w_next :: nat
  w_log :: "'m effect list"

record 'm ctx =
  cx_bytes :: "'m bytes_mut"
  cx_conf :: Neighbor
  cx_checks :: bool                               \<comment> \<open>a build with overflow checks\<close>
  cx_alive :: "'m effect list \<Rightarrow> 'm effect \<Rightarrow> bool"

datatype 'a result = Ret 'a | Panic panic

type_synonym ('m, 'a) act = "'m world \<Rightarrow> 'a result \<times> 'm world"

definition retA :: "'a \<Rightarrow> ('m, 'a) act" where
  "retA x w = (Ret x, w)"

definition panicA :: "panic \<Rightarrow> ('m, 'a) act" where
  "panicA p w = (Panic p, w)"

definition bindA :: "('m, 'a) act \<Rightarrow> ('a \<Rightarrow> ('m, 'b) act) \<Rightarrow> ('m, 'b) act" where
  "bindA m f w = (case m w of (Ret x, w') \<Rightarrow> f x w' | (Panic p, w') \<Rightarrow> (Panic p, w'))"

definition thenA :: "('m, unit) act \<Rightarrow> ('m, 'b) act \<Rightarrow> ('m, 'b) act" where
  "thenA m n = bindA m (\<lambda>_. n)"

definition emit :: "'m effect \<Rightarrow> ('m, unit) act" where
  "emit e w = (Ret (), w\<lparr>w_log := w_log w @ [e]\<rparr>)"

definition fresh :: "('m, nat) act" where
  "fresh w = (Ret (w_next w), w\<lparr>w_next := Suc (w_next w)\<rparr>)"

definition unwrap :: "'a option \<Rightarrow> ('m, 'a) act" where
  "unwrap x = (case x of None \<Rightarrow> panicA UnwrapNone | Some y \<Rightarrow> retA y)"

text \<open>\<^verbatim>\<open>send(..).await.unwrap()\<close>.\<close>

definition send :: "'m ctx \<Rightarrow> 'm effect \<Rightarrow> ('m, unit) act" where
  "send cx e w = (if cx_alive cx (w_log w) e then emit e w else panicA UnwrapErr w)"

definition send_timer :: "'m ctx \<Rightarrow> Timer \<Rightarrow> ('m, unit) act" where
  "send_timer cx t = send cx (TimerCtr t)"

definition send_out :: "'m ctx \<Rightarrow> chan \<Rightarrow> Message \<Rightarrow> ('m, unit) act" where
  "send_out cx tx msg = send cx (OutMsg tx msg)"

text \<open>\<^verbatim>\<open>let tx = s.state.bgp_out_tx.as_ref().unwrap(); tx.send(msg).await.unwrap()\<close>.\<close>

definition send_opt :: "'m ctx \<Rightarrow> chan option \<Rightarrow> Message \<Rightarrow> ('m, unit) act" where
  "send_opt cx tx msg = bindA (unwrap tx) (\<lambda>tx. send_out cx tx msg)"

definition spawn_tcp :: "SocketAddr \<Rightarrow> ('m, task) act" where
  "spawn_tcp peer = bindA fresh (\<lambda>h. thenA (emit (SpawnTcp h peer)) (retA h))"

definition spawn_process :: "'m BgpConn \<Rightarrow> chan \<Rightarrow> bool \<Rightarrow> ('m, task) act" where
  "spawn_process conn tx remote_syn =
     bindA fresh (\<lambda>h. thenA (emit (SpawnProcess h conn tx remote_syn)) (retA h))"

definition spawn_process_one :: "'m BgpConn \<Rightarrow> bool \<Rightarrow> ('m, unit) act" where
  "spawn_process_one conn remote_syn =
     bindA fresh (\<lambda>h. emit (SpawnProcessOne h conn remote_syn))"

definition abort_opt :: "task option \<Rightarrow> ('m, unit) act" where
  "abort_opt h = (case h of None \<Rightarrow> retA () | Some t \<Rightarrow> emit (Abort t))"

text \<open>\<^verbatim>\<open>counter += 1\<close> on a \<^verbatim>\<open>u64\<close>.\<close>

definition incr_u64 :: "'m ctx \<Rightarrow> u64 \<Rightarrow> ('m, u64) act" where
  "incr_u64 cx n =
     (if cx_checks cx \<and> n = - 1 then panicA ArithmeticOverflow else retA (n + 1))"

lemmas act_defs = retA_def panicA_def bindA_def thenA_def emit_def fresh_def unwrap_def send_def
  send_timer_def send_out_def send_opt_def spawn_tcp_def spawn_process_def spawn_process_one_def
  abort_opt_def incr_u64_def

section \<open>Results of actions\<close>

text \<open>
  The rules that take an action that ended in a value apart, for proofs from a result to the
  effects that led to it.
\<close>

lemma retA_Ret: "retA x w = (Ret y, w') \<longleftrightarrow> y = x \<and> w' = w"
  by (auto simp: retA_def)

lemma panicA_Ret: "panicA p w = (Ret y, w') \<longleftrightarrow> False"
  by (simp add: panicA_def)

lemma bindA_Ret: "bindA m f w = (Ret y, w') \<longleftrightarrow> (\<exists>x w1. m w = (Ret x, w1) \<and> f x w1 = (Ret y, w'))"
  by (auto simp: bindA_def split: prod.splits result.splits)

lemma thenA_Ret: "thenA m n w = (Ret y, w') \<longleftrightarrow> (\<exists>u w1. m w = (Ret u, w1) \<and> n w1 = (Ret y, w'))"
  by (simp add: thenA_def bindA_Ret)

lemma emit_Ret: "emit e w = (Ret u, w') \<longleftrightarrow> w' = w\<lparr>w_log := w_log w @ [e]\<rparr>"
  by (auto simp: emit_def)

lemma fresh_Ret: "fresh w = (Ret n, w') \<longleftrightarrow> n = w_next w \<and> w' = w\<lparr>w_next := Suc (w_next w)\<rparr>"
  by (auto simp: fresh_def)

lemma unwrap_Ret: "unwrap x w = (Ret y, w') \<longleftrightarrow> x = Some y \<and> w' = w"
  by (auto simp: unwrap_def act_defs split: option.splits)

lemma send_Ret:
  "send cx e w = (Ret u, w') \<longleftrightarrow> cx_alive cx (w_log w) e \<and> w' = w\<lparr>w_log := w_log w @ [e]\<rparr>"
  by (auto simp: send_def emit_def panicA_def)

lemma abort_opt_Ret:
  "abort_opt h w = (Ret u, w') \<longleftrightarrow>
     w' = (case h of None \<Rightarrow> w | Some t \<Rightarrow> w\<lparr>w_log := w_log w @ [Abort t]\<rparr>)"
  by (auto simp: abort_opt_def retA_Ret emit_Ret split: option.splits)

lemma incr_u64_Ret:
  "incr_u64 cx n w = (Ret m, w') \<longleftrightarrow> \<not> (cx_checks cx \<and> n = - 1) \<and> m = n + 1 \<and> w' = w"
  by (auto simp: incr_u64_def retA_Ret panicA_Ret)

lemmas act_Ret = retA_Ret panicA_Ret bindA_Ret thenA_Ret emit_Ret fresh_Ret unwrap_Ret send_Ret
  abort_opt_Ret incr_u64_Ret send_timer_def send_out_def send_opt_def spawn_tcp_def
  spawn_process_def spawn_process_one_def

section \<open>Weakest preconditions\<close>

text \<open>
  \<open>wp m Q w\<close> says that \<open>Q\<close> holds of the value and the effects if \<open>m\<close> ends in a value; a panic
  makes no promise. The rules compute it by simplification, so a fact about an arm of the session
  loop is one call of the simplifier.
\<close>

definition wp :: "('m, 'a) act \<Rightarrow> ('a \<Rightarrow> 'm world \<Rightarrow> bool) \<Rightarrow> 'm world \<Rightarrow> bool" where
  "wp m Q w = (case m w of (Ret x, w') \<Rightarrow> Q x w' | (Panic p, w') \<Rightarrow> True)"

lemma wpD: "m w = (Ret x, w') \<Longrightarrow> wp m Q w \<Longrightarrow> Q x w'"
  by (simp add: wp_def)

lemma wp_primitives [run_simps]:
  "wp (retA x) Q w = Q x w"
  "wp (panicA p) Q w = True"
  "wp (bindA m f) Q w = wp m (\<lambda>x. wp (f x) Q) w"
  "wp (thenA a n) Q w = wp a (\<lambda>_. wp n Q) w"
  "wp (emit e) Qu w = Qu () (w\<lparr>w_log := w_log w @ [e]\<rparr>)"
  "wp fresh Qn w = Qn (w_next w) (w\<lparr>w_next := Suc (w_next w)\<rparr>)"
  "wp (unwrap y) Q w = (\<forall>z. y = Some z \<longrightarrow> Q z w)"
  "wp (send cx e) Qu w = (cx_alive cx (w_log w) e \<longrightarrow> Qu () (w\<lparr>w_log := w_log w @ [e]\<rparr>))"
  "wp (abort_opt h) Qu w =
     (case h of None \<Rightarrow> Qu () w | Some t \<Rightarrow> Qu () (w\<lparr>w_log := w_log w @ [Abort t]\<rparr>))"
  "wp (incr_u64 cx n') Qc w = (\<not> (cx_checks cx \<and> n' = - 1) \<longrightarrow> Qc (n' + 1) w)"
  by (auto simp: wp_def act_defs split: prod.splits result.splits option.splits)

lemma wp_if [run_simps]: "wp (if c then m else n) Q w = (if c then wp m Q w else wp n Q w)"
  by simp

declare send_timer_def [run_simps] send_out_def [run_simps] send_opt_def [run_simps]
  spawn_tcp_def [run_simps] spawn_process_def [run_simps] spawn_process_one_def [run_simps]

end
