(* ===== verification/Fsm_Conversions.thy ===== *)
theory Fsm_Conversions
  imports Runtime
begin

text \<open>
  The \<^verbatim>\<open>From\<close> implementations of \<^verbatim>\<open>src/fsm.rs\<close>: what a state keeps, drops and aborts when the
  session moves to another one.
\<close>

section \<open>Conversions\<close>

definition Idle_into_Connect :: "IdleSt Fsm \<Rightarrow> ConnectSt Fsm" where
  "Idle_into_Connect fsm =
     \<lparr>fsm_state = \<lparr>co_tcp_conn_handle = None, co_bgp_conn_handle = None, co_bgp_out_tx = None\<rparr>,
      fsm_peer = fsm_peer fsm, fsm_attr = fsm_attr fsm\<rparr>"

definition Idle_into_Active :: "IdleSt Fsm \<Rightarrow> ActiveSt Fsm" where
  "Idle_into_Active fsm =
     \<lparr>fsm_state = \<lparr>ac_tcp_conn_handle = None, ac_bgp_conn_handle = None, ac_bgp_out_tx = None\<rparr>,
      fsm_peer = fsm_peer fsm, fsm_attr = fsm_attr fsm\<rparr>"

definition to_idle :: "'s Fsm \<Rightarrow> IdleSt Fsm" where
  "to_idle fsm = \<lparr>fsm_state = IdleSt, fsm_peer = fsm_peer fsm, fsm_attr = fsm_attr fsm\<rparr>"

definition Connect_into_Idle :: "ConnectSt Fsm \<Rightarrow> ('m, IdleSt Fsm) act" where
  "Connect_into_Idle fsm =
     thenA (abort_opt (co_tcp_conn_handle (fsm_state fsm)))
    (thenA (abort_opt (co_bgp_conn_handle (fsm_state fsm)))
    (retA (to_idle fsm)))"

definition Connect_into_Active :: "ConnectSt Fsm \<Rightarrow> ('m, ActiveSt Fsm) act" where
  "Connect_into_Active fsm =
     thenA (abort_opt (co_tcp_conn_handle (fsm_state fsm)))
    (retA \<lparr>fsm_state = \<lparr>ac_tcp_conn_handle = None,
                       ac_bgp_conn_handle = co_bgp_conn_handle (fsm_state fsm),
                       ac_bgp_out_tx = co_bgp_out_tx (fsm_state fsm)\<rparr>,
           fsm_peer = fsm_peer fsm, fsm_attr = fsm_attr fsm\<rparr>)"

definition Connect_into_OpenSent :: "ConnectSt Fsm \<Rightarrow> 'm OpenSentSt Fsm" where
  "Connect_into_OpenSent fsm =
     \<lparr>fsm_state = \<lparr>os_bgp_conn_handle = None, os_bgp_out_tx = None, os_local_open = None,
                  os_remote_syn = False, os_collision_conn = None\<rparr>,
      fsm_peer = fsm_peer fsm, fsm_attr = fsm_attr fsm\<rparr>"

definition Connect_into_OpenConfirm :: "ConnectSt Fsm \<Rightarrow> 'm OpenConfirmSt Fsm" where
  "Connect_into_OpenConfirm fsm =
     \<lparr>fsm_state = \<lparr>oc_bgp_conn_handle = co_bgp_conn_handle (fsm_state fsm),
                  oc_bgp_out_tx = co_bgp_out_tx (fsm_state fsm),
                  oc_peer_open = None, oc_local_open = None,
                  oc_remote_syn = False, oc_collision_conn = None\<rparr>,
      fsm_peer = fsm_peer fsm, fsm_attr = fsm_attr fsm\<rparr>"

definition Active_into_Idle :: "ActiveSt Fsm \<Rightarrow> ('m, IdleSt Fsm) act" where
  "Active_into_Idle fsm =
     thenA (abort_opt (ac_bgp_conn_handle (fsm_state fsm))) (retA (to_idle fsm))"

definition Active_into_Connect :: "ActiveSt Fsm \<Rightarrow> ConnectSt Fsm" where
  "Active_into_Connect fsm =
     \<lparr>fsm_state = \<lparr>co_tcp_conn_handle = ac_tcp_conn_handle (fsm_state fsm),
                  co_bgp_conn_handle = ac_bgp_conn_handle (fsm_state fsm),
                  co_bgp_out_tx = ac_bgp_out_tx (fsm_state fsm)\<rparr>,
      fsm_peer = fsm_peer fsm, fsm_attr = fsm_attr fsm\<rparr>"

definition Active_into_OpenSent :: "ActiveSt Fsm \<Rightarrow> 'm OpenSentSt Fsm" where
  "Active_into_OpenSent fsm =
     \<lparr>fsm_state = \<lparr>os_bgp_conn_handle = ac_bgp_conn_handle (fsm_state fsm),
                  os_bgp_out_tx = ac_bgp_out_tx (fsm_state fsm),
                  os_local_open = None, os_remote_syn = True, os_collision_conn = None\<rparr>,
      fsm_peer = fsm_peer fsm, fsm_attr = fsm_attr fsm\<rparr>"

definition Active_into_OpenConfirm :: "ActiveSt Fsm \<Rightarrow> 'm OpenConfirmSt Fsm" where
  "Active_into_OpenConfirm fsm =
     \<lparr>fsm_state = \<lparr>oc_bgp_conn_handle = ac_bgp_conn_handle (fsm_state fsm),
                  oc_bgp_out_tx = ac_bgp_out_tx (fsm_state fsm),
                  oc_peer_open = None, oc_local_open = None,
                  oc_remote_syn = True, oc_collision_conn = None\<rparr>,
      fsm_peer = fsm_peer fsm, fsm_attr = fsm_attr fsm\<rparr>"

definition OpenSent_into_Idle :: "'m OpenSentSt Fsm \<Rightarrow> ('m, IdleSt Fsm) act" where
  "OpenSent_into_Idle fsm =
     thenA (abort_opt (os_bgp_conn_handle (fsm_state fsm))) (retA (to_idle fsm))"

definition OpenSent_into_Active :: "'m OpenSentSt Fsm \<Rightarrow> ('m, ActiveSt Fsm) act" where
  "OpenSent_into_Active fsm =
     thenA (abort_opt (os_bgp_conn_handle (fsm_state fsm)))
    (retA \<lparr>fsm_state = \<lparr>ac_tcp_conn_handle = None, ac_bgp_conn_handle = None, ac_bgp_out_tx = None\<rparr>,
           fsm_peer = fsm_peer fsm, fsm_attr = fsm_attr fsm\<rparr>)"

definition OpenSent_into_OpenConfirm :: "'m OpenSentSt Fsm \<Rightarrow> 'm OpenConfirmSt Fsm" where
  "OpenSent_into_OpenConfirm fsm =
     \<lparr>fsm_state = \<lparr>oc_bgp_conn_handle = os_bgp_conn_handle (fsm_state fsm),
                  oc_bgp_out_tx = os_bgp_out_tx (fsm_state fsm),
                  oc_peer_open = None, oc_local_open = os_local_open (fsm_state fsm),
                  oc_remote_syn = os_remote_syn (fsm_state fsm),
                  oc_collision_conn = os_collision_conn (fsm_state fsm)\<rparr>,
      fsm_peer = fsm_peer fsm, fsm_attr = fsm_attr fsm\<rparr>"

definition OpenConfirm_into_Idle :: "'m OpenConfirmSt Fsm \<Rightarrow> ('m, IdleSt Fsm) act" where
  "OpenConfirm_into_Idle fsm =
     thenA (abort_opt (oc_bgp_conn_handle (fsm_state fsm))) (retA (to_idle fsm))"

definition OpenConfirm_into_Established :: "'m OpenConfirmSt Fsm \<Rightarrow> 'm EstablishedSt Fsm" where
  "OpenConfirm_into_Established fsm =
     \<lparr>fsm_state = \<lparr>es_bgp_conn_handle = oc_bgp_conn_handle (fsm_state fsm),
                  es_bgp_out_tx = oc_bgp_out_tx (fsm_state fsm),
                  es_peer_open = oc_peer_open (fsm_state fsm),
                  es_local_open = oc_local_open (fsm_state fsm),
                  es_remote_syn = oc_remote_syn (fsm_state fsm),
                  es_collision_conn = oc_collision_conn (fsm_state fsm)\<rparr>,
      fsm_peer = fsm_peer fsm, fsm_attr = fsm_attr fsm\<rparr>"

definition Established_into_Idle :: "'m EstablishedSt Fsm \<Rightarrow> ('m, IdleSt Fsm) act" where
  "Established_into_Idle fsm =
     thenA (abort_opt (es_bgp_conn_handle (fsm_state fsm))) (retA (to_idle fsm))"

lemmas into_defs = Idle_into_Connect_def Idle_into_Active_def to_idle_def Connect_into_Idle_def
  Connect_into_Active_def Connect_into_OpenSent_def Connect_into_OpenConfirm_def
  Active_into_Idle_def Active_into_Connect_def Active_into_OpenSent_def
  Active_into_OpenConfirm_def OpenSent_into_Idle_def OpenSent_into_Active_def
  OpenSent_into_OpenConfirm_def OpenConfirm_into_Idle_def OpenConfirm_into_Established_def
  Established_into_Idle_def

end
