(* ===== verification/Session_Connect.thy ===== *)
theory Session_Connect
  imports Fsm_Conversions
begin

text \<open>
  The arms of the session loop of \<^verbatim>\<open>src/session.rs\<close> for the states Idle and Connect, one
  definition each, and the pieces several arms share: stopping a timer together with its shadow
  attribute, counting a retry, and the hold time negotiation.
\<close>

section \<open>Shared steps\<close>

definition stop_connect_retry :: "'m ctx \<Rightarrow> 's Fsm \<Rightarrow> ('m, 's Fsm) act" where
  "stop_connect_retry cx s =
     thenA (send_timer cx (ConnectRetry Stop))
    (retA (s\<lparr>fsm_attr := (fsm_attr s)\<lparr>cur_connect_retry_time := FAR_FUTURE\<rparr>\<rparr>))"

definition stop_delay_open :: "'m ctx \<Rightarrow> 's Fsm \<Rightarrow> ('m, 's Fsm) act" where
  "stop_delay_open cx s =
     thenA (send_timer cx (DelayOpen Stop))
    (retA (s\<lparr>fsm_attr := (fsm_attr s)\<lparr>cur_delay_open_time := FAR_FUTURE\<rparr>\<rparr>))"

definition reset_counter :: "'s Fsm \<Rightarrow> 's Fsm" where
  "reset_counter s = s\<lparr>fsm_attr := (fsm_attr s)\<lparr>connect_retry_counter := 0\<rparr>\<rparr>"

definition count_retry :: "'m ctx \<Rightarrow> 's Fsm \<Rightarrow> ('m, 's Fsm) act" where
  "count_retry cx s =
     bindA (incr_u64 cx (connect_retry_counter (fsm_attr s))) (\<lambda>n.
     retA (s\<lparr>fsm_attr := (fsm_attr s)\<lparr>connect_retry_counter := n\<rparr>\<rparr>))"

definition cease :: Message where
  "cease = Message_from_NotificationMsg (NotificationMsg_from_enum Cease Undefined None)"

definition negotiated_hold :: "OpenMsg \<Rightarrow> OpenMsg \<Rightarrow> Duration" where
  "negotiated_hold local_msg peer_msg =
     (let d = from_secs (unat (min (open_hold_time local_msg) (open_hold_time peer_msg)))
      in if d = FAR_FUTURE then FAR_FUTURE else d)"

definition negotiated_keepalive :: "Duration \<Rightarrow> Duration" where
  "negotiated_keepalive hold =
     (if hold = FAR_FUTURE then FAR_FUTURE else duration_div hold DFLT_KEEPALIVE_FACTOR)"

text \<open>Starting the keepalive and the hold timer with the session's times.\<close>

definition start_keepalive_and_hold :: "'m ctx \<Rightarrow> 's Fsm \<Rightarrow> ('m, 's Fsm) act" where
  "start_keepalive_and_hold cx s =
     thenA (send_timer cx (Keepalive (Update (keepalive_time (fsm_attr s)))))
    (thenA (send_timer cx (Hold (Update (hold_time (fsm_attr s)))))
    (retA (s\<lparr>fsm_attr := (fsm_attr s)\<lparr>cur_keepalive_time := keepalive_time (fsm_attr s),
                                     cur_hold_time := hold_time (fsm_attr s)\<rparr>\<rparr>)))"

section \<open>Idle\<close>

definition idle_start :: "'m ctx \<Rightarrow> IdleSt Fsm \<Rightarrow> ('m, 'm State) act" where
  "idle_start cx s =
     (let fsm = reset_counter (Idle_into_Connect s) in
      thenA (send_timer cx (ConnectRetry (Update DFLT_BGP_TIMERS_CONNECT)))
     (let fsm = fsm\<lparr>fsm_attr := (fsm_attr fsm)\<lparr>cur_connect_retry_time := DFLT_BGP_TIMERS_CONNECT\<rparr>\<rparr> in
      bindA (spawn_tcp (fsm_peer fsm)) (\<lambda>h.
      retA (Connect (fsm\<lparr>fsm_state := (fsm_state fsm)\<lparr>co_tcp_conn_handle := Some h\<rparr>\<rparr>)))))"

definition idle_start_passive :: "'m ctx \<Rightarrow> IdleSt Fsm \<Rightarrow> ('m, 'm State) act" where
  "idle_start_passive cx s =
     (let fsm = reset_counter (Idle_into_Active s) in
      thenA (send_timer cx (ConnectRetry (Update DFLT_BGP_TIMERS_CONNECT)))
     (retA (Active (fsm\<lparr>fsm_attr :=
        (fsm_attr fsm)\<lparr>cur_connect_retry_time := DFLT_BGP_TIMERS_CONNECT\<rparr>\<rparr>))))"

definition step_Idle :: "'m ctx \<Rightarrow> IdleSt Fsm \<Rightarrow> 'm Event \<Rightarrow> ('m, 'm State) act" where
  "step_Idle cx s ev = (case ev of
     ManualStart \<Rightarrow> idle_start cx s
   | AutomaticStart \<Rightarrow> idle_start cx s
   | ManualStartWithPassiveTcpEstablishment \<Rightarrow> idle_start_passive cx s
   | AutomaticStartWithPassiveTcpEstablishment \<Rightarrow> idle_start_passive cx s
   | _ \<Rightarrow> retA (Idle s))"

section \<open>Connect\<close>

definition connect_manual_stop :: "'m ctx \<Rightarrow> ConnectSt Fsm \<Rightarrow> ('m, 'm State) act" where
  "connect_manual_stop cx s =
     bindA (Connect_into_Idle s) (\<lambda>fsm.
     bindA (stop_connect_retry cx (reset_counter fsm)) (\<lambda>fsm.
     retA (Idle fsm)))"

definition connect_retry_expires :: "'m ctx \<Rightarrow> ConnectSt Fsm \<Rightarrow> ('m, 'm State) act" where
  "connect_retry_expires cx s =
     thenA (abort_opt (co_tcp_conn_handle (fsm_state s)))
    (thenA (send_timer cx (ConnectRetry Restart))
    (bindA (stop_delay_open cx s) (\<lambda>s.
     bindA (spawn_tcp (fsm_peer s)) (\<lambda>h.
     retA (Connect (s\<lparr>fsm_state := (fsm_state s)\<lparr>co_tcp_conn_handle := Some h\<rparr>\<rparr>))))))"

definition connect_delay_open_expires :: "'m ctx \<Rightarrow> ConnectSt Fsm \<Rightarrow> ('m, 'm State) act" where
  "connect_delay_open_expires cx s =
     (let fsm = Connect_into_OpenSent s in
      bindA (unwrap (os_bgp_out_tx (fsm_state fsm))) (\<lambda>tx.
      let fsm = fsm\<lparr>fsm_state := (fsm_state fsm)\<lparr>os_local_open := Some (OpenMsg_from_conf (cx_conf cx))\<rparr>\<rparr> in
      thenA (send_out cx tx (Message_from_OpenMsg (OpenMsg_from_conf (cx_conf cx))))
     (retA (OpenSent fsm))))"

definition connect_tcp_acked :: "'m ctx \<Rightarrow> ConnectSt Fsm \<Rightarrow> TcpStream \<Rightarrow> ('m, 'm State) act" where
  "connect_tcp_acked cx s conn =
     (let remote_syn = False in
      bindA (stop_connect_retry cx (reset_counter s)) (\<lambda>s.
      bindA fresh (\<lambda>tx.
      bindA (spawn_process (BgpConn_new (cx_bytes cx) conn) tx remote_syn) (\<lambda>h.
      let s = s\<lparr>fsm_state := (fsm_state s)\<lparr>co_bgp_conn_handle := Some h, co_bgp_out_tx := Some tx\<rparr>\<rparr> in
      if delay_open (fsm_attr s) then
        thenA (send_timer cx (DelayOpen (Update (delay_open_time (fsm_attr s)))))
       (retA (Connect (s\<lparr>fsm_attr :=
          (fsm_attr s)\<lparr>cur_delay_open_time := delay_open_time (fsm_attr s)\<rparr>\<rparr>)))
      else
        thenA (send_out cx tx (Message_from_OpenMsg (OpenMsg_from_conf (cx_conf cx))))
       (let fsm = Connect_into_OpenSent s in
        retA (OpenSent (fsm\<lparr>fsm_state := (fsm_state fsm)\<lparr>os_remote_syn := remote_syn\<rparr>\<rparr>)))))))"

definition connect_tcp_confirmed :: "'m ctx \<Rightarrow> ConnectSt Fsm \<Rightarrow> 'm BgpConn \<Rightarrow> ('m, 'm State) act" where
  "connect_tcp_confirmed cx s bgp_conn =
     (let remote_syn = True in
      bindA (stop_connect_retry cx (reset_counter s)) (\<lambda>s.
      bindA fresh (\<lambda>tx.
      bindA (spawn_process bgp_conn tx remote_syn) (\<lambda>h.
      let s = s\<lparr>fsm_state := (fsm_state s)\<lparr>co_bgp_conn_handle := Some h, co_bgp_out_tx := Some tx\<rparr>\<rparr> in
      if delay_open (fsm_attr s) then
        thenA (send_timer cx (DelayOpen (Update (delay_open_time (fsm_attr s)))))
       (retA (Connect s))
      else
        thenA (send_out cx tx (Message_from_OpenMsg (OpenMsg_from_conf (cx_conf cx))))
       (let fsm = Connect_into_OpenSent s in
        retA (OpenSent (fsm\<lparr>fsm_state := (fsm_state fsm)\<lparr>os_remote_syn := remote_syn\<rparr>\<rparr>)))))))"

definition connect_tcp_fails :: "'m ctx \<Rightarrow> ConnectSt Fsm \<Rightarrow> ('m, 'm State) act" where
  "connect_tcp_fails cx s =
     (if cur_delay_open_time (fsm_attr s) = FAR_FUTURE then
        bindA (stop_connect_retry cx s) (\<lambda>s.
        bindA (Connect_into_Idle s) (\<lambda>fsm. retA (Idle fsm)))
      else
        thenA (send_timer cx (ConnectRetry Restart))
       (bindA (stop_delay_open cx s) (\<lambda>s.
        bindA (Connect_into_Active s) (\<lambda>fsm. retA (Active fsm)))))"

definition connect_open_delayed :: "'m ctx \<Rightarrow> ConnectSt Fsm \<Rightarrow> OpenMsg \<Rightarrow> ('m, 'm State) act" where
  "connect_open_delayed cx s msg =
     bindA (stop_connect_retry cx s) (\<lambda>s.
     bindA (stop_delay_open cx s) (\<lambda>s.
     let local_msg = OpenMsg_from_conf (cx_conf cx);
         fsm = Connect_into_OpenConfirm s;
         fsm = fsm\<lparr>fsm_state := (fsm_state fsm)\<lparr>oc_peer_open := Some msg, oc_local_open := Some local_msg\<rparr>\<rparr>
     in
     bindA (unwrap (oc_bgp_out_tx (fsm_state fsm))) (\<lambda>tx.
     thenA (send_out cx tx (Message_from_OpenMsg local_msg))
    (thenA (send_out cx tx (Message_from_KeepaliveMsg KeepaliveMsg_new))
    (let hold = negotiated_hold local_msg msg;
         fsm = fsm\<lparr>fsm_attr := (fsm_attr fsm)\<lparr>hold_time := hold,
                     keepalive_time := negotiated_keepalive hold\<rparr>\<rparr>
     in
     if hold_time (fsm_attr fsm) \<noteq> FAR_FUTURE then
       bindA (start_keepalive_and_hold cx fsm) (\<lambda>fsm. retA (OpenConfirm fsm))
     else
       thenA (send_timer cx (Keepalive Restart))
      (thenA (send_timer cx (Hold Stop))
      (retA (OpenConfirm (fsm\<lparr>fsm_attr := (fsm_attr fsm)\<lparr>cur_hold_time := FAR_FUTURE\<rparr>\<rparr>)))))))))"

definition connect_msg_err :: "'m ctx \<Rightarrow> ConnectSt Fsm \<Rightarrow> Error \<Rightarrow> ('m, 'm State) act" where
  "connect_msg_err cx s err =
     thenA (if send_notification_without_open (fsm_attr s)
            then send_opt cx (co_bgp_out_tx (fsm_state s)) (Message_from_NotificationMsg (NotificationMsg_from_error err))
            else retA ())
    (bindA (stop_connect_retry cx s) (\<lambda>s.
     bindA (count_retry cx s) (\<lambda>s.
     bindA (Connect_into_Idle s) (\<lambda>fsm. retA (Idle fsm)))))"

definition connect_version_err :: "'m ctx \<Rightarrow> ConnectSt Fsm \<Rightarrow> ('m, 'm State) act" where
  "connect_version_err cx s =
     bindA (stop_connect_retry cx s) (\<lambda>s.
     bindA (Connect_into_Idle s) (\<lambda>fsm.
     if cur_hold_time (fsm_attr fsm) \<noteq> FAR_FUTURE then
       bindA (stop_delay_open cx fsm) (\<lambda>fsm. retA (Idle fsm))
     else
       bindA (count_retry cx fsm) (\<lambda>fsm. retA (Idle fsm))))"

definition connect_other :: "'m ctx \<Rightarrow> ConnectSt Fsm \<Rightarrow> ('m, 'm State) act" where
  "connect_other cx s =
     bindA (stop_connect_retry cx s) (\<lambda>s.
     bindA (stop_delay_open cx s) (\<lambda>s.
     bindA (count_retry cx s) (\<lambda>s.
     bindA (Connect_into_Idle s) (\<lambda>fsm. retA (Idle fsm)))))"

definition step_Connect :: "'m ctx \<Rightarrow> ConnectSt Fsm \<Rightarrow> 'm Event \<Rightarrow> ('m, 'm State) act" where
  "step_Connect cx s ev = (case ev of
     ManualStop \<Rightarrow> connect_manual_stop cx s
   | ConnectRetryTimerExpires \<Rightarrow> connect_retry_expires cx s
   | DelayOpenTimerExpires \<Rightarrow> connect_delay_open_expires cx s
   | TcpConnectionValid \<Rightarrow> retA (Connect s)
   | TcpCRInvalid \<Rightarrow> retA (Connect s)
   | TcpCRAcked conn \<Rightarrow> connect_tcp_acked cx s conn
   | TcpConnectionConfirmed bgp_conn \<Rightarrow> connect_tcp_confirmed cx s bgp_conn
   | TcpConnectionFails err \<Rightarrow> connect_tcp_fails cx s
   | BGPOpenWithDelayOpenTimerRunning msg remote_syn \<Rightarrow> connect_open_delayed cx s msg
   | BGPHeaderErr err \<Rightarrow> connect_msg_err cx s err
   | BGPOpenMsgErr err \<Rightarrow> connect_msg_err cx s err
   | NotifyMsgVerErr err \<Rightarrow> connect_version_err cx s
   | _ \<Rightarrow> connect_other cx s)"

lemmas shared_defs = stop_connect_retry_def stop_delay_open_def reset_counter_def
  count_retry_def start_keepalive_and_hold_def

lemmas idle_arm_defs = idle_start_def idle_start_passive_def

lemmas connect_arm_defs = connect_manual_stop_def connect_retry_expires_def
  connect_delay_open_expires_def connect_tcp_acked_def connect_tcp_confirmed_def
  connect_tcp_fails_def connect_open_delayed_def connect_msg_err_def connect_version_err_def
  connect_other_def

text \<open>The negotiated hold time is the smaller offer; the far future never is one.\<close>

lemma negotiated_hold_eq:
  "negotiated_hold l p = from_secs (min (unat (open_hold_time l)) (unat (open_hold_time p)))"
proof -
  have "unat (min (open_hold_time l) (open_hold_time p)) =
      min (unat (open_hold_time l)) (unat (open_hold_time p))"
    by (simp add: min_def word_le_nat_alt)
  then show ?thesis
    by (simp add: negotiated_hold_def Let_def)
qed

lemma negotiated_hold_not_far [simp]: "negotiated_hold l p \<noteq> FAR_FUTURE"
  by (simp add: negotiated_hold_def Let_def from_secs_u16_not_far)

end
