(* ===== verification/Session_Active.thy ===== *)
theory Session_Active
  imports Session_Connect
begin

text \<open>The arms of the session loop of \<^verbatim>\<open>src/session.rs\<close> for the state Active.\<close>

text \<open>Events 1 and 3 to 7 of RFC 4271, which the states from Active on ignore.\<close>

definition is_start_event :: "'m Event \<Rightarrow> bool" where
  "is_start_event ev = (case ev of
     ManualStart \<Rightarrow> True
   | AutomaticStart \<Rightarrow> True
   | ManualStartWithPassiveTcpEstablishment \<Rightarrow> True
   | AutomaticStartWithPassiveTcpEstablishment \<Rightarrow> True
   | AutomaticStartWithDampPeerOscillations \<Rightarrow> True
   | AutomaticStartWithDampPeerOscillationsAndPassiveTcpEstablishment \<Rightarrow> True
   | _ \<Rightarrow> False)"

definition active_manual_stop :: "'m ctx \<Rightarrow> ActiveSt Fsm \<Rightarrow> ('m, 'm State) act" where
  "active_manual_stop cx s =
     bindA (if cur_hold_time (fsm_attr s) \<noteq> FAR_FUTURE then
              bindA (stop_delay_open cx s) (\<lambda>s.
              thenA (if send_notification_without_open (fsm_attr s)
                     then send_opt cx (ac_bgp_out_tx (fsm_state s)) cease
                     else retA ())
             (retA s))
            else retA s) (\<lambda>s.
     bindA (stop_connect_retry cx s) (\<lambda>s.
     bindA (Active_into_Idle (reset_counter s)) (\<lambda>fsm. retA (Idle fsm))))"

definition active_retry_expires :: "'m ctx \<Rightarrow> ActiveSt Fsm \<Rightarrow> ('m, 'm State) act" where
  "active_retry_expires cx s =
     thenA (send_timer cx (ConnectRetry Restart))
    (let fsm = Active_into_Connect s in
     bindA (spawn_tcp (fsm_peer fsm)) (\<lambda>h.
     retA (Connect (fsm\<lparr>fsm_state := (fsm_state fsm)\<lparr>co_tcp_conn_handle := Some h\<rparr>\<rparr>))))"

definition active_delay_open_expires :: "'m ctx \<Rightarrow> ActiveSt Fsm \<Rightarrow> ('m, 'm State) act" where
  "active_delay_open_expires cx s =
     bindA (stop_connect_retry cx s) (\<lambda>s.
     bindA (stop_delay_open cx s) (\<lambda>s.
     let fsm = Active_into_OpenSent s in
     bindA (unwrap (os_bgp_out_tx (fsm_state fsm))) (\<lambda>tx.
     let fsm = fsm\<lparr>fsm_state := (fsm_state fsm)\<lparr>os_local_open := Some (OpenMsg_from_conf (cx_conf cx))\<rparr>\<rparr> in
     thenA (send_out cx tx (Message_from_OpenMsg (OpenMsg_from_conf (cx_conf cx))))
    (retA (OpenSent fsm)))))"

text \<open>The two arms for a new connection differ in who opened it and in how it is handed over.\<close>

definition active_connected ::
    "'m ctx \<Rightarrow> ActiveSt Fsm \<Rightarrow> 'm BgpConn \<Rightarrow> bool \<Rightarrow> ('m, 'm State) act" where
  "active_connected cx s bgp_conn remote_syn =
     bindA (stop_connect_retry cx (reset_counter s)) (\<lambda>s.
     bindA fresh (\<lambda>tx.
     bindA (spawn_process bgp_conn tx remote_syn) (\<lambda>h.
     let s = s\<lparr>fsm_state := (fsm_state s)\<lparr>ac_bgp_conn_handle := Some h, ac_bgp_out_tx := Some tx\<rparr>\<rparr> in
     if delay_open (fsm_attr s) then
       thenA (send_timer cx (DelayOpen (Update (delay_open_time (fsm_attr s)))))
      (retA (Active (s\<lparr>fsm_attr :=
         (fsm_attr s)\<lparr>cur_delay_open_time := delay_open_time (fsm_attr s)\<rparr>\<rparr>)))
     else
       thenA (send_out cx tx (Message_from_OpenMsg (OpenMsg_from_conf (cx_conf cx))))
      (let fsm = Active_into_OpenSent s in
       retA (OpenSent (fsm\<lparr>fsm_state := (fsm_state fsm)\<lparr>os_remote_syn := remote_syn\<rparr>\<rparr>))))))"

definition active_tcp_acked :: "'m ctx \<Rightarrow> ActiveSt Fsm \<Rightarrow> TcpStream \<Rightarrow> ('m, 'm State) act" where
  "active_tcp_acked cx s conn = active_connected cx s (BgpConn_new (cx_bytes cx) conn) False"

definition active_tcp_confirmed :: "'m ctx \<Rightarrow> ActiveSt Fsm \<Rightarrow> 'm BgpConn \<Rightarrow> ('m, 'm State) act" where
  "active_tcp_confirmed cx s bgp_conn = active_connected cx s bgp_conn True"

definition active_tcp_fails :: "'m ctx \<Rightarrow> ActiveSt Fsm \<Rightarrow> ('m, 'm State) act" where
  "active_tcp_fails cx s =
     thenA (send_timer cx (ConnectRetry Restart))
    (bindA (stop_delay_open cx s) (\<lambda>s.
     bindA (count_retry cx s) (\<lambda>s.
     bindA (Active_into_Idle s) (\<lambda>fsm. retA (Idle fsm)))))"

definition active_open_delayed :: "'m ctx \<Rightarrow> ActiveSt Fsm \<Rightarrow> OpenMsg \<Rightarrow> ('m, 'm State) act" where
  "active_open_delayed cx s msg =
     bindA (stop_connect_retry cx s) (\<lambda>s.
     bindA (stop_delay_open cx s) (\<lambda>s.
     let local_msg = OpenMsg_from_conf (cx_conf cx);
         fsm = Active_into_OpenConfirm s;
         fsm = fsm\<lparr>fsm_state := (fsm_state fsm)\<lparr>oc_peer_open := Some msg, oc_local_open := Some local_msg\<rparr>\<rparr>
     in
     bindA (unwrap (oc_bgp_out_tx (fsm_state fsm))) (\<lambda>tx.
     thenA (send_out cx tx (Message_from_OpenMsg local_msg))
    (thenA (send_out cx tx (Message_from_KeepaliveMsg KeepaliveMsg_new))
    (let hold = negotiated_hold local_msg msg;
         fsm = fsm\<lparr>fsm_attr := (fsm_attr fsm)\<lparr>hold_time := hold,
                     keepalive_time := negotiated_keepalive hold\<rparr>\<rparr>
     in
     if hold_time (fsm_attr fsm) \<noteq> FAR_FUTURE then
       bindA (start_keepalive_and_hold cx fsm) (\<lambda>fsm. retA (OpenConfirm fsm))
     else
       thenA (send_timer cx (Keepalive Stop))
      (thenA (send_timer cx (Hold Stop))
      (retA (OpenConfirm (fsm\<lparr>fsm_attr := (fsm_attr fsm)\<lparr>cur_keepalive_time := FAR_FUTURE,
                                                         cur_hold_time := FAR_FUTURE\<rparr>\<rparr>)))))))))"

definition active_msg_err :: "'m ctx \<Rightarrow> ActiveSt Fsm \<Rightarrow> Error \<Rightarrow> ('m, 'm State) act" where
  "active_msg_err cx s err =
     thenA (if send_notification_without_open (fsm_attr s)
            then send_opt cx (ac_bgp_out_tx (fsm_state s)) (Message_from_NotificationMsg (NotificationMsg_from_error err))
            else retA ())
    (bindA (stop_connect_retry cx s) (\<lambda>s.
     bindA (count_retry cx s) (\<lambda>s.
     bindA (Active_into_Idle s) (\<lambda>fsm. retA (Idle fsm)))))"

definition active_version_err :: "'m ctx \<Rightarrow> ActiveSt Fsm \<Rightarrow> ('m, 'm State) act" where
  "active_version_err cx s =
     bindA (stop_connect_retry cx s) (\<lambda>s.
     bindA (Active_into_Idle s) (\<lambda>fsm.
     if cur_hold_time (fsm_attr fsm) \<noteq> FAR_FUTURE then
       bindA (stop_delay_open cx fsm) (\<lambda>fsm. retA (Idle fsm))
     else
       bindA (count_retry cx fsm) (\<lambda>fsm. retA (Idle fsm))))"

definition active_other :: "'m ctx \<Rightarrow> ActiveSt Fsm \<Rightarrow> ('m, 'm State) act" where
  "active_other cx s =
     bindA (stop_connect_retry cx s) (\<lambda>s.
     bindA (count_retry cx s) (\<lambda>s.
     bindA (Active_into_Idle s) (\<lambda>fsm. retA (Idle fsm))))"

definition step_Active :: "'m ctx \<Rightarrow> ActiveSt Fsm \<Rightarrow> 'm Event \<Rightarrow> ('m, 'm State) act" where
  "step_Active cx s ev =
     (if is_start_event ev then retA (Active s)
      else case ev of
        ManualStop \<Rightarrow> active_manual_stop cx s
      | ConnectRetryTimerExpires \<Rightarrow> active_retry_expires cx s
      | DelayOpenTimerExpires \<Rightarrow> active_delay_open_expires cx s
      | TcpConnectionValid \<Rightarrow> retA (Active s)
      | TcpCRInvalid \<Rightarrow> retA (Active s)
      | TcpCRAcked conn \<Rightarrow> active_tcp_acked cx s conn
      | TcpConnectionConfirmed bgp_conn \<Rightarrow> active_tcp_confirmed cx s bgp_conn
      | TcpConnectionFails err \<Rightarrow> active_tcp_fails cx s
      | BGPOpenWithDelayOpenTimerRunning msg remote_syn \<Rightarrow> active_open_delayed cx s msg
      | BGPHeaderErr err \<Rightarrow> active_msg_err cx s err
      | BGPOpenMsgErr err \<Rightarrow> active_msg_err cx s err
      | NotifyMsgVerErr err \<Rightarrow> active_version_err cx s
      | _ \<Rightarrow> active_other cx s)"

lemmas active_arm_defs = active_manual_stop_def active_retry_expires_def
  active_delay_open_expires_def active_connected_def active_tcp_acked_def
  active_tcp_confirmed_def active_tcp_fails_def active_open_delayed_def active_msg_err_def
  active_version_err_def active_other_def

end
