(* ===== verification/Session_OpenSent.thy ===== *)
theory Session_OpenSent
  imports Session_Active
begin

text \<open>The arms of the session loop of \<^verbatim>\<open>src/session.rs\<close> for the state OpenSent.\<close>

definition opensent_manual_stop :: "'m ctx \<Rightarrow> 'm OpenSentSt Fsm \<Rightarrow> ('m, 'm State) act" where
  "opensent_manual_stop cx s =
     thenA (send_opt cx (os_bgp_out_tx (fsm_state s)) cease)
    (bindA (stop_connect_retry cx s) (\<lambda>s.
     bindA (OpenSent_into_Idle (reset_counter s)) (\<lambda>fsm. retA (Idle fsm))))"

definition opensent_automatic_stop :: "'m ctx \<Rightarrow> 'm OpenSentSt Fsm \<Rightarrow> ('m, 'm State) act" where
  "opensent_automatic_stop cx s =
     thenA (send_opt cx (os_bgp_out_tx (fsm_state s)) cease)
    (bindA (stop_connect_retry cx s) (\<lambda>s.
     bindA (count_retry cx s) (\<lambda>s.
     bindA (OpenSent_into_Idle s) (\<lambda>fsm. retA (Idle fsm)))))"

definition opensent_hold_expires :: "'m ctx \<Rightarrow> 'm OpenSentSt Fsm \<Rightarrow> ('m, 'm State) act" where
  "opensent_hold_expires cx s =
     thenA (send_opt cx (os_bgp_out_tx (fsm_state s))
              (Message_from_NotificationMsg (NotificationMsg_from_enum HoldTimerExpired Undefined None)))
    (bindA (stop_connect_retry cx s) (\<lambda>s.
     bindA (count_retry cx s) (\<lambda>s.
     bindA (OpenSent_into_Idle s) (\<lambda>fsm. retA (Idle fsm)))))"

definition opensent_tcp_acked :: "'m ctx \<Rightarrow> 'm OpenSentSt Fsm \<Rightarrow> TcpStream \<Rightarrow> ('m, 'm State) act" where
  "opensent_tcp_acked cx s conn =
     thenA (spawn_process_one (BgpConn_new (cx_bytes cx) conn) False) (retA (OpenSent s))"

text \<open>A second connection is kept aside, whether it was accepted or was opened here.\<close>

definition opensent_tcp_confirmed :: "'m OpenSentSt Fsm \<Rightarrow> 'm BgpConn \<Rightarrow> ('m, 'm State) act" where
  "opensent_tcp_confirmed s bgp_conn =
     retA (OpenSent (s\<lparr>fsm_state := (fsm_state s)\<lparr>os_collision_conn := Some bgp_conn\<rparr>\<rparr>))"

definition opensent_process_one_done :: "'m OpenSentSt Fsm \<Rightarrow> 'm BgpConn \<Rightarrow> ('m, 'm State) act" where
  "opensent_process_one_done s conn =
     retA (OpenSent (s\<lparr>fsm_state := (fsm_state s)\<lparr>os_collision_conn := Some conn\<rparr>\<rparr>))"

definition opensent_tcp_fails :: "'m ctx \<Rightarrow> 'm OpenSentSt Fsm \<Rightarrow> ('m, 'm State) act" where
  "opensent_tcp_fails cx s =
     thenA (send_timer cx (ConnectRetry Restart))
    (bindA (OpenSent_into_Active s) (\<lambda>fsm. retA (Active fsm)))"

text \<open>The collision part of the OPEN arm: which of the two connections is kept.\<close>

definition opensent_collision ::
    "'m ctx \<Rightarrow> 'm OpenSentSt Fsm \<Rightarrow> OpenMsg \<Rightarrow> bool \<Rightarrow> ('m, 'm OpenSentSt Fsm) act" where
  "opensent_collision cx s msg remote_syn =
     (if os_remote_syn (fsm_state s) \<noteq> remote_syn then
        bindA (unwrap (os_local_open (fsm_state s))) (\<lambda>local_msg.
        if bgp_identifier local_msg < bgp_identifier msg then
          bindA fresh (\<lambda>tx.
          bindA (unwrap (os_collision_conn (fsm_state s))) (\<lambda>bgp_conn.
          bindA (unwrap (os_bgp_out_tx (fsm_state s))) (\<lambda>old_tx.
          thenA (send_out cx old_tx cease)
         (bindA (spawn_process bgp_conn tx remote_syn) (\<lambda>h.
          thenA (if remote_syn then send_out cx tx (Message_from_OpenMsg (OpenMsg_from_conf (cx_conf cx)))
                 else retA ())
         (retA (s\<lparr>fsm_state := (fsm_state s)\<lparr>os_bgp_conn_handle := Some h,
                    os_bgp_out_tx := Some tx, os_collision_conn := None\<rparr>\<rparr>)))))))
        else
          retA (s\<lparr>fsm_state := (fsm_state s)\<lparr>os_collision_conn := None\<rparr>\<rparr>))
      else retA s)"

definition opensent_open :: "'m ctx \<Rightarrow> 'm OpenSentSt Fsm \<Rightarrow> OpenMsg \<Rightarrow> bool \<Rightarrow> ('m, 'm State) act" where
  "opensent_open cx s msg remote_syn =
     bindA (opensent_collision cx s msg remote_syn) (\<lambda>s.
     bindA (stop_delay_open cx s) (\<lambda>s.
     bindA (stop_connect_retry cx s) (\<lambda>s.
     let fsm = OpenSent_into_OpenConfirm s;
         fsm = fsm\<lparr>fsm_state := (fsm_state fsm)\<lparr>oc_peer_open := Some msg\<rparr>\<rparr>
     in
     bindA (unwrap (oc_local_open (fsm_state fsm))) (\<lambda>local_msg.
     let fsm = fsm\<lparr>fsm_attr := (fsm_attr fsm)\<lparr>hold_time := negotiated_hold local_msg msg\<rparr>\<rparr> in
     if hold_time (fsm_attr fsm) \<noteq> FAR_FUTURE then
       bindA (start_keepalive_and_hold cx fsm) (\<lambda>fsm. retA (OpenConfirm fsm))
     else
       thenA (send_timer cx (Keepalive Restart))
      (thenA (send_timer cx (Hold Stop))
      (retA (OpenConfirm (fsm\<lparr>fsm_attr := (fsm_attr fsm)\<lparr>cur_hold_time := FAR_FUTURE\<rparr>\<rparr>))))))))"

definition opensent_msg_err :: "'m ctx \<Rightarrow> 'm OpenSentSt Fsm \<Rightarrow> Error \<Rightarrow> ('m, 'm State) act" where
  "opensent_msg_err cx s err =
     thenA (send_opt cx (os_bgp_out_tx (fsm_state s)) (Message_from_NotificationMsg (NotificationMsg_from_error err)))
    (bindA (stop_connect_retry cx s) (\<lambda>s.
     bindA (count_retry cx s) (\<lambda>s.
     bindA (OpenSent_into_Idle s) (\<lambda>fsm. retA (Idle fsm)))))"

definition opensent_version_err :: "'m ctx \<Rightarrow> 'm OpenSentSt Fsm \<Rightarrow> ('m, 'm State) act" where
  "opensent_version_err cx s =
     bindA (stop_connect_retry cx s) (\<lambda>s.
     bindA (OpenSent_into_Idle s) (\<lambda>fsm. retA (Idle fsm)))"

definition opensent_other :: "'m ctx \<Rightarrow> 'm OpenSentSt Fsm \<Rightarrow> ('m, 'm State) act" where
  "opensent_other cx s =
     thenA (send_opt cx (os_bgp_out_tx (fsm_state s))
              (Message_from_NotificationMsg (NotificationMsg_from_enum FiniteStateMachineError Undefined None)))
    (bindA (stop_connect_retry cx s) (\<lambda>s.
     bindA (OpenSent_into_Idle s) (\<lambda>fsm. retA (Idle fsm))))"

datatype Source = SrcAdmin | SrcTcp | SrcBgp | SrcColl | SrcTimer

definition step_OpenSent ::
    "'m ctx \<Rightarrow> 'm OpenSentSt Fsm \<Rightarrow> 'm Event \<Rightarrow> Source \<Rightarrow> ('m, 'm State) act" where
  "step_OpenSent cx s ev src =
     (if is_start_event ev then retA (OpenSent s)
      else case ev of
        ManualStop \<Rightarrow> opensent_manual_stop cx s
      | AutomaticStop \<Rightarrow> opensent_automatic_stop cx s
      | HoldTimerExpires \<Rightarrow> opensent_hold_expires cx s
      | TcpConnectionValid \<Rightarrow> retA (OpenSent s)
      | TcpCRAcked conn \<Rightarrow> opensent_tcp_acked cx s conn
      | TcpConnectionConfirmed bgp_conn \<Rightarrow> opensent_tcp_confirmed s bgp_conn
      | ProcessOneDone conn \<Rightarrow> opensent_process_one_done s conn
      | TcpCRInvalid \<Rightarrow> retA (OpenSent s)
      | TcpConnectionFails err \<Rightarrow> opensent_tcp_fails cx s
      | BGPOpen msg remote_syn \<Rightarrow> opensent_open cx s msg remote_syn
      | BGPHeaderErr err \<Rightarrow>
          (if src = SrcBgp then opensent_msg_err cx s err else retA (OpenSent s))
      | BGPOpenMsgErr err \<Rightarrow>
          (if src = SrcBgp then opensent_msg_err cx s err else retA (OpenSent s))
      | NotifyMsgVerErr err \<Rightarrow> opensent_version_err cx s
      | _ \<Rightarrow> opensent_other cx s)"

lemmas opensent_arm_defs = opensent_manual_stop_def opensent_automatic_stop_def
  opensent_hold_expires_def opensent_tcp_acked_def opensent_tcp_confirmed_def
  opensent_process_one_done_def opensent_tcp_fails_def opensent_collision_def opensent_open_def
  opensent_msg_err_def opensent_version_err_def opensent_other_def

end
