(* ===== verification/Session_OpenConfirm.thy ===== *)
theory Session_OpenConfirm
  imports Session_OpenSent
begin

text \<open>
  The arms of the session loop of \<^verbatim>\<open>src/session.rs\<close> for the state OpenConfirm. An OPEN from the
  direction the session already has is an explicit panic of the source.
\<close>

definition openconfirm_manual_stop :: "'m ctx \<Rightarrow> 'm OpenConfirmSt Fsm \<Rightarrow> ('m, 'm State) act" where
  "openconfirm_manual_stop cx s =
     thenA (send_opt cx (oc_bgp_out_tx (fsm_state s)) cease)
    (bindA (stop_connect_retry cx s) (\<lambda>s.
     bindA (OpenConfirm_into_Idle (reset_counter s)) (\<lambda>fsm. retA (Idle fsm))))"

definition openconfirm_automatic_stop :: "'m ctx \<Rightarrow> 'm OpenConfirmSt Fsm \<Rightarrow> ('m, 'm State) act" where
  "openconfirm_automatic_stop cx s =
     thenA (send_opt cx (oc_bgp_out_tx (fsm_state s)) cease)
    (bindA (stop_connect_retry cx s) (\<lambda>s.
     bindA (count_retry cx s) (\<lambda>s.
     bindA (OpenConfirm_into_Idle s) (\<lambda>fsm. retA (Idle fsm)))))"

definition openconfirm_hold_expires :: "'m ctx \<Rightarrow> 'm OpenConfirmSt Fsm \<Rightarrow> ('m, 'm State) act" where
  "openconfirm_hold_expires cx s =
     thenA (send_opt cx (oc_bgp_out_tx (fsm_state s))
              (Message_from_NotificationMsg (NotificationMsg_from_enum HoldTimerExpired Undefined None)))
    (bindA (stop_connect_retry cx s) (\<lambda>s.
     bindA (count_retry cx s) (\<lambda>s.
     bindA (OpenConfirm_into_Idle s) (\<lambda>fsm. retA (Idle fsm)))))"

definition openconfirm_keepalive_expires :: "'m ctx \<Rightarrow> 'm OpenConfirmSt Fsm \<Rightarrow> ('m, 'm State) act" where
  "openconfirm_keepalive_expires cx s =
     thenA (send_opt cx (oc_bgp_out_tx (fsm_state s)) (Message_from_KeepaliveMsg KeepaliveMsg_new))
    (thenA (send_timer cx (Keepalive Restart))
    (retA (OpenConfirm s)))"

definition openconfirm_tcp_acked :: "'m ctx \<Rightarrow> 'm OpenConfirmSt Fsm \<Rightarrow> TcpStream \<Rightarrow> ('m, 'm State) act" where
  "openconfirm_tcp_acked cx s conn =
     thenA (spawn_process_one (BgpConn_new (cx_bytes cx) conn) False) (retA (OpenConfirm s))"

definition openconfirm_tcp_confirmed :: "'m OpenConfirmSt Fsm \<Rightarrow> 'm BgpConn \<Rightarrow> ('m, 'm State) act" where
  "openconfirm_tcp_confirmed s conn =
     retA (OpenConfirm (s\<lparr>fsm_state := (fsm_state s)\<lparr>oc_collision_conn := Some conn\<rparr>\<rparr>))"

definition openconfirm_process_one_done :: "'m OpenConfirmSt Fsm \<Rightarrow> 'm BgpConn \<Rightarrow> ('m, 'm State) act" where
  "openconfirm_process_one_done s conn =
     retA (OpenConfirm (s\<lparr>fsm_state := (fsm_state s)\<lparr>oc_collision_conn := Some conn\<rparr>\<rparr>))"

definition openconfirm_tcp_fails :: "'m ctx \<Rightarrow> 'm OpenConfirmSt Fsm \<Rightarrow> ('m, 'm State) act" where
  "openconfirm_tcp_fails cx s =
     bindA (stop_connect_retry cx s) (\<lambda>s.
     bindA (count_retry cx s) (\<lambda>s.
     bindA (OpenConfirm_into_Idle s) (\<lambda>fsm. retA (Idle fsm))))"

definition openconfirm_version_err :: "'m ctx \<Rightarrow> 'm OpenConfirmSt Fsm \<Rightarrow> ('m, 'm State) act" where
  "openconfirm_version_err cx s =
     bindA (stop_connect_retry cx s) (\<lambda>s.
     bindA (OpenConfirm_into_Idle s) (\<lambda>fsm. retA (Idle fsm)))"

definition openconfirm_open ::
    "'m ctx \<Rightarrow> 'm OpenConfirmSt Fsm \<Rightarrow> OpenMsg \<Rightarrow> bool \<Rightarrow> ('m, 'm State) act" where
  "openconfirm_open cx s msg remote_syn =
     (if oc_remote_syn (fsm_state s) = remote_syn then panicA ExplicitPanic
      else
        bindA (unwrap (oc_local_open (fsm_state s))) (\<lambda>local_msg.
        if bgp_identifier local_msg < bgp_identifier msg then
          bindA fresh (\<lambda>tx.
          bindA (unwrap (oc_collision_conn (fsm_state s))) (\<lambda>bgp_conn.
          bindA (spawn_process bgp_conn tx remote_syn) (\<lambda>h.
          retA (OpenConfirm (s\<lparr>fsm_state := (fsm_state s)\<lparr>oc_bgp_conn_handle := Some h,
                    oc_bgp_out_tx := Some tx, oc_collision_conn := None\<rparr>\<rparr>)))))
        else
          retA (OpenConfirm (s\<lparr>fsm_state := (fsm_state s)\<lparr>oc_collision_conn := None\<rparr>\<rparr>))))"

definition openconfirm_msg_err :: "'m ctx \<Rightarrow> 'm OpenConfirmSt Fsm \<Rightarrow> Error \<Rightarrow> ('m, 'm State) act" where
  "openconfirm_msg_err cx s err =
     thenA (send_opt cx (oc_bgp_out_tx (fsm_state s)) (Message_from_NotificationMsg (NotificationMsg_from_error err)))
    (bindA (stop_connect_retry cx s) (\<lambda>s.
     bindA (count_retry cx s) (\<lambda>s.
     bindA (OpenConfirm_into_Idle s) (\<lambda>fsm. retA (Idle fsm)))))"

definition openconfirm_keepalive_msg :: "'m ctx \<Rightarrow> 'm OpenConfirmSt Fsm \<Rightarrow> ('m, 'm State) act" where
  "openconfirm_keepalive_msg cx s =
     thenA (send_timer cx (Hold Restart)) (retA (Established (OpenConfirm_into_Established s)))"

definition openconfirm_other :: "'m ctx \<Rightarrow> 'm OpenConfirmSt Fsm \<Rightarrow> ('m, 'm State) act" where
  "openconfirm_other cx s =
     thenA (send_opt cx (oc_bgp_out_tx (fsm_state s))
              (Message_from_NotificationMsg (NotificationMsg_from_enum FiniteStateMachineError Undefined None)))
    (bindA (stop_connect_retry cx s) (\<lambda>s.
     bindA (count_retry cx s) (\<lambda>s.
     bindA (OpenConfirm_into_Idle s) (\<lambda>fsm. retA (Idle fsm)))))"

definition step_OpenConfirm ::
    "'m ctx \<Rightarrow> 'm OpenConfirmSt Fsm \<Rightarrow> 'm Event \<Rightarrow> Source \<Rightarrow> ('m, 'm State) act" where
  "step_OpenConfirm cx s ev src =
     (if is_start_event ev then retA (OpenConfirm s)
      else case ev of
        ManualStop \<Rightarrow> openconfirm_manual_stop cx s
      | AutomaticStop \<Rightarrow> openconfirm_automatic_stop cx s
      | HoldTimerExpires \<Rightarrow> openconfirm_hold_expires cx s
      | KeepaliveTimerExpires \<Rightarrow> openconfirm_keepalive_expires cx s
      | TcpConnectionValid \<Rightarrow> retA (OpenConfirm s)
      | TcpCRAcked conn \<Rightarrow> openconfirm_tcp_acked cx s conn
      | TcpConnectionConfirmed conn \<Rightarrow> openconfirm_tcp_confirmed s conn
      | ProcessOneDone conn \<Rightarrow> openconfirm_process_one_done s conn
      | TcpCRInvalid \<Rightarrow> retA (OpenConfirm s)
      | TcpConnectionFails err \<Rightarrow> openconfirm_tcp_fails cx s
      | NotifyMsgVerErr err \<Rightarrow> openconfirm_version_err cx s
      | BGPOpen msg remote_syn \<Rightarrow> openconfirm_open cx s msg remote_syn
      | BGPHeaderErr err \<Rightarrow>
          (if src = SrcBgp then openconfirm_msg_err cx s err else retA (OpenConfirm s))
      | BGPOpenMsgErr err \<Rightarrow>
          (if src = SrcBgp then openconfirm_msg_err cx s err else retA (OpenConfirm s))
      | OpenCollisionDump \<Rightarrow> retA (OpenConfirm s)
      | EvKeepaliveMsg \<Rightarrow> openconfirm_keepalive_msg cx s
      | _ \<Rightarrow> openconfirm_other cx s)"

lemmas openconfirm_arm_defs = openconfirm_manual_stop_def openconfirm_automatic_stop_def
  openconfirm_hold_expires_def openconfirm_keepalive_expires_def openconfirm_tcp_acked_def
  openconfirm_tcp_confirmed_def openconfirm_process_one_done_def openconfirm_tcp_fails_def
  openconfirm_version_err_def openconfirm_open_def openconfirm_msg_err_def
  openconfirm_keepalive_msg_def openconfirm_other_def

end
