(* ===== verification/Session_Established.thy ===== *)
theory Session_Established
  imports Session_OpenConfirm
begin

text \<open>The arms of the session loop of \<^verbatim>\<open>src/session.rs\<close> for the state Established.\<close>

definition established_manual_stop :: "'m ctx \<Rightarrow> 'm EstablishedSt Fsm \<Rightarrow> ('m, 'm State) act" where
  "established_manual_stop cx s =
     thenA (send_opt cx (es_bgp_out_tx (fsm_state s)) cease)
    (bindA (stop_connect_retry cx s) (\<lambda>s.
     bindA (Established_into_Idle (reset_counter s)) (\<lambda>fsm. retA (Idle fsm))))"

definition established_automatic_stop :: "'m ctx \<Rightarrow> 'm EstablishedSt Fsm \<Rightarrow> ('m, 'm State) act" where
  "established_automatic_stop cx s =
     thenA (send_opt cx (es_bgp_out_tx (fsm_state s)) cease)
    (bindA (stop_connect_retry cx s) (\<lambda>s.
     bindA (count_retry cx s) (\<lambda>s.
     bindA (Established_into_Idle s) (\<lambda>fsm. retA (Idle fsm)))))"

definition established_hold_expires :: "'m ctx \<Rightarrow> 'm EstablishedSt Fsm \<Rightarrow> ('m, 'm State) act" where
  "established_hold_expires cx s =
     thenA (send_opt cx (es_bgp_out_tx (fsm_state s))
              (Message_from_NotificationMsg (NotificationMsg_from_enum HoldTimerExpired Undefined None)))
    (bindA (stop_connect_retry cx s) (\<lambda>s.
     bindA (count_retry cx s) (\<lambda>s.
     bindA (Established_into_Idle s) (\<lambda>fsm. retA (Idle fsm)))))"

definition established_keepalive_expires :: "'m ctx \<Rightarrow> 'm EstablishedSt Fsm \<Rightarrow> ('m, 'm State) act" where
  "established_keepalive_expires cx s =
     thenA (send_opt cx (es_bgp_out_tx (fsm_state s)) (Message_from_KeepaliveMsg KeepaliveMsg_new))
    (thenA (if hold_time (fsm_attr s) \<noteq> FAR_FUTURE then send_timer cx (Keepalive Restart)
            else retA ())
    (retA (Established s)))"

definition established_tcp_acked :: "'m ctx \<Rightarrow> 'm EstablishedSt Fsm \<Rightarrow> TcpStream \<Rightarrow> ('m, 'm State) act" where
  "established_tcp_acked cx s conn =
     thenA (spawn_process_one (BgpConn_new (cx_bytes cx) conn) False) (retA (Established s))"

definition established_tcp_confirmed :: "'m EstablishedSt Fsm \<Rightarrow> 'm BgpConn \<Rightarrow> ('m, 'm State) act" where
  "established_tcp_confirmed s conn =
     retA (Established (s\<lparr>fsm_state := (fsm_state s)\<lparr>es_collision_conn := Some conn\<rparr>\<rparr>))"

definition established_process_one_done :: "'m EstablishedSt Fsm \<Rightarrow> 'm BgpConn \<Rightarrow> ('m, 'm State) act" where
  "established_process_one_done s conn =
     retA (Established (s\<lparr>fsm_state := (fsm_state s)\<lparr>es_collision_conn := Some conn\<rparr>\<rparr>))"

definition established_open ::
    "'m ctx \<Rightarrow> 'm EstablishedSt Fsm \<Rightarrow> OpenMsg \<Rightarrow> bool \<Rightarrow> ('m, 'm State) act" where
  "established_open cx s msg remote_syn =
     (if es_remote_syn (fsm_state s) = remote_syn then panicA ExplicitPanic
      else
        bindA (if collision_detect_established_state (fsm_attr s)
               then bindA (unwrap (es_local_open (fsm_state s))) (\<lambda>local_msg.
                    retA (bgp_identifier local_msg < bgp_identifier msg))
               else retA False) (\<lambda>replace.
        if replace then
          thenA (send_opt cx (es_bgp_out_tx (fsm_state s)) cease)
         (bindA fresh (\<lambda>tx.
          bindA (unwrap (es_collision_conn (fsm_state s))) (\<lambda>bgp_conn.
          bindA (spawn_process bgp_conn tx remote_syn) (\<lambda>h.
          retA (Established (s\<lparr>fsm_state := (fsm_state s)\<lparr>es_bgp_conn_handle := Some h,
                    es_bgp_out_tx := Some tx, es_collision_conn := None\<rparr>\<rparr>))))))
        else
          retA (Established (s\<lparr>fsm_state := (fsm_state s)\<lparr>es_collision_conn := None\<rparr>\<rparr>))))"

definition established_connection_lost :: "'m ctx \<Rightarrow> 'm EstablishedSt Fsm \<Rightarrow> ('m, 'm State) act" where
  "established_connection_lost cx s =
     bindA (stop_connect_retry cx s) (\<lambda>s.
     bindA (count_retry cx s) (\<lambda>s.
     bindA (Established_into_Idle s) (\<lambda>fsm. retA (Idle fsm))))"

definition established_keepalive_msg :: "'m ctx \<Rightarrow> 'm EstablishedSt Fsm \<Rightarrow> ('m, 'm State) act" where
  "established_keepalive_msg cx s =
     thenA (send_timer cx (Hold Restart)) (retA (Established s))"

definition established_update_msg :: "'m ctx \<Rightarrow> 'm EstablishedSt Fsm \<Rightarrow> ('m, 'm State) act" where
  "established_update_msg cx s =
     thenA (send_timer cx (Hold Restart)) (retA (Established s))"

definition established_update_err :: "'m ctx \<Rightarrow> 'm EstablishedSt Fsm \<Rightarrow> Error \<Rightarrow> ('m, 'm State) act" where
  "established_update_err cx s err =
     thenA (send_opt cx (es_bgp_out_tx (fsm_state s)) (Message_from_NotificationMsg (NotificationMsg_from_error err)))
    (bindA (stop_connect_retry cx s) (\<lambda>s.
     bindA (count_retry cx s) (\<lambda>s.
     bindA (Established_into_Idle s) (\<lambda>fsm. retA (Idle fsm)))))"

definition established_other :: "'m ctx \<Rightarrow> 'm EstablishedSt Fsm \<Rightarrow> ('m, 'm State) act" where
  "established_other cx s =
     thenA (send_opt cx (es_bgp_out_tx (fsm_state s))
              (Message_from_NotificationMsg (NotificationMsg_from_enum FiniteStateMachineError Undefined None)))
    (bindA (stop_connect_retry cx s) (\<lambda>s.
     bindA (count_retry cx s) (\<lambda>s.
     bindA (Established_into_Idle s) (\<lambda>fsm. retA (Idle fsm)))))"

definition step_Established ::
    "'m ctx \<Rightarrow> 'm EstablishedSt Fsm \<Rightarrow> 'm Event \<Rightarrow> ('m, 'm State) act" where
  "step_Established cx s ev =
     (if is_start_event ev then retA (Established s)
      else case ev of
        ManualStop \<Rightarrow> established_manual_stop cx s
      | AutomaticStop \<Rightarrow> established_automatic_stop cx s
      | HoldTimerExpires \<Rightarrow> established_hold_expires cx s
      | KeepaliveTimerExpires \<Rightarrow> established_keepalive_expires cx s
      | TcpConnectionValid \<Rightarrow> retA (Established s)
      | TcpCRInvalid \<Rightarrow> retA (Established s)
      | TcpCRAcked conn \<Rightarrow> established_tcp_acked cx s conn
      | TcpConnectionConfirmed conn \<Rightarrow> established_tcp_confirmed s conn
      | ProcessOneDone conn \<Rightarrow> established_process_one_done s conn
      | BGPOpen msg remote_syn \<Rightarrow> established_open cx s msg remote_syn
      | NotifyMsgVerErr err \<Rightarrow> established_connection_lost cx s
      | EvNotifyMsg err \<Rightarrow> established_connection_lost cx s
      | TcpConnectionFails err \<Rightarrow> established_connection_lost cx s
      | EvKeepaliveMsg \<Rightarrow> established_keepalive_msg cx s
      | EvUpdateMsg msg \<Rightarrow> established_update_msg cx s
      | UpdateMsgErr err \<Rightarrow> established_update_err cx s err
      | _ \<Rightarrow> established_other cx s)"

lemmas established_arm_defs = established_manual_stop_def established_automatic_stop_def
  established_hold_expires_def established_keepalive_expires_def established_tcp_acked_def
  established_tcp_confirmed_def established_process_one_done_def established_open_def
  established_connection_lost_def established_keepalive_msg_def established_update_msg_def
  established_update_err_def established_other_def

end
