(* ===== verification/Timers.thy ===== *)
theory Timers
  imports Runtime
begin

text \<open>
  \<^verbatim>\<open>timer_loop\<close> of \<^verbatim>\<open>src/session.rs\<close>: one task per kind of timer, which waits for the shorter of
  its duration and the next operation, and a controller that passes each operation on to the task
  of its kind. The session sees the timers through the operations it has sent; the locale
  \<open>timer_service\<close> is that interface, and the tasks below provide it.
\<close>

section \<open>One timer task\<close>

text \<open>What a task's wait ends with: the timeout, or what its channel delivers.\<close>

datatype timer_wait = Elapsed | Received "Operation option"

text \<open>The body of the task's loop: the next duration and the events it sends.\<close>

definition timer_task_step :: "TimerKind \<Rightarrow> Duration \<Rightarrow> timer_wait \<Rightarrow> Duration \<times> 'm Event list" where
  "timer_task_step kind dur w = (case w of
     Elapsed \<Rightarrow> (dur, [TimerKind_into_Event kind])
   | Received (Some Stop) \<Rightarrow> (FAR_FUTURE, [])
   | Received (Some Restart) \<Rightarrow> (dur, [])
   | Received (Some (Update duration)) \<Rightarrow> (duration, [])
   | Received None \<Rightarrow> (dur, []))"

fun timer_task :: "TimerKind \<Rightarrow> Duration \<Rightarrow> timer_wait list \<Rightarrow> Duration \<times> 'm Event list" where
  "timer_task kind dur [] = (dur, [])"
| "timer_task kind dur (w # ws) =
     (let (dur', evs) = timer_task_step kind dur w;
          (dur'', evs') = timer_task kind dur' ws
      in (dur'', evs @ evs'))"

text \<open>A task starts with the far future.\<close>

definition timer_initial :: Duration where
  "timer_initial = FAR_FUTURE"

section \<open>The controller\<close>

fun timer_route :: "Timer \<Rightarrow> TimerKind \<times> Operation" where
  "timer_route (ConnectRetry op) = (KConnectRetry, op)"
| "timer_route (Hold op) = (KHold, op)"
| "timer_route (Keepalive op) = (KKeepalive, op)"
| "timer_route (DelayOpen op) = (KDelayOpen, op)"
| "timer_route (IdleHold op) = (KIdleHold, op)"

text \<open>The tasks by kind, those of \<^verbatim>\<open>TimerKind::new_vec\<close>: a missing one would be an unwrap of \<^verbatim>\<open>None\<close>.\<close>

definition initial_timers :: "TimerKind \<rightharpoonup> Duration" where
  "initial_timers = map_of (map (\<lambda>k. (k, timer_initial)) TimerKind_new_vec)"

definition controller_step ::
    "(TimerKind \<rightharpoonup> Duration) \<Rightarrow> Timer \<Rightarrow> (TimerKind \<rightharpoonup> Duration) result" where
  "controller_step ts t =
     (let (k, op) = timer_route t in
      case ts k of
        None \<Rightarrow> Panic UnwrapNone
      | Some dur \<Rightarrow>
          Ret (ts(k \<mapsto> fst (timer_task_step k dur (Received (Some op)) :: Duration \<times> unit Event list))))"

text \<open>The durations after the operations among a list of effects.\<close>

fun timers_after :: "(TimerKind \<rightharpoonup> Duration) \<Rightarrow> 'm effect list \<Rightarrow> (TimerKind \<rightharpoonup> Duration) result" where
  "timers_after ts [] = Ret ts"
| "timers_after ts (TimerCtr t # es) =
     (case controller_step ts t of Ret ts' \<Rightarrow> timers_after ts' es | Panic p \<Rightarrow> Panic p)"
| "timers_after ts (_ # es) = timers_after ts es"

definition op_duration :: "Operation \<Rightarrow> Duration \<Rightarrow> Duration" where
  "op_duration op dur = (case op of Stop \<Rightarrow> FAR_FUTURE | Restart \<Rightarrow> dur | Update d \<Rightarrow> d)"

lemma op_duration_simps [simp]:
  "op_duration Stop d = FAR_FUTURE" "op_duration Restart d = d" "op_duration (Update x) d = x"
  by (simp_all add: op_duration_def)

lemma timer_task_step_Received:
  "timer_task_step k dur (Received (Some op)) = (op_duration op dur, [])"
  by (cases op) (simp_all add: timer_task_step_def)

lemma initial_timers_eq: "initial_timers k = Some FAR_FUTURE"
  by (cases k) (simp_all add: initial_timers_def TimerKind_new_vec_def timer_initial_def)

lemma controller_step_total:
  assumes "dom ts = UNIV"
  shows "controller_step ts t =
    Ret (ts(fst (timer_route t) \<mapsto> op_duration (snd (timer_route t)) (the (ts (fst (timer_route t))))))"
proof -
  from assms obtain d where "ts (fst (timer_route t)) = Some d" by blast
  then show ?thesis
    by (auto simp: controller_step_def timer_task_step_Received split: prod.splits)
qed

text \<open>The controller finds every task, so the timers are never lost to a panic.\<close>

lemma timers_after_total:
  "dom ts = UNIV \<Longrightarrow> \<exists>ts'. timers_after ts es = Ret ts' \<and> dom ts' = UNIV"
proof (induction es arbitrary: ts)
  case (Cons e es)
  show ?case
  proof (cases e)
    case (TimerCtr t)
    let ?ts = "ts(fst (timer_route t) \<mapsto> op_duration (snd (timer_route t)) (the (ts (fst (timer_route t)))))"
    have "dom ?ts = UNIV" using Cons.prems by simp
    from Cons.IH [OF this] have "\<exists>ts'. timers_after ?ts es = Ret ts' \<and> dom ts' = UNIV" .
    moreover have "timers_after ts (e # es) = timers_after ?ts es"
      unfolding TimerCtr timers_after.simps controller_step_total [OF Cons.prems] result.case ..
    ultimately show ?thesis by simp
  qed (use Cons in simp_all)
qed simp

lemma timers_after_append:
  "timers_after ts (es @ fs) =
     (case timers_after ts es of Ret ts' \<Rightarrow> timers_after ts' fs | Panic p \<Rightarrow> Panic p)"
  by (induction ts es rule: timers_after.induct) (auto split: result.splits)

text \<open>The duration a timer is armed with, after a log of effects.\<close>

definition armed_after :: "'m effect list \<Rightarrow> TimerKind \<Rightarrow> Duration" where
  "armed_after es k = (case timers_after initial_timers es of Ret ts \<Rightarrow> the (ts k) | Panic p \<Rightarrow> 0)"

section \<open>The interface the session relies on\<close>

text \<open>What one effect does to the duration a kind of timer is armed with.\<close>

definition arm :: "TimerKind \<Rightarrow> 'm effect \<Rightarrow> Duration \<Rightarrow> Duration" where
  "arm k e d = (case e of
     TimerCtr t \<Rightarrow> (if fst (timer_route t) = k then op_duration (snd (timer_route t)) d else d)
   | _ \<Rightarrow> d)"

locale timer_service =
  fixes armed :: "'m effect list \<Rightarrow> TimerKind \<Rightarrow> Duration"
  assumes armed_start: "armed [] k = FAR_FUTURE"
    and armed_frame: "(\<And>t. e \<noteq> TimerCtr t) \<Longrightarrow> armed (es @ [e]) k = armed es k"
    and armed_operation: "armed (es @ [TimerCtr t]) k =
      (if fst (timer_route t) = k then op_duration (snd (timer_route t)) (armed es k) else armed es k)"
begin

lemma armed_append: "armed (es @ fs) k = fold (arm k) fs (armed es k)"
proof (induction fs arbitrary: es)
  case (Cons e fs)
  have "armed (es @ [e]) k = arm k e (armed es k)"
    by (cases e) (simp_all add: armed_frame armed_operation arm_def)
  with Cons [of "es @ [e]"] show ?case by simp
qed simp

end

lemma armed_after_start: "armed_after [] k = FAR_FUTURE"
  by (simp add: armed_after_def initial_timers_eq)

lemma armed_after_frame: "(\<And>t. e \<noteq> TimerCtr t) \<Longrightarrow> armed_after (es @ [e]) k = armed_after es k"
  by (cases e) (auto simp: armed_after_def timers_after_append split: result.splits)

lemma armed_after_operation:
  "armed_after (es @ [TimerCtr t]) k =
     (if fst (timer_route t) = k then op_duration (snd (timer_route t)) (armed_after es k)
      else armed_after es k)"
proof -
  have "dom initial_timers = UNIV" by (auto simp: initial_timers_eq)
  then obtain ts where ts: "timers_after initial_timers es = Ret ts" "dom ts = UNIV"
    using timers_after_total by blast
  from ts(1) controller_step_total [OF ts(2), of t] show ?thesis
    by (auto simp: armed_after_def timers_after_append)
qed

interpretation timers: timer_service armed_after
  by unfold_locales (fact armed_after_start armed_after_frame armed_after_operation)+

section \<open>Facts about a task\<close>

text \<open>A timer that elapses fires and keeps its duration, so it fires periodically until told otherwise.\<close>

lemma timer_task_periodic:
  "timer_task k dur (replicate n Elapsed) = (dur, replicate n (TimerKind_into_Event k))"
  by (induction n) (simp_all add: timer_task_step_def)

text \<open>Once its channel is closed a task is handed \<^verbatim>\<open>None\<close> over and over, and goes on.\<close>

lemma timer_task_closed:
  "timer_task k dur (replicate n (Received None)) = (dur, [])"
  by (induction n) (simp_all add: timer_task_step_def)

end
