(* ===== verification/Session.thy ===== *)
theory Session
  imports Session_Established Timers
begin

text \<open>
  The session loop of \<^verbatim>\<open>src/session.rs\<close>: one iteration takes an event from a source, rewrites an
  OPEN that came over the admin channel while the delay timer runs, and dispatches on the state.
  \<open>run\<close> is the loop over what the channels deliver, \<open>reach\<close> the states it can be in. The tasks
  \<^verbatim>\<open>process\<close> and \<^verbatim>\<open>process_one\<close>, which turn a connection's messages into events, follow.
\<close>

section \<open>One iteration\<close>

definition admin_event :: "'m State \<Rightarrow> 'm Event \<Rightarrow> 'm Event" where
  "admin_event st ev = (case ev of
     BGPOpen msg remote_syn \<Rightarrow>
       (if cur_delay_open_time (get_attr st) \<noteq> FAR_FUTURE
        then BGPOpenWithDelayOpenTimerRunning msg remote_syn else ev)
   | _ \<Rightarrow> ev)"

definition dispatch :: "'m ctx \<Rightarrow> 'm State \<Rightarrow> 'm Event \<Rightarrow> Source \<Rightarrow> ('m, 'm State) act" where
  "dispatch cx st ev src = (case st of
     Idle s \<Rightarrow> step_Idle cx s ev
   | Connect s \<Rightarrow> step_Connect cx s ev
   | Active s \<Rightarrow> step_Active cx s ev
   | OpenSent s \<Rightarrow> step_OpenSent cx s ev src
   | OpenConfirm s \<Rightarrow> step_OpenConfirm cx s ev src
   | Established s \<Rightarrow> step_Established cx s ev)"

text \<open>\<^verbatim>\<open>recv\<close> gives \<^verbatim>\<open>None\<close> when every sender is gone, and the source unwraps it.\<close>

definition step :: "'m ctx \<Rightarrow> 'm State \<Rightarrow> Source \<Rightarrow> 'm Event option \<Rightarrow> ('m, 'm State) act" where
  "step cx st src received =
     bindA (unwrap received) (\<lambda>ev.
     dispatch cx st (if src = SrcAdmin then admin_event st ev else ev) src)"

fun run :: "'m ctx \<Rightarrow> 'm State \<Rightarrow> (Source \<times> 'm Event option) list \<Rightarrow> ('m, 'm State) act" where
  "run cx st [] = retA st"
| "run cx st ((src, received) # rest) =
     bindA (step cx st src received) (\<lambda>st'. run cx st' rest)"

definition initial_world :: "'m world" where
  "initial_world = \<lparr>w_next = 0, w_log = []\<rparr>"

text \<open>The states of a session and the effects so far, from a fresh session for a peer.\<close>

inductive reach :: "'m ctx \<Rightarrow> SocketAddr \<Rightarrow> 'm State \<Rightarrow> 'm world \<Rightarrow> bool"
  for cx :: "'m ctx" and peer :: SocketAddr where
    start: "reach cx peer (State_new peer) initial_world"
  | step: "reach cx peer st w \<Longrightarrow> step cx st src received w = (Ret st', w') \<Longrightarrow> reach cx peer st' w'"

lemmas step_defs = step_Idle_def step_Connect_def step_Active_def step_OpenSent_def
  step_OpenConfirm_def step_Established_def

lemmas arm_defs = idle_arm_defs connect_arm_defs active_arm_defs opensent_arm_defs
  openconfirm_arm_defs established_arm_defs

lemmas step_unfold = step_defs arm_defs shared_defs into_defs is_start_event_def Let_def

lemma step_dispatch:
  assumes "step cx st src received w = (Ret st', w')"
  obtains ev where "dispatch cx st ev src w = (Ret st', w')"
  using assms by (auto simp: step_def bindA_Ret unwrap_Ret)

lemma dispatch_wp:
  assumes "dispatch cx st ev src w = (Ret st', w')"
    and "\<And>s. st = Idle s \<Longrightarrow> wp (step_Idle cx s ev) Q w"
    and "\<And>s. st = Connect s \<Longrightarrow> wp (step_Connect cx s ev) Q w"
    and "\<And>s. st = Active s \<Longrightarrow> wp (step_Active cx s ev) Q w"
    and "\<And>s. st = OpenSent s \<Longrightarrow> wp (step_OpenSent cx s ev src) Q w"
    and "\<And>s. st = OpenConfirm s \<Longrightarrow> wp (step_OpenConfirm cx s ev src) Q w"
    and "\<And>s. st = Established s \<Longrightarrow> wp (step_Established cx s ev) Q w"
  shows "Q st' w'"
  using assms by (cases st) (simp_all add: dispatch_def wp_def)

lemma reach_induct [consumes 1, case_names start dispatch]:
  assumes "reach cx peer st w"
    and "P (State_new peer) initial_world"
    and "\<And>st w ev src st' w'. reach cx peer st w \<Longrightarrow> P st w \<Longrightarrow>
           dispatch cx st ev src w = (Ret st', w') \<Longrightarrow> P st' w'"
  shows "P st w"
  using assms(1)
proof (induction rule: reach.induct)
  case start
  show ?case by (rule assms(2))
next
  case (step st w src received st' w')
  from step.hyps(2) obtain ev where "dispatch cx st ev src w = (Ret st', w')"
    by (rule step_dispatch)
  with step.hyps(1) step.IH show ?case by (rule assms(3))
qed

lemma run_reach:
  "reach cx peer st w \<Longrightarrow> run cx st inputs w = (Ret st', w') \<Longrightarrow> reach cx peer st' w'"
proof (induction inputs arbitrary: st w)
  case (Cons i inputs)
  then obtain st1 w1 where "step cx st (fst i) (snd i) w = (Ret st1, w1)"
    and "run cx st1 inputs w1 = (Ret st', w')"
    by (cases i) (auto simp: bindA_Ret)
  with Cons show ?case by (blast intro: reach.step)
qed (simp add: retA_Ret)

section \<open>Connection tasks\<close>

text \<open>
  Both tasks send events to the session and unwrap the send. \<open>alive\<close> says, for the events sent
  so far, whether the session still holds the receiver.
\<close>

datatype 'm task_end = Running "'m BgpConn" | Stopped | Crashed panic | Hung

definition error_event :: "Error \<Rightarrow> 'm Event option" where
  "error_event e = (case err_code e of
     MessageHeaderError \<Rightarrow> Some (BGPHeaderErr e)
   | OpenMessageError \<Rightarrow> Some (BGPOpenMsgErr e)
   | _ \<Rightarrow> None)"

fun send_events ::
    "('m Event list \<Rightarrow> bool) \<Rightarrow> 'm Event list \<Rightarrow> 'm Event list \<Rightarrow> 'm Event list \<times> bool" where
  "send_events alive sent [] = (sent, True)"
| "send_events alive sent (ev # evs) =
     (if alive sent then send_events alive (sent @ [ev]) evs else (sent, False))"

text \<open>\<^verbatim>\<open>process_one\<close>: the second connection of a collision, read up to its first message.\<close>

definition process_one_events :: "Message Result \<Rightarrow> 'm BgpConn \<Rightarrow> bool \<Rightarrow> 'm Event list" where
  "process_one_events r conn remote_syn = (case r of
     Ok (MsgOpen open_msg) \<Rightarrow> [ProcessOneDone conn, BGPOpen open_msg remote_syn]
   | Ok _ \<Rightarrow> []
   | Err e \<Rightarrow> (case error_event e of Some ev \<Rightarrow> [ev] | None \<Rightarrow> [])
   | Panicked p \<Rightarrow> [])"

definition process_one ::
    "bool \<Rightarrow> 'b octets \<Rightarrow> 'm bytes_mut \<Rightarrow> ('m Event list \<Rightarrow> bool) \<Rightarrow> 'm BgpConn \<Rightarrow> bool
      \<Rightarrow> io_read list \<Rightarrow> 'm Event list \<times> 'm task_end" where
  "process_one chk ops bm alive conn remote_syn reads =
     (case read_message chk ops bm conn reads of
        Diverges \<Rightarrow> ([], Hung)
      | Waiting conn \<Rightarrow> ([], Running conn)
      | Finished (Panicked p) conn rest \<Rightarrow> ([], Crashed p)
      | Finished r conn rest \<Rightarrow>
          (let (sent, ok) = send_events alive [] (process_one_events r conn remote_syn)
           in (sent, if ok then Stopped else Crashed UnwrapErr)))"

text \<open>
  \<^verbatim>\<open>process\<close>: each turn of its loop takes a message from the session to write (or learns that
  the session dropped the channel), or reads on from the socket.
\<close>

datatype turn = FromSession "Message option" | FromPeer

definition process_events :: "Message Result \<Rightarrow> bool \<Rightarrow> 'm Event list \<times> bool" where
  "process_events r remote_syn = (case r of
     Ok (MsgOpen open_msg) \<Rightarrow> ([BGPOpen open_msg remote_syn], True)
   | Ok (MsgUpdate update) \<Rightarrow> ([EvUpdateMsg update], True)
   | Ok _ \<Rightarrow> ([], True)
   | Err e \<Rightarrow> (case error_event e of Some ev \<Rightarrow> ([ev], True) | None \<Rightarrow> ([], False))
   | Panicked p \<Rightarrow> ([], False))"

fun process ::
    "bool \<Rightarrow> 'b octets \<Rightarrow> 'm bytes_mut \<Rightarrow> ('m Event list \<Rightarrow> bool) \<Rightarrow> bool
      \<Rightarrow> 'm Event list \<Rightarrow> 'm BgpConn \<Rightarrow> io_read list \<Rightarrow> turn list \<Rightarrow> 'm Event list \<times> 'm task_end" where
  "process chk ops bm alive remote_syn sent conn reads [] = (sent, Running conn)"
| "process chk ops bm alive remote_syn sent conn reads (FromSession None # turns) = (sent, Stopped)"
| "process chk ops bm alive remote_syn sent conn reads (FromSession (Some msg) # turns) =
     (case write_message bm conn msg of
        Ok _ \<Rightarrow> process chk ops bm alive remote_syn sent conn reads turns
      | Err e \<Rightarrow> (sent, Crashed UnwrapErr)
      | Panicked p \<Rightarrow> (sent, Crashed p))"
| "process chk ops bm alive remote_syn sent conn reads (FromPeer # turns) =
     (case read_message chk ops bm conn reads of
        Diverges \<Rightarrow> (sent, Hung)
      | Waiting conn \<Rightarrow> process chk ops bm alive remote_syn sent conn [] turns
      | Finished (Panicked p) conn rest \<Rightarrow> (sent, Crashed p)
      | Finished r conn rest \<Rightarrow>
          (let (evs, continue) = process_events r remote_syn;
               (sent, ok) = send_events alive sent evs
           in if \<not> ok then (sent, Crashed UnwrapErr)
              else if continue then process chk ops bm alive remote_syn sent conn rest turns
              else (sent, Stopped)))"

text \<open>\<^verbatim>\<open>try_tcp_conn\<close>: what the attempt to connect reports.\<close>

definition tcp_event :: "TcpStream option \<Rightarrow> 'm Event" where
  "tcp_event conn = (case conn of
     Some c \<Rightarrow> TcpCRAcked c
   | None \<Rightarrow> TcpConnectionFails from_io_error)"

end
