(* ===== verification/Main_Loop.thy ===== *)
theory Main_Loop
  imports Session
begin

text \<open>
  The parts of \<^verbatim>\<open>src/main.rs\<close>: one session for each configured neighbour, found by the peer's address
  and AS number, and a task that reads the first message of every accepted connection. The map of
  sessions holds the sending halves of their admin channels; a channel is known here by the address
  of the neighbour it was made for.
\<close>

section \<open>Sessions\<close>

type_synonym session_map = "IpAddr \<times> u32 \<rightharpoonup> IpAddr"

definition session_map :: "BgpNeighborList \<Rightarrow> session_map" where
  "session_map nbrs = (\<lambda>(addr, asn). case nbrs addr of
     None \<Rightarrow> None
   | Some neigh \<Rightarrow> if peer_as (neighbor_config neigh) = asn then Some addr else None)"

definition initial_session :: "IpAddr \<Rightarrow> Neighbor \<Rightarrow> 'm State" where
  "initial_session addr neigh =
     State_new \<lparr>sock_ip = addr, sock_port = neighbor_port (neighbor_config neigh)\<rparr>"

text \<open>
  The block given to \<^verbatim>\<open>tokio::spawn\<close> owns the receiving half of the channel until the runtime polls
  it for the first time. Then it calls \<^verbatim>\<open>session::run\<close> and does not await it, so it is complete, and
  its value is the future itself, with the session it would have started and the receiver in it.
\<close>

datatype 'm spawned = NotPolled | Completed "'m State \<times> Neighbor"

definition session_block :: "IpAddr \<Rightarrow> Neighbor \<Rightarrow> 'm spawned \<Rightarrow> 'm spawned" where
  "session_block addr neigh t = (case t of
     NotPolled \<Rightarrow> Completed (initial_session addr neigh, neigh)
   | Completed f \<Rightarrow> Completed f)"

text \<open>A completed task's value is dropped with its handle, which nobody keeps, and the receiver with it.\<close>

definition receiver_alive :: "'m spawned \<Rightarrow> bool" where
  "receiver_alive t = (case t of NotPolled \<Rightarrow> True | Completed f \<Rightarrow> False)"

section \<open>Accepted connections\<close>

datatype 'm passive_end =
    Forwarded "'m BgpConn" OpenMsg
  | Closed
  | Unfinished "'m BgpConn"
  | PassiveCrashed panic
  | PassiveHung

definition process_passive ::
    "bool \<Rightarrow> 'b octets \<Rightarrow> 'm bytes_mut \<Rightarrow> bool \<Rightarrow> TcpStream \<Rightarrow> io_read list \<Rightarrow> 'm passive_end" where
  "process_passive chk ops bm dispatcher_alive socket reads =
     (case read_message chk ops bm (BgpConn_new bm socket) reads of
        Diverges \<Rightarrow> PassiveHung
      | Waiting conn \<Rightarrow> Unfinished conn
      | Finished (Ok (MsgOpen opn)) conn rest \<Rightarrow>
          if dispatcher_alive then Forwarded conn opn else PassiveCrashed UnwrapErr
      | Finished (Ok _) conn rest \<Rightarrow> Closed
      | Finished (Err e) conn rest \<Rightarrow> Closed
      | Finished (Panicked p) conn rest \<Rightarrow> PassiveCrashed p)"

section \<open>Facts\<close>

lemma session_map_Some:
  "session_map nbrs (addr, asn) = Some session \<longleftrightarrow>
     session = addr \<and> (\<exists>neigh. nbrs addr = Some neigh \<and> peer_as (neighbor_config neigh) = asn)"
  by (auto simp: session_map_def split: option.splits)

end
