(* ===== verification/Session_Machine.thy ===== *)
theory Session_Machine
  imports Session
begin

text \<open>
  The finite state machine of RFC 4271, section 8.2.2, as a table of its own: for each state and event
  the states the RFC's text lets the machine go to, and what it does with the retry counter. The
  session is compared with it: which steps are the RFC's, and which are not.
\<close>

section \<open>States and events\<close>

datatype phase = PIdle | PConnect | PActive | POpenSent | POpenConfirm | PEstablished

fun phase_of :: "'m State \<Rightarrow> phase" where
  "phase_of (Idle s) = PIdle"
| "phase_of (Connect s) = PConnect"
| "phase_of (Active s) = PActive"
| "phase_of (OpenSent s) = POpenSent"
| "phase_of (OpenConfirm s) = POpenConfirm"
| "phase_of (Established s) = PEstablished"

definition is_connected_event :: "'m Event \<Rightarrow> bool" where
  "is_connected_event ev = (case ev of TcpCRAcked c \<Rightarrow> True | TcpConnectionConfirmed c \<Rightarrow> True | _ \<Rightarrow> False)"

definition is_open_event :: "'m Event \<Rightarrow> bool" where
  "is_open_event ev = (case ev of BGPOpen m b \<Rightarrow> True | _ \<Rightarrow> False)"

definition is_delayed_open_event :: "'m Event \<Rightarrow> bool" where
  "is_delayed_open_event ev = (case ev of BGPOpenWithDelayOpenTimerRunning m b \<Rightarrow> True | _ \<Rightarrow> False)"

definition is_tcp_failure :: "'m Event \<Rightarrow> bool" where
  "is_tcp_failure ev = (case ev of TcpConnectionFails e \<Rightarrow> True | _ \<Rightarrow> False)"

definition is_message_error :: "'m Event \<Rightarrow> bool" where
  "is_message_error ev = (case ev of BGPHeaderErr e \<Rightarrow> True | BGPOpenMsgErr e \<Rightarrow> True | _ \<Rightarrow> False)"

definition is_process_one_done :: "'m Event \<Rightarrow> bool" where
  "is_process_one_done ev = (case ev of ProcessOneDone c \<Rightarrow> True | _ \<Rightarrow> False)"

definition is_version_error :: "'m Event \<Rightarrow> bool" where
  "is_version_error ev = (case ev of NotifyMsgVerErr e \<Rightarrow> True | _ \<Rightarrow> False)"

definition is_update_event :: "'m Event \<Rightarrow> bool" where
  "is_update_event ev = (case ev of EvUpdateMsg m \<Rightarrow> True | _ \<Rightarrow> False)"

lemmas event_class_defs = is_start_event_def is_connected_event_def is_open_event_def
  is_delayed_open_event_def is_tcp_failure_def is_message_error_def is_process_one_done_def
  is_update_event_def is_version_error_def

section \<open>The machine of the RFC\<close>

text \<open>
  The next states by the RFC. Which one it is depends on the DelayOpen attribute, on whether the
  DelayOpenTimer runs, and, for a second OPEN, on the outcome of the collision detection of section
  6.8, so there can be two. The damping of peer oscillations is optional in the RFC and not in the
  program: the two start events for it leave Idle as it is.
\<close>

fun rfc_next :: "SessionAttributes \<Rightarrow> phase \<Rightarrow> 'm Event \<Rightarrow> phase set" where
  "rfc_next a PIdle ev =
     (if ev \<in> {ManualStart, AutomaticStart} then {PConnect}
      else if ev \<in> {ManualStartWithPassiveTcpEstablishment, AutomaticStartWithPassiveTcpEstablishment}
        then {PActive}
      else {PIdle})"
| "rfc_next a PConnect ev =
     (if is_start_event ev \<or> ev \<in> {ConnectRetryTimerExpires, TcpConnectionValid, TcpCRInvalid} then {PConnect}
      else if is_connected_event ev then {if delay_open a then PConnect else POpenSent}
      else if ev = DelayOpenTimerExpires then {POpenSent}
      else if is_tcp_failure ev then {if cur_delay_open_time a = FAR_FUTURE then PIdle else PActive}
      else if is_delayed_open_event ev then {POpenConfirm}
      else {PIdle})"
| "rfc_next a PActive ev =
     (if is_start_event ev \<or> ev \<in> {TcpConnectionValid, TcpCRInvalid} then {PActive}
      else if ev = ConnectRetryTimerExpires then {PConnect}
      else if is_connected_event ev then {if delay_open a then PActive else POpenSent}
      else if ev = DelayOpenTimerExpires then {POpenSent}
      else if is_delayed_open_event ev then {POpenConfirm}
      else {PIdle})"
| "rfc_next a POpenSent ev =
     (if is_start_event ev \<or> ev \<in> {TcpConnectionValid, TcpCRInvalid} \<or> is_connected_event ev then {POpenSent}
      else if is_tcp_failure ev then {PActive}
      else if is_open_event ev then {POpenConfirm}
      else {PIdle})"
| "rfc_next a POpenConfirm ev =
     (if is_start_event ev \<or> ev \<in> {TcpConnectionValid, TcpCRInvalid, KeepaliveTimerExpires} \<or>
        is_connected_event ev then {POpenConfirm}
      else if is_open_event ev then {POpenConfirm, PIdle}
      else if ev = EvKeepaliveMsg then {PEstablished}
      else {PIdle})"
| "rfc_next a PEstablished ev =
     (if is_start_event ev \<or> ev \<in> {TcpConnectionValid, TcpCRInvalid, KeepaliveTimerExpires, EvKeepaliveMsg} \<or>
        is_connected_event ev \<or> is_update_event ev then {PEstablished}
      else if is_open_event ev then {PEstablished, PIdle}
      else {PIdle})"

text \<open>
  The RFC has one machine for each connection. An error that does not come from the session's own
  connection, and the source's own event for a second connection, are another machine's, and leave
  this one as it is.
\<close>

definition second_connection :: "'m Event \<Rightarrow> Source \<Rightarrow> bool" where
  "second_connection ev src \<longleftrightarrow> is_process_one_done ev \<or> is_message_error ev \<and> src \<noteq> SrcBgp"

definition rfc_allows :: "SessionAttributes \<Rightarrow> phase \<Rightarrow> 'm Event \<Rightarrow> Source \<Rightarrow> phase \<Rightarrow> bool" where
  "rfc_allows a p ev src q \<longleftrightarrow> q \<in> (if second_connection ev src then {p} else rfc_next a p ev)"

text \<open>
  The RFC's ConnectRetryCounter after an event that leads to the state \<open>q\<close>: zero on a start and on a
  manual stop, one more on the way back to Idle, but for a connection that fails in Connect, and for
  a version error while the DelayOpenTimer runs or after the OPEN was sent.
\<close>

definition rfc_counter :: "SessionAttributes \<Rightarrow> phase \<Rightarrow> 'm Event \<Rightarrow> phase \<Rightarrow> u64" where
  "rfc_counter a p ev q =
     (if p = PIdle \<and> q \<noteq> PIdle \<or> p \<noteq> PIdle \<and> ev = ManualStop then 0
      else if p = PIdle \<or> q \<noteq> PIdle then connect_retry_counter a
      else if p = PConnect \<and> is_tcp_failure ev then connect_retry_counter a
      else if is_version_error ev \<and> (p \<in> {PConnect, PActive} \<and> cur_delay_open_time a \<noteq> FAR_FUTURE \<or>
          p \<in> {POpenSent, POpenConfirm}) then connect_retry_counter a
      else connect_retry_counter a + 1)"

section \<open>Where the session leaves it\<close>

text \<open>
  The steps of the session that are not the RFC's: a start event in Connect, a dump after a collision
  in OpenConfirm, and what another connection reports to a session that has only begun to connect
  or, an error, to one that is Established.
\<close>

definition deviates :: "phase \<Rightarrow> 'm Event \<Rightarrow> Source \<Rightarrow> bool" where
  "deviates p ev src \<longleftrightarrow>
     p = PConnect \<and> is_start_event ev \<or>
     p = POpenConfirm \<and> ev = OpenCollisionDump \<or>
     p \<in> {PConnect, PActive} \<and> second_connection ev src \<or>
     p = PEstablished \<and> is_message_error ev \<and> src \<noteq> SrcBgp"

definition deviation :: "phase \<Rightarrow> phase" where
  "deviation p = (if p = POpenConfirm then POpenConfirm else PIdle)"

definition machine_ok :: "SessionAttributes \<Rightarrow> phase \<Rightarrow> 'm Event \<Rightarrow> Source \<Rightarrow> phase \<Rightarrow> bool" where
  "machine_ok a p ev src q \<longleftrightarrow> (if deviates p ev src then q = deviation p else rfc_allows a p ev src q)"

lemmas machine_simps = machine_ok_def deviates_def deviation_def rfc_allows_def second_connection_def
  event_class_defs

lemma machine_Idle:
  "wp (step_Idle cx s ev) (\<lambda>st' w'. machine_ok (fsm_attr s) PIdle ev src (phase_of st')) w"
  by (cases ev) (simp_all add: step_unfold machine_simps run_simps split: option.split)

lemma machine_Connect:
  "wp (step_Connect cx s ev) (\<lambda>st' w'. machine_ok (fsm_attr s) PConnect ev src (phase_of st')) w"
  by (cases ev) (simp_all add: step_unfold machine_simps run_simps split: option.split)

lemma machine_Active:
  "wp (step_Active cx s ev) (\<lambda>st' w'. machine_ok (fsm_attr s) PActive ev src (phase_of st')) w"
  by (cases ev) (simp_all add: step_unfold machine_simps run_simps split: option.split)

lemma machine_OpenSent:
  "wp (step_OpenSent cx s ev src) (\<lambda>st' w'. machine_ok (fsm_attr s) POpenSent ev src (phase_of st')) w"
  by (cases ev) (simp_all add: step_unfold machine_simps run_simps split: option.split)

lemma machine_OpenConfirm:
  "wp (step_OpenConfirm cx s ev src) (\<lambda>st' w'. machine_ok (fsm_attr s) POpenConfirm ev src (phase_of st')) w"
  by (cases ev) (simp_all add: step_unfold machine_simps run_simps split: option.split)

lemma machine_Established:
  "wp (step_Established cx s ev) (\<lambda>st' w'. machine_ok (fsm_attr s) PEstablished ev src (phase_of st')) w"
  by (cases ev) (simp_all add: step_unfold machine_simps run_simps split: option.split)

lemma machine_dispatch:
  "dispatch cx st ev src w = (Ret st', w') \<Longrightarrow>
     machine_ok (get_attr st) (phase_of st) ev src (phase_of st')"
  by (cases st)
    (auto simp: dispatch_def elim!: wpD intro: machine_Idle machine_Connect machine_Active
      machine_OpenSent machine_OpenConfirm machine_Established)

text \<open>The deviations are exactly the steps the RFC does not allow.\<close>

lemma deviation_not_allowed: "deviates p ev src \<Longrightarrow> \<not> rfc_allows a p ev src (deviation p)"
  by (cases ev; cases p) (auto simp: machine_simps)

text \<open>Where the states in which a session has agreed on something are entered from.\<close>

lemma enters_Established:
  assumes "machine_ok a p ev src PEstablished" and "p \<noteq> PEstablished"
  shows "ev = EvKeepaliveMsg \<and> p = POpenConfirm"
  using assms by (cases p; cases ev) (simp_all add: machine_simps split: if_splits)

end
