(* ===== verification/Session_Timers.thy ===== *)
theory Session_Timers
  imports Session
begin

text \<open>
  The attributes \<^verbatim>\<open>cur_connect_retry_time\<close>, \<^verbatim>\<open>cur_hold_time\<close> and \<^verbatim>\<open>cur_keepalive_time\<close> shadow what
  the timers are armed with, because the timer tasks cannot be asked. The lemmas of this theory,
  proved against the interface of the timers, show that no arm lets them drift apart, and where
  the shadow of the delay-open timer does.
\<close>

definition shadows :: "(TimerKind \<Rightarrow> Duration) \<Rightarrow> SessionAttributes \<Rightarrow> bool" where
  "shadows a attr \<longleftrightarrow>
     a KConnectRetry = cur_connect_retry_time attr \<and>
     a KHold = cur_hold_time attr \<and>
     a KKeepalive = cur_keepalive_time attr \<and>
     a KDelayOpen = cur_delay_open_time attr"

text \<open>The one arm that arms the delay-open timer without noting it.\<close>

definition forgets_delay_open :: "'m State \<Rightarrow> 'm Event \<Rightarrow> bool" where
  "forgets_delay_open st ev =
     (case st of
        Connect s \<Rightarrow> delay_open (fsm_attr s) \<and>
          (case ev of TcpConnectionConfirmed c \<Rightarrow> True | _ \<Rightarrow> False)
      | _ \<Rightarrow> False)"



context timer_service begin

text \<open>
  One lemma for each state: timers that are armed as their shadows say before a step are so after
  it, whatever the event; for the delay-open timer, except after the arm above.
\<close>

lemmas shadow_simps = shadows_def armed_append arm_def

lemma shadow_Idle:
  "shadows (armed (w_log w)) (fsm_attr s) \<Longrightarrow>
     wp (step_Idle cx s ev) (\<lambda>st' w'. shadows (armed (w_log w')) (get_attr st')) w"
  by (cases ev) (simp_all add: step_unfold shadow_simps run_simps split: option.split)

lemma shadow_Connect:
  "shadows (armed (w_log w)) (fsm_attr s) \<Longrightarrow>
     \<not> forgets_delay_open (Connect s) ev \<Longrightarrow>
     wp (step_Connect cx s ev) (\<lambda>st' w'. shadows (armed (w_log w')) (get_attr st')) w"
  by (cases ev) (simp_all add: step_unfold shadow_simps run_simps forgets_delay_open_def split: option.split)

lemma shadow_Active:
  "shadows (armed (w_log w)) (fsm_attr s) \<Longrightarrow>
     wp (step_Active cx s ev) (\<lambda>st' w'. shadows (armed (w_log w')) (get_attr st')) w"
  by (cases ev) (simp_all add: step_unfold shadow_simps run_simps split: option.split)

lemma shadow_OpenSent:
  "shadows (armed (w_log w)) (fsm_attr s) \<Longrightarrow>
     wp (step_OpenSent cx s ev src) (\<lambda>st' w'. shadows (armed (w_log w')) (get_attr st')) w"
  by (cases ev) (simp_all add: step_unfold shadow_simps run_simps split: option.split)

lemma shadow_OpenConfirm:
  "shadows (armed (w_log w)) (fsm_attr s) \<Longrightarrow>
     wp (step_OpenConfirm cx s ev src) (\<lambda>st' w'. shadows (armed (w_log w')) (get_attr st')) w"
  by (cases ev) (simp_all add: step_unfold shadow_simps run_simps split: option.split)

lemma shadow_Established:
  "shadows (armed (w_log w)) (fsm_attr s) \<Longrightarrow>
     wp (step_Established cx s ev) (\<lambda>st' w'. shadows (armed (w_log w')) (get_attr st')) w"
  by (cases ev) (simp_all add: step_unfold shadow_simps run_simps split: option.split)

lemma shadow_dispatch:
  "dispatch cx st ev src w = (Ret st', w') \<Longrightarrow> shadows (armed (w_log w)) (get_attr st) \<Longrightarrow>
     \<not> forgets_delay_open st ev \<Longrightarrow> shadows (armed (w_log w')) (get_attr st')"
  by (cases st)
    (auto simp: dispatch_def elim!: wpD intro: shadow_Idle shadow_Connect shadow_Active
       shadow_OpenSent shadow_OpenConfirm shadow_Established)

lemma shadow_start: "shadows (armed (w_log initial_world)) (get_attr (State_new peer))"
  by (simp add: shadows_def initial_world_def armed_start State_new_def Fsm_new_def
      SessionAttributes_new_def)

end

end
