(* ===== verification/Session_Invariant.thy ===== *)
theory Session_Invariant
  imports Session_Machine Session_Timers
begin

text \<open>
  What holds of every state a session can be in. The attributes are set by
  \<^verbatim>\<open>SessionAttributes::new\<close> and no arm changes the optional ones, so the delay-open option is
  never on; the states then never keep the channel or the local OPEN that some arms unwrap.
\<close>

section \<open>The invariant\<close>

text \<open>The options that no operation sets.\<close>

definition options_off :: "SessionAttributes \<Rightarrow> bool" where
  "options_off attr \<longleftrightarrow>
     \<not> delay_open attr \<and> delay_open_time attr = 0 \<and>
     \<not> send_notification_without_open attr \<and> \<not> collision_detect_established_state attr \<and>
     \<not> damp_peer_oscillations attr \<and>
     connect_retry_time attr = DFLT_BGP_TIMERS_CONNECT \<and>
     cur_delay_open_time attr = FAR_FUTURE"

definition handles_off :: "'m State \<Rightarrow> bool" where
  "handles_off st = (case st of
     Idle s \<Rightarrow> True
   | Connect s \<Rightarrow> co_bgp_out_tx (fsm_state s) = None \<and> co_bgp_conn_handle (fsm_state s) = None
   | Active s \<Rightarrow> ac_bgp_out_tx (fsm_state s) = None \<and> ac_bgp_conn_handle (fsm_state s) = None
   | OpenSent s \<Rightarrow> os_local_open (fsm_state s) = None
   | OpenConfirm s \<Rightarrow> False
   | Established s \<Rightarrow> False)"

definition session_inv :: "'m State \<Rightarrow> bool" where
  "session_inv st \<longleftrightarrow> options_off (get_attr st) \<and> handles_off st"

lemmas inv_defs = session_inv_def options_off_def handles_off_def

lemma inv_start: "session_inv (State_new peer)"
  by (simp add: inv_defs State_new_def Fsm_new_def SessionAttributes_new_def)

lemma inv_Idle: "session_inv (Idle s) \<Longrightarrow> wp (step_Idle cx s ev) (\<lambda>st' w'. session_inv st') w"
  by (cases ev) (simp_all add: step_unfold inv_defs run_simps split: option.split)

lemma inv_Connect: "session_inv (Connect s) \<Longrightarrow> wp (step_Connect cx s ev) (\<lambda>st' w'. session_inv st') w"
  by (cases ev) (simp_all add: step_unfold inv_defs run_simps split: option.split)

lemma inv_Active: "session_inv (Active s) \<Longrightarrow> wp (step_Active cx s ev) (\<lambda>st' w'. session_inv st') w"
  by (cases ev) (simp_all add: step_unfold inv_defs run_simps split: option.split)

lemma inv_OpenSent: "session_inv (OpenSent s) \<Longrightarrow> wp (step_OpenSent cx s ev src) (\<lambda>st' w'. session_inv st') w"
  by (cases ev) (simp_all add: step_unfold inv_defs run_simps split: option.split)

lemma inv_dispatch:
  "dispatch cx st ev src w = (Ret st', w') \<Longrightarrow> session_inv st \<Longrightarrow> session_inv st'"
  by (cases st)
    (auto simp: dispatch_def session_inv_def [of "OpenConfirm s" for s]
      session_inv_def [of "Established s" for s] handles_off_def elim!: wpD
      intro: inv_Idle inv_Connect inv_Active inv_OpenSent)

lemma inv_reach: "reach cx peer st w \<Longrightarrow> session_inv st"
  by (induction rule: reach_induct) (auto intro: inv_start inv_dispatch)

lemma inv_phase: "session_inv st \<Longrightarrow> phase_of st \<in> {PIdle, PConnect, PActive, POpenSent}"
  by (cases st) (simp_all add: inv_defs)

lemma inv_not_forgetting: "session_inv st \<Longrightarrow> \<not> forgets_delay_open st ev"
  by (cases st) (simp_all add: inv_defs forgets_delay_open_def)

context timer_service begin

lemma shadow_reach: "reach cx peer st w \<Longrightarrow> shadows (armed (w_log w)) (get_attr st)"
proof (induction rule: reach_induct)
  case start
  show ?case by (rule shadow_start)
next
  case (dispatch st w ev src st' w')
  have "\<not> forgets_delay_open st ev"
    by (rule inv_not_forgetting [OF inv_reach [OF dispatch(1)]])
  then show ?case by (rule shadow_dispatch [OF dispatch(2,3)])
qed

end

end
