(* ===== verification/Session_Facts.thy ===== *)
theory Session_Facts
  imports Session_Invariant
begin

text \<open>
  What the session's effects mean to the rest of the program, and the facts of one step that the
  properties are made of: the messages sent, the direction of the connection a collision keeps,
  the timers armed.
\<close>

section \<open>Reading the log\<close>

fun sent_messages :: "'m effect list \<Rightarrow> (chan \<times> Message) list" where
  "sent_messages [] = []"
| "sent_messages (OutMsg tx msg # es) = (tx, msg) # sent_messages es"
| "sent_messages (TimerCtr t # es) = sent_messages es"
| "sent_messages (SpawnTcp h a # es) = sent_messages es"
| "sent_messages (SpawnProcess h c tx b # es) = sent_messages es"
| "sent_messages (SpawnProcessOne h c b # es) = sent_messages es"
| "sent_messages (Abort h # es) = sent_messages es"

fun process_directions :: "'m effect list \<Rightarrow> bool list" where
  "process_directions [] = []"
| "process_directions (SpawnProcess h c tx b # es) = b # process_directions es"
| "process_directions (_ # es) = process_directions es"

text \<open>Whether the connection a session holds after some effects was opened by the peer.\<close>

definition kept_direction :: "bool \<Rightarrow> 'm effect list \<Rightarrow> bool" where
  "kept_direction held es = last (held # process_directions es)"

fun conn_handle_of :: "'m State \<Rightarrow> task option" where
  "conn_handle_of (Idle s) = None"
| "conn_handle_of (Connect s) = co_bgp_conn_handle (fsm_state s)"
| "conn_handle_of (Active s) = ac_bgp_conn_handle (fsm_state s)"
| "conn_handle_of (OpenSent s) = os_bgp_conn_handle (fsm_state s)"
| "conn_handle_of (OpenConfirm s) = oc_bgp_conn_handle (fsm_state s)"
| "conn_handle_of (Established s) = es_bgp_conn_handle (fsm_state s)"

fun peer_of :: "'m State \<Rightarrow> SocketAddr" where
  "peer_of (Idle s) = fsm_peer s"
| "peer_of (Connect s) = fsm_peer s"
| "peer_of (Active s) = fsm_peer s"
| "peer_of (OpenSent s) = fsm_peer s"
| "peer_of (OpenConfirm s) = fsm_peer s"
| "peer_of (Established s) = fsm_peer s"

lemma sent_messages_append [simp]: "sent_messages (es @ fs) = sent_messages es @ sent_messages fs"
  by (induction es rule: sent_messages.induct) simp_all

lemma process_directions_append [simp]:
  "process_directions (es @ fs) = process_directions es @ process_directions fs"
  by (induction es rule: process_directions.induct) simp_all

lemmas armed_simps = timers.armed_append arm_def

text \<open>The hold time two OPEN messages agree on (RFC 4271, section 4.2).\<close>

definition agreed_hold :: "OpenMsg \<Rightarrow> OpenMsg \<Rightarrow> Duration" where
  "agreed_hold l p = from_secs (min (unat (open_hold_time l)) (unat (open_hold_time p)))"

lemma negotiated_hold_agreed: "negotiated_hold l p = agreed_hold l p"
  by (simp add: negotiated_hold_eq agreed_hold_def)

lemma agreed_hold_not_far [simp]: "agreed_hold l p \<noteq> FAR_FUTURE"
  using negotiated_hold_not_far [of l p] by (simp add: negotiated_hold_agreed)

lemma agreed_hold_bound: "agreed_hold l p \<le> from_secs 65535"
proof -
  have "unat (open_hold_time l) < 65536" by simp
  then show ?thesis unfolding agreed_hold_def from_secs_mono by linarith
qed

lemma duration_div_3: "duration_div d DFLT_KEEPALIVE_FACTOR = d div 3"
  by (simp add: duration_div_def DFLT_KEEPALIVE_FACTOR_def)

section \<open>One step, for every state\<close>

lemma unat_counter_incr [simp]: "unat (n + 1 :: u64) \<le> Suc (unat n)"
  by (simp add: unat_word_ariths(1) mod_less_eq_dividend [THEN order_trans])

lemma counter_dispatch:
  "dispatch cx st ev src w = (Ret st', w') \<Longrightarrow>
     unat (connect_retry_counter (get_attr st')) \<le> Suc (unat (connect_retry_counter (get_attr st)))"
  by (erule dispatch_wp; cases ev) (simp_all add: step_unfold run_simps split: option.split)

text \<open>The retry counter of the session: where it is the RFC's, and what it is where it is not.\<close>

definition counter_ok :: "SessionAttributes \<Rightarrow> phase \<Rightarrow> 'm Event \<Rightarrow> phase \<Rightarrow> u64 \<Rightarrow> bool" where
  "counter_ok a p ev q n \<longleftrightarrow> n =
    (if p \<in> {PConnect, PActive} \<and> is_connected_event ev then 0
     else if p \<in> {PConnect, PActive} \<and> is_version_error ev
       then connect_retry_counter a + (if cur_hold_time a = FAR_FUTURE then 1 else 0)
     else if p = POpenSent \<and> q = PIdle \<and> \<not> is_message_error ev \<and>
         ev \<notin> {ManualStop, AutomaticStop, HoldTimerExpires}
       then connect_retry_counter a
     else rfc_counter a p ev q)"

lemmas counter_simps = counter_ok_def rfc_counter_def event_class_defs

lemma counter_Idle:
  "wp (step_Idle cx s ev) (\<lambda>st' w'. counter_ok (fsm_attr s) PIdle ev (phase_of st')
     (connect_retry_counter (get_attr st'))) w"
  by (cases ev) (simp_all add: step_unfold counter_simps run_simps split: option.split)

lemma counter_Connect:
  "wp (step_Connect cx s ev) (\<lambda>st' w'. counter_ok (fsm_attr s) PConnect ev (phase_of st')
     (connect_retry_counter (get_attr st'))) w"
  by (cases ev) (simp_all add: step_unfold counter_simps run_simps split: option.split)

lemma counter_Active:
  "wp (step_Active cx s ev) (\<lambda>st' w'. counter_ok (fsm_attr s) PActive ev (phase_of st')
     (connect_retry_counter (get_attr st'))) w"
  by (cases ev) (simp_all add: step_unfold counter_simps run_simps split: option.split)

lemma counter_OpenSent:
  "wp (step_OpenSent cx s ev src) (\<lambda>st' w'. counter_ok (fsm_attr s) POpenSent ev (phase_of st')
     (connect_retry_counter (get_attr st'))) w"
  by (cases ev) (simp_all add: step_unfold counter_simps run_simps split: option.split)

lemma counter_OpenConfirm:
  "wp (step_OpenConfirm cx s ev src) (\<lambda>st' w'. counter_ok (fsm_attr s) POpenConfirm ev (phase_of st')
     (connect_retry_counter (get_attr st'))) w"
  by (cases ev) (simp_all add: step_unfold counter_simps run_simps split: option.split)

lemma counter_Established:
  "wp (step_Established cx s ev) (\<lambda>st' w'. counter_ok (fsm_attr s) PEstablished ev (phase_of st')
     (connect_retry_counter (get_attr st'))) w"
  by (cases ev) (simp_all add: step_unfold counter_simps run_simps split: option.split)

lemma counter_machine:
  "dispatch cx st ev src w = (Ret st', w') \<Longrightarrow>
     counter_ok (get_attr st) (phase_of st) ev (phase_of st') (connect_retry_counter (get_attr st'))"
  by (cases st)
    (auto simp: dispatch_def elim!: wpD intro: counter_Idle counter_Connect counter_Active
      counter_OpenSent counter_OpenConfirm counter_Established)

end
