(* ===== verification/Session_Resources.thy ===== *)
theory Session_Resources
  imports Session_Facts
begin

text \<open>
  The tasks and channels a session makes. Handles and channels are fresh, the session only aborts
  tasks it spawned and only sends on channels it made, and the connection it holds is one task
  together with that task's channel. From this: what is sent on each channel, over a whole run.
\<close>

section \<open>Tasks and channels in the log\<close>

fun made :: "'m effect list \<Rightarrow> nat list" where
  "made [] = []"
| "made (SpawnTcp h a # es) = h # made es"
| "made (SpawnProcess h c tx b # es) = tx # h # made es"
| "made (SpawnProcessOne h c b # es) = h # made es"
| "made (_ # es) = made es"

fun attempts :: "'m effect list \<Rightarrow> task list" where
  "attempts [] = []"
| "attempts (SpawnTcp h a # es) = h # attempts es"
| "attempts (_ # es) = attempts es"

fun links :: "'m effect list \<Rightarrow> (task \<times> chan) list" where
  "links [] = []"
| "links (SpawnProcess h c tx b # es) = (h, tx) # links es"
| "links (_ # es) = links es"

lemma made_append [simp]: "made (es @ fs) = made es @ made fs"
  by (induction es rule: made.induct) simp_all

lemma attempts_append [simp]: "attempts (es @ fs) = attempts es @ attempts fs"
  by (induction es rule: attempts.induct) simp_all

lemma links_append [simp]: "links (es @ fs) = links es @ links fs"
  by (induction es rule: links.induct) simp_all

text \<open>An effect is in order when the task or the channel it is about was made before it.\<close>

fun in_order :: "'m effect list \<Rightarrow> 'm effect \<Rightarrow> bool" where
  "in_order es (OutMsg tx msg) = (tx \<in> snd ` set (links es))"
| "in_order es (Abort h) = (h \<in> set (attempts es) \<or> h \<in> fst ` set (links es))"
| "in_order es _ = True"

fun orderly_after :: "'m effect list \<Rightarrow> 'm effect list \<Rightarrow> bool" where
  "orderly_after es [] = True"
| "orderly_after es (e # fs) = (in_order es e \<and> orderly_after (es @ [e]) fs)"

definition orderly :: "'m effect list \<Rightarrow> bool" where
  "orderly es = orderly_after [] es"

lemma orderly_after_append [simp]:
  "orderly_after es (fs @ gs) \<longleftrightarrow> orderly_after es fs \<and> orderly_after (es @ fs) gs"
  by (induction fs arbitrary: es) simp_all

lemma orderly_append: "orderly (es @ fs) \<longleftrightarrow> orderly es \<and> orderly_after es fs"
  by (simp add: orderly_def)

lemma orderlyD: "orderly (es @ e # fs) \<Longrightarrow> in_order es e"
  by (simp add: orderly_append)

section \<open>The invariant\<close>

fun chan_of :: "'m State \<Rightarrow> chan option" where
  "chan_of (Idle s) = None"
| "chan_of (Connect s) = co_bgp_out_tx (fsm_state s)"
| "chan_of (Active s) = ac_bgp_out_tx (fsm_state s)"
| "chan_of (OpenSent s) = os_bgp_out_tx (fsm_state s)"
| "chan_of (OpenConfirm s) = oc_bgp_out_tx (fsm_state s)"
| "chan_of (Established s) = es_bgp_out_tx (fsm_state s)"

fun attempt_of :: "'m State \<Rightarrow> task option" where
  "attempt_of (Connect s) = co_tcp_conn_handle (fsm_state s)"
| "attempt_of (Active s) = ac_tcp_conn_handle (fsm_state s)"
| "attempt_of _ = None"

text \<open>A connection is held as the handle of its task with the channel that task was given.\<close>

fun linked :: "task option \<Rightarrow> chan option \<Rightarrow> (task \<times> chan) list \<Rightarrow> bool" where
  "linked None None ls = True"
| "linked (Some h) (Some tx) ls = ((h, tx) \<in> set ls)"
| "linked _ _ ls = False"

definition holds_own :: "'m State \<Rightarrow> 'm effect list \<Rightarrow> bool" where
  "holds_own st es \<longleftrightarrow> linked (conn_handle_of st) (chan_of st) (links es) \<and>
     (case attempt_of st of None \<Rightarrow> True | Some h \<Rightarrow> h \<in> set (attempts es))"

definition below :: "nat \<Rightarrow> nat list \<Rightarrow> bool" where
  "below n xs \<longleftrightarrow> (\<forall>x \<in> set xs. x < n)"

lemma below_simps [simp]:
  "below n []" "below n (x # xs) \<longleftrightarrow> x < n \<and> below n xs" "below n (xs @ ys) \<longleftrightarrow> below n xs \<and> below n ys"
  by (auto simp: below_def)

lemma below_fresh [simp]:
  "below n xs \<Longrightarrow> n \<notin> set xs" "below n xs \<Longrightarrow> Suc n \<notin> set xs"
  "below n xs \<Longrightarrow> below (Suc n) xs" "below n xs \<Longrightarrow> below (Suc (Suc n)) xs"
  by (auto simp: below_def)

definition fresh_inv :: "'m world \<Rightarrow> bool" where
  "fresh_inv w \<longleftrightarrow> distinct (made (w_log w)) \<and> below (w_next w) (made (w_log w))"

definition resources_inv :: "'m State \<Rightarrow> 'm world \<Rightarrow> bool" where
  "resources_inv st w \<longleftrightarrow> fresh_inv w \<and> orderly (w_log w) \<and> holds_own st (w_log w)"

lemma link_tasks [simp]:
  "(h, tx) \<in> set ls \<Longrightarrow> h \<in> fst ` set ls" "(h, tx) \<in> set ls \<Longrightarrow> tx \<in> snd ` set ls"
  by (auto intro: rev_image_eqI)

lemma linked_cases:
  assumes "linked x y ls"
  obtains "x = None" "y = None" | h tx where "x = Some h" "y = Some tx" "(h, tx) \<in> set ls"
  using assms by (cases x; cases y) auto

lemmas resources_defs = resources_inv_def fresh_inv_def holds_own_def orderly_append

lemma holds_own_cases:
  assumes "resources_inv st w"
  obtains "conn_handle_of st = None" "chan_of st = None"
  | h tx where "conn_handle_of st = Some h" "chan_of st = Some tx" "(h, tx) \<in> set (links (w_log w))"
  using assms by (auto simp: resources_inv_def holds_own_def elim: linked_cases)

lemma resources_Idle:
  "resources_inv (Idle s) w \<Longrightarrow> wp (step_Idle cx s ev) (\<lambda>st' w'. resources_inv st' w') w"
  by (cases ev) (simp_all add: step_unfold run_simps resources_defs split: option.split)

lemma resources_Connect:
  assumes inv: "resources_inv (Connect s) w"
  shows "wp (step_Connect cx s ev) (\<lambda>st' w'. resources_inv st' w') w"
  by (rule holds_own_cases [OF inv]; cases "co_tcp_conn_handle (fsm_state s)"; cases ev)
    (use inv in \<open>simp_all add: step_unfold run_simps resources_defs\<close>)

lemma resources_Active:
  assumes inv: "resources_inv (Active s) w"
  shows "wp (step_Active cx s ev) (\<lambda>st' w'. resources_inv st' w') w"
  by (rule holds_own_cases [OF inv]; cases "ac_tcp_conn_handle (fsm_state s)"; cases ev)
    (use inv in \<open>simp_all add: step_unfold run_simps resources_defs\<close>)

lemma resources_OpenSent:
  assumes inv: "resources_inv (OpenSent s) w"
  shows "wp (step_OpenSent cx s ev src) (\<lambda>st' w'. resources_inv st' w') w"
  by (rule holds_own_cases [OF inv]; cases ev)
    (use inv in \<open>simp_all add: step_unfold run_simps resources_defs\<close>)

lemma resources_OpenConfirm:
  assumes inv: "resources_inv (OpenConfirm s) w"
  shows "wp (step_OpenConfirm cx s ev src) (\<lambda>st' w'. resources_inv st' w') w"
  by (rule holds_own_cases [OF inv]; cases ev)
    (use inv in \<open>simp_all add: step_unfold run_simps resources_defs\<close>)

lemma resources_Established:
  assumes inv: "resources_inv (Established s) w"
  shows "wp (step_Established cx s ev) (\<lambda>st' w'. resources_inv st' w') w"
  by (rule holds_own_cases [OF inv]; cases ev)
    (use inv in \<open>simp_all add: step_unfold run_simps resources_defs\<close>)

lemma resources_dispatch:
  "dispatch cx st ev src w = (Ret st', w') \<Longrightarrow> resources_inv st w \<Longrightarrow> resources_inv st' w'"
  by (erule dispatch_wp)
    (simp_all add: resources_Idle resources_Connect resources_Active resources_OpenSent
      resources_OpenConfirm resources_Established)

end
