(* ===== verification/Session_Messages.thy ===== *)
theory Session_Messages
  imports Session_Resources
begin

text \<open>
  What a session says: the messages of one step, by the kind of message and the state the step ends
  in, and the messages on each channel over a whole run of a session of the program.
\<close>

section \<open>The messages of one step\<close>

definition configured_open :: "'m ctx \<Rightarrow> Message" where
  "configured_open cx = MsgOpen (OpenMsg_from_conf (cx_conf cx))"

text \<open>When a step that handles \<open>ev\<close> and ends in \<open>p\<close> may send a message.\<close>

fun may_send :: "'m ctx \<Rightarrow> 'm Event \<Rightarrow> phase \<Rightarrow> Message \<Rightarrow> bool" where
  "may_send cx ev p (MsgOpen m) \<longleftrightarrow>
     m = OpenMsg_from_conf (cx_conf cx) \<and> p \<in> {POpenSent, POpenConfirm}"
| "may_send cx ev p (MsgKeepalive k) \<longleftrightarrow> p \<in> {POpenConfirm, PEstablished}"
| "may_send cx ev p (MsgNotification n) \<longleftrightarrow> p = PIdle \<or> is_open_event ev \<and> MsgNotification n = cease"
| "may_send cx ev p (MsgUpdate u) \<longleftrightarrow> False"

lemma messages_dispatch:
  assumes "dispatch cx st ev src w = (Ret st', w')"
  shows "\<exists>ms. sent_messages (w_log w') = sent_messages (w_log w) @ ms \<and> length ms \<le> 2 \<and>
    (\<forall>(tx, m) \<in> set ms. may_send cx ev (phase_of st') m)"
    (is "?P st' w'")
  by (rule dispatch_wp [where Q = ?P, OF assms]; cases ev)
    (simp_all add: step_unfold run_simps is_open_event_def cease_def split: option.split)

lemma may_send_cases:
  "may_send cx ev p m = (case m of
     MsgOpen opn \<Rightarrow> opn = OpenMsg_from_conf (cx_conf cx) \<and> p \<in> {POpenSent, POpenConfirm}
   | MsgKeepalive k \<Rightarrow> p \<in> {POpenConfirm, PEstablished}
   | MsgNotification n \<Rightarrow> p = PIdle \<or> is_open_event ev \<and> m = cease
   | MsgUpdate u \<Rightarrow> False)"
  by (cases m) simp_all

section \<open>The messages on one channel\<close>

definition sent_on :: "chan \<Rightarrow> 'm effect list \<Rightarrow> Message list" where
  "sent_on tx es = map snd (filter (\<lambda>m. fst m = tx) (sent_messages es))"

lemma sent_on_append [simp]: "sent_on tx (es @ fs) = sent_on tx es @ sent_on tx fs"
  by (simp add: sent_on_def)

lemma sent_on_simps [simp]:
  "sent_on tx [] = []"
  "sent_on tx (OutMsg c m # es) = (if c = tx then m # sent_on tx es else sent_on tx es)"
  "sent_on tx (TimerCtr t # es) = sent_on tx es"
  "sent_on tx (SpawnTcp h a # es) = sent_on tx es"
  "sent_on tx (SpawnProcess h conn c b # es) = sent_on tx es"
  "sent_on tx (SpawnProcessOne h conn b # es) = sent_on tx es"
  "sent_on tx (Abort h # es) = sent_on tx es"
  by (simp_all add: sent_on_def)

text \<open>
  The exchange a session of the program can have on a channel: nothing, its OPEN, or its OPEN and one
  notification.
\<close>

definition opening_exchange :: "Message \<Rightarrow> Message list \<Rightarrow> bool" where
  "opening_exchange opn ms \<longleftrightarrow> ms = [] \<or> ms = [opn] \<or> (\<exists>n. ms = [opn, MsgNotification n])"

definition wire_inv :: "'m ctx \<Rightarrow> 'm State \<Rightarrow> 'm world \<Rightarrow> bool" where
  "wire_inv cx st w \<longleftrightarrow>
     (\<forall>tx. opening_exchange (configured_open cx) (sent_on tx (w_log w))) \<and>
     (\<forall>tx. chan_of st = Some tx \<longrightarrow> tx < w_next w \<and> sent_on tx (w_log w) = [configured_open cx]) \<and>
     (\<forall>tx. w_next w \<le> tx \<longrightarrow> sent_on tx (w_log w) = [])"

lemma opening_exchange_simps [simp]:
  "opening_exchange opn []" "opening_exchange opn [opn]" "opening_exchange opn [opn, MsgNotification n]"
  by (auto simp: opening_exchange_def)

lemmas wire_defs = wire_inv_def inv_defs configured_open_def cease_def

lemma wire_Idle:
  "wire_inv cx (Idle s) w \<Longrightarrow> wp (step_Idle cx s ev) (\<lambda>st' w'. wire_inv cx st' w') w"
  by (cases ev) (simp_all add: step_unfold run_simps wire_defs split: option.split)

lemma wire_Connect:
  "session_inv (Connect s) \<Longrightarrow> wire_inv cx (Connect s) w \<Longrightarrow>
     wp (step_Connect cx s ev) (\<lambda>st' w'. wire_inv cx st' w') w"
  by (cases "co_tcp_conn_handle (fsm_state s)"; cases ev) (simp_all add: step_unfold run_simps wire_defs)

lemma wire_Active:
  "session_inv (Active s) \<Longrightarrow> wire_inv cx (Active s) w \<Longrightarrow>
     wp (step_Active cx s ev) (\<lambda>st' w'. wire_inv cx st' w') w"
  by (cases ev) (simp_all add: step_unfold run_simps wire_defs)

lemma wire_OpenSent:
  "session_inv (OpenSent s) \<Longrightarrow> wire_inv cx (OpenSent s) w \<Longrightarrow>
     wp (step_OpenSent cx s ev src) (\<lambda>st' w'. wire_inv cx st' w') w"
  by (cases "os_bgp_conn_handle (fsm_state s)"; cases "os_bgp_out_tx (fsm_state s)"; cases ev)
    (simp_all add: step_unfold run_simps wire_defs)

lemma wire_dispatch:
  "dispatch cx st ev src w = (Ret st', w') \<Longrightarrow> session_inv st \<Longrightarrow> wire_inv cx st w \<Longrightarrow> wire_inv cx st' w'"
  by (erule dispatch_wp)
    (simp_all add: wire_Idle wire_Connect wire_Active wire_OpenSent
      session_inv_def [of "OpenConfirm s" for s] session_inv_def [of "Established s" for s] handles_off_def)

lemma wire_start: "wire_inv cx (State_new peer) initial_world"
  by (simp add: wire_inv_def State_new_def Fsm_new_def initial_world_def)

lemma wire_reach: "reach cx peer st w \<Longrightarrow> wire_inv cx st w"
  by (induction rule: reach_induct) (auto intro: wire_start wire_dispatch inv_reach)

lemma resources_run:
  assumes "run cx (Idle s) inputs initial_world = (Ret st, w)"
  shows "resources_inv st w"
proof -
  have "resources_inv st0 w0 \<Longrightarrow> run cx st0 inputs w0 = (Ret st, w) \<Longrightarrow> resources_inv st w" for st0 w0
  proof (induction inputs arbitrary: st0 w0)
    case (Cons i inputs)
    then obtain st1 w1 where s: "step cx st0 (fst i) (snd i) w0 = (Ret st1, w1)"
      and r: "run cx st1 inputs w1 = (Ret st, w)"
      by (cases i) (auto simp: bindA_Ret)
    from s obtain ev where "dispatch cx st0 ev (fst i) w0 = (Ret st1, w1)" by (rule step_dispatch)
    from Cons.IH [OF resources_dispatch [OF this Cons.prems(1)] r] show ?case .
  qed (simp add: retA_Ret)
  moreover have "resources_inv (Idle s) initial_world"
    by (simp add: resources_inv_def fresh_inv_def holds_own_def orderly_def initial_world_def)
  ultimately show ?thesis using assms by blast
qed

end
