(* ===== verification/Stream_Facts.thy ===== *)
theory Stream_Facts
  imports Connection
begin

text \<open>
  Decoding and reading as octets arrive. Once a frame (a header and as many octets as it says) is
  in the buffer, what it decodes to does not depend on what follows it; so a reader gets the same
  message however the stream is cut into reads, and what one task sends its session too.
\<close>

section \<open>A frame that has arrived\<close>

lemma header_decode_octets:
  assumes "rem c = m @ a # b # t # ys" and "length m = 16"
  shows "MessageHeader_decode ref_octets c =
    (if m \<noteq> MARKER then err_header ConnectionNotSync None
     else bindO (MsgType_from_u8 t) (\<lambda>ty. bindO (check_length ty (be16 a b)) (\<lambda>_.
       Ok (\<lparr>hdr_length = be16 a b, hdr_type = ty\<rparr>, adv c 19))))"
proof -
  have reads: "ref_get_u16 (adv c 16) = Some (be16 a b, adv c 18)" "ref_get_u8 (adv c 18) = Some (t, adv c 19)"
    using assms by (simp_all add: ref_read_Some)
  from assms show ?thesis
    by (simp add: MessageHeader_decode_def ref_get_bytes_def MARKER_LEN_def reads)
qed

lemma MsgType_u8_inject [simp]: "MsgType_u8 t = MsgType_u8 t' \<longleftrightarrow> t = t'"
  by (cases t; cases t') simp_all

lemma be16_bytes_inject [simp]: "be16_bytes v = be16_bytes w \<longleftrightarrow> v = w"
  by (metis be16_bytes_cases list.inject)

lemma header_bytes_inject:
  "header_bytes h @ xs = header_bytes h' @ ys \<longleftrightarrow> h = h' \<and> xs = ys"
proof
  assume eq: "header_bytes h @ xs = header_bytes h' @ ys"
  then have hb: "header_bytes h = header_bytes h'" and "xs = ys"
    by (simp_all add: append_eq_append_conv)
  then have "hdr_length h = hdr_length h'" and "hdr_type h = hdr_type h'"
    by (simp_all add: header_bytes_def append_eq_append_conv)
  with \<open>xs = ys\<close> show "h = h' \<and> xs = ys" by simp
qed simp

definition frame_arrived :: "u8 list \<Rightarrow> bool" where
  "frame_arrived bs \<longleftrightarrow> 19 \<le> length bs \<and>
     (\<forall>h c. MessageHeader_decode ref_octets (Cursor bs 0) = Ok (h, c) \<longrightarrow>
        19 + unat (hdr_length h) \<le> length bs)"

lemma header_split:
  assumes "19 \<le> length bs"
  obtains m a b t ys where "bs = m @ a # b # t # ys" and "length m = 16"
proof -
  have "3 \<le> length (drop 16 bs)" using assms by simp
  then obtain a b t ys where "drop 16 bs = a # b # t # ys"
    by (auto simp only: numeral_3_eq_3 Suc_le_length_iff)
  then have "bs = take 16 bs @ a # b # t # ys" by (metis append_take_drop_id)
  with assms that show thesis by simp
qed

lemma header_decode_append:
  assumes "19 \<le> length bs"
  shows "map_outcome fst (MessageHeader_decode ref_octets (Cursor (bs @ xs) 0))
    = map_outcome fst (MessageHeader_decode ref_octets (Cursor bs 0))"
proof -
  from assms obtain m a b t ys where "bs = m @ a # b # t # ys" and "length m = 16"
    by (rule header_split)
  then show ?thesis
    using header_decode_octets [of "Cursor bs 0" m a b t ys]
      header_decode_octets [of "Cursor (bs @ xs) 0" m a b t "ys @ xs"]
    by (auto simp: err_header_def map_outcome_bindO)
qed

lemma ref_decode_not_arrived:
  assumes "\<not> frame_arrived bs"
  shows "ref_decode chk bs peer = Some (Err from_BufferTooShortError, bs)"
proof (cases "length bs < 19")
  case False
  with assms obtain h c where h: "MessageHeader_decode ref_octets (Cursor bs 0) = Ok (h, c)"
    and l: "length bs < 19 + unat (hdr_length h)"
    by (auto simp: frame_arrived_def not_less not_le)
  then obtain rest where "bs = header_bytes h @ rest"
    and "header_length_ok (hdr_type h) (unat (hdr_length h))"
    by (auto simp: ref_header_decode_Ok)
  with l show ?thesis by (simp add: ref_decode_header)
qed (rule ref_decode_short)

lemma ref_decode_append:
  assumes "frame_arrived bs"
  shows "ref_decode chk (bs @ xs) peer = map_option (map_prod id (\<lambda>left. left @ xs)) (ref_decode chk bs peer)"
proof (cases "MessageHeader_decode ref_octets (Cursor bs 0)")
  case (Err e)
  from assms have l: "19 \<le> length bs" by (simp add: frame_arrived_def)
  with Err header_decode_append [OF l, of xs]
  have "MessageHeader_decode ref_octets (Cursor (bs @ xs) 0) = Err e" by simp
  with Err l show ?thesis by (simp add: ref_decode_bad_header)
next
  case (Ok hc)
  then obtain h c where h: "MessageHeader_decode ref_octets (Cursor bs 0) = Ok (h, c)" by (cases hc) simp
  then obtain rest where bs: "bs = header_bytes h @ rest"
    and ok: "header_length_ok (hdr_type h) (unat (hdr_length h))"
    by (auto simp: ref_header_decode_Ok)
  from assms h bs have l: "unat (hdr_length h) \<le> length rest" by (simp add: frame_arrived_def)
  have bs': "bs @ xs = header_bytes h @ (rest @ xs)" using bs by simp
  have off: "cur_off c + 19 \<le> length bs"
    if "body_decode chk ref_octets peer (hdr_type h) (Cursor (take (unat (hdr_length h)) rest) 0)
      = Some (Ok (msg, c))" for msg c
    using body_decode_Ok [OF that] l bs by auto
  from l off show ?thesis
    unfolding ref_decode_header [OF bs ok] ref_decode_header [OF bs' ok]
    by (auto split: option.split outcome.split)
qed simp

text \<open>Whether more octets can change the result of decoding is whether the frame has arrived.\<close>

lemma ref_decode_arrived:
  "ref_decode chk bs peer = Some (r, bs') \<Longrightarrow> (\<And>e. r = Err e \<Longrightarrow> \<not> too_short e) \<Longrightarrow> frame_arrived bs"
  using ref_decode_not_arrived [of bs chk peer] by (cases "frame_arrived bs") auto

section \<open>Reading a stream\<close>

text \<open>The peer's OPEN a connection knows after a message.\<close>

definition peer_after :: "Message Result \<Rightarrow> OpenMsg option \<Rightarrow> OpenMsg option" where
  "peer_after r p = (case r of Ok (MsgOpen m) \<Rightarrow> Some m | _ \<Rightarrow> p)"

text \<open>What one call of the reader does, said without the pieces: one decoding of all the octets.\<close>

definition read_whole :: "Message Result \<Rightarrow> bool" where
  "read_whole r \<longleftrightarrow> (\<forall>e. r = Err e \<longrightarrow> \<not> too_short e)"

lemma read_message_done:
  assumes "ref_decode chk (buffer conn) (conn_peer conn) = Some (r, left)" and "read_whole r"
  shows "read_message chk ref_octets ref_bytes conn reads
    = Finished r (conn\<lparr>buffer := left, conn_peer := peer_after r (conn_peer conn)\<rparr>) reads"
  using assms by (cases r)
    (auto simp: ref_decode_def read_whole_def peer_after_def read_message_Ok read_message_error read_message_panic)

lemma ref_read_in_pieces:
  assumes "ref_decode chk (buffer conn @ delivered reads) (conn_peer conn) = Some (r, left)"
    and "ReadErr \<notin> set reads"
  shows "if read_whole r
    then \<exists>part rest. read_message chk ref_octets ref_bytes conn reads =
        Finished r (conn\<lparr>buffer := part, conn_peer := peer_after r (conn_peer conn)\<rparr>) rest \<and>
      part @ delivered rest = left \<and> ReadErr \<notin> set rest
    else read_message chk ref_octets ref_bytes conn reads = Waiting (conn\<lparr>buffer := buffer conn @ delivered reads\<rparr>)"
  using assms
proof (induction reads arbitrary: conn)
  case Nil
  then have d: "ref_decode chk (buffer conn) (conn_peer conn) = Some (r, left)" by simp
  show ?case
  proof (cases "read_whole r")
    case True
    from read_message_done [OF d True] True show ?thesis by (simp add: exI [of _ "[]"])
  next
    case False
    then obtain e where e: "r = Err e" "too_short e" by (auto simp: read_whole_def)
    with ref_decode_error_keeps [OF d] have "left = buffer conn" by simp
    with e d read_message_too_short [of chk ref_octets ref_bytes conn e left "[]"] False show ?thesis
      by (simp add: ref_decode_def)
  qed
next
  case (Cons io reads)
  then obtain new where io: "io = ReadOk new" by (cases io) auto
  obtain r0 left0 where d0: "ref_decode chk (buffer conn) (conn_peer conn) = Some (r0, left0)"
    using ref_decode_returns by (metis option.exhaust surj_pair)
  show ?case
  proof (cases "read_whole r0")
    case True
    then have "frame_arrived (buffer conn)" using ref_decode_arrived [OF d0] by (auto simp: read_whole_def)
    from ref_decode_append [OF this, of chk "delivered (io # reads)" "conn_peer conn"] d0 Cons.prems(1)
    have "r = r0" and "left = left0 @ delivered (io # reads)" by auto
    with True read_message_done [OF d0 True, of "io # reads"] Cons.prems(2) show ?thesis by auto
  next
    case False
    then obtain e where e: "r0 = Err e" "too_short e" by (auto simp: read_whole_def)
    with ref_decode_error_keeps [OF d0] have "left0 = buffer conn" by simp
    with e d0 read_message_too_short [of chk ref_octets ref_bytes conn e left0 "io # reads"] io
    have "read_message chk ref_octets ref_bytes conn (io # reads)
        = read_message chk ref_octets ref_bytes (conn\<lparr>buffer := buffer conn @ new\<rparr>) reads"
      by (simp add: ref_decode_def)
    with Cons.IH [of "conn\<lparr>buffer := buffer conn @ new\<rparr>"] Cons.prems io show ?thesis
      by (cases "read_whole r") simp_all
  qed
qed

text \<open>
  Two connections are at the same place of a stream when the octets they hold and those still to
  be read make up the same octets.
\<close>

definition same_place :: "'m bytes_mut \<Rightarrow> 'm BgpConn \<Rightarrow> io_read list \<Rightarrow> 'm BgpConn \<Rightarrow> io_read list \<Rightarrow> bool" where
  "same_place bm conn1 reads1 conn2 reads2 \<longleftrightarrow>
     bm_slice bm (buffer conn1) @ delivered reads1 = bm_slice bm (buffer conn2) @ delivered reads2 \<and>
     ReadErr \<notin> set reads1 \<and> ReadErr \<notin> set reads2 \<and> conn_peer conn1 = conn_peer conn2"

text \<open>The same for any crates that keep their contracts.\<close>

context codec begin

lemma read_in_pieces:
  assumes "ref_decode chk (bm_slice bm (buffer conn) @ delivered reads) (conn_peer conn) = Some (r, left)"
    and "ReadErr \<notin> set reads"
  shows "if read_whole r
    then \<exists>conn' rest. read_message chk ops bm conn reads = Finished r conn' rest \<and>
      bm_slice bm (buffer conn') @ delivered rest = left \<and> ReadErr \<notin> set rest \<and>
      stream conn' = stream conn \<and> conn_peer conn' = peer_after r (conn_peer conn)
    else \<exists>conn'. read_message chk ops bm conn reads = Waiting conn' \<and>
      bm_slice bm (buffer conn') = bm_slice bm (buffer conn) @ delivered reads \<and>
      stream conn' = stream conn \<and> conn_peer conn' = conn_peer conn"
proof -
  note sim = read_message_sim [of chk conn reads]
  from ref_read_in_pieces [of chk "view_conn bm conn" reads r left] assms sim show ?thesis
    by (cases "read_message chk ops bm conn reads"; cases "read_whole r") (auto simp: view_conn_def)
qed

lemma read_same_place:
  assumes "same_place bm conn1 reads1 conn2 reads2"
  obtains (finished) r conn1' rest1 conn2' rest2
    where "read_message chk ops bm conn1 reads1 = Finished r conn1' rest1"
      and "read_message chk ops bm conn2 reads2 = Finished r conn2' rest2"
      and "same_place bm conn1' rest1 conn2' rest2"
  | (waiting) conn1' conn2'
    where "read_message chk ops bm conn1 reads1 = Waiting conn1'"
      and "read_message chk ops bm conn2 reads2 = Waiting conn2'"
      and "same_place bm conn1' [] conn2' []"
proof -
  let ?bs = "bm_slice bm (buffer conn1) @ delivered reads1"
  obtain r left where d: "ref_decode chk ?bs (conn_peer conn1) = Some (r, left)"
    using ref_decode_returns by (metis option.exhaust surj_pair)
  from assms read_in_pieces [OF d] read_in_pieces [of chk conn2 reads2 r left] d that show thesis
    by (cases "read_whole r") (auto simp: same_place_def)
qed

end

end
