(* ===== verification/Session_Tasks.thy ===== *)
theory Session_Tasks
  imports Session_Facts Stream_Facts
begin

text \<open>
  What the tasks around a session can send it: the events of a connection task, of the timers and
  of the second connection of a collision. The proofs about buffers use the contract of the
  crates through the locale \<open>codec\<close>.
\<close>

section \<open>Kinds of events\<close>

definition connection_event :: "'m Event \<Rightarrow> bool" where
  "connection_event ev = (case ev of
     BGPOpen m b \<Rightarrow> True
   | EvUpdateMsg m \<Rightarrow> True
   | BGPHeaderErr e \<Rightarrow> err_code e = MessageHeaderError
   | BGPOpenMsgErr e \<Rightarrow> err_code e = OpenMessageError
   | _ \<Rightarrow> False)"

lemma error_event_kind: "error_event e = Some ev \<Longrightarrow> connection_event ev"
  by (auto simp: error_event_def connection_event_def split: ErrorCode.splits)

lemma process_events_kind: "ev \<in> set (fst (process_events r remote_syn)) \<Longrightarrow> connection_event ev"
  by (auto simp: process_events_def intro: error_event_kind
      split: outcome.splits Message.splits option.splits)
    (simp_all add: connection_event_def)

lemma process_one_events_kind:
  "ev \<in> set (process_one_events r conn remote_syn) \<Longrightarrow>
     connection_event ev \<or> (\<exists>c. ev = ProcessOneDone c)"
  by (auto simp: process_one_events_def intro: error_event_kind
      split: outcome.splits Message.splits option.splits)
    (simp_all add: connection_event_def)

lemma send_events_sent:
  "\<exists>n. fst (send_events alive sent evs) = sent @ take n evs"
proof (induction evs arbitrary: sent)
  case (Cons ev evs)
  from Cons [of "sent @ [ev]"] obtain n where
    "fst (send_events alive (sent @ [ev]) evs) = sent @ ev # take n evs" by auto
  then have "fst (send_events alive sent (ev # evs)) = sent @ take (if alive sent then Suc n else 0) (ev # evs)"
    by simp
  then show ?case by blast
qed simp

lemma send_events_kinds:
  "send_events alive sent evs = (sent', ok) \<Longrightarrow> ev \<in> set sent' \<Longrightarrow> ev \<in> set sent \<or> ev \<in> set evs"
  using send_events_sent [of alive sent evs] by (auto dest: in_set_takeD)

text \<open>One turn of \<^verbatim>\<open>process\<close> that reads: what it adds, and whether it goes on.\<close>

lemma process_FromPeer:
  fixes conn :: "'m BgpConn"
  shows "\<exists>sent' conn' reads'.
     (process chk ops bm alive remote_syn sent conn reads (FromPeer # turns)
        = process chk ops bm alive remote_syn sent' conn' reads' turns \<or>
      fst (process chk ops bm alive remote_syn sent conn reads (FromPeer # turns)) = sent') \<and>
     (\<forall>ev \<in> set sent'. ev \<in> set sent \<or> connection_event ev)"
proof (cases "read_message chk ops bm conn reads")
  case (Finished r conn' rest)
  obtain evs :: "'m Event list" and continue where e: "process_events r remote_syn = (evs, continue)" by force
  obtain sent' ok where s: "send_events alive sent evs = (sent', ok)" by force
  have "connection_event ev" if "ev \<in> set evs" for ev
    using that process_events_kind [of ev r remote_syn] e by simp
  then have k: "\<forall>ev \<in> set sent'. ev \<in> set sent \<or> connection_event ev"
    using send_events_kinds [OF s] by blast
  show ?thesis
  proof (cases "\<exists>p. r = Panicked p")
    case True
    then show ?thesis using Finished by (intro exI [of _ sent]) auto
  next
    case False
    then have "process chk ops bm alive remote_syn sent conn reads (FromPeer # turns) =
        (if \<not> ok then (sent', Crashed UnwrapErr)
         else if continue then process chk ops bm alive remote_syn sent' conn' rest turns
         else (sent', Stopped))"
      using Finished e s by (cases r) simp_all
    then show ?thesis using k by (intro exI [of _ sent'] exI [of _ conn'] exI [of _ rest]) auto
  qed
qed (auto intro!: exI [of _ sent])

lemma process_kinds:
  "ev \<in> set (fst (process chk ops bm alive remote_syn sent conn reads turns)) \<Longrightarrow>
     ev \<in> set sent \<or> connection_event ev"
proof (induction turns arbitrary: sent conn reads)
  case (Cons t turns)
  show ?case
  proof (cases t)
    case (FromSession m)
    with Cons show ?thesis by (cases m) (auto split: outcome.splits)
  next
    case FromPeer
    from process_FromPeer [of chk ops bm alive remote_syn sent conn reads turns] Cons FromPeer
    show ?thesis by metis
  qed
qed simp

lemma process_one_kinds:
  fixes conn :: "'m BgpConn"
  assumes a: "ev \<in> set (fst (process_one chk ops bm alive conn remote_syn reads))"
  shows "connection_event ev \<or> (\<exists>c. ev = ProcessOneDone c)"
proof (cases "read_message chk ops bm conn reads")
  case (Finished r conn' rest)
  obtain sent ok where s: "send_events alive [] (process_one_events r conn' remote_syn) = (sent, ok)"
    by force
  with a Finished have "ev \<in> set sent"
    by (cases r) (simp_all add: process_one_def)
  from send_events_kinds [OF s this] show ?thesis by (auto dest: process_one_events_kind)
qed (use a in \<open>simp_all add: process_one_def\<close>)

lemma timer_task_kind:
  "ev \<in> set (snd (timer_task k dur ws)) \<Longrightarrow> ev = TimerKind_into_Event k"
proof (induction ws arbitrary: dur)
  case (Cons t ws)
  obtain d evs where s: "timer_task_step k dur t = (d, evs :: 'a Event list)" by force
  then have "set evs \<subseteq> {TimerKind_into_Event k}"
    by (auto simp: timer_task_step_def split: timer_wait.splits option.splits Operation.splits)
  with Cons.prems s Cons.IH [of d] show ?case by (auto split: prod.splits)
qed simp

text \<open>Two ends of a connection task that a session cannot tell apart.\<close>

fun ends_alike :: "'m task_end \<Rightarrow> 'm task_end \<Rightarrow> bool" where
  "ends_alike (Running c) e = (\<exists>d. e = Running d)"
| "ends_alike (Crashed p) e = (e = Crashed p)"
| "ends_alike Stopped e = (e = Stopped)"
| "ends_alike Hung e = (e = Hung)"

section \<open>A connection whose next octets are not a message\<close>

context codec begin

text \<open>
  An error of the header or of an OPEN leaves the octets in the buffer, so the task decodes the
  same octets on its next turn, and on every turn after that.
\<close>

lemma process_repeats_error:
  assumes "ref_decode chk (bm_slice bm (buffer conn)) (conn_peer conn) = Some (Err e, bs)"
    and "error_event e = Some ev" and "alive = (\<lambda>_. True)"
  shows "\<exists>conn'. process chk ops bm alive remote_syn sent conn reads (replicate n FromPeer)
      = (sent @ replicate n ev, Running conn')"
  using assms(1)
proof (induction n arbitrary: sent conn)
  case (Suc n)
  have bs: "bs = bm_slice bm (buffer conn)"
    by (rule ref_decode_error_keeps [OF Suc.prems]) simp
  obtain buf' where d: "Message_decode chk ops bm (buffer conn) (conn_peer conn) = Some (Err e, buf')"
    and buf': "bm_slice bm buf' = bs"
    using decode_ref_Some [OF Suc.prems] by blast
  have "\<not> too_short e"
    using assms(2) by (auto simp: too_short_def error_event_def)
  from read_message_error [OF d this]
  have r: "read_message chk ops bm conn reads = Finished (Err e) (conn\<lparr>buffer := buf'\<rparr>) reads" .
  from Suc.prems bs buf' Suc.IH [of "conn\<lparr>buffer := buf'\<rparr>" "sent @ [ev]"]
  obtain conn' where "process chk ops bm alive remote_syn (sent @ [ev]) (conn\<lparr>buffer := buf'\<rparr>) reads
      (replicate n FromPeer) = (sent @ replicate (Suc n) ev, Running conn')"
    by auto
  with r assms(2,3) show ?case by (simp add: process_events_def)
qed simp

text \<open>What a task sends does not depend on how the stream is cut into reads.\<close>

lemma process_same_place:
  "same_place bm conn1 reads1 conn2 reads2 \<Longrightarrow>
     fst (process chk ops bm alive remote_syn sent conn1 reads1 turns)
       = fst (process chk ops bm alive remote_syn sent conn2 reads2 turns) \<and>
     ends_alike (snd (process chk ops bm alive remote_syn sent conn1 reads1 turns))
       (snd (process chk ops bm alive remote_syn sent conn2 reads2 turns))"
proof (induction turns arbitrary: sent conn1 reads1 conn2 reads2)
  case (Cons t turns)
  show ?case
  proof (cases t)
    case (FromSession m)
    with Cons show ?thesis
      by (cases m) (auto simp: write_message_def Message_encode_def)
  next
    case FromPeer
    from Cons.prems show ?thesis
    proof (cases rule: read_same_place [of conn1 reads1 conn2 reads2 chk])
      case (finished r conn1' rest1 conn2' rest2)
      obtain sent' ok where "send_events alive sent (fst (process_events r remote_syn)) = (sent', ok)"
        by force
      with finished Cons.IH [OF finished(3)] FromPeer show ?thesis
        by (cases r) (auto split: prod.splits)
    next
      case (waiting conn1' conn2')
      with Cons.IH [OF waiting(3)] FromPeer show ?thesis by simp
    qed
  qed
qed simp

end

end
