(* ===== verification/Decode_Typing.thy ===== *)
theory Decode_Typing
  imports Codec_Facts
begin

text \<open>
  Type safety of \<^verbatim>\<open>Message::decode\<close>: the messages, errors and panics it can end in, whatever octets it
  is given.
\<close>

section \<open>Well-formed results\<close>

definition open_wf :: "OpenMsg \<Rightarrow> bool" where
  "open_wf m \<longleftrightarrow> version m = 4 \<and> (open_hold_time m = 0 \<or> 3 \<le> unat (open_hold_time m)) \<and>
     ipv4_bits (bgp_identifier m) \<notin> {0, 4294967295} \<and> unat (as_number m) < 65536"

fun message_wf :: "bool \<Rightarrow> OpenMsg option \<Rightarrow> Message \<Rightarrow> bool" where
  "message_wf chk peer (MsgOpen m) = open_wf m"
| "message_wf chk peer (MsgUpdate u) =
     (case peer of None \<Rightarrow> False | Some p \<Rightarrow> update_wf chk (four_octet_as_cap (opt_params p) \<noteq> None) u)"
| "message_wf chk peer (MsgKeepalive k) = True"
| "message_wf chk peer (MsgNotification n) = (notification_data n \<noteq> None)"

text \<open>The errors of decoding name a code and a subcode of its group, and never carry data.\<close>

definition decode_error :: "Error \<Rightarrow> bool" where
  "decode_error e \<longleftrightarrow> err_data e = None \<and> error_wf e \<and>
     (e = from_BufferTooShortError \<or> err_code e \<in> {MessageHeaderError, OpenMessageError, UpdateMessageError})"

fun result_wf :: "bool \<Rightarrow> OpenMsg option \<Rightarrow> Message Result \<Rightarrow> bool" where
  "result_wf chk peer (Ok msg) = message_wf chk peer msg"
| "result_wf chk peer (Err e) = decode_error e"
| "result_wf chk peer (Panicked p) = (peer \<noteq> None \<and> (p = UnwrapErr \<or> chk \<and> p = ArithmeticOverflow))"

section \<open>Errors\<close>

lemma decode_error_simps [simp]:
  "decode_error from_BufferTooShortError"
  "decode_error (new_header s1 None)" "decode_error (new_open s2 None)" "decode_error (new_update s3 None)"
  by (simp_all add: decode_error_def error_defs)

text \<open>An action of the decoders is safe when its only errors are those.\<close>

definition safe :: "'a Result \<Rightarrow> bool" where
  "safe r = (case r of Err e \<Rightarrow> decode_error e | _ \<Rightarrow> True)"

lemma safe_simps [simp]:
  "safe (Ok x)" "safe (Panicked p)" "safe (Err e) = decode_error e" "safe (oct_try r)"
  "safe (err_header s1 None)" "safe (err_open s2 None)" "safe (err_update s3 None)"
  by (simp_all add: safe_def err_header_def err_open_def err_update_def oct_try_def split: option.split)

lemma safe_bindO: "safe m \<Longrightarrow> (\<And>x. safe (f x)) \<Longrightarrow> safe (bindO m f)"
  by (cases m) simp_all

lemma safe_bind_prod: "safe m \<Longrightarrow> (\<And>x b. safe (f x b)) \<Longrightarrow> safe (bindO m (\<lambda>(x, b). f x b))"
  by (rule safe_bindO) auto

lemma safe_vec [simp]: "safe (ipv4_from_vec v)" "safe (ipv6_from_vec v)" "safe (add_u8 chk a b)"
  by (auto simp: ipv4_from_vec_def ipv6_from_vec_def add_u8_def split: list.split)

lemmas safe_rules = safe_bind_prod safe_bindO

lemma safe_header: "safe (MessageHeader_decode ops b)"
  by (auto simp: MessageHeader_decode_def MsgType_from_u8_def check_length_def
      intro!: safe_rules split: MsgType.split)

lemma safe_OptParams_loop: "safe (OptParams_loop ops ext n p b)"
  by (induction n arbitrary: p b)
    (auto simp: OptParam_decode_def param_length_def MpExtCap_decode_def FourOctetAsCap_decode_def
      intro!: safe_rules)

lemma safe_open: "safe (OpenMsg_decode ops b)"
  by (auto simp: OpenMsg_decode_def OptParams_decode_def Let_def
      intro!: safe_rules safe_OptParams_loop split: prod.split)

lemma safe_notification: "safe (NotificationMsg_decode ops b)"
  by (auto simp: NotificationMsg_decode_def intro!: safe_rules)

lemma safe_cidr: "safe (Cidr_decode chk ops b)"
  by (auto simp: Cidr_decode_def Let_def intro!: safe_rules)

lemma safe_nlri: "safe (nlri_item_decode chk ops b)"
  by (auto simp: nlri_item_decode_def intro!: safe_rules safe_cidr)

lemma safe_as_numbers: "safe (as_numbers ops n acc b)"
  by (induction n arbitrary: acc b) (auto intro!: safe_rules)

lemma safe_as_path: "safe (AsPathSegment_decode ops b len)"
  by (auto simp: AsPathSegment_decode_def AsPathSegmentType_decode_def
      intro!: safe_rules safe_as_numbers)

lemma safe_aggregator: "safe (Aggregator_decode ops b four)"
  by (auto simp: Aggregator_decode_def aggregator_as_decode_def ipv4_decode_def intro!: safe_rules)

lemma safe_value: "safe (PathAttributeValue_decode ops b peer attr)"
  by (auto simp: PathAttributeValue_decode_def Origin_decode_def ipv4_decode_def Let_def
      intro!: safe_rules safe_as_path safe_aggregator)

lemma safe_attr: "safe (PathAttribute_decode ops peer b)"
  by (auto simp: PathAttribute_decode_def PathAttributeFlags_decode_def attr_length_decode_def Let_def
      intro!: safe_rules safe_value)

text \<open>The same for computations that may not return.\<close>

definition safe_opt :: "'a Result option \<Rightarrow> bool" where
  "safe_opt m = (case m of None \<Rightarrow> True | Some r \<Rightarrow> safe r)"

lemma safe_opt_simps [simp]: "safe_opt (Some r) = safe r" "safe_opt None"
  by (simp_all add: safe_opt_def)

lemma safe_loop:
  assumes "\<And>b. safe (dec b)"
  shows "safe_opt (decode_while ops dec acc b)"
proof -
  have "(\<forall>b. safe (dec b)) \<longrightarrow> safe r" if "decode_while ops dec acc b = Some r" for r
    using that
    by (rule decode_while.raw_induct
        [where P = "\<lambda>ops dec acc b r. (\<forall>b. safe (dec b)) \<longrightarrow> safe r", rotated])
      (auto split: if_splits outcome.splits, metis safe_simps(3))
  with assms show ?thesis by (cases "decode_while ops dec acc b") auto
qed

lemma safe_bindL: "safe_opt m \<Longrightarrow> (\<And>x b. safe_opt (f x b)) \<Longrightarrow> safe_opt (bindL m (\<lambda>(x, b). f x b))"
  by (cases m rule: bindL_cases) (auto split: prod.split)

lemma safe_update: "safe_opt (UpdateMsg_decode chk ops peer b)"
  by (auto simp: UpdateMsg_decode_def intro!: safe_bindL safe_loop safe_cidr safe_attr safe_nlri)

section \<open>Panics\<close>

lemma Cidr_panic_kind: "Cidr_decode chk ref_octets c = Panicked p \<Longrightarrow> p = UnwrapErr \<or> chk \<and> p = ArithmeticOverflow"
  by (cases "rem c") (auto simp: Cidr_decode_empty Cidr_decode_cases split: if_splits)

lemma nlri_panic_kind:
  "nlri_item_decode chk ref_octets c = Panicked p \<Longrightarrow> p = UnwrapErr \<or> chk \<and> p = ArithmeticOverflow"
  by (auto simp: nlri_item_decode_def bindO_eq_Panicked dest!: Cidr_panic_kind)

lemma ref_update_panic_kind:
  "UpdateMsg_decode chk ref_octets peer c = Some (Panicked p) \<Longrightarrow> p = UnwrapErr \<or> chk \<and> p = ArithmeticOverflow"
  by (auto simp: UpdateMsg_decode_def bindL_eq_Panicked split: if_splits
      dest!: cidr.loop_panics nlri_item.loop_panics path_attr.loop_panics Cidr_panic_kind nlri_panic_kind)

section \<open>The whole message\<close>

lemma body_decode_typed:
  assumes "body_decode chk ref_octets peer t c = Some r"
  shows "result_wf chk peer (map_outcome fst r)"
proof (cases t)
  case TypeOpen
  with assms have r: "r = bindO (OpenMsg_decode ref_octets c) (\<lambda>(m, b). Ok (MsgOpen m, b))"
    by (simp add: body_decode_def)
  show ?thesis
  proof (cases "OpenMsg_decode ref_octets c")
    case (Ok mb)
    then obtain m b where "OpenMsg_decode ref_octets c = Ok (m, b)" by (cases mb) simp
    from OpenMsg_decode_Ok [OF this] this r show ?thesis by (simp add: open_wf_def)
  next
    case (Err e)
    with safe_open [of ref_octets c] r show ?thesis by simp
  qed simp
next
  case TypeUpdate
  show ?thesis
  proof (cases peer)
    case None
    with TypeUpdate assms show ?thesis by (auto simp: body_decode_def err_header_def)
  next
    case (Some p)
    with TypeUpdate assms have b: "bindL (UpdateMsg_decode chk ref_octets p c) (\<lambda>(m, b). Some (Ok (MsgUpdate m, b))) = Some r"
      by (simp add: body_decode_def)
    then show ?thesis
      using safe_update [of chk ref_octets p c] ref_update_panic_kind [of chk p c] Some
      by (cases "UpdateMsg_decode chk ref_octets p c" rule: bindL_cases)
        (auto dest!: ref_update_typed)
  qed
next
  case TypeKeepalive
  with assms show ?thesis by (auto simp: body_decode_def KeepaliveMsg_decode_def)
next
  case TypeNotification
  with assms have r: "r = bindO (NotificationMsg_decode ref_octets c) (\<lambda>(m, b). Ok (MsgNotification m, b))"
    by (simp add: body_decode_def)
  with safe_notification [of ref_octets c] show ?thesis
    by (auto simp: NotificationMsg_decode_ref split: list.split)
qed

lemma ref_decode_typed:
  assumes "ref_decode chk bs peer = Some (r, bs')"
  shows "result_wf chk peer r"
proof (cases rule: ref_decode_cases [of bs chk peer])
  case 1
  with assms show ?thesis by auto
next
  case (2 e)
  with assms safe_header [of ref_octets "Cursor bs 0"] show ?thesis by auto
next
  case (3 h rest)
  with assms show ?thesis
    using body_decode_typed [of chk peer "hdr_type h" "Cursor (take (unat (hdr_length h)) rest) 0"]
    by (auto simp: ref_decode_header split: option.splits outcome.splits if_splits)
qed

end
