(* ===== verification/Program.thy ===== *)
theory Program
  imports Main_Loop Session_Messages Session_Tasks Decode_Typing
begin

text \<open>
  The tasks of the program put together: \<^verbatim>\<open>main\<close> of \<^verbatim>\<open>src/main.rs\<close> from the accepted sockets to the
  sessions, and the channel between a session and the task of its connection.
\<close>

section \<open>The main task\<close>

text \<open>
  Where the dispatcher is when it waits: at \<^verbatim>\<open>open_rx.recv()\<close>, at the second of its two sends, or
  nowhere, after a panic.
\<close>

datatype dispatcher = Receiving | SendingOpen IpAddr OpenMsg | Ended panic

record 'm program =
  pg_queue :: "('m BgpConn \<times> OpenMsg) list"       \<comment> \<open>between \<^verbatim>\<open>open_tx\<close> and \<^verbatim>\<open>open_rx\<close>\<close>
  pg_dispatcher :: dispatcher
  pg_blocks :: "IpAddr \<Rightarrow> 'm spawned"              \<comment> \<open>the tasks spawned for the sessions\<close>
  pg_channels :: "IpAddr \<Rightarrow> 'm Event list"         \<comment> \<open>what waits in each session's admin channel\<close>
  pg_delivered :: "(IpAddr \<times> 'm Event) list"      \<comment> \<open>what was ever sent to the sessions, in order\<close>
  pg_passive :: "'m passive_end list"

definition program_start :: "'m program" where
  "program_start = \<lparr>pg_queue = [], pg_dispatcher = Receiving, pg_blocks = (\<lambda>_. NotPolled),
     pg_channels = (\<lambda>_. []), pg_delivered = [], pg_passive = []\<rparr>"

definition dispatcher_alive :: "'m program \<Rightarrow> bool" where
  "dispatcher_alive pg = (case pg_dispatcher pg of Ended p \<Rightarrow> False | _ \<Rightarrow> True)"

definition passive_ends ::
    "bool \<Rightarrow> 'b octets \<Rightarrow> 'm bytes_mut \<Rightarrow> TcpStream \<Rightarrow> io_read list \<Rightarrow> 'm program \<Rightarrow> 'm program" where
  "passive_ends chk ops bm socket reads pg =
     (let r = process_passive chk ops bm (dispatcher_alive pg) socket reads;
          pg = pg\<lparr>pg_passive := pg_passive pg @ [r]\<rparr>
      in (case r of
            Forwarded conn opn \<Rightarrow> pg\<lparr>pg_queue := pg_queue pg @ [(conn, opn)]\<rparr>
          | _ \<Rightarrow> pg))"

text \<open>
  A session's task gets to run: with the receiver its channel goes, and everything in it. \<open>alive\<close> says
  of a task whether it still owns the receiver; that of the program is \<open>receiver_alive\<close>.
\<close>

definition poll_session ::
    "('m spawned \<Rightarrow> bool) \<Rightarrow> BgpNeighborList \<Rightarrow> IpAddr \<Rightarrow> 'm program \<Rightarrow> 'm program" where
  "poll_session alive nbrs addr pg = (case nbrs addr of
     None \<Rightarrow> pg
   | Some neigh \<Rightarrow>
       (let t = session_block addr neigh (pg_blocks pg addr)
        in pg\<lparr>pg_blocks := (pg_blocks pg)(addr := t),
              pg_channels := (if alive t then pg_channels pg else (pg_channels pg)(addr := []))\<rparr>))"

text \<open>One \<^verbatim>\<open>send(..).await.unwrap()\<close> of the dispatcher, and where it goes on.\<close>

definition send_session ::
    "('m spawned \<Rightarrow> bool) \<Rightarrow> IpAddr \<Rightarrow> 'm Event \<Rightarrow> dispatcher \<Rightarrow> 'm program \<Rightarrow> 'm program" where
  "send_session alive session ev next_at pg =
     (if alive (pg_blocks pg session)
      then pg\<lparr>pg_channels := (pg_channels pg)(session := pg_channels pg session @ [ev]),
              pg_delivered := pg_delivered pg @ [(session, ev)], pg_dispatcher := next_at\<rparr>
      else pg\<lparr>pg_dispatcher := Ended UnwrapErr\<rparr>)"

definition dispatch_open ::
    "(TcpStream \<Rightarrow> SocketAddr option) \<Rightarrow> session_map \<Rightarrow> ('m spawned \<Rightarrow> bool)
      \<Rightarrow> 'm BgpConn \<Rightarrow> OpenMsg \<Rightarrow> 'm program \<Rightarrow> 'm program" where
  "dispatch_open peer_addr sessions alive conn opn pg =
     (case peer_sock peer_addr conn of
        None \<Rightarrow> pg\<lparr>pg_dispatcher := Ended UnwrapErr\<rparr>
      | Some sock \<Rightarrow>
         (case sessions (sock_ip sock, as_number opn) of
            None \<Rightarrow> pg\<lparr>pg_dispatcher := Ended UnwrapNone\<rparr>
          | Some session \<Rightarrow>
              send_session alive session (TcpConnectionConfirmed conn) (SendingOpen session opn) pg))"

text \<open>A turn of the dispatcher, from where it waits to where it waits next.\<close>

definition dispatcher_runs ::
    "(TcpStream \<Rightarrow> SocketAddr option) \<Rightarrow> session_map \<Rightarrow> ('m spawned \<Rightarrow> bool) \<Rightarrow> 'm program \<Rightarrow> 'm program" where
  "dispatcher_runs peer_addr sessions alive pg = (case pg_dispatcher pg of
     Receiving \<Rightarrow>
       (case pg_queue pg of
          [] \<Rightarrow> pg
        | (conn, opn) # items \<Rightarrow> dispatch_open peer_addr sessions alive conn opn (pg\<lparr>pg_queue := items\<rparr>))
   | SendingOpen session opn \<Rightarrow> send_session alive session (BGPOpen opn True) Receiving pg
   | Ended p \<Rightarrow> pg)"

text \<open>
  What the runtime lets happen next: a socket is accepted and its task reads from it, the dispatcher
  takes a turn, the task of a session is polled, or \<^verbatim>\<open>accept\<close> fails. Any order of these is a schedule.
\<close>

datatype main_action =
    Accepted TcpStream "io_read list"
  | DispatcherRuns
  | SessionPolled IpAddr
  | AcceptFails

text \<open>
  The accept loop; the second component says whether \<^verbatim>\<open>main\<close> is still in it. Of \<^verbatim>\<open>main\<close> itself \<open>conf\<close>
  is the configuration (\<open>Bgp_new\<close> in the source) and \<open>bound\<close> whether the listener could be bound.
\<close>

fun main_loop ::
    "bool \<Rightarrow> 'b octets \<Rightarrow> 'm bytes_mut \<Rightarrow> (TcpStream \<Rightarrow> SocketAddr option) \<Rightarrow> BgpNeighborList
      \<Rightarrow> ('m spawned \<Rightarrow> bool) \<Rightarrow> 'm program \<Rightarrow> main_action list \<Rightarrow> 'm program \<times> unit result" where
  "main_loop chk ops bm peer_addr nbrs alive pg [] = (pg, Ret ())"
| "main_loop chk ops bm peer_addr nbrs alive pg (Accepted socket reads # acts) =
     main_loop chk ops bm peer_addr nbrs alive (passive_ends chk ops bm socket reads pg) acts"
| "main_loop chk ops bm peer_addr nbrs alive pg (DispatcherRuns # acts) =
     main_loop chk ops bm peer_addr nbrs alive (dispatcher_runs peer_addr (session_map nbrs) alive pg) acts"
| "main_loop chk ops bm peer_addr nbrs alive pg (SessionPolled addr # acts) =
     main_loop chk ops bm peer_addr nbrs alive (poll_session alive nbrs addr pg) acts"
| "main_loop chk ops bm peer_addr nbrs alive pg (AcceptFails # acts) = (pg, Panic UnwrapErr)"

definition main ::
    "bool \<Rightarrow> 'b octets \<Rightarrow> 'm bytes_mut \<Rightarrow> (TcpStream \<Rightarrow> SocketAddr option) \<Rightarrow> Bgp \<Rightarrow> bool
      \<Rightarrow> main_action list \<Rightarrow> 'm program \<times> unit result" where
  "main chk ops bm peer_addr conf bound acts =
     (if bound then main_loop chk ops bm peer_addr (neighbors conf) receiver_alive program_start acts
      else (program_start, Panic UnwrapErr))"

section \<open>From a socket to a session\<close>

text \<open>A connection handed over with an OPEN: the socket it came from has sent that OPEN, and knows it.\<close>

definition forwarded_ok :: "'m BgpConn \<times> OpenMsg \<Rightarrow> bool" where
  "forwarded_ok item = (case item of (conn, opn) \<Rightarrow> conn_peer conn = Some opn \<and> open_wf opn)"

definition delivered_ok ::
    "(TcpStream \<Rightarrow> SocketAddr option) \<Rightarrow> session_map \<Rightarrow> IpAddr \<times> 'm Event \<Rightarrow> bool" where
  "delivered_ok peer_addr sessions m = (\<exists>conn opn sock. forwarded_ok (conn, opn) \<and>
     peer_addr (stream conn) = Some sock \<and> sessions (sock_ip sock, as_number opn) = Some (fst m) \<and>
     (snd m = TcpConnectionConfirmed conn \<or> snd m = BGPOpen opn True))"

definition program_inv :: "(TcpStream \<Rightarrow> SocketAddr option) \<Rightarrow> session_map \<Rightarrow> 'm program \<Rightarrow> bool" where
  "program_inv peer_addr sessions pg \<longleftrightarrow>
     (\<forall>item \<in> set (pg_queue pg). forwarded_ok item) \<and>
     (\<forall>m \<in> set (pg_delivered pg). delivered_ok peer_addr sessions m) \<and>
     (\<forall>session opn. pg_dispatcher pg = SendingOpen session opn \<longrightarrow>
        delivered_ok peer_addr sessions (session, BGPOpen opn True :: 'm Event))"

lemma program_inv_start: "program_inv peer_addr sessions program_start"
  by (simp add: program_inv_def program_start_def)

lemma program_inv_send:
  fixes ev :: "'m Event"
  assumes "program_inv peer_addr sessions pg" and "delivered_ok peer_addr sessions (session, ev)"
    and "\<forall>s opn. at = SendingOpen s opn \<longrightarrow> delivered_ok peer_addr sessions (s, BGPOpen opn True :: 'm Event)"
  shows "program_inv peer_addr sessions (send_session alive session ev at pg)"
  using assms by (simp add: program_inv_def send_session_def)

lemma program_inv_dispatcher:
  fixes pg :: "'m program"
  assumes inv: "program_inv peer_addr sessions pg"
  shows "program_inv peer_addr sessions (dispatcher_runs peer_addr sessions alive pg)"
proof (cases "pg_dispatcher pg")
  case Receiving
  show ?thesis
  proof (cases "pg_queue pg")
    case (Cons item items)
    obtain conn opn where item: "item = (conn, opn)" by force
    have pg': "program_inv peer_addr sessions (pg\<lparr>pg_queue := items\<rparr>)"
      using inv Cons by (simp add: program_inv_def)
    have fwd: "forwarded_ok (conn, opn)" using inv Cons item by (simp add: program_inv_def)
    have "program_inv peer_addr sessions
        (dispatch_open peer_addr sessions alive conn opn (pg\<lparr>pg_queue := items\<rparr>))"
    proof (cases "\<exists>sock session. peer_addr (stream conn) = Some sock \<and>
        sessions (sock_ip sock, as_number opn) = Some session")
      case True
      then obtain sock session where s: "peer_addr (stream conn) = Some sock"
        "sessions (sock_ip sock, as_number opn) = Some session" by blast
      have "delivered_ok peer_addr sessions (session, TcpConnectionConfirmed conn)"
        and "delivered_ok peer_addr sessions (session, BGPOpen opn True :: 'm Event)"
        unfolding delivered_ok_def using s fwd by auto
      then have "program_inv peer_addr sessions (send_session alive session (TcpConnectionConfirmed conn)
          (SendingOpen session opn) (pg\<lparr>pg_queue := items\<rparr>))"
        by (intro program_inv_send [OF pg']) auto
      with s show ?thesis by (simp add: dispatch_open_def)
    next
      case False
      then show ?thesis using pg'
        by (auto simp: dispatch_open_def program_inv_def split: option.split)
    qed
    then show ?thesis using Receiving Cons item by (simp add: dispatcher_runs_def)
  qed (use inv Receiving in \<open>simp add: dispatcher_runs_def\<close>)
next
  case (SendingOpen session opn)
  then have "delivered_ok peer_addr sessions (session, BGPOpen opn True :: 'm Event)"
    using inv by (simp add: program_inv_def)
  from program_inv_send [OF inv this] SendingOpen show ?thesis by (simp add: dispatcher_runs_def)
qed (use inv in \<open>simp add: dispatcher_runs_def\<close>)

lemma program_inv_poll:
  "program_inv peer_addr sessions pg \<Longrightarrow> program_inv peer_addr sessions (poll_session alive nbrs addr pg)"
  by (simp add: program_inv_def poll_session_def Let_def split: option.split)

text \<open>What a reader returns is what the decoder can return, or the socket's error.\<close>

context codec begin

lemma decode_typed:
  "Message_decode chk ops bm buf peer = Some (r, buf') \<Longrightarrow> result_wf chk peer r"
  using ref_decode_typed decode_to_ref by blast

lemma read_message_typed:
  "read_message chk ops bm conn reads = Finished r conn' rest \<Longrightarrow>
     r = Err from_io_error \<or> result_wf chk (conn_peer conn) r"
proof (induction reads arbitrary: conn)
  case Nil
  then show ?case
    by (subst (asm) read_message.simps)
      (auto dest!: decode_typed split: option.splits outcome.splits if_splits)
next
  case (Cons io reads)
  obtain r0 buf where d: "Message_decode chk ops bm (buffer conn) (conn_peer conn) = Some (r0, buf)"
    using decode_returns [of chk "buffer conn" "conn_peer conn"] by auto
  show ?case
  proof (cases "\<exists>e. r0 = Err e \<and> too_short e")
    case True
    then obtain e where e: "r0 = Err e" "too_short e" by blast
    with d read_message_too_short [of chk ops bm conn e buf "io # reads"] Cons.prems
      Cons.IH [of "conn\<lparr>buffer := bm_read_buf bm buf new\<rparr>" for new]
    show ?thesis by (cases io) auto
  next
    case False
    with d Cons.prems decode_typed [OF d] show ?thesis
      by (cases r0) (auto simp: read_message_Ok read_message_error read_message_panic)
  qed
qed

lemma process_passive_forwards:
  assumes "process_passive chk ops bm alive socket reads = Forwarded conn opn"
  shows "forwarded_ok (conn, opn) \<and> stream conn = socket"
proof -
  from assms obtain rest where r: "read_message chk ops bm (BgpConn_new bm socket) reads = Finished (Ok (MsgOpen opn)) conn rest"
    by (auto simp: process_passive_def split: read_result.splits outcome.splits Message.splits if_splits)
  show ?thesis
    using read_message_finished [OF r] read_message_typed [OF r]
    by (simp add: forwarded_ok_def BgpConn_new_def)
qed

lemma program_inv_passive:
  assumes "program_inv peer_addr sessions pg"
  shows "program_inv peer_addr sessions (passive_ends chk ops bm socket reads pg)"
proof (cases "process_passive chk ops bm (dispatcher_alive pg) socket reads")
  case (Forwarded conn opn)
  from process_passive_forwards [OF this] Forwarded assms show ?thesis
    by (auto simp: program_inv_def passive_ends_def)
qed (use assms in \<open>simp_all add: program_inv_def passive_ends_def\<close>)

lemma program_inv_loop:
  "program_inv peer_addr (session_map nbrs) pg \<Longrightarrow>
     program_inv peer_addr (session_map nbrs) (fst (main_loop chk ops bm peer_addr nbrs alive pg acts))"
proof (induction acts arbitrary: pg)
  case (Cons a acts)
  then show ?case
    by (cases a) (simp_all add: program_inv_passive program_inv_dispatcher program_inv_poll)
qed simp

end

section \<open>The events the dispatcher sends\<close>

text \<open>Whatever the connections hold, only the two events that hand one over are ever sent.\<close>

definition handover_event :: "'m Event \<Rightarrow> bool" where
  "handover_event ev = (case ev of TcpConnectionConfirmed c \<Rightarrow> True | BGPOpen m b \<Rightarrow> True | _ \<Rightarrow> False)"

lemma passive_ends_fields [simp]:
  "pg_delivered (passive_ends chk ops bm socket reads pg) = pg_delivered pg"
  "pg_dispatcher (passive_ends chk ops bm socket reads pg) = pg_dispatcher pg"
  "pg_blocks (passive_ends chk ops bm socket reads pg) = pg_blocks pg"
  "pg_channels (passive_ends chk ops bm socket reads pg) = pg_channels pg"
  by (auto simp: passive_ends_def Let_def split: passive_end.split)

lemma poll_session_fields [simp]:
  "pg_delivered (poll_session alive nbrs addr pg) = pg_delivered pg"
  "pg_dispatcher (poll_session alive nbrs addr pg) = pg_dispatcher pg"
  by (simp_all add: poll_session_def Let_def split: option.split)

lemma dispatcher_runs_sends:
  "m \<in> set (pg_delivered (dispatcher_runs peer_addr sessions alive pg)) \<Longrightarrow>
     m \<in> set (pg_delivered pg) \<or> handover_event (snd m)"
  by (auto simp: dispatcher_runs_def dispatch_open_def send_session_def handover_event_def
      split: dispatcher.splits list.splits option.splits if_splits)

lemma main_loop_sends:
  "m \<in> set (pg_delivered (fst (main_loop chk ops bm peer_addr nbrs alive pg acts))) \<Longrightarrow>
     m \<in> set (pg_delivered pg) \<or> handover_event (snd m)"
proof (induction acts arbitrary: pg)
  case (Cons a acts)
  then show ?case by (cases a) (fastforce dest: dispatcher_runs_sends)+
qed simp

text \<open>
  What the tasks of the program can send to a session, by the channel it comes in on: the dispatcher,
  \<^verbatim>\<open>try_tcp_conn\<close>, the task of the connection, that of a second connection, and the timers.
\<close>

definition task_event ::
    "bool \<Rightarrow> 'b octets \<Rightarrow> 'm bytes_mut \<Rightarrow> (TcpStream \<Rightarrow> SocketAddr option) \<Rightarrow> BgpNeighborList
      \<Rightarrow> Source \<Rightarrow> 'm Event \<Rightarrow> bool" where
  "task_event chk ops bm peer_addr nbrs src ev = (case src of
     SrcAdmin \<Rightarrow> \<exists>alive acts session. (session, ev) \<in> set (pg_delivered
       (fst (main_loop chk ops bm peer_addr nbrs alive program_start acts)))
   | SrcTcp \<Rightarrow> \<exists>conn. ev = tcp_event conn
   | SrcBgp \<Rightarrow> \<exists>alive remote_syn conn reads turns.
       ev \<in> set (fst (process chk ops bm alive remote_syn [] conn reads turns))
   | SrcColl \<Rightarrow> \<exists>alive remote_syn conn reads.
       ev \<in> set (fst (process_one chk ops bm alive conn remote_syn reads))
   | SrcTimer \<Rightarrow> \<exists>k dur waits. ev \<in> set (snd (timer_task k dur waits)))"

lemma task_event_kinds:
  assumes "task_event chk ops bm peer_addr nbrs src ev"
  shows "handover_event ev \<or> connection_event ev \<or> (\<exists>c. ev = ProcessOneDone c) \<or>
    (\<exists>conn. ev = tcp_event conn) \<or> (\<exists>k. ev = TimerKind_into_Event k)"
proof (cases src)
  case SrcAdmin
  then obtain alive acts session where "(session, ev) \<in> set (pg_delivered
      (fst (main_loop chk ops bm peer_addr nbrs alive program_start acts)))"
    using assms by (auto simp: task_event_def)
  from main_loop_sends [OF this] show ?thesis by (simp add: program_start_def)
qed (use assms in \<open>auto simp: task_event_def dest!: process_kinds process_one_kinds timer_task_kind\<close>)

lemma task_event_not_keepalive:
  fixes ev :: "'m Event"
  assumes "task_event chk ops bm peer_addr nbrs src ev"
  shows "ev \<noteq> EvKeepaliveMsg"
proof -
  have "(EvKeepaliveMsg :: 'm Event) \<noteq> TimerKind_into_Event k" for k by (cases k) simp_all
  moreover have "(EvKeepaliveMsg :: 'm Event) \<noteq> tcp_event conn" for conn
    by (simp add: tcp_event_def split: option.split)
  ultimately show ?thesis
    using task_event_kinds [OF assms] by (auto simp: handover_event_def connection_event_def)
qed

section \<open>Sessions that do not run\<close>

text \<open>
  A session whose task has been polled is complete, with the session it would have started in it; its
  channel is gone with all that was in it, and nothing is sent to it any more.
\<close>

definition events_for :: "IpAddr \<Rightarrow> 'm program \<Rightarrow> 'm Event list" where
  "events_for session pg = map snd (filter (\<lambda>m. fst m = session) (pg_delivered pg))"

definition over :: "BgpNeighborList \<Rightarrow> IpAddr \<Rightarrow> 'm program \<Rightarrow> bool" where
  "over nbrs session pg \<longleftrightarrow> pg_channels pg session = [] \<and>
     (\<exists>neigh. nbrs session = Some neigh \<and> pg_blocks pg session = Completed (initial_session session neigh, neigh))"

definition tasks_inv :: "BgpNeighborList \<Rightarrow> 'm program \<Rightarrow> bool" where
  "tasks_inv nbrs pg \<longleftrightarrow> (\<forall>session. pg_blocks pg session = NotPolled \<or> over nbrs session pg)"

lemma tasks_inv_start: "tasks_inv nbrs program_start"
  by (simp add: tasks_inv_def program_start_def)

lemma over_not_alive: "over nbrs session pg \<Longrightarrow> \<not> receiver_alive (pg_blocks pg session)"
  by (auto simp: over_def receiver_alive_def)

lemma over_poll: "over nbrs session pg \<Longrightarrow> over nbrs session (poll_session receiver_alive nbrs addr pg)"
  by (auto simp: over_def poll_session_def session_block_def receiver_alive_def Let_def split: option.split)

lemma send_session_over:
  assumes "over nbrs session pg"
  shows "over nbrs session (send_session receiver_alive s ev at pg) \<and>
    events_for session (send_session receiver_alive s ev at pg) = events_for session pg"
  using assms over_not_alive [OF assms] by (auto simp: send_session_def over_def events_for_def)

lemma dispatcher_over:
  assumes "over nbrs session pg"
  shows "over nbrs session (dispatcher_runs peer_addr sessions receiver_alive pg) \<and>
    events_for session (dispatcher_runs peer_addr sessions receiver_alive pg) = events_for session pg"
proof -
  have o: "over nbrs session (pg\<lparr>pg_queue := items\<rparr>)"
    "over nbrs session (pg\<lparr>pg_queue := items, pg_dispatcher := Ended p\<rparr>)" for items p
    using assms by (simp_all add: over_def)
  have e: "events_for session (pg\<lparr>pg_queue := items\<rparr>) = events_for session pg"
    "events_for session (pg\<lparr>pg_queue := items, pg_dispatcher := Ended p\<rparr>) = events_for session pg" for items p
    by (simp_all add: events_for_def)
  have "over nbrs session (send_session receiver_alive s ev at (pg\<lparr>pg_queue := items\<rparr>)) \<and>
      events_for session (send_session receiver_alive s ev at (pg\<lparr>pg_queue := items\<rparr>)) = events_for session pg"
    for s ev at items
    using send_session_over [OF o(1)] e(1) by simp
  then show ?thesis
    using assms o e by (simp add: dispatcher_runs_def dispatch_open_def send_session_over
        split: dispatcher.split list.split option.split prod.split)
qed

lemma over_passive: "over nbrs session pg \<Longrightarrow> over nbrs session (passive_ends chk ops bm socket reads pg)"
  by (simp add: over_def)

lemma over_loop:
  "over nbrs session pg \<Longrightarrow>
     over nbrs session (fst (main_loop chk ops bm peer_addr nbrs receiver_alive pg acts)) \<and>
     events_for session (fst (main_loop chk ops bm peer_addr nbrs receiver_alive pg acts)) = events_for session pg"
proof (induction acts arbitrary: pg)
  case (Cons a acts)
  have e: "events_for session (passive_ends chk ops bm socket reads pg) = events_for session pg"
    "events_for session (poll_session receiver_alive nbrs addr pg) = events_for session pg" for socket reads addr
    by (simp_all add: events_for_def)
  from Cons dispatcher_over [OF Cons.prems] show ?case
    by (cases a) (simp_all add: over_passive over_poll e)
qed simp

lemma poll_over:
  assumes "tasks_inv nbrs pg" and "nbrs session = Some neigh"
  shows "over nbrs session (poll_session receiver_alive nbrs session pg)"
proof (cases "pg_blocks pg session")
  case NotPolled
  with assms(2) show ?thesis
    by (simp add: over_def poll_session_def session_block_def receiver_alive_def)
next
  case (Completed f)
  with assms(1) have "over nbrs session pg" by (metis tasks_inv_def spawned.distinct(1))
  then show ?thesis by (rule over_poll)
qed

text \<open>So every task is in one of the two states in every run.\<close>

lemma tasks_inv_poll:
  assumes "tasks_inv nbrs pg"
  shows "tasks_inv nbrs (poll_session receiver_alive nbrs addr pg)"
proof (cases "nbrs addr")
  case (Some neigh)
  show ?thesis unfolding tasks_inv_def
  proof
    fix session
    show "pg_blocks (poll_session receiver_alive nbrs addr pg) session = NotPolled \<or>
        over nbrs session (poll_session receiver_alive nbrs addr pg)"
    proof (cases "session = addr")
      case True
      with poll_over [OF assms Some] show ?thesis by simp
    next
      case False
      with assms Some have "pg_blocks (poll_session receiver_alive nbrs addr pg) session = pg_blocks pg session"
        by (simp add: poll_session_def Let_def)
      with assms over_poll [of nbrs session pg addr] show ?thesis by (metis tasks_inv_def)
    qed
  qed
qed (use assms in \<open>simp add: poll_session_def\<close>)

lemma dispatcher_runs_blocks [simp]:
  "pg_blocks (dispatcher_runs peer_addr sessions alive pg) = pg_blocks pg"
  by (simp add: dispatcher_runs_def dispatch_open_def send_session_def
      split: dispatcher.split list.split option.split prod.split)

lemma tasks_inv_dispatcher:
  "tasks_inv nbrs pg \<Longrightarrow> tasks_inv nbrs (dispatcher_runs peer_addr sessions receiver_alive pg)"
  unfolding tasks_inv_def dispatcher_runs_blocks using dispatcher_over by blast

lemma tasks_inv_passive: "tasks_inv nbrs pg \<Longrightarrow> tasks_inv nbrs (passive_ends chk ops bm socket reads pg)"
  unfolding tasks_inv_def passive_ends_fields using over_passive by blast

lemma polled_over:
  assumes "nbrs session = Some neigh"
  shows "tasks_inv nbrs pg \<Longrightarrow> SessionPolled session \<in> set acts \<Longrightarrow>
    main_loop chk ops bm peer_addr nbrs receiver_alive pg acts = (pg', Ret ()) \<Longrightarrow> over nbrs session pg'"
proof (induction acts arbitrary: pg)
  case (Cons a acts)
  show ?case
  proof (cases "a = SessionPolled session")
    case True
    with Cons.prems over_loop [OF poll_over [OF Cons.prems(1) assms], of chk ops bm peer_addr acts] show ?thesis
      by simp
  next
    case False
    with Cons.prems(2) have "SessionPolled session \<in> set acts" by simp
    note IH = Cons.IH [OF _ this]
    show ?thesis
    proof (cases a)
      case (Accepted socket reads)
      with Cons.prems(3) show ?thesis using IH [OF tasks_inv_passive [OF Cons.prems(1)]] by simp
    next
      case DispatcherRuns
      with Cons.prems(3) show ?thesis using IH [OF tasks_inv_dispatcher [OF Cons.prems(1)]] by simp
    next
      case (SessionPolled addr)
      with Cons.prems(3) show ?thesis using IH [OF tasks_inv_poll [OF Cons.prems(1)]] by simp
    qed (use Cons.prems(3) in simp)
  qed
qed simp

lemma dispatcher_over_ends:
  assumes "over nbrs session pg" and "pg_dispatcher pg = Receiving" and "pg_queue pg = (conn, opn) # items"
    and "peer_addr (stream conn) = Some sock" and "sessions (sock_ip sock, as_number opn) = Some session"
  shows "pg_dispatcher (dispatcher_runs peer_addr sessions receiver_alive pg) = Ended UnwrapErr"
  using assms over_not_alive [OF assms(1)] by (simp add: dispatcher_runs_def dispatch_open_def send_session_def)

section \<open>A session and the task of its connection\<close>

text \<open>
  What a connection task gets from the session over its channel: the messages sent so far, in order,
  and the end of the channel once the session has dropped its sender.
\<close>

definition channel_turns :: "chan \<Rightarrow> 'm State \<Rightarrow> 'm effect list \<Rightarrow> turn list" where
  "channel_turns tx st es = map (\<lambda>m. FromSession (Some m)) (sent_on tx es) @
     (if chan_of st = Some tx then [] else [FromSession None])"

text \<open>A schedule of the task: those turns in order, with any turns of its socket between them.\<close>

definition schedule_of :: "turn list \<Rightarrow> turn list \<Rightarrow> bool" where
  "schedule_of given turns \<longleftrightarrow> filter (\<lambda>t. t \<noteq> FromPeer) turns = given"

lemma process_closed:
  "FromSession None \<in> set turns \<Longrightarrow>
     snd (process chk ops bm alive remote_syn sent conn reads turns) \<noteq> Running c"
proof (induction turns arbitrary: sent conn reads)
  case (Cons t turns)
  show ?case
  proof (cases t)
    case (FromSession m)
    with Cons show ?thesis
      by (cases m) (auto simp: write_message_def Message_encode_def)
  next
    case FromPeer
    then have "FromSession None \<in> set turns" using Cons.prems by simp
    note IH = Cons.IH [OF this]
    show ?thesis
    proof (cases "read_message chk ops bm conn reads")
      case (Finished r conn' rest)
      with FromPeer IH show ?thesis
        by (cases r) (auto simp: Let_def split: prod.split)
    qed (use FromPeer IH in simp_all)
  qed
qed simp

text \<open>
  A session that gets to OpenSent from Connect has sent its OPEN on a channel whose only sender it has
  then dropped.
\<close>

lemma connect_drops_channel:
  assumes "session_inv (Connect c)" and "wire_inv cx (Connect c) w"
    and "dispatch cx (Connect c) ev src w = (Ret (OpenSent s), w')"
  shows "\<exists>es h conn tx b. w_log w' = w_log w @ es \<and> SpawnProcess h conn tx b \<in> set es \<and>
    channel_turns tx (OpenSent s) (w_log w') = [FromSession (Some (configured_open cx)), FromSession None]"
    (is "?P s w'")
proof -
  let ?Q = "\<lambda>st' w'. case st' of OpenSent s \<Rightarrow> ?P s w' | _ \<Rightarrow> True"
  have "sent_on (w_next w) (w_log w) = []" using assms(2) by (simp add: wire_inv_def)
  then have "wp (step_Connect cx c ev) ?Q w"
    using assms(1)
    by (cases ev) (simp_all add: step_unfold run_simps channel_turns_def configured_open_def inv_defs ex_bool_eq
        split: option.split)
  from wpD [OF _ this] assms(3) show ?thesis by (fastforce simp: dispatch_def)
qed

end
