(* ===== verification/Routing_Table.thy ===== *)
theory Routing_Table
  imports Update_Layout
begin

text \<open>
  \<^verbatim>\<open>src/table.rs\<close>: the data of a routing table. The source declares it and has no operation on it.
  The prefixes it is keyed by are \<^verbatim>\<open>Ipv6Net\<close> of the crate \<^verbatim>\<open>ipnet\<close>, which is not in the repository, so
  their type is a parameter; the trie of the crate \<^verbatim>\<open>prefix_trie\<close> is the map it represents. Nothing
  shares a table, so an \<^verbatim>\<open>Arc<RwLock<T>>\<close> is the value it guards.
\<close>

record RibNode =
  rib_nlri :: Cidr
  rib_loc :: bool   \<comment> \<open>selected for the Loc-RIB\<close>

type_synonym 'net Rib = "'net \<rightharpoonup> RibNode"

type_synonym 'net Vrf = "string \<rightharpoonup> 'net Rib"

end
