(* ===== verification/Samples.thy ===== *)
theory Samples
  imports Program Routing_Table
begin

text \<open>
  Concrete values at which the witnesses of the properties evaluate the model: a neighbour, a
  context whose channels are all open, connections and OPEN messages; and the bundle of equations
  that runs the session on them.
\<close>

definition demo_conf :: Neighbor where
  "demo_conf =
     \<lparr>neighbor_address = V4 (Ipv4Addr 192 0 2 2),
      neighbor_config =
        \<lparr>router_id = Ipv4Addr 192 0 2 1, peer_group = [],
         config_neighbor_address = V4 (Ipv4Addr 192 0 2 2), neighbor_port = 179, enabled = True,
         peer_as = 65001, local_as = 65000, peer_type = External\<rparr>,
      neighbor_timers =
        \<lparr>timers_config =
           \<lparr>connect_retry = 10, timers_hold_time = 90, keepalive_internal = 30,
            minimum_advertisement_interval = 30, restart_time = 120\<rparr>\<rparr>\<rparr>"

definition demo_cx :: "u8 list ctx" where
  "demo_cx =
     \<lparr>cx_bytes = ref_bytes, cx_conf = demo_conf, cx_checks = True, cx_alive = (\<lambda>_ _. True)\<rparr>"

definition demo_peer :: SocketAddr where
  "demo_peer = \<lparr>sock_ip = V4 (Ipv4Addr 192 0 2 2), sock_port = 179\<rparr>"

definition demo_conn :: "u8 list BgpConn" where
  "demo_conn = BgpConn_new ref_bytes (TcpStream 7)"

definition demo_open :: OpenMsg where
  "demo_open =
     \<lparr>version = 4, as_number = 65001, open_hold_time = 30,
      bgp_identifier = Ipv4Addr 192 0 2 9, ext_opt_param = False, opt_params_len = 0,
      opt_params = \<lparr>mp_ext_caps = None, four_octet_as_cap = None\<rparr>\<rparr>"

text \<open>An UPDATE: a prefix withdrawn, one announced with an origin, a path and a next hop.\<close>

definition demo_withdrawn :: "Cidr list" where
  "demo_withdrawn = [\<lparr>cidr_length = 8, cidr_prefix = V4 (Ipv4Addr 10 0 0 0)\<rparr>]"

definition demo_flags :: PathAttributeFlags where
  "demo_flags = \<lparr>flag_optional = False, flag_transitive = True, flag_partial = False, flag_extended_length = False\<rparr>"

definition demo_attributes :: "PathAttribute list" where
  "demo_attributes =
     [\<lparr>attr_flags = demo_flags, attr_type_code = 1, attr_len = 1, attr_value = AttrOrigin Igp\<rparr>,
      \<lparr>attr_flags = demo_flags, attr_type_code = 2, attr_len = 4, attr_value =
         AttrAsPath \<lparr>segment_type = AsSequence, segment_length = 1, segment_value = [AsNum 65001]\<rparr>\<rparr>,
      \<lparr>attr_flags = demo_flags, attr_type_code = 3, attr_len = 4,
       attr_value = AttrNextHop (Ipv4Addr 192 0 2 9)\<rparr>]"

definition demo_nlri :: "(u8 \<times> Cidr) list" where
  "demo_nlri = [(24, \<lparr>cidr_length = 16, cidr_prefix = V4 (Ipv4Addr 10 1 0 0)\<rparr>)]"

lemma demo_update_wf:
  "\<forall>x \<in> set demo_withdrawn. cidr_wf x" "\<forall>a \<in> set demo_attributes. attr_wf False a"
  "\<forall>x \<in> set demo_nlri. cidr_wf (snd x)"
  by (simp_all add: demo_withdrawn_def demo_attributes_def demo_nlri_def demo_flags_def cidr_wf_def
      attr_wf_def padded_octets_def)

lemma demo_update_length: "length (update_octets False demo_withdrawn demo_attributes demo_nlri) = 28"
  by (simp add: update_octets_def demo_withdrawn_def demo_attributes_def demo_nlri_def demo_flags_def
      cidr_octets_def attr_octets_def padded_octets_def)

text \<open>Sessions in each later state, with the attributes of a fresh session.\<close>

definition demo_active :: "bool \<Rightarrow> ActiveSt Fsm" where
  "demo_active delay =
     \<lparr>fsm_state = \<lparr>ac_tcp_conn_handle = None, ac_bgp_conn_handle = None, ac_bgp_out_tx = None\<rparr>,
      fsm_peer = demo_peer, fsm_attr = SessionAttributes_new\<lparr>delay_open := delay\<rparr>\<rparr>"

definition demo_connect :: "bool \<Rightarrow> ConnectSt Fsm" where
  "demo_connect delay =
     \<lparr>fsm_state = \<lparr>co_tcp_conn_handle = None, co_bgp_conn_handle = None, co_bgp_out_tx = None\<rparr>,
      fsm_peer = demo_peer, fsm_attr = SessionAttributes_new\<lparr>delay_open := delay\<rparr>\<rparr>"

definition demo_opensent :: "bool \<Rightarrow> u8 list OpenSentSt Fsm" where
  "demo_opensent remote_syn =
     \<lparr>fsm_state = \<lparr>os_bgp_conn_handle = Some 0, os_bgp_out_tx = Some 1,
                  os_local_open = Some (OpenMsg_from_conf demo_conf), os_remote_syn = remote_syn,
                  os_collision_conn = Some demo_conn\<rparr>,
      fsm_peer = demo_peer, fsm_attr = SessionAttributes_new\<rparr>"

definition demo_openconfirm :: "u8 list OpenConfirmSt Fsm" where
  "demo_openconfirm =
     \<lparr>fsm_state = \<lparr>oc_bgp_conn_handle = Some 0, oc_bgp_out_tx = Some 1,
                  oc_peer_open = Some demo_open, oc_local_open = Some (OpenMsg_from_conf demo_conf),
                  oc_remote_syn = False, oc_collision_conn = None\<rparr>,
      fsm_peer = demo_peer, fsm_attr = SessionAttributes_new\<rparr>"

text \<open>A started session, with what it has done so far.\<close>

definition demo_connecting :: "ConnectSt Fsm" where
  "demo_connecting =
     \<lparr>fsm_state = \<lparr>co_tcp_conn_handle = Some 0, co_bgp_conn_handle = None, co_bgp_out_tx = None\<rparr>,
      fsm_peer = demo_peer,
      fsm_attr = SessionAttributes_new\<lparr>cur_connect_retry_time := DFLT_BGP_TIMERS_CONNECT\<rparr>\<rparr>"

definition demo_connecting_world :: "u8 list world" where
  "demo_connecting_world =
     \<lparr>w_next = 1, w_log = [TimerCtr (ConnectRetry (Update DFLT_BGP_TIMERS_CONNECT)), SpawnTcp 0 demo_peer]\<rparr>"

lemmas demo_defs = demo_cx_def demo_peer_def demo_conn_def demo_open_def demo_active_def
  demo_connect_def demo_opensent_def demo_openconfirm_def BgpConn_new_def OpenMsg_from_conf_def
  demo_conf_def

text \<open>Forty-nine octets that the decoder takes for an OPEN of AS 65001, and the task that reads them.\<close>

definition open_buffer :: "u8 list" where
  "open_buffer = header_bytes \<lparr>hdr_length = 29, hdr_type = TypeOpen\<rparr> @
     open_octets 65001 90 3221225985 [0, 0, 0] [] @ replicate 9 0"

lemma open_buffer_decode:
  "\<exists>m bs. Message_decode True ref_octets ref_bytes open_buffer None = Some (Ok (MsgOpen m), bs) \<and>
     as_number m = 65001"
proof -
  let ?h = "\<lparr>hdr_length = 29, hdr_type = TypeOpen\<rparr>"
  let ?body = "open_octets 65001 90 3221225985 [0, 0, 0] [] @ replicate 9 0"
  have l: "length ?body = 29" by (simp add: length_open_octets)
  obtain m c where d: "OpenMsg_decode ref_octets (Cursor ?body 0) = Ok (m, c)" and m: "as_number m = 65001"
    using open_octets_decode [of "Cursor ?body 0" 65001 90 3221225985 "[0, 0, 0]" "[]" "replicate 9 0"]
    by simp
  then have "\<exists>bs. ref_decode True open_buffer None = Some (Ok (MsgOpen m), bs)"
    using ref_decode_header [of open_buffer ?h ?body True None] d l
    by (simp add: open_buffer_def body_decode_def)
  with m show ?thesis by (auto simp: ref_decode_def)
qed

lemma accepted_open_forwarded:
  "\<exists>conn m. process_passive True ref_octets ref_bytes True socket [ReadOk open_buffer] = Forwarded conn m \<and>
     stream conn = socket \<and> as_number m = 65001"
proof -
  obtain m bs where m: "Message_decode True ref_octets ref_bytes open_buffer None = Some (Ok (MsgOpen m), bs)"
    "as_number m = 65001"
    using open_buffer_decode by blast
  let ?conn = "BgpConn_new ref_bytes socket"
  have "ref_decode True (buffer ?conn @ delivered [ReadOk open_buffer]) (conn_peer ?conn) = Some (Ok (MsgOpen m), bs)"
    using m by (simp add: BgpConn_new_def ref_decode_def)
  from ref_read_in_pieces [OF this] obtain part rest where
    "read_message True ref_octets ref_bytes ?conn [ReadOk open_buffer]
       = Finished (Ok (MsgOpen m)) (?conn\<lparr>buffer := part, conn_peer := Some m\<rparr>) rest"
    by (auto simp: read_whole_def peer_after_def)
  with m(2) show ?thesis by (simp add: process_passive_def BgpConn_new_def)
qed

definition demo_neighbors :: BgpNeighborList where
  "demo_neighbors = [V4 (Ipv4Addr 192 0 2 2) \<mapsto> demo_conf]"

text \<open>Running the program and the session: the definitions as equations.\<close>

lemmas program_eval = program_start_def passive_ends_def dispatcher_alive_def dispatcher_runs_def
  dispatch_open_def send_session_def receiver_alive_def session_map_def demo_neighbors_def demo_conf_def Let_def

lemmas run_eval = step_def admin_event_def dispatch_def step_unfold act_defs initial_world_def
  State_new_def Fsm_new_def SessionAttributes_new_def

end
