(* ===== verification/Props_Session.thy ===== *)
theory Props_Session
  imports Samples
begin

text \<open>
  The properties of the session: it is a machine of RFC 4271 section 8.2.2, its timers are armed as
  its attributes say, what each kind of step sends and counts, and how far a session can get.
\<close>

section \<open>The state machine\<close>

text \<open>
  C1: Every step of the session that ends without a panic is a step of the machine of RFC 4271, section
  8.2.2, but for four kinds of steps, and these are not: a start event in Connect, ignored by the RFC,
  brings the session back to Idle; a dump after a collision is ignored in OpenConfirm, where the RFC
  ends the session; and what a second connection reports ends a session in Connect or Active, and one
  that is Established if it is an error.
\<close>

theorem session_refines_machine:
  assumes "dispatch cx st ev src w = (Ret st', w')"
  shows "(rfc_allows (get_attr st) (phase_of st) ev src (phase_of st') \<longleftrightarrow> \<not> deviates (phase_of st) ev src) \<and>
    (deviates (phase_of st) ev src \<longrightarrow>
       phase_of st' = (if phase_of st = POpenConfirm then POpenConfirm else PIdle))"
  using machine_dispatch [OF assms] deviation_not_allowed [of "phase_of st" ev src "get_attr st"]
  by (auto simp: machine_ok_def deviation_def)

lemma session_refines_machine_witness:
  "rfc_allows (get_attr (OpenConfirm demo_openconfirm)) POpenConfirm (EvKeepaliveMsg :: u8 list Event) SrcBgp PEstablished \<and>
   (\<exists>st' w'. dispatch demo_cx (Connect (demo_connect False)) ManualStart SrcAdmin initial_world = (Ret st', w') \<and>
      phase_of st' = PIdle \<and>
      \<not> rfc_allows (fsm_attr (demo_connect False)) PConnect (ManualStart :: u8 list Event) SrcAdmin PIdle)"
proof -
  have "dispatch demo_cx (OpenConfirm demo_openconfirm) EvKeepaliveMsg SrcBgp initial_world
      = (Ret (Established (OpenConfirm_into_Established demo_openconfirm)),
         \<lparr>w_next = 0, w_log = [TimerCtr (Hold Restart)]\<rparr>)"
    by (simp add: run_eval demo_cx_def)
  from session_refines_machine [OF this]
  have "rfc_allows (get_attr (OpenConfirm demo_openconfirm)) POpenConfirm (EvKeepaliveMsg :: u8 list Event) SrcBgp PEstablished"
    by (simp add: deviates_def second_connection_def is_process_one_done_def is_message_error_def)
  moreover obtain st' w' where d: "dispatch demo_cx (Connect (demo_connect False)) ManualStart SrcAdmin initial_world
      = (Ret st', w')"
    by (simp add: run_eval demo_cx_def demo_connect_def)
  moreover have "deviates PConnect (ManualStart :: u8 list Event) SrcAdmin"
    by (simp add: deviates_def is_start_event_def)
  ultimately show ?thesis using session_refines_machine [OF d] by auto
qed

text \<open>
  C2: A session of the program never gets past OpenSent: whatever events arrive, in any order and
  from any source, a session that has not panicked is in Idle, Connect, Active or OpenSent. The
  delay-open option is off in \<^verbatim>\<open>SessionAttributes::new\<close> and nothing turns it on, and without it no
  state keeps the local OPEN that the OpenSent arm for an OPEN unwraps.
\<close>

theorem session_never_confirms:
  assumes "run cx (State_new peer) inputs initial_world = (Ret st, w)"
  shows "phase_of st \<in> {PIdle, PConnect, PActive, POpenSent}"
  using inv_phase [OF inv_reach [OF run_reach [OF reach.start assms]]] .

lemma session_never_confirms_witness:
  "\<exists>st w. run demo_cx (State_new demo_peer)
       [(SrcAdmin, Some ManualStart), (SrcTcp, Some (TcpCRAcked (TcpStream 7)))] initial_world
     = (Ret st, w) \<and> phase_of st = POpenSent \<and> phase_of st \<in> {PIdle, PConnect, PActive, POpenSent}"
proof -
  obtain st w where r: "run demo_cx (State_new demo_peer)
       [(SrcAdmin, Some ManualStart), (SrcTcp, Some (TcpCRAcked (TcpStream 7)))] initial_world
     = (Ret st, w)" and p: "phase_of st = POpenSent"
    by (simp add: run_eval demo_cx_def)
  from session_never_confirms [OF r] r p show ?thesis by blast
qed

text \<open>
  C21: A state Established is only entered by a KEEPALIVE in OpenConfirm, and what the session has
  agreed on goes over unchanged: the task and the channel of its connection, both OPEN messages, who
  opened the connection, a colliding connection, the peer and all attributes. The hold timer is
  restarted and nothing else is done.
\<close>

theorem established_by_keepalive:
  assumes "dispatch cx st ev src w = (Ret (Established e), w')"
    and "phase_of st \<noteq> PEstablished"
  shows "ev = EvKeepaliveMsg \<and> w_log w' = w_log w @ [TimerCtr (Hold Restart)] \<and>
    (\<exists>s. st = OpenConfirm s \<and>
      es_bgp_conn_handle (fsm_state e) = oc_bgp_conn_handle (fsm_state s) \<and>
      es_bgp_out_tx (fsm_state e) = oc_bgp_out_tx (fsm_state s) \<and>
      es_peer_open (fsm_state e) = oc_peer_open (fsm_state s) \<and>
      es_local_open (fsm_state e) = oc_local_open (fsm_state s) \<and>
      es_remote_syn (fsm_state e) = oc_remote_syn (fsm_state s) \<and>
      es_collision_conn (fsm_state e) = oc_collision_conn (fsm_state s) \<and>
      fsm_peer e = fsm_peer s \<and> fsm_attr e = fsm_attr s)"
proof -
  have ev: "ev = EvKeepaliveMsg" and p: "phase_of st = POpenConfirm"
    using machine_dispatch [OF assms(1)] enters_Established assms(2) by fastforce+
  then obtain s where st: "st = OpenConfirm s" by (cases st) simp_all
  from assms(1) show ?thesis
    by (simp add: ev st dispatch_def step_unfold act_Ret)
qed

lemma established_by_keepalive_witness:
  "\<exists>e w'. dispatch demo_cx (OpenConfirm demo_openconfirm) EvKeepaliveMsg SrcBgp initial_world
       = (Ret (Established e), w') \<and> es_bgp_out_tx (fsm_state e) = oc_bgp_out_tx (fsm_state demo_openconfirm) \<and>
     w_log w' = [TimerCtr (Hold Restart)]"
proof -
  obtain e w' where d: "dispatch demo_cx (OpenConfirm demo_openconfirm) EvKeepaliveMsg SrcBgp initial_world
       = (Ret (Established e), w')"
    by (simp add: run_eval demo_cx_def)
  from established_by_keepalive [OF this] show ?thesis using d by (auto simp: initial_world_def)
qed

text \<open>
  C23: In Established a session takes any number of KEEPALIVE and UPDATE messages, in any order and with
  any contents, and is then exactly as it was: all it did was to restart the hold timer once for each.
  No route of an UPDATE is kept.
\<close>

theorem established_traffic:
  assumes "cx_alive cx = (\<lambda>_ _. True)"
    and "\<forall>(src, received) \<in> set inputs. received = Some EvKeepaliveMsg \<or> (\<exists>u. received = Some (EvUpdateMsg u))"
  shows "run cx (Established s) inputs w =
    (Ret (Established s), w\<lparr>w_log := w_log w @ replicate (length inputs) (TimerCtr (Hold Restart))\<rparr>)"
  using assms(2)
proof (induction inputs arbitrary: w)
  case (Cons i inputs)
  obtain src received where i: "i = (src, received)" by force
  with Cons.prems have "received = Some EvKeepaliveMsg \<or> (\<exists>u. received = Some (EvUpdateMsg u))" by simp
  then have "step cx (Established s) src received w
      = (Ret (Established s), w\<lparr>w_log := w_log w @ [TimerCtr (Hold Restart)]\<rparr>)"
    using assms(1) by (auto simp: run_eval)
  with Cons i show ?case by (simp add: bindA_def)
qed (simp add: retA_def)

lemma established_traffic_witness:
  "run demo_cx (Established (OpenConfirm_into_Established demo_openconfirm))
     [(SrcBgp, Some EvKeepaliveMsg),
      (SrcBgp, Some (EvUpdateMsg \<lparr>withdrawn_routes = demo_withdrawn, path_attributes = [], nlri = []\<rparr>))] initial_world =
    (Ret (Established (OpenConfirm_into_Established demo_openconfirm)),
     \<lparr>w_next = 0, w_log = [TimerCtr (Hold Restart), TimerCtr (Hold Restart)]\<rparr>)"
proof -
  have a: "cx_alive demo_cx = (\<lambda>_ _. True)" by (simp add: demo_cx_def)
  show ?thesis
    by (subst established_traffic [OF a]) (simp_all add: initial_world_def)
qed

section \<open>Tasks, channels and messages\<close>

text \<open>
  C7: A session manages its tasks and channels properly, whatever options it has: every handle and
  channel it makes is new, it sends only on a channel it gave to a connection task before and aborts
  only a task it spawned before, and the connection it holds is a task it spawned with the channel it
  sends on.
\<close>

theorem session_resources:
  assumes "run cx (Idle s) inputs initial_world = (Ret st, w)"
  shows "distinct (made (w_log w)) \<and> (\<forall>es e fs. w_log w = es @ e # fs \<longrightarrow> in_order es e) \<and>
    (case chan_of st of
       None \<Rightarrow> conn_handle_of st = None
     | Some tx \<Rightarrow> \<exists>h. conn_handle_of st = Some h \<and> (h, tx) \<in> set (links (w_log w)))"
proof -
  have "resources_inv st w" by (rule resources_run [OF assms])
  then show ?thesis
    by (auto simp: resources_inv_def fresh_inv_def holds_own_def dest: orderlyD elim: linked_cases split: option.split)
qed

lemma session_resources_witness:
  "\<exists>st w. run demo_cx (Idle (Fsm_new demo_peer))
       [(SrcAdmin, Some ManualStartWithPassiveTcpEstablishment), (SrcAdmin, Some (TcpConnectionConfirmed demo_conn)),
        (SrcAdmin, Some ManualStop)] initial_world = (Ret st, w) \<and>
     last (w_log w) = Abort 1 \<and> in_order (butlast (w_log w)) (Abort 1) \<and> distinct (made (w_log w))"
proof -
  obtain st w where r: "run demo_cx (Idle (Fsm_new demo_peer))
       [(SrcAdmin, Some ManualStartWithPassiveTcpEstablishment), (SrcAdmin, Some (TcpConnectionConfirmed demo_conn)),
        (SrcAdmin, Some ManualStop)] initial_world = (Ret st, w)"
    and l: "last (w_log w) = Abort 1" "w_log w \<noteq> []"
    by (simp add: run_eval demo_cx_def)
  then have "w_log w = butlast (w_log w) @ Abort 1 # []"
    using append_butlast_last_id [of "w_log w"] by simp
  with session_resources [OF r] have "in_order (butlast (w_log w)) (Abort 1)" and "distinct (made (w_log w))"
    by blast+
  with r l show ?thesis by blast
qed

text \<open>
  C8: What a session of the program says to a peer: on each of its connections nothing, or the OPEN of
  its configuration, or that OPEN and one NOTIFICATION; and on a connection it still holds, the OPEN
  alone. It never sends a KEEPALIVE or an UPDATE.
\<close>

theorem channel_exchange:
  assumes "run cx (State_new peer) inputs initial_world = (Ret st, w)"
  shows "opening_exchange (configured_open cx) (sent_on tx (w_log w)) \<and>
    (chan_of st = Some tx \<longrightarrow> sent_on tx (w_log w) = [configured_open cx])"
  using wire_reach [OF run_reach [OF reach.start assms]] by (simp add: wire_inv_def)

lemma channel_exchange_witness:
  "\<exists>st w. run demo_cx (State_new demo_peer)
       [(SrcAdmin, Some ManualStartWithPassiveTcpEstablishment), (SrcAdmin, Some (TcpConnectionConfirmed demo_conn))]
       initial_world = (Ret st, w) \<and> chan_of st = Some 0 \<and> sent_on 0 (w_log w) = [configured_open demo_cx]"
proof -
  obtain st w where r: "run demo_cx (State_new demo_peer)
       [(SrcAdmin, Some ManualStartWithPassiveTcpEstablishment), (SrcAdmin, Some (TcpConnectionConfirmed demo_conn))]
       initial_world = (Ret st, w)" and c: "chan_of st = Some 0"
    by (simp add: run_eval demo_cx_def)
  from channel_exchange [OF r, of 0] r c show ?thesis by blast
qed

text \<open>
  C9: What one step of a session sends, in any state, for any event and with any options, is at most two
  messages: an OPEN is the one of its configuration and on the way into OpenSent or OpenConfirm, a
  KEEPALIVE leaves it in OpenConfirm or Established, a NOTIFICATION is the end of the session (or the
  Cease of a connection that lost a collision), and an UPDATE is never sent.
\<close>

theorem step_messages:
  assumes "dispatch cx st ev src w = (Ret st', w')"
  shows "\<exists>ms. sent_messages (w_log w') = sent_messages (w_log w) @ ms \<and> length ms \<le> 2 \<and>
    (\<forall>(tx, m) \<in> set ms. case m of
       MsgOpen opn \<Rightarrow> opn = OpenMsg_from_conf (cx_conf cx) \<and> phase_of st' \<in> {POpenSent, POpenConfirm}
     | MsgKeepalive k \<Rightarrow> phase_of st' \<in> {POpenConfirm, PEstablished}
     | MsgNotification n \<Rightarrow> phase_of st' = PIdle \<or> is_open_event ev \<and> m = cease
     | MsgUpdate u \<Rightarrow> False)"
  using messages_dispatch [OF assms] may_send_cases by fast

lemma step_messages_witness:
  "\<exists>st' w'. dispatch demo_cx (OpenConfirm demo_openconfirm) HoldTimerExpires SrcTimer initial_world = (Ret st', w') \<and>
     phase_of st' = PIdle \<and> length (sent_messages (w_log w')) = 1"
proof -
  obtain st' w' where d: "dispatch demo_cx (OpenConfirm demo_openconfirm) HoldTimerExpires SrcTimer initial_world = (Ret st', w')"
    and m: "sent_messages (w_log w')
      = [(1, MsgNotification (NotificationMsg_from_enum HoldTimerExpired Undefined None))]"
    by (simp add: run_eval demo_cx_def demo_openconfirm_def)
  from step_messages [OF d] d m show ?thesis by (auto simp: initial_world_def is_open_event_def)
qed

section \<open>Timers\<close>

text \<open>
  C3: In every state the session loop can reach, the timers that can be asked for are armed with
  the durations its attributes \<^verbatim>\<open>cur_..._time\<close> say: what the controller and the timer tasks make of
  the operations sent so far agrees with the attributes the guards of the loop read.
\<close>

theorem attributes_tell_timers:
  assumes "run cx (State_new peer) inputs initial_world = (Ret st, w)"
  shows "armed_after (w_log w) KConnectRetry = cur_connect_retry_time (get_attr st) \<and>
    armed_after (w_log w) KHold = cur_hold_time (get_attr st) \<and>
    armed_after (w_log w) KKeepalive = cur_keepalive_time (get_attr st) \<and>
    armed_after (w_log w) KDelayOpen = cur_delay_open_time (get_attr st)"
  using timers.shadow_reach [OF run_reach [OF reach.start assms]] by (simp_all add: shadows_def)

lemma attributes_tell_timers_witness:
  "\<exists>st w. run demo_cx (State_new demo_peer) [(SrcAdmin, Some ManualStart)] initial_world = (Ret st, w) \<and>
     armed_after (w_log w) KConnectRetry = cur_connect_retry_time (get_attr st)"
proof -
  obtain st w where r: "run demo_cx (State_new demo_peer) [(SrcAdmin, Some ManualStart)] initial_world = (Ret st, w)"
    by (simp add: run_eval demo_cx_def)
  from attributes_tell_timers [OF r] r show ?thesis by blast
qed

text \<open>
  One arm breaks this where the delay-open option is on: a passive connection that arrives in
  Connect arms the delay-open timer and leaves \<^verbatim>\<open>cur_delay_open_time\<close> as it was; every other
  step of the loop, in every state and for every event, keeps timers and attributes together.
\<close>

lemma timers_kept_but_for_delay_open:
  assumes "dispatch cx st ev src w = (Ret st', w')"
    and "shadows (armed_after (w_log w)) (get_attr st)"
  shows "shadows (armed_after (w_log w')) (get_attr st') \<longleftrightarrow>
    \<not> (forgets_delay_open st ev \<and> delay_open_time (get_attr st) \<noteq> cur_delay_open_time (get_attr st))"
proof (cases "forgets_delay_open st ev")
  case True
  then obtain s c where st: "st = Connect s" and "ev = TcpConnectionConfirmed c"
    and "delay_open (fsm_attr s)"
    by (auto simp: forgets_delay_open_def split: State.splits Event.splits)
  with assms show ?thesis
    by (auto simp: dispatch_def step_unfold act_Ret armed_simps shadows_def forgets_delay_open_def)
next
  case False
  with timers.shadow_dispatch [OF assms] show ?thesis by simp
qed

lemma timers_kept_but_for_delay_open_witness:
  "\<exists>st' w'. dispatch demo_cx (Connect (demo_connect True)) (TcpConnectionConfirmed demo_conn) SrcAdmin
       initial_world = (Ret st', w') \<and> \<not> shadows (armed_after (w_log w')) (get_attr st')"
proof -
  obtain st' w' where d: "dispatch demo_cx (Connect (demo_connect True)) (TcpConnectionConfirmed demo_conn)
      SrcAdmin initial_world = (Ret st', w')"
    by (simp add: run_eval demo_cx_def demo_connect_def)
  have "shadows (armed_after (w_log initial_world)) (get_attr (Connect (demo_connect True) :: u8 list State))"
    by (simp add: shadows_def initial_world_def timers.armed_start demo_connect_def SessionAttributes_new_def)
  from timers_kept_but_for_delay_open [OF d this] d show ?thesis
    by (simp add: forgets_delay_open_def demo_connect_def SessionAttributes_new_def FAR_FUTURE_def from_secs_def)
qed

text \<open>
  C38: Whoever brings a session back to Idle leaves its hold and keepalive timers as they were, in
  every state, so after OpenConfirm or Established they go on firing; the connect-retry timer is
  stopped, except by a failed connection in Active, which restarts it.
\<close>

theorem idle_leaves_timers:
  assumes "dispatch cx st ev src w = (Ret (Idle i), w')" and "phase_of st \<noteq> PIdle"
  shows "armed_after (w_log w') KHold = armed_after (w_log w) KHold \<and>
    armed_after (w_log w') KKeepalive = armed_after (w_log w) KKeepalive \<and>
    (armed_after (w_log w') KConnectRetry = FAR_FUTURE \<or> phase_of st = PActive \<and> is_tcp_failure ev)"
    (is "?P w'")
proof -
  from assms(1) have "phase_of (Idle i :: 'a State) = PIdle \<longrightarrow> ?P w'"
    by (rule dispatch_wp; cases ev)
      (use assms(2) in \<open>simp_all add: step_unfold run_simps armed_simps is_tcp_failure_def split: option.split\<close>)
  then show ?thesis by simp
qed

lemma idle_leaves_timers_witness:
  "\<exists>i w'. dispatch demo_cx (Active (demo_active False)) ManualStop SrcAdmin
       \<lparr>w_next = 0, w_log = [TimerCtr (Hold (Update 5))]\<rparr> = (Ret (Idle i), w') \<and>
     armed_after (w_log w') KHold = 5"
proof -
  let ?w = "\<lparr>w_next = 0, w_log = [TimerCtr (Hold (Update 5))]\<rparr> :: u8 list world"
  obtain i w' where d: "dispatch demo_cx (Active (demo_active False)) ManualStop SrcAdmin ?w = (Ret (Idle i), w')"
    by (simp add: run_eval demo_cx_def demo_active_def)
  from idle_leaves_timers [OF d] timers.armed_append [of "[]" "w_log ?w"] d show ?thesis
    by (simp add: arm_def)
qed

text \<open>
  A timer task fires once for each wait that runs out and never else, always with the event of its kind,
  and its duration at the end is the last one it was told: \<^verbatim>\<open>Stop\<close> is the far future, \<^verbatim>\<open>Update\<close> its
  argument, and \<^verbatim>\<open>Restart\<close>, an elapsed wait or a closed channel leave it.
\<close>

lemma timer_task_behaviour:
  "timer_task k dur ws =
     (fold (\<lambda>w d. case w of Received (Some op) \<Rightarrow> op_duration op d | _ \<Rightarrow> d) ws dur,
      replicate (length (filter (\<lambda>w. w = Elapsed) ws)) (TimerKind_into_Event k))"
  by (induction ws arbitrary: dur)
    (auto simp: timer_task_step_def op_duration_def Let_def split: timer_wait.splits option.splits Operation.splits)

end
