(* ===== verification/Props_Opening.thy ===== *)
theory Props_Opening
  imports Samples
begin

text \<open>
  The properties of opening, negotiating and closing a session: what is sent in each case, which
  options let a session get to Established, how colliding connections are resolved, and what the
  session panics on.
\<close>

section \<open>Opening\<close>

text \<open>
  C28: Whichever way a session gets into OpenSent, it has sent exactly one message on the way, the
  OPEN built from its configuration; coming from Active it keeps the channel it was sent on, coming
  from Connect the channel is lost.
\<close>

theorem opensent_after_one_open:
  assumes "dispatch cx st ev src w = (Ret (OpenSent s), w')" and "phase_of st \<noteq> POpenSent"
  shows "\<exists>tx. sent_messages (w_log w') = sent_messages (w_log w) @ [(tx, MsgOpen (OpenMsg_from_conf (cx_conf cx)))] \<and>
    os_bgp_out_tx (fsm_state s) = (if phase_of st = PActive then Some tx else None)"
    (is "?P s w'")
proof -
  let ?Q = "\<lambda>st' w'. case st' of OpenSent s \<Rightarrow> ?P s w' | _ \<Rightarrow> True"
  have "?Q (OpenSent s) w'"
    by (rule dispatch_wp [where Q = ?Q, OF assms(1)]; cases ev)
      (use assms(2) in \<open>simp_all add: step_unfold run_simps split: option.split\<close>)
  then show ?thesis by simp
qed

lemma opensent_after_one_open_witness:
  "\<exists>s w'. dispatch demo_cx (Active (demo_active False)) (TcpConnectionConfirmed demo_conn) SrcAdmin
       initial_world = (Ret (OpenSent s), w') \<and> os_bgp_out_tx (fsm_state s) \<noteq> None"
proof -
  obtain s w' where d: "dispatch demo_cx (Active (demo_active False)) (TcpConnectionConfirmed demo_conn)
      SrcAdmin initial_world = (Ret (OpenSent s), w')"
    by (simp add: run_eval demo_cx_def demo_active_def)
  from opensent_after_one_open [OF d] d show ?thesis by auto
qed

text \<open>
  C36: A session that was started actively and whose connection attempt succeeds ends in OpenSent
  after exactly these effects: the connect-retry timer armed and stopped, the attempt and the
  connection's task spawned, the OPEN sent. It can then not be stopped any more: the next
  \<^verbatim>\<open>ManualStop\<close>, \<^verbatim>\<open>AutomaticStop\<close> or \<^verbatim>\<open>HoldTimerExpires\<close> unwraps the channel that was dropped.
\<close>

theorem active_open_run:
  assumes "cx_alive cx = (\<lambda>_ _. True)"
  shows "\<exists>s w. run cx (State_new peer) [(SrcAdmin, Some ManualStart), (SrcTcp, Some (TcpCRAcked conn))]
        initial_world = (Ret (OpenSent s), w) \<and>
      w_log w =
        [TimerCtr (ConnectRetry (Update DFLT_BGP_TIMERS_CONNECT)), SpawnTcp 0 peer,
         TimerCtr (ConnectRetry Stop), SpawnProcess 2 (BgpConn_new (cx_bytes cx) conn) 1 False,
         OutMsg 1 (MsgOpen (OpenMsg_from_conf (cx_conf cx)))] \<and>
      (\<forall>ev \<in> {ManualStop, AutomaticStop, HoldTimerExpires}. \<forall>src.
         dispatch cx (OpenSent s) ev src w = (Panic UnwrapNone, w))"
  using assms by (simp add: run_eval)

lemma active_open_run_witness:
  "\<exists>s w. run demo_cx (State_new demo_peer)
       [(SrcAdmin, Some ManualStart), (SrcTcp, Some (TcpCRAcked (TcpStream 7)))] initial_world
       = (Ret (OpenSent s), w) \<and>
     dispatch demo_cx (OpenSent s) ManualStop SrcAdmin w = (Panic UnwrapNone, w)"
proof -
  have "cx_alive demo_cx = (\<lambda>_ _. True)" by (simp add: demo_cx_def)
  from active_open_run [OF this, of demo_peer "TcpStream 7"] show ?thesis by blast
qed

text \<open>
  C22: An actively opened connection is closed by the program itself: when a session of the program gets
  from Connect to OpenSent it has spawned one connection task, sent it the OPEN, and dropped the only
  sender of its channel, so in every schedule of the task, whatever the peer sends, the task gets the
  OPEN, then the end of the channel, and does not go on.
\<close>

theorem opened_connection_closes:
  assumes "run cx (State_new peer) inputs initial_world = (Ret (Connect c), w)"
    and "dispatch cx (Connect c) ev src w = (Ret (OpenSent s), w')"
  shows "\<exists>es h conn tx b. w_log w' = w_log w @ es \<and> SpawnProcess h conn tx b \<in> set es \<and>
    channel_turns tx (OpenSent s) (w_log w') = [FromSession (Some (configured_open cx)), FromSession None] \<and>
    (\<forall>turns reads conn'. schedule_of (channel_turns tx (OpenSent s) (w_log w')) turns \<longrightarrow>
       snd (process chk ops bm alive b [] conn reads turns) \<noteq> Running conn')"
proof -
  have "reach cx peer (Connect c) w" by (rule run_reach [OF reach.start assms(1)])
  from connect_drops_channel [OF inv_reach [OF this] wire_reach [OF this] assms(2)]
  obtain es h conn tx b where l: "w_log w' = w_log w @ es" "SpawnProcess h conn tx b \<in> set es"
    and t: "channel_turns tx (OpenSent s) (w_log w') = [FromSession (Some (configured_open cx)), FromSession None]"
    by blast
  have "snd (process chk ops bm alive b [] conn reads turns) \<noteq> Running conn'"
    if "schedule_of (channel_turns tx (OpenSent s) (w_log w')) turns" for turns reads conn'
  proof (rule process_closed)
    from that t have "FromSession None \<in> set (filter (\<lambda>t. t \<noteq> FromPeer) turns)"
      by (simp add: schedule_of_def)
    then show "FromSession None \<in> set turns" by simp
  qed
  with l t show ?thesis by blast
qed

lemma opened_connection_closes_witness:
  "\<exists>s w'. dispatch demo_cx (Connect demo_connecting) (TcpCRAcked (TcpStream 7)) SrcTcp demo_connecting_world
       = (Ret (OpenSent s), w') \<and>
     (\<exists>conn tx b. channel_turns tx (OpenSent s) (w_log w')
        = [FromSession (Some (configured_open demo_cx)), FromSession None])"
proof -
  have r: "run demo_cx (State_new demo_peer) [(SrcAdmin, Some ManualStart)] initial_world
      = (Ret (Connect demo_connecting), demo_connecting_world)"
    by (simp add: run_eval demo_cx_def demo_connecting_def demo_connecting_world_def)
  obtain s w' where d: "dispatch demo_cx (Connect demo_connecting) (TcpCRAcked (TcpStream 7)) SrcTcp demo_connecting_world
      = (Ret (OpenSent s), w')"
    by (simp add: run_eval demo_cx_def demo_connecting_def demo_connecting_world_def)
  from opened_connection_closes [OF r d, of True ref_octets ref_bytes "\<lambda>_. True"] d show ?thesis by blast
qed

text \<open>
  In Connect the delay-open timer running out is always a panic, with no effect before it: the
  state the arm converts to has no channel, and the arm unwraps it.
\<close>

lemma connect_delay_open_panics:
  "dispatch cx (Connect s) DelayOpenTimerExpires src w = (Panic UnwrapNone, w)"
  by (simp add: run_eval)

text \<open>
  C37: An OPEN that reaches a session in OpenSent panics it, in every state of OpenSent the program
  can be in, whoever opened the connection and whatever the OPEN says.
\<close>

theorem opensent_open_panics:
  assumes "run cx (State_new peer) inputs initial_world = (Ret (OpenSent s), w)"
  shows "fst (dispatch cx (OpenSent s) (BGPOpen msg remote_syn) src w) \<in> {Panic UnwrapNone, Panic UnwrapErr}"
proof -
  have "session_inv (OpenSent s)"
    using inv_reach [OF run_reach [OF reach.start assms]] .
  then have "os_local_open (fsm_state s) = None" by (simp add: inv_defs)
  then show ?thesis by (simp add: run_eval)
qed

lemma opensent_open_panics_witness:
  "\<exists>s w. run demo_cx (State_new demo_peer)
       [(SrcAdmin, Some ManualStartWithPassiveTcpEstablishment), (SrcAdmin, Some (TcpConnectionConfirmed demo_conn))]
       initial_world = (Ret (OpenSent s), w) \<and>
     fst (dispatch demo_cx (OpenSent s) (BGPOpen demo_open True) SrcAdmin w) \<in> {Panic UnwrapNone, Panic UnwrapErr}"
proof -
  obtain s w where r: "run demo_cx (State_new demo_peer)
      [(SrcAdmin, Some ManualStartWithPassiveTcpEstablishment), (SrcAdmin, Some (TcpConnectionConfirmed demo_conn))]
      initial_world = (Ret (OpenSent s), w)"
    by (simp add: run_eval demo_cx_def)
  from opensent_open_panics [OF r] r show ?thesis by blast
qed

section \<open>The delay-open option\<close>

text \<open>
  C20: With the delay-open option on, a session in Active to which the dispatcher hands a
  connection and its OPEN, and then a KEEPALIVE, is Established: it has sent its OPEN and a
  KEEPALIVE on the connection's channel in that order, holds both OPEN messages, and its hold timer
  is armed with the smaller of the two hold times, its keepalive timer with a third of it.
\<close>

theorem delayed_open_establishes:
  assumes "cx_alive cx = (\<lambda>_ _. True)" and "delay_open (fsm_attr s)"
    and "delay_open_time (fsm_attr s) \<noteq> FAR_FUTURE"
  shows "\<exists>e w'. run cx (Active s)
        [(SrcAdmin, Some (TcpConnectionConfirmed conn)), (SrcAdmin, Some (BGPOpen msg True)),
         (src, Some EvKeepaliveMsg)] w = (Ret (Established e), w') \<and>
      sent_messages (w_log w') = sent_messages (w_log w) @
        [(w_next w, MsgOpen (OpenMsg_from_conf (cx_conf cx))), (w_next w, MsgKeepalive KeepaliveMsg)] \<and>
      es_peer_open (fsm_state e) = Some msg \<and>
      es_local_open (fsm_state e) = Some (OpenMsg_from_conf (cx_conf cx)) \<and>
      es_remote_syn (fsm_state e) \<and>
      armed_after (w_log w') KHold = agreed_hold (OpenMsg_from_conf (cx_conf cx)) msg \<and>
      armed_after (w_log w') KKeepalive = agreed_hold (OpenMsg_from_conf (cx_conf cx)) msg div 3"
  using assms
  by (simp add: run_eval negotiated_hold_agreed armed_simps KeepaliveMsg_new_def
      negotiated_keepalive_def duration_div_3)

lemma delayed_open_establishes_witness:
  "\<exists>e w'. run demo_cx (Active (demo_active True))
        [(SrcAdmin, Some (TcpConnectionConfirmed demo_conn)), (SrcAdmin, Some (BGPOpen demo_open True)),
         (SrcBgp, Some EvKeepaliveMsg)] initial_world = (Ret (Established e), w') \<and>
     armed_after (w_log w') KHold = from_secs 30"
proof -
  have 1: "cx_alive demo_cx = (\<lambda>_ _. True)" by (simp add: demo_cx_def)
  have 2: "delay_open (fsm_attr (demo_active True))" by (simp add: demo_active_def)
  have 3: "delay_open_time (fsm_attr (demo_active True)) \<noteq> FAR_FUTURE"
    by (simp add: demo_active_def SessionAttributes_new_def FAR_FUTURE_def from_secs_def)
  have "agreed_hold (OpenMsg_from_conf (cx_conf demo_cx)) demo_open = from_secs 30"
    by (simp add: agreed_hold_def demo_defs)
  with delayed_open_establishes [OF 1 2 3, of demo_conn demo_open SrcBgp initial_world]
  show ?thesis by metis
qed

text \<open>
  The same connection and OPEN handed to a session in Connect bring it back to Idle with the
  connection's task aborted: the arm for the connection does not note that the delay-open timer
  runs, so the OPEN is not taken for one that arrives while it does.
\<close>

lemma delayed_open_lost_in_Connect:
  assumes "cx_alive cx = (\<lambda>_ _. True)" and "delay_open (fsm_attr s)"
    and "cur_delay_open_time (fsm_attr s) = FAR_FUTURE"
  shows "\<exists>i w'. run cx (Connect s)
        [(SrcAdmin, Some (TcpConnectionConfirmed conn)), (SrcAdmin, Some (BGPOpen msg True))] w
        = (Ret (Idle i), w') \<and>
      connect_retry_counter (fsm_attr i) = 1 \<and>
      Abort (Suc (w_next w)) \<in> set (w_log w') \<and>
      sent_messages (w_log w') = sent_messages (w_log w)"
  using assms by (simp add: run_eval admin_event_def split: option.split)

lemma delayed_open_lost_in_Connect_witness:
  "\<exists>i w'. run demo_cx (Connect (demo_connect True))
        [(SrcAdmin, Some (TcpConnectionConfirmed demo_conn)), (SrcAdmin, Some (BGPOpen demo_open True))]
        initial_world = (Ret (Idle i), w') \<and> Abort 1 \<in> set (w_log w')"
proof -
  have 1: "cx_alive demo_cx = (\<lambda>_ _. True)" by (simp add: demo_cx_def)
  have 2: "delay_open (fsm_attr (demo_connect True))" by (simp add: demo_connect_def)
  have 3: "cur_delay_open_time (fsm_attr (demo_connect True)) = FAR_FUTURE"
    by (simp add: demo_connect_def SessionAttributes_new_def)
  from delayed_open_lost_in_Connect [OF 1 2 3, of demo_conn demo_open initial_world]
  show ?thesis by (auto simp: initial_world_def)
qed

section \<open>Negotiation and collisions\<close>

text \<open>
  C13: A session enters OpenConfirm only with both OPEN messages at hand, and from then on its hold
  time is the smaller of the two offers, at most 65535 seconds; the hold timer is armed with it. The
  keepalive timer is armed with a third of it only where the OPEN came while the delay-open timer ran;
  from OpenSent it is armed with the keepalive time the session had before, whatever was negotiated,
  so it can be longer than the hold time. An offer of zero, which should disable the timers, arms the
  hold timer with zero.
\<close>

theorem hold_time_negotiated:
  assumes "dispatch cx st ev src w = (Ret (OpenConfirm s), w')" and "phase_of st \<noteq> POpenConfirm"
  shows "\<exists>l p. oc_local_open (fsm_state s) = Some l \<and> oc_peer_open (fsm_state s) = Some p \<and>
    (\<exists>b. ev = BGPOpen p b \<or> ev = BGPOpenWithDelayOpenTimerRunning p b) \<and>
    hold_time (fsm_attr s) = agreed_hold l p \<and> hold_time (fsm_attr s) \<le> from_secs 65535 \<and>
    armed_after (w_log w') KHold = agreed_hold l p \<and>
    armed_after (w_log w') KKeepalive = keepalive_time (fsm_attr s) \<and>
    keepalive_time (fsm_attr s) =
      (if phase_of st = POpenSent then keepalive_time (get_attr st) else agreed_hold l p div 3)"
    (is "?P s w'")
proof -
  let ?Q = "\<lambda>st' w'. case st' of OpenConfirm s \<Rightarrow> ?P s w' | _ \<Rightarrow> True"
  have "?Q (OpenConfirm s) w'"
    by (rule dispatch_wp [where Q = ?Q, OF assms(1)]; cases ev)
      (use assms(2) in \<open>simp_all add: step_unfold run_simps negotiated_hold_agreed armed_simps
         negotiated_keepalive_def duration_div_3 agreed_hold_bound ex_bool_eq split: option.split\<close>)
  then show ?thesis by simp
qed

lemma hold_time_negotiated_witness:
  "\<exists>s w'. dispatch demo_cx (OpenSent (demo_opensent False)) (BGPOpen (demo_open\<lparr>open_hold_time := 3\<rparr>) False)
       SrcBgp initial_world = (Ret (OpenConfirm s), w') \<and> armed_after (w_log w') KHold = from_secs 3 \<and>
     armed_after (w_log w') KKeepalive = DFLT_BGP_KEEPALIVE"
proof -
  obtain s w' where d: "dispatch demo_cx (OpenSent (demo_opensent False))
      (BGPOpen (demo_open\<lparr>open_hold_time := 3\<rparr>) False) SrcBgp initial_world = (Ret (OpenConfirm s), w')"
    and l: "oc_local_open (fsm_state s) = Some (OpenMsg_from_conf demo_conf)"
    by (simp add: run_eval demo_cx_def demo_opensent_def)
  have "agreed_hold (OpenMsg_from_conf demo_conf) (demo_open\<lparr>open_hold_time := 3\<rparr>) = from_secs 3"
    by (simp add: agreed_hold_def demo_defs)
  moreover have "keepalive_time (get_attr (OpenSent (demo_opensent False))) = DFLT_BGP_KEEPALIVE"
    by (simp add: demo_opensent_def SessionAttributes_new_def)
  ultimately show ?thesis using hold_time_negotiated [OF d] d l by auto
qed

text \<open>
  C14: An OPEN on a second connection in OpenSent replaces the session's connection exactly when the
  local identifier is the smaller one: the old connection gets a Cease, the new one a task, and the
  OPEN too if the peer opened it; else nothing is sent. RFC 4271 section 6.8 keeps the connection of
  the speaker with the larger identifier, and that is the one kept exactly when the second
  connection is the peer's.
\<close>

theorem collision_resolution:
  assumes "opensent_collision cx s msg remote_syn w = (Ret s', w')"
    and "os_remote_syn (fsm_state s) \<noteq> remote_syn" and "os_local_open (fsm_state s) = Some l"
  shows "os_collision_conn (fsm_state s') = None \<and>
    (\<exists>es. w_log w' = w_log w @ es \<and>
      (if bgp_identifier l < bgp_identifier msg
       then os_bgp_out_tx (fsm_state s') = Some (w_next w) \<and>
         (\<exists>c old. os_collision_conn (fsm_state s) = Some c \<and> os_bgp_out_tx (fsm_state s) = Some old \<and>
            es = [OutMsg old cease, SpawnProcess (Suc (w_next w)) c (w_next w) remote_syn] @
              (if remote_syn then [OutMsg (w_next w) (MsgOpen (OpenMsg_from_conf (cx_conf cx)))] else []))
       else os_bgp_out_tx (fsm_state s') = os_bgp_out_tx (fsm_state s) \<and> es = []) \<and>
      (kept_direction (os_remote_syn (fsm_state s)) es = (bgp_identifier l < bgp_identifier msg)
         \<longleftrightarrow> remote_syn))" (is "?P s' w'")
  by (rule wpD [of "opensent_collision cx s msg remote_syn" w s' w' ?P, OF assms(1)];
      cases "bgp_identifier l < bgp_identifier msg"; cases remote_syn)
    (use assms(2,3) in \<open>simp_all add: opensent_collision_def run_simps kept_direction_def\<close>)

lemma collision_resolution_witness:
  "\<exists>s' w'. opensent_collision demo_cx (demo_opensent False) demo_open True initial_world = (Ret s', w') \<and>
     os_collision_conn (fsm_state s') = None"
proof -
  obtain s' w' where c: "opensent_collision demo_cx (demo_opensent False) demo_open True initial_world = (Ret s', w')"
    by (simp add: opensent_collision_def act_defs initial_world_def demo_defs Ipv4Addr_less_lexicographic)
  have "os_remote_syn (fsm_state (demo_opensent False)) \<noteq> True"
    and "os_local_open (fsm_state (demo_opensent False)) = Some (OpenMsg_from_conf demo_conf)"
    by (simp_all add: demo_opensent_def)
  from collision_resolution [OF c this] c show ?thesis by blast
qed

end
