(* ===== verification/Props_Message.thy ===== *)
theory Props_Message
  imports Samples
begin

text \<open>
  The properties of the message codec, for any pair of buffer crates that keeps the documented
  contracts (the hypotheses \<open>octets_api\<close> and \<open>codec\<close>). The witnesses are at the reference cursor and
  the reference buffer.
\<close>

section \<open>Headers and frames\<close>

text \<open>
  C17: The header decoder accepts exactly the octets that start with the sixteen marker octets, a
  length and one of the four types, the length being one its type allows (at least 29, 23 and 21
  for OPEN, UPDATE and NOTIFICATION, 19 for KEEPALIVE), and consumes nineteen octets.
\<close>

theorem header_decode_accepts:
  assumes "octets_api ops cur"
  shows "map_outcome (map_prod id cur) (MessageHeader_decode ops b) = Ok (h, c') \<longleftrightarrow>
    (\<exists>rest. rem (cur b) = header_bytes h @ rest) \<and>
    header_length_ok (hdr_type h) (unat (hdr_length h)) \<and> c' = adv (cur b) 19"
  unfolding octets_api.MessageHeader_decode_sim [OF assms] by (rule ref_header_decode_Ok)

lemma header_decode_accepts_witness:
  "map_outcome (map_prod id id) (MessageHeader_decode ref_octets
       (Cursor (header_bytes \<lparr>hdr_length = 19, hdr_type = TypeKeepalive\<rparr>) 0))
     = Ok (\<lparr>hdr_length = 19, hdr_type = TypeKeepalive\<rparr>,
           adv (Cursor (header_bytes \<lparr>hdr_length = 19, hdr_type = TypeKeepalive\<rparr>) 0) 19)"
  by (subst header_decode_accepts [OF ref.octets_api_axioms]) simp

text \<open>
  A message with the marker of RFC 4271, sixteen octets of all ones, is never decoded: the
  constant of the source is sixteen octets of value one, so such a message is a lost synchronization.
\<close>

lemma rfc_marker_rejected:
  assumes "codec ops cur bm" and "bm_slice bm buf = replicate 16 255 @ rest" and "3 \<le> length rest"
  shows "\<exists>buf'. Message_decode chk ops bm buf peer = Some (Err (new_header ConnectionNotSync None), buf') \<and>
    bm_slice bm buf' = bm_slice bm buf"
proof -
  have "MessageHeader_decode ref_octets (Cursor (bm_slice bm buf) 0) = Err (new_header ConnectionNotSync None)"
    by (rule header_decode_bad_marker) (use assms(2,3) in \<open>simp_all add: replicate_eq_replicate\<close>)
  then have "ref_decode chk (bm_slice bm buf) peer = Some (Err (new_header ConnectionNotSync None), bm_slice bm buf)"
    by (rule ref_decode_bad_header [rotated]) (use assms(2,3) in simp)
  from codec.decode_ref_Some [OF assms(1) this] show ?thesis by blast
qed

lemma rfc_marker_rejected_witness:
  "\<exists>buf'. Message_decode True ref_octets ref_bytes (replicate 16 255 @ [0, 19, 4]) None
     = Some (Err (new_header ConnectionNotSync None), buf')"
  using rfc_marker_rejected [OF ref_codec.codec_axioms, of "replicate 16 255 @ [0, 19, 4]" "[0, 19, 4]" True None]
  by auto

text \<open>
  C11: A message is only decoded from a buffer that holds a valid header and, after it, as many more
  octets as the header's length field says, although that field counts the header too; what is
  removed from the buffer is the header and at most that many octets.
\<close>

theorem decode_needs_length_after_header:
  assumes "codec ops cur bm" and "Message_decode chk ops bm buf peer = Some (Ok msg, buf')"
  shows "\<exists>h rest n. bm_slice bm buf = header_bytes h @ rest \<and>
    header_length_ok (hdr_type h) (unat (hdr_length h)) \<and> unat (hdr_length h) \<le> length rest \<and>
    n \<le> unat (hdr_length h) \<and> bm_slice bm buf' = drop n rest"
  using ref_decode_Ok [OF codec.decode_to_ref [OF assms]] by metis

lemma decode_needs_length_after_header_witness:
  "\<exists>buf'. Message_decode True ref_octets ref_bytes
       (header_bytes \<lparr>hdr_length = 19, hdr_type = TypeKeepalive\<rparr> @ replicate 19 0) None
       = Some (Ok (MsgKeepalive KeepaliveMsg), buf') \<and> length buf' \<le> 19"
proof -
  let ?bs = "header_bytes \<lparr>hdr_length = 19, hdr_type = TypeKeepalive\<rparr> @ replicate 19 0"
  have d: "Message_decode True ref_octets ref_bytes ?bs None = Some (Ok (MsgKeepalive KeepaliveMsg), replicate 19 0)"
    using ref_decode_keepalive [of ?bs "replicate 19 0" True None] by (simp add: ref_decode_def)
  from decode_needs_length_after_header [OF ref_codec.codec_axioms d] d show ?thesis by simp
qed

text \<open>
  C12: Decoding always returns, and a result that is not a message leaves the octets of the buffer as
  they were.
\<close>

theorem decode_total_and_atomic:
  assumes "codec ops cur bm"
  shows "\<exists>r buf'. Message_decode chk ops bm buf peer = Some (r, buf') \<and>
    ((\<exists>msg. r = Ok msg) \<or> bm_slice bm buf' = bm_slice bm buf)"
proof -
  obtain r buf' where d: "Message_decode chk ops bm buf peer = Some (r, buf')"
    using codec.decode_returns [OF assms, of chk buf peer] by auto
  from ref_decode_error_keeps [OF codec.decode_to_ref [OF assms d]] d show ?thesis by blast
qed

lemma decode_total_and_atomic_witness:
  "\<exists>r buf'. Message_decode False ref_octets ref_bytes [1, 2, 3] None = Some (r, buf') \<and>
     ((\<exists>msg. r = Ok msg) \<or> buf' = [1, 2, 3])"
  using decode_total_and_atomic [OF ref_codec.codec_axioms, of False "[1, 2, 3]" None] by simp

text \<open>
  C4: Whatever octets it is given, decoding ends in a well-formed result: an OPEN whose version, hold
  time, identifier and AS number are acceptable; an UPDATE whose prefixes have the family of their
  length and zeros after their last octet, and whose attributes have values of their type and length,
  which the decoder checked; a NOTIFICATION with data; an error whose subcode is of its code's group
  and which carries no data; or, only in an UPDATE after the peer's OPEN, the panic of an unwrapped
  conversion or, in a build with overflow checks, of an overflow.
\<close>

theorem decode_well_typed:
  assumes "codec ops cur bm" and "Message_decode chk ops bm buf peer = Some (r, buf')"
  shows "result_wf chk peer r"
  by (rule ref_decode_typed [OF codec.decode_to_ref [OF assms]])

lemma decode_well_typed_witness:
  "\<exists>u buf'. Message_decode True ref_octets ref_bytes
       (header_bytes \<lparr>hdr_length = 28, hdr_type = TypeUpdate\<rparr> @
        update_octets False demo_withdrawn demo_attributes demo_nlri) (Some demo_open) = Some (Ok (MsgUpdate u), buf') \<and>
     path_attributes u = demo_attributes \<and> update_wf True False u"
proof -
  let ?u = "\<lparr>withdrawn_routes = demo_withdrawn, path_attributes = demo_attributes, nlri = map nlri_value demo_nlri\<rparr>"
  let ?bs = "header_bytes \<lparr>hdr_length = 28, hdr_type = TypeUpdate\<rparr> @
      update_octets False demo_withdrawn demo_attributes demo_nlri"
  have four: "False = (four_octet_as_cap (opt_params demo_open) \<noteq> None)" by (simp add: demo_open_def)
  have d: "Message_decode True ref_octets ref_bytes ?bs (Some demo_open) = Some (Ok (MsgUpdate ?u), [])"
    using ref_decode_update [OF _ four demo_update_wf, of ?bs 28 "[]" True]
    by (simp add: ref_decode_def demo_update_length)
  from decode_well_typed [OF ref_codec.codec_axioms d] d four show ?thesis by auto
qed

text \<open>
  C25: A peer can make decoding panic only by an UPDATE, only once its OPEN was accepted, and only with
  an octet above 128 in it, the length of a prefix no IPv6 address has.
\<close>

theorem decode_panics_only_on_prefixes:
  assumes "codec ops cur bm" and "Message_decode chk ops bm buf peer = Some (Panicked p, buf')"
  shows "\<exists>h rest. bm_slice bm buf = header_bytes h @ rest \<and> hdr_type h = TypeUpdate \<and>
    peer \<noteq> None \<and> (\<exists>a \<in> set rest. 128 < unat a)"
  by (rule ref_decode_panics [OF codec.decode_to_ref [OF assms]])

text \<open>An UPDATE that withdraws one prefix of length 129, with the octets of what follows it.\<close>

definition panic_update :: "u8 list" where
  "panic_update = header_bytes \<lparr>hdr_length = 23, hdr_type = TypeUpdate\<rparr> @ [0, 18, 129] @ replicate 20 0"

lemma decode_panics_only_on_prefixes_witness:
  "Message_decode True ref_octets ref_bytes panic_update (Some demo_open) = Some (Panicked UnwrapErr, panic_update) \<and>
   (\<exists>h. hdr_type h = TypeUpdate \<and> (\<exists>rest. panic_update = header_bytes h @ rest))"
proof -
  let ?h = "\<lparr>hdr_length = 23, hdr_type = TypeUpdate\<rparr>"
  let ?body = "[0, 18, 129] @ replicate 20 0 :: u8 list"
  have c: "Cidr_decode True ref_octets (Cursor (129 # replicate 17 0) 0) = Panicked UnwrapErr"
    using Cidr_decode_cases [of "Cursor (129 # replicate 17 0) 0" 129 "replicate 17 0" True]
    by (simp add: padded_octets_def)
  have "UpdateMsg_decode True ref_octets demo_open (Cursor ?body 0) = Some (Panicked UnwrapErr)"
    using c by (simp add: UpdateMsg_decode_def ref_get_bytes_with_u16_length_def ref_get_bytes_def
      decode_while.simps [of ref_octets _ "[]"] take_Cons')
  then have "ref_decode True panic_update (Some demo_open) = Some (Panicked UnwrapErr, panic_update)"
    using ref_decode_header [of panic_update ?h ?body True "Some demo_open"]
    by (simp add: panic_update_def body_decode_def)
  then have d: "Message_decode True ref_octets ref_bytes panic_update (Some demo_open)
      = Some (Panicked UnwrapErr, panic_update)"
    by (simp add: ref_decode_def)
  from decode_panics_only_on_prefixes [OF ref_codec.codec_axioms d] d show ?thesis by auto
qed

section \<open>OPEN\<close>

text \<open>
  Every OPEN the decoder lets through has version 4, a hold time of zero or at least three seconds,
  an identifier that is neither 0.0.0.0 nor 255.255.255.255 and an AS number below 65536, and took
  twenty octets and six or seven more for each unit of its optional parameter length, which is the
  number of parameters and not of octets.
\<close>

lemma open_decode_safe:
  assumes "octets_api ops cur" and "OpenMsg_decode ops b = Ok (m, b')"
  shows "version m = 4 \<and> (open_hold_time m = 0 \<or> 3 \<le> unat (open_hold_time m)) \<and>
    bgp_identifier m \<notin> {Ipv4Addr 0 0 0 0, Ipv4Addr 255 255 255 255} \<and> unat (as_number m) < 65536 \<and>
    cur b' = adv (cur b) (20 + unat (opt_params_len m) * (if ext_opt_param m then 7 else 6))"
proof -
  have "OpenMsg_decode ref_octets (cur b) = Ok (m, cur b')"
    using octets_api.OpenMsg_decode_sim [OF assms(1), of b] assms(2) by simp
  from OpenMsg_decode_Ok [OF this] show ?thesis
    by (auto simp: param_size_def ipv4_bits_extremes simp del: ipv4_bits.simps)
qed

lemma open_decode_safe_witness:
  "\<exists>m c'. OpenMsg_decode ref_octets (Cursor (open_octets 65001 90 3221225985 [0, 0, 0] []) 0) = Ok (m, c') \<and>
     version m = 4 \<and> c' = adv (Cursor (open_octets 65001 90 3221225985 [0, 0, 0] []) 0) 20"
proof -
  let ?c = "Cursor (open_octets 65001 90 3221225985 [0, 0, 0] []) 0"
  obtain m where d: "OpenMsg_decode ref_octets ?c = Ok (m, adv ?c 20)"
    using open_octets_decode [of ?c 65001 90 3221225985 "[0, 0, 0]" "[]" "[]"]
    by (simp add: length_open_octets)
  from open_decode_safe [OF ref.octets_api_axioms d] d show ?thesis by blast
qed

text \<open>
  C18: An OPEN laid out the way the decoder reads it comes back field for field: AS number, hold time,
  identifier and the capabilities in order, whatever the skipped octets hold, and nothing that
  follows it is touched.
\<close>

theorem open_round_trip:
  assumes "octets_api ops cur" and "rem (cur b) = open_octets asn hold ident pad caps @ rest"
    and "length pad = 3" and "length caps < 256" and "hold = 0 \<or> 3 \<le> hold" and "ident \<notin> {0, 4294967295}"
  shows "map_outcome (map_prod id cur) (OpenMsg_decode ops b) =
    Ok (\<lparr>version = 4, as_number = ucast asn, open_hold_time = hold, bgp_identifier = ipv4_from_be ident,
         ext_opt_param = False, opt_params_len = word_of_nat (length caps),
         opt_params = fold add_capability caps \<lparr>mp_ext_caps = None, four_octet_as_cap = None\<rparr>\<rparr>,
       adv (cur b) (length (open_octets asn hold ident pad caps)))"
  unfolding octets_api.OpenMsg_decode_sim [OF assms(1)]
  by (rule open_octets_decode [OF assms(2-6)])

lemma open_round_trip_witness:
  "\<exists>m c'. map_outcome (map_prod id id) (OpenMsg_decode ref_octets
       (Cursor (open_octets 65001 90 3221225985 [1, 2, 3] [CapFourOctetAs 70000, CapMpExt 2 0 1]) 0)) = Ok (m, c') \<and>
     opt_params m = \<lparr>mp_ext_caps = Some [\<lparr>afi = 2, safi = 1\<rparr>], four_octet_as_cap = Some \<lparr>cap_as_num = 70000\<rparr>\<rparr>"
proof -
  let ?c = "Cursor (open_octets 65001 90 3221225985 [1, 2, 3] [CapFourOctetAs 70000, CapMpExt 2 0 1]) 0"
  have "rem (id ?c) = open_octets 65001 90 3221225985 [1, 2, 3] [CapFourOctetAs 70000, CapMpExt 2 0 1] @ []"
    by simp
  then show ?thesis
    by (intro exI conjI, rule open_round_trip [OF ref.octets_api_axioms]) (simp_all add: push_mp_ext_def)
qed

text \<open>
  An OPEN laid out as RFC 4271 section 4.2 says, without the blank fields of the diagram, is read
  shifted: the AS number the decoder reports is made of the hold time and the identifier, the hold
  time of the identifier and the parameter length, and the identifier of octets that come after the message.
\<close>

lemma rfc_open_misread:
  assumes "octets_api ops cur" and "rem (cur b) = [4, a1, a2, h1, h2, i1, i2, i3, i4, 0] @ after"
    and "OpenMsg_decode ops b = Ok (m, b')"
  shows "as_number m = ucast (be16 h2 i1) \<and> open_hold_time m = be16 i4 0 \<and>
    bgp_identifier m = Ipv4Addr (after ! 2) (after ! 3) (after ! 4) (after ! 5)"
proof -
  have "OpenMsg_decode ref_octets (cur b) = Ok (m, cur b')"
    using octets_api.OpenMsg_decode_sim [OF assms(1), of b] assms(3) by simp
  moreover from OpenMsg_decode_Ok(2) [OF this] assms(2) have "10 \<le> length after" by simp
  then obtain x1 x2 x3 x4 x5 x6 x7 x8 x9 x10 ys where
    "after = [x1, x2, x3, x4, x5, x6, x7, x8, x9, x10] @ ys"
    by (rule length_ge_10E)
  ultimately show ?thesis
    using assms(2) by (auto simp: OpenMsg_decode_def ref_skip_def err_open_def bindO_eq_Ok Let_def split: if_splits)
qed

lemma rfc_open_misread_witness:
  "\<exists>m c'. OpenMsg_decode ref_octets (Cursor ([4, 1, 1, 0, 90, 192, 1, 1, 9, 0] @
       [1, 1, 10, 0, 0, 1, 0, 0, 0, 0]) 0) = Ok (m, c') \<and> as_number m = ucast (be16 90 192)"
proof -
  let ?c = "Cursor ([4, 1, 1, 0, 90, 192, 1, 1, 9, 0] @ [1, 1, 10, 0, 0, 1, 0, 0, 0, 0]) 0"
  have "rem ?c = open_octets (be16 90 192) (be16 9 0) (be32 10 0 0 1) [1, 1, 0] [] @ []"
    by (simp add: open_octets_def)
  from open_octets_decode [OF this] obtain m c' where d: "OpenMsg_decode ref_octets ?c = Ok (m, c')"
    by (simp add: be16_def be32_def word_le_nat_alt)
  have "rem (id ?c) = [4, 1, 1, 0, 90, 192, 1, 1, 9, 0] @ [1, 1, 10, 0, 0, 1, 0, 0, 0, 0]" by simp
  from rfc_open_misread [OF ref.octets_api_axioms this d] d show ?thesis by blast
qed

section \<open>NOTIFICATION\<close>

text \<open>
  C40: The two numbers of a NOTIFICATION built from an error determine the error's code and subcode,
  and its data is the error's: no two errors the constructors build give the same message.
\<close>

theorem notification_names_error:
  assumes "error_wf e" and "error_wf e'"
  shows "NotificationMsg_from_error e = NotificationMsg_from_error e' \<longleftrightarrow> e = e'"
  using error_numbers_inj [OF assms] by (auto simp: NotificationMsg_from_error_def)

lemma notification_names_error_witness:
  "error_wf (new_open UnacceptableHoldTime None) \<and> error_wf (new_update UnrecognizedWellKnownAttribute None) \<and>
   NotificationMsg_from_error (new_open UnacceptableHoldTime None)
     \<noteq> NotificationMsg_from_error (new_update UnrecognizedWellKnownAttribute None)"
proof -
  have w: "error_wf (new_open UnacceptableHoldTime None)" "error_wf (new_update UnrecognizedWellKnownAttribute None)"
    by (simp_all add: error_defs)
  have "new_open UnacceptableHoldTime None \<noteq> new_update UnrecognizedWellKnownAttribute None"
    by (simp add: error_defs)
  with notification_names_error [OF w] w show ?thesis by blast
qed

text \<open>
  C39: A NOTIFICATION is given the first nineteen octets that come after it as the end of its data, and
  they are gone from the buffer, so the header of the next message is lost.
\<close>

theorem notification_swallows_next_header:
  assumes "codec ops cur bm"
    and "bm_slice bm buf = header_bytes \<lparr>hdr_length = len, hdr_type = TypeNotification\<rparr>
      @ [code, subcode] @ data @ next_octets"
    and "unat len = 21 + length data" and "19 \<le> length next_octets"
  shows "\<exists>buf'. Message_decode chk ops bm buf peer =
      Some (Ok (MsgNotification \<lparr>error_code = code, error_subcode = subcode,
                  notification_data = Some (data @ take 19 next_octets)\<rparr>), buf') \<and>
    bm_slice bm buf' = drop 19 next_octets"
  using codec.decode_ref_Some [OF assms(1) ref_decode_notification [OF assms(2-4)]] by metis

lemma notification_swallows_next_header_witness:
  "\<exists>buf' data. Message_decode True ref_octets ref_bytes
       (header_bytes \<lparr>hdr_length = 21, hdr_type = TypeNotification\<rparr> @ [6, 2] @ [] @
        header_bytes \<lparr>hdr_length = 19, hdr_type = TypeKeepalive\<rparr>) None
     = Some (Ok (MsgNotification \<lparr>error_code = 6, error_subcode = 2, notification_data = Some data\<rparr>), buf') \<and>
       buf' = []"
  using notification_swallows_next_header [OF ref_codec.codec_axioms,
      of _ 21 6 2 "[]" "header_bytes \<lparr>hdr_length = 19, hdr_type = TypeKeepalive\<rparr>" True None]
  by fastforce

end
