(* ===== verification/Props_Update.thy ===== *)
theory Props_Update
  imports Samples
begin

text \<open>
  The properties of the UPDATE decoder: the outcome of each of its parts on every input, that it returns,
  and that the octets a well-formed UPDATE is laid out in are decoded to it.
\<close>

section \<open>UPDATE\<close>

text \<open>
  The two checks on the attribute list and on the announced prefixes that follow their loops can
  never fail: for any reader, even one that breaks its contract, the decoder is the one without them.
\<close>

lemma update_checks_are_dead:
  "UpdateMsg_decode chk ops peer b = UpdateMsg_decode_unchecked chk ops peer b"
  unfolding UpdateMsg_decode_def UpdateMsg_decode_unchecked_def
  by (intro bindL_cong_Ok) (auto simp: decode_while_leaves_nothing split: prod.splits intro!: bindL_cong_Ok)

text \<open>
  C24: An UPDATE that is accepted has been read to the end of the octets it was given; and every decoding returns.
\<close>

theorem update_decode_returns_and_consumes:
  assumes "octets_api ops cur"
  shows "\<exists>r. UpdateMsg_decode chk ops peer b = Some r \<and>
    (\<forall>u b'. r = Ok (u, b') \<longrightarrow> cur b' = adv (cur b) (length (rem (cur b))))"
proof -
  have sim: "map_option (map_outcome (map_prod id cur)) (UpdateMsg_decode chk ops peer b)
      = UpdateMsg_decode chk ref_octets peer (cur b)"
    by (rule octets_api.UpdateMsg_decode_sim [OF assms])
  obtain r where r: "UpdateMsg_decode chk ops peer b = Some r"
    using sim ref_update_returns [of chk peer "cur b"] by (cases "UpdateMsg_decode chk ops peer b") auto
  with sim show ?thesis
    using ref_update_consumes [of chk peer "cur b"] by (cases r) (auto simp flip: sim)
qed

lemma update_decode_returns_and_consumes_witness:
  "\<exists>r. UpdateMsg_decode True ref_octets demo_open (Cursor [0, 0, 0, 0] 0) = Some r \<and>
     (\<forall>u b'. r = Ok (u, b') \<longrightarrow> b' = adv (Cursor [0, 0, 0, 0] 0) 4)"
  using update_decode_returns_and_consumes
    [OF ref.octets_api_axioms, of True demo_open "Cursor [0, 0, 0, 0] 0"]
  by (simp add: numeral_eq_Suc)

text \<open>
  C19: A prefix of length at most 32 is read as that many bits of an IPv4 address, up to 128 as an
  IPv6 address, padded with zeros; a longer one panics (a length above 248 only in a build with
  overflow checks; without them it is read as 0.0.0.0 with no octets taken).
\<close>

theorem prefix_decode:
  assumes "octets_api ops cur" and "rem (cur b) = len # ys"
  shows "map_outcome (map_prod id cur) (Cidr_decode chk ops b) =
    (if 248 < unat len then
       (if chk then Panicked ArithmeticOverflow
        else Ok (\<lparr>cidr_length = len, cidr_prefix = V4 (Ipv4Addr 0 0 0 0)\<rparr>, adv (cur b) 1))
     else if length ys < padded_octets len then Err from_BufferTooShortError
     else if unat len \<le> 32 then
       Ok (\<lparr>cidr_length = len,
            cidr_prefix = V4 (let v = take (padded_octets len) ys @ replicate (4 - padded_octets len) 0
                              in Ipv4Addr (v ! 0) (v ! 1) (v ! 2) (v ! 3))\<rparr>,
           adv (cur b) (1 + padded_octets len))
     else if unat len \<le> 128 then
       Ok (\<lparr>cidr_length = len,
            cidr_prefix = V6 (Ipv6Addr (take (padded_octets len) ys @ replicate (16 - padded_octets len) 0))\<rparr>,
           adv (cur b) (1 + padded_octets len))
     else Panicked UnwrapErr)"
  unfolding octets_api.Cidr_decode_sim [OF assms(1)] by (rule Cidr_decode_cases [OF assms(2)])

lemma prefix_decode_witness:
  "map_outcome (map_prod id id) (Cidr_decode True ref_octets (Cursor [20, 10, 1, 16] 0))
     = Ok (\<lparr>cidr_length = 20, cidr_prefix = V4 (Ipv4Addr 10 1 16 0)\<rparr>, adv (Cursor [20, 10, 1, 16] 0) 4)"
  by (subst prefix_decode [OF ref.octets_api_axioms, of _ 20 "[10, 1, 16]"])
    (simp_all add: padded_octets_def)

text \<open>
  An announced prefix is preceded by two length octets: the first is the one the message reports,
  the second decides how many octets of address are read, so an encoding with the one length octet
  of RFC 4271 takes the first octet of the address for it.
\<close>

lemma nlri_two_lengths:
  assumes "octets_api ops cur" and "nlri_item_decode chk ops b = Ok ((len, prefix), b')"
  shows "\<exists>len2 ys. rem (cur b) = len # len2 # ys \<and>
    cur b' = adv (cur b) (2 + (if 248 < unat len2 then 0 else padded_octets len2))"
proof -
  have "nlri_item_decode chk ref_octets (cur b) = Ok ((len, prefix), cur b')"
    using octets_api.nlri_item_decode_sim [OF assms(1), of chk b] assms(2) by simp
  then obtain ys c where r: "rem (cur b) = len # ys"
    and d: "Cidr_decode chk ref_octets (adv (cur b) 1) = Ok (c, cur b')"
    by (auto simp: nlri_item_decode_def bindO_eq_Ok ref_get_u8_Some)
  from d r obtain len2 zs where ys: "ys = len2 # zs"
    by (cases ys) (auto simp: Cidr_decode_empty)
  with d r show ?thesis
    using Cidr_decode_cases [of "adv (cur b) 1" len2 zs chk] by (auto split: if_splits)
qed

lemma nlri_two_lengths_witness:
  "nlri_item_decode True ref_octets (Cursor [24, 8, 10, 1] 0)
     = Ok ((24, V4 (Ipv4Addr 10 0 0 0)), adv (Cursor [24, 8, 10, 1] 0) 3) \<and>
   (\<exists>len2 ys. rem (Cursor [24, 8, 10, 1] 0) = 24 # len2 # ys)"
proof -
  let ?c = "Cursor [24, 8, 10, 1] 0"
  have d: "nlri_item_decode True ref_octets ?c = Ok ((24, V4 (Ipv4Addr 10 0 0 0)), adv ?c 3)"
    using Cidr_decode_cases [of "adv ?c 1" 8 "[10, 1]" True]
    by (simp add: nlri_item_decode_def padded_octets_def)
  from nlri_two_lengths [OF ref.octets_api_axioms d] d show ?thesis by auto
qed

text \<open>
  C26: A path attribute takes its header of three octets, four with the extended length flag, and then
  what its type says: the length field is honoured for ORIGIN, AS_PATH, NEXT_HOP and unknown types and
  ignored for MULTI_EXIT_DISC, LOCAL_PREF, ATOMIC_AGGREGATE and AGGREGATOR, which take four, four, no and
  six octets (eight from a peer that announced four-octet AS numbers) whatever it says.
\<close>

theorem path_attribute_octets:
  assumes "octets_api ops cur" and "PathAttribute_decode ops peer b = Ok (a, b')"
  shows "cur b' = adv (cur b) ((if flag_extended_length (attr_flags a) then 4 else 3) +
    (if attr_type_code a \<in> {4, 5} then 4
     else if attr_type_code a = 6 then 0
     else if attr_type_code a = 7 then (if four_octet_as_cap (opt_params peer) = None then 6 else 8)
     else unat (attr_len a)))"
proof -
  have d: "PathAttribute_decode ref_octets peer (cur b) = Ok (a, cur b')"
    using octets_api.PathAttribute_decode_sim [OF assms(1), of peer b] assms(2) by simp
  from PathAttribute_decode_Ok [OF d] path_attribute_fixed_lengths [OF d] show ?thesis
    by (auto simp: attr_header_octets_def attr_value_octets_def)
qed

lemma path_attribute_octets_witness:
  "PathAttribute_decode ref_octets demo_open (Cursor [128, 4, 0, 0, 0, 0, 100] 0)
     = Ok (\<lparr>attr_flags = flags_of_u8 128, attr_type_code = 4, attr_len = 0, attr_value = AttrMultiExitDisc 100\<rparr>,
           adv (Cursor [128, 4, 0, 0, 0, 0, 100] 0) 7) \<and>
   \<not> flag_extended_length (flags_of_u8 128)"
proof -
  let ?c = "Cursor [128, 4, 0, 0, 0, 0, 100] 0"
  have f: "\<not> flag_extended_length (flags_of_u8 128)" by (simp add: flags_of_u8_def)
  obtain a c' where d: "PathAttribute_decode ref_octets demo_open ?c = Ok (a, c')"
    and a: "a = \<lparr>attr_flags = flags_of_u8 128, attr_type_code = 4, attr_len = 0, attr_value = AttrMultiExitDisc 100\<rparr>"
    using f by (simp add: PathAttribute_decode_def PathAttributeFlags_decode_def attr_length_decode_def
      PathAttributeValue_decode_def Let_def be32_def)
  from path_attribute_octets [OF ref.octets_api_axioms d] d a f show ?thesis by simp
qed

text \<open>
  An UPDATE whose octets have all arrived is rejected as a lost synchronization as long as the
  peer's OPEN has not been decoded on the connection, whatever it says.
\<close>

lemma update_before_open:
  assumes "codec ops cur bm" and "bm_slice bm buf = header_bytes \<lparr>hdr_length = len, hdr_type = TypeUpdate\<rparr> @ rest"
    and "23 \<le> unat len" and "unat len \<le> length rest"
  shows "\<exists>buf'. Message_decode chk ops bm buf None = Some (Err (new_header ConnectionNotSync None), buf') \<and>
    bm_slice bm buf' = bm_slice bm buf"
proof -
  have "ref_decode chk (bm_slice bm buf) None = Some (Err (new_header ConnectionNotSync None), bm_slice bm buf)"
    using assms(3,4) by (simp add: ref_decode_header [OF assms(2)] body_decode_def err_header_def)
  from codec.decode_ref_Some [OF assms(1) this] show ?thesis by blast
qed

text \<open>
  C5: Any well-formed UPDATE (prefixes with the address family and the zero padding of their length,
  attributes whose type, length and value agree, AS numbers of the width the peer negotiated) laid out
  in octets and framed with its number of octets is decoded to itself, every field of it, and what
  follows it stays in the buffer.
\<close>

theorem update_round_trip:
  assumes "codec ops cur bm" and "four = (four_octet_as_cap (opt_params p) \<noteq> None)"
    and "\<forall>x \<in> set ws. cidr_wf x" and "\<forall>a \<in> set as. attr_wf four a" and "\<forall>x \<in> set ns. cidr_wf (snd x)"
    and "unat len = length (update_octets four ws as ns)" and "23 \<le> unat len"
    and "bm_slice bm buf = header_bytes \<lparr>hdr_length = len, hdr_type = TypeUpdate\<rparr> @ update_octets four ws as ns @ rest"
  shows "\<exists>buf'. Message_decode chk ops bm buf (Some p) = Some (Ok (MsgUpdate
      \<lparr>withdrawn_routes = ws, path_attributes = as, nlri = map nlri_value ns\<rparr>), buf') \<and>
    bm_slice bm buf' = rest"
proof -
  have "ref_decode chk (bm_slice bm buf) (Some p) = Some (Ok (MsgUpdate
      \<lparr>withdrawn_routes = ws, path_attributes = as, nlri = map nlri_value ns\<rparr>), rest)"
    by (rule ref_decode_update [OF assms(8,2-7)])
  from codec.decode_ref_Some [OF assms(1) this] show ?thesis by blast
qed

lemma update_round_trip_witness:
  "\<exists>buf'. Message_decode True ref_octets ref_bytes
       (header_bytes \<lparr>hdr_length = 28, hdr_type = TypeUpdate\<rparr> @
        update_octets False demo_withdrawn demo_attributes demo_nlri @ [7, 7]) (Some demo_open)
     = Some (Ok (MsgUpdate \<lparr>withdrawn_routes = demo_withdrawn, path_attributes = demo_attributes,
                            nlri = [(24, V4 (Ipv4Addr 10 1 0 0))]\<rparr>), buf') \<and> buf' = [7, 7]"
proof -
  have n: "map nlri_value demo_nlri = [(24, V4 (Ipv4Addr 10 1 0 0))]" by (simp add: demo_nlri_def)
  show ?thesis
    using update_round_trip [OF ref_codec.codec_axioms, of False demo_open demo_withdrawn demo_attributes demo_nlri 28
        "header_bytes \<lparr>hdr_length = 28, hdr_type = TypeUpdate\<rparr> @
           update_octets False demo_withdrawn demo_attributes demo_nlri @ [7, 7]" "[7, 7]" True]
    by (simp add: n demo_update_wf demo_update_length) (simp add: demo_open_def)
qed

end
