(* ===== verification/Props_Connection.thy ===== *)
theory Props_Connection
  imports Samples
begin

text \<open>
  The properties of reading from a connection: what arrives decides what is read, however it is cut
  into pieces, and which octets make a reader wait for ever.
\<close>

section \<open>Streams in pieces\<close>

text \<open>
  C10: What a call of the reader returns is what decoding all the octets at once gives: if the octets in
  the buffer and those the socket will deliver together decode to a message, to an error or to a panic,
  every way of cutting them into reads returns that result, with the octets after the message still in
  the buffer or to be read; if they are too few, every way of cutting them leaves the reader waiting
  with all of them in the buffer.
\<close>

theorem reading_in_pieces:
  assumes "codec ops cur bm" and "ReadErr \<notin> set reads"
    and "bm_slice bm whole = bm_slice bm (buffer conn) @ delivered reads"
    and "Message_decode chk ops bm whole (conn_peer conn) = Some (r, left)"
  shows "if \<exists>e. r = Err e \<and> too_short e
    then \<exists>conn'. read_message chk ops bm conn reads = Waiting conn' \<and>
      bm_slice bm (buffer conn') = bm_slice bm whole
    else \<exists>conn' rest. read_message chk ops bm conn reads = Finished r conn' rest \<and>
      bm_slice bm (buffer conn') @ delivered rest = bm_slice bm left \<and>
      conn_peer conn' = peer_after r (conn_peer conn)"
proof -
  have "ref_decode chk (bm_slice bm (buffer conn) @ delivered reads) (conn_peer conn) = Some (r, bm_slice bm left)"
    using codec.decode_to_ref [OF assms(1,4)] assms(3) by simp
  from codec.read_in_pieces [OF assms(1) this assms(2)] assms(3) show ?thesis
    by (cases "read_whole r") (auto simp: read_whole_def)
qed

lemma reading_in_pieces_witness:
  "\<exists>conn' rest. read_message True ref_octets ref_bytes demo_conn
       [ReadOk (header_bytes \<lparr>hdr_length = 19, hdr_type = TypeKeepalive\<rparr> @ [1, 2]), ReadOk (replicate 20 3)]
       = Finished (Ok (MsgKeepalive KeepaliveMsg)) conn' rest \<and>
     buffer conn' @ delivered rest = [1, 2] @ replicate 20 3"
proof -
  let ?h = "header_bytes \<lparr>hdr_length = 19, hdr_type = TypeKeepalive\<rparr>"
  let ?reads = "[ReadOk (?h @ [1, 2]), ReadOk (replicate 20 3)]"
  have d: "Message_decode True ref_octets ref_bytes (?h @ [1, 2] @ replicate 20 3) (conn_peer demo_conn)
      = Some (Ok (MsgKeepalive KeepaliveMsg), [1, 2] @ replicate 20 3)"
    using ref_decode_keepalive [of "?h @ [1, 2] @ replicate 20 3" "[1, 2] @ replicate 20 3" True]
    by (simp add: ref_decode_def)
  have e: "ReadErr \<notin> set ?reads"
    and w: "bm_slice ref_bytes (?h @ [1, 2] @ replicate 20 3) = bm_slice ref_bytes (buffer demo_conn) @ delivered ?reads"
    by (simp_all add: demo_conn_def BgpConn_new_def)
  from reading_in_pieces [OF ref_codec.codec_axioms e w d] show ?thesis by auto
qed

text \<open>
  C6: What a connection task tells its session does not depend on how TCP cuts the stream: two
  connections at the same place of the same octets (some of them received, the rest to be read, the
  cuts anywhere) send the session the same events in the same order and end alike, for any messages
  the session sends in between.
\<close>

theorem process_independent_of_pieces:
  assumes "codec ops cur bm" and "same_place bm conn1 reads1 conn2 reads2"
  shows "fst (process chk ops bm alive remote_syn sent conn1 reads1 turns)
      = fst (process chk ops bm alive remote_syn sent conn2 reads2 turns) \<and>
    ends_alike (snd (process chk ops bm alive remote_syn sent conn1 reads1 turns))
      (snd (process chk ops bm alive remote_syn sent conn2 reads2 turns))"
  by (rule codec.process_same_place [OF assms])

lemma process_independent_of_pieces_witness:
  "fst (process True ref_octets ref_bytes (\<lambda>_. True) False [] demo_conn [ReadOk open_buffer] [FromPeer, FromPeer])
     = fst (process True ref_octets ref_bytes (\<lambda>_. True) False []
         (demo_conn\<lparr>buffer := take 5 open_buffer\<rparr>)
         [ReadOk (take 30 (drop 5 open_buffer)), ReadOk (drop 35 open_buffer)] [FromPeer, FromPeer])"
proof -
  have "open_buffer = take 5 open_buffer @ drop 5 open_buffer" by simp
  also have "drop 5 open_buffer = take 30 (drop 5 open_buffer) @ drop 30 (drop 5 open_buffer)"
    by (rule append_take_drop_id [symmetric])
  also have "drop 30 (drop 5 open_buffer) = drop 35 open_buffer" by simp
  finally have "open_buffer = take 5 open_buffer @ take 30 (drop 5 open_buffer) @ drop 35 open_buffer" .
  then have "same_place ref_bytes demo_conn [ReadOk open_buffer]
      (demo_conn\<lparr>buffer := take 5 open_buffer\<rparr>)
      [ReadOk (take 30 (drop 5 open_buffer)), ReadOk (drop 35 open_buffer)]"
    by (simp add: same_place_def demo_conn_def BgpConn_new_def)
  from process_independent_of_pieces [OF ref_codec.codec_axioms this] show ?thesis by blast
qed

section \<open>Readers that wait for ever\<close>

text \<open>
  C30: A frame all of whose octets have arrived, but whose body runs past its end (a length field inside
  it says more than there is), blocks the connection for ever: the decoder's error for it is the one
  that means the message is incomplete, so whatever arrives after it is only added to the buffer.
\<close>

theorem cut_short_frame_blocks:
  assumes "codec ops cur bm"
    and "bm_slice bm (buffer conn) = header_bytes h @ body" and "unat (hdr_length h) \<le> length body"
    and "Message_decode chk ops bm (buffer conn) (conn_peer conn) = Some (Err e, buf)" and "too_short e"
    and "ReadErr \<notin> set reads"
  shows "\<exists>conn'. read_message chk ops bm conn reads = Waiting conn' \<and>
    bm_slice bm (buffer conn') = bm_slice bm (buffer conn) @ delivered reads"
proof -
  let ?bs = "bm_slice bm (buffer conn)"
  have d: "ref_decode chk ?bs (conn_peer conn) = Some (Err e, ?bs)"
    using codec.decode_to_ref [OF assms(1,4)] ref_decode_error_keeps by fastforce
  have "h' = h" if "MessageHeader_decode ref_octets (Cursor ?bs 0) = Ok (h', c)" for h' c
    using that header_bytes_inject [of h' _ h body] assms(2) by (auto simp: ref_header_decode_Ok)
  then have "frame_arrived ?bs" using assms(2,3) by (auto simp: frame_arrived_def)
  from ref_decode_append [OF this, of chk "delivered reads" "conn_peer conn"] d
  have "ref_decode chk (?bs @ delivered reads) (conn_peer conn) = Some (Err e, ?bs @ delivered reads)" by simp
  from codec.read_in_pieces [OF assms(1) this assms(6)] assms(5) show ?thesis
    by (auto simp: read_whole_def)
qed

text \<open>An UPDATE that withdraws 65535 octets of prefixes and has 23 octets.\<close>

definition cut_short_update :: "u8 list" where
  "cut_short_update = header_bytes \<lparr>hdr_length = 23, hdr_type = TypeUpdate\<rparr> @ replicate 23 255"

lemma cut_short_frame_blocks_witness:
  "\<exists>conn'. read_message True ref_octets ref_bytes
       (demo_conn\<lparr>buffer := cut_short_update, conn_peer := Some demo_open\<rparr>)
       (replicate 100 (ReadOk (replicate 1000 0))) = Waiting conn' \<and>
     length (buffer conn') = 42 + 100 * 1000"
proof -
  let ?h = "\<lparr>hdr_length = 23, hdr_type = TypeUpdate\<rparr>"
  let ?conn = "demo_conn\<lparr>buffer := cut_short_update, conn_peer := Some demo_open\<rparr>"
  let ?reads = "replicate 100 (ReadOk (replicate 1000 (0 :: u8)))"
  have "replicate 23 (255 :: u8) = 255 # 255 # replicate 21 255" by (simp add: numeral_eq_Suc)
  then have "ref_get_bytes_with_u16_length (Cursor (replicate 23 255) 0) = None"
    by (simp add: ref_get_bytes_with_u16_length_def ref_get_bytes_def unat_be16)
  then have u: "UpdateMsg_decode True ref_octets demo_open (Cursor (replicate 23 255) 0) = Some (Err from_BufferTooShortError)"
    by (simp add: UpdateMsg_decode_def)
  have d: "Message_decode True ref_octets ref_bytes (buffer ?conn) (conn_peer ?conn)
      = Some (Err from_BufferTooShortError, cut_short_update)"
    using ref_decode_header [of cut_short_update ?h "replicate 23 255" True "Some demo_open"] u
    by (simp add: cut_short_update_def body_decode_def ref_decode_def)
  have len: "length (delivered (replicate n (ReadOk (replicate 1000 (0 :: u8))))) = n * 1000" for n
    by (induction n) simp_all
  have "bm_slice ref_bytes (buffer ?conn) = header_bytes ?h @ replicate 23 255"
    by (simp add: cut_short_update_def)
  from cut_short_frame_blocks [OF ref_codec.codec_axioms this _ d, of ?reads] len [of 100]
  show ?thesis by (auto simp: cut_short_update_def)
qed

text \<open>
  C33: A complete message, delivered in pieces of any sizes with nothing after it, is not returned: the
  reader keeps waiting, with all of its octets in the buffer.
\<close>

theorem complete_message_waits:
  assumes "codec ops cur bm" and "bm_slice bm (buffer conn) = []"
    and "delivered reads = header_bytes h @ body" and "unat (hdr_length h) = 19 + length body"
    and "header_length_ok (hdr_type h) (unat (hdr_length h))" and "ReadErr \<notin> set reads"
  shows "\<exists>conn'. read_message chk ops bm conn reads = Waiting conn' \<and>
    bm_slice bm (buffer conn') = header_bytes h @ body"
proof -
  have "ref_decode chk (take n (delivered reads)) (conn_peer conn)
      = Some (Err from_BufferTooShortError, take n (delivered reads))" for n
    by (rule ref_decode_prefix_of_message [OF assms(3) _ assms(5)]) (simp add: assms(3,4))
  then have "read_message chk ref_octets ref_bytes (view_conn bm conn) reads
      = Waiting ((view_conn bm conn)\<lparr>buffer := delivered reads\<rparr>)"
    using read_message_prefix_waits [of reads chk "view_conn bm conn"] assms(2,6) by simp
  with codec.read_message_sim [OF assms(1), of chk conn reads]
  have "view_read bm (read_message chk ops bm conn reads)
      = Waiting ((view_conn bm conn)\<lparr>buffer := delivered reads\<rparr>)" by simp
  then show ?thesis
    using assms(3) by (cases "read_message chk ops bm conn reads") (auto simp: view_conn_def)
qed

lemma complete_message_waits_witness:
  "\<exists>conn'. read_message True ref_octets ref_bytes demo_conn
       [ReadOk (take 7 (header_bytes \<lparr>hdr_length = 19, hdr_type = TypeKeepalive\<rparr>)),
        ReadOk (drop 7 (header_bytes \<lparr>hdr_length = 19, hdr_type = TypeKeepalive\<rparr>))] = Waiting conn'"
  using complete_message_waits [OF ref_codec.codec_axioms, of demo_conn
      "[ReadOk (take 7 (header_bytes \<lparr>hdr_length = 19, hdr_type = TypeKeepalive\<rparr>)),
        ReadOk (drop 7 (header_bytes \<lparr>hdr_length = 19, hdr_type = TypeKeepalive\<rparr>))]"
      "\<lparr>hdr_length = 19, hdr_type = TypeKeepalive\<rparr>" "[]" True]
  by (auto simp: demo_conn_def BgpConn_new_def)

text \<open>
  The end of the stream is not noticed: with less than a header in the buffer, a socket whose
  reads give no octets, however many of them, leaves the reader waiting with the buffer as it was.
\<close>

lemma end_of_stream_unnoticed:
  assumes "codec ops cur bm" and "length (bm_slice bm (buffer conn)) < 19"
  shows "\<exists>conn'. read_message chk ops bm conn (replicate n (ReadOk [])) = Waiting conn' \<and>
    bm_slice bm (buffer conn') = bm_slice bm (buffer conn)"
proof -
  have d: "delivered (replicate n (ReadOk [])) = []" by (induction n) simp_all
  have "read_message chk ref_octets ref_bytes (view_conn bm conn) (replicate n (ReadOk []))
      = Waiting (view_conn bm conn)"
    using read_message_prefix_waits [of "replicate n (ReadOk [])" chk "view_conn bm conn"]
      ref_decode_short [OF assms(2)] d by (auto simp: view_conn_def)
  with codec.read_message_sim [OF assms(1), of chk conn "replicate n (ReadOk [])"]
  have "view_read bm (read_message chk ops bm conn (replicate n (ReadOk []))) = Waiting (view_conn bm conn)"
    by simp
  then show ?thesis
    by (cases "read_message chk ops bm conn (replicate n (ReadOk []))") (auto simp: view_conn_def)
qed

lemma end_of_stream_unnoticed_witness:
  "\<exists>conn'. read_message True ref_octets ref_bytes demo_conn (replicate 1000 (ReadOk [])) = Waiting conn'"
  using end_of_stream_unnoticed [OF ref_codec.codec_axioms, of demo_conn True 1000]
  by (auto simp: demo_conn_def BgpConn_new_def)

section \<open>Neighbours that are not found\<close>

text \<open>
  A neighbour configured with an AS number above 65535 is never found: the AS number of every
  OPEN the decoder returns comes from the two-octet field, so the dispatcher's look-up of the
  session by address and AS number fails for its address.
\<close>

lemma four_octet_neighbour_not_found:
  assumes "codec ops cur bm" and "Message_decode chk ops bm buf peer = Some (Ok (MsgOpen m), buf')"
    and "nbrs addr = Some neigh" and "65536 \<le> unat (peer_as (neighbor_config neigh))"
  shows "session_map nbrs (addr, as_number m) = None"
proof -
  have "unat (as_number m) < 65536"
    by (rule ref_decode_open [OF codec.decode_to_ref [OF assms(1,2)]])
  with assms(3,4) show ?thesis by (auto simp: session_map_def)
qed

lemma four_octet_neighbour_not_found_witness:
  "\<exists>m buf'. Message_decode True ref_octets ref_bytes open_buffer None = Some (Ok (MsgOpen m), buf') \<and>
     session_map [V4 (Ipv4Addr 192 0 2 2) \<mapsto>
       demo_conf\<lparr>neighbor_config := (neighbor_config demo_conf)\<lparr>peer_as := 70000\<rparr>\<rparr>]
       (V4 (Ipv4Addr 192 0 2 2), as_number m) = None"
proof -
  obtain m bs where b: "Message_decode True ref_octets ref_bytes open_buffer None = Some (Ok (MsgOpen m), bs)"
    using open_buffer_decode by blast
  let ?neigh = "demo_conf\<lparr>neighbor_config := (neighbor_config demo_conf)\<lparr>peer_as := 70000\<rparr>\<rparr>"
  have "session_map [V4 (Ipv4Addr 192 0 2 2) \<mapsto> ?neigh] (V4 (Ipv4Addr 192 0 2 2), as_number m) = None"
    by (rule four_octet_neighbour_not_found [where neigh = ?neigh, OF ref_codec.codec_axioms b]) simp_all
  with b show ?thesis by blast
qed

end
