(* ===== verification/Spec2Isabelle.thy ===== *)
theory Spec2Isabelle
  imports Props_Session Props_Opening Props_Message Props_Update Props_Connection
begin

text \<open>
  amnesiaBGP, a BGP-4 speaker in Rust: what it decodes, how its sessions run, and how its tasks fit
  together.

  The program. \<^verbatim>\<open>src/main.rs\<close> makes one session for each configured neighbour (\<^verbatim>\<open>src/config.rs\<close>),
  accepts connections, reads the first message of each and hands the connection and its OPEN to the
  session of the peer. \<^verbatim>\<open>src/session.rs\<close> is the finite state machine of RFC 4271: a loop that takes
  events from five channels, changes the state of \<^verbatim>\<open>src/fsm.rs\<close>, starts and stops timers and
  tasks, and sends messages to connection tasks. A connection task reads and writes messages
  (\<^verbatim>\<open>src/connection.rs\<close>) with the codec of \<^verbatim>\<open>src/message.rs\<close>; \<^verbatim>\<open>src/error.rs\<close> is its errors, and
  \<^verbatim>\<open>src/table.rs\<close> declares a routing table that no code fills.

  The theories, from the bottom.
  \<^item> \<open>Prelude\<close>: machine integers as words, a fallible function's outcome (a value, an \<^verbatim>\<open>Err\<close>, a
    panic), big-endian conversions. \<open>Net\<close>: addresses, ordered by their octets, and durations, in
    nanoseconds. \<open>Errors\<close>, \<open>Config\<close>, \<open>Routing_Table\<close>: \<^verbatim>\<open>error.rs\<close>, \<^verbatim>\<open>config.rs\<close>, \<^verbatim>\<open>table.rs\<close>.
  \<^item> \<open>Octets\<close>: the crates \<^verbatim>\<open>octets\<close> and \<^verbatim>\<open>bytes\<close> are not in the repository. Their operations are
    records of functions the decoders take, their documented contracts the locales \<open>octets_api\<close> and
    \<open>bytes_mut_api\<close>, both interpreted on a plain byte slice. Each decoder has a simulation lemma:
    under the contract it computes what it computes on the slice.
  \<^item> \<open>Message_Header\<close>, \<open>Open_Msg\<close>, \<open>Update_Msg\<close>, \<open>Message_Codec\<close>: the decoders of \<^verbatim>\<open>message.rs\<close>,
    one definition for each function of the source. \<open>Update_Facts\<close> and \<open>Codec_Facts\<close>: what they
    consume, when they panic, that they return. The three reading loops of an UPDATE are one
    \<^verbatim>\<open>partial_function\<close>, so no fuel is chosen; the locale \<open>element_decoder\<close> proves for every decoder
    that makes progress that the loop returns, and is interpreted on the prefix, the attribute and
    the announced prefix.
  \<^item> \<open>Update_Layout\<close>: the well-formed prefixes, attributes and UPDATE messages, and the octets each is
    laid out in; every part is decoded from its octets, and every decoded part is well-formed.
    \<open>Decode_Typing\<close> puts these together for messages of all types, errors and panics.
  \<^item> \<open>Connection\<close>: \<^verbatim>\<open>connection.rs\<close>, reading run against the list of what the socket delivers, so that
    a reader that goes on waiting is a value. \<open>Stream_Facts\<close>: decoding is insensitive to octets that
    come after a whole frame, so reading in pieces is decoding at once.
  \<^item> \<open>Fsm\<close>, \<open>Fsm_Conversions\<close>: \<^verbatim>\<open>fsm.rs\<close>. \<open>Runtime\<close>: the effects of the session on the runtime (timer
    operations, messages, spawned and aborted tasks) as a log, its panics as results, and the
    weakest preconditions the proofs about it are computed with.
  \<^item> \<open>Session_Connect\<close>, \<open>Session_Active\<close>, \<open>Session_OpenSent\<close>, \<open>Session_OpenConfirm\<close>,
    \<open>Session_Established\<close>: one definition for each arm of the match of \<^verbatim>\<open>session::run\<close>, in its order.
    \<open>Timers\<close>: \<^verbatim>\<open>timer_loop\<close>, and the locale \<open>timer_service\<close>, the interface the session sees of it.
    \<open>Session\<close>: the loop, its reachable states, and the tasks \<^verbatim>\<open>process\<close> and \<^verbatim>\<open>process_one\<close>.
  \<^item> \<open>Session_Timers\<close> (attributes shadow timers), \<open>Session_Machine\<close> (the machine of RFC 4271 as
    a table written from its text, the steps of the session that are not in it, and the proof that all
    others are), \<open>Session_Invariant\<close> (what holds of every reachable state), \<open>Session_Facts\<close>,
    \<open>Session_Resources\<close> (handles and channels: which are made, given away and used),
    \<open>Session_Messages\<close> (what is sent, by a step and over the life of a channel) and \<open>Session_Tasks\<close>
    (what connection tasks and timers can send).
  \<^item> \<open>Main_Loop\<close>: the sessions and their spawned blocks, and \<^verbatim>\<open>process_passive\<close>, of \<^verbatim>\<open>main.rs\<close>.
    \<open>Program\<close>: the tasks put together. \<^verbatim>\<open>main\<close> runs against a list of actions (a socket is accepted and
    its task reads, the dispatcher takes a turn up to where it waits next, a session's block is polled,
    accepting fails), which is any schedule of the runtime; the channels between them are part of the
    state. The channel between a session and the task of its connection joins the log of the one to the
    turns of the other.
  \<^item> \<open>Samples\<close>: the values of the witnesses. \<open>Props_Session\<close>, \<open>Props_Opening\<close>, \<open>Props_Message\<close>,
    \<open>Props_Update\<close>, \<open>Props_Connection\<close> and this theory: the properties.

  Conventions. A context \<open>ctx\<close> gives a session its configuration, says whether the build has overflow
  checks and whether the receiver of a channel still exists at each send. A build with overflow
  checks panics where one without wraps; both are covered. Task handles and channels are numbers,
  given out in order. Durations are natural numbers of nanoseconds.

  What the properties show. The codec decodes what it decodes safely: it returns, consumes what it
  should, gives only well-formed messages, decodes every well-formed UPDATE to itself, every error
  leaves the buffer alone, and how TCP cuts the stream makes no difference; but its frames need as many
  octets after the header as the header says there are in all, its OPEN has blank fields, a prefix
  length above 128 panics, and a frame whose inner lengths run past its end is waited on for ever. The
  session takes the steps of the RFC's machine but for four kinds, which are named, its timers and
  attributes agree, each step sends what fits the state it leads to, and handles and channels are used
  in order; but the keepalive time is not negotiated in OpenSent, no session of the program gets past
  OpenSent, because the delay-open option is never on and the local OPEN is not kept without it, and
  an actively opened connection is closed by the program itself. The dispatcher hands a connection to
  the session of its configured peer and to no other; but what it hands over is lost, because the
  block spawned for a session completes, and drops its channel, without running \<^verbatim>\<open>session::run\<close>, and
  a session that did run would stay in Idle, because nothing sends a start event.

  Not modelled: logging and printing, the choice of \<^verbatim>\<open>select!\<close> (any order of events is allowed
  instead), the bounded capacity of the channels (a full channel makes a sender wait and changes no
  order), the conversions of a \<^verbatim>\<open>HashMap\<close> into an iteration order, what the two crates behind
  \<^verbatim>\<open>table.rs\<close> do, since nothing calls them, and the YANG files.

  This theory holds the properties that span components: stops and errors, what the tasks of the
  program can send to a session, and the program as a whole.
\<close>

section \<open>Stops and errors\<close>

text \<open>The states in which a stop tells the peer.\<close>

definition cease_on_stop :: "'m State \<Rightarrow> bool" where
  "cease_on_stop st \<longleftrightarrow> phase_of st \<in> {POpenSent, POpenConfirm, PEstablished} \<or>
     phase_of st = PActive \<and> cur_hold_time (get_attr st) \<noteq> FAR_FUTURE \<and>
     send_notification_without_open (get_attr st)"

text \<open>
  C27: \<^verbatim>\<open>ManualStop\<close>, where it does not panic, takes a session from any state to Idle with the retry
  counter at zero and the connect-retry timer stopped, and aborts the task of the session's
  connection. From OpenSent on it sends exactly one message, a Cease on the session's own channel; in
  Active it sends that only with the option to notify without an OPEN and a hold timer set; in Connect
  it sends nothing.
\<close>

theorem manual_stop:
  assumes "dispatch cx st ManualStop src w = (Ret st', w')" and "phase_of st \<noteq> PIdle"
  shows "phase_of st' = PIdle \<and> peer_of st' = peer_of st \<and>
    connect_retry_counter (get_attr st') = 0 \<and> armed_after (w_log w') KConnectRetry = FAR_FUTURE \<and>
    (\<forall>h. conn_handle_of st = Some h \<longrightarrow> Abort h \<in> set (w_log w')) \<and>
    (if cease_on_stop st
     then \<exists>tx. chan_of st = Some tx \<and> sent_messages (w_log w') = sent_messages (w_log w) @ [(tx, cease)]
     else sent_messages (w_log w') = sent_messages (w_log w))"
    (is "?P st' w'")
  by (rule dispatch_wp [where Q = ?P, OF assms(1)])
    (use assms(2) in \<open>simp_all add: step_unfold run_simps armed_simps cease_def cease_on_stop_def split: option.split\<close>)

lemma manual_stop_witness:
  "\<exists>st' w'. dispatch demo_cx (OpenSent (demo_opensent False)) ManualStop SrcAdmin initial_world = (Ret st', w') \<and>
     phase_of st' = PIdle \<and> Abort 0 \<in> set (w_log w') \<and> sent_messages (w_log w') = [(1, cease)]"
proof -
  obtain st' w' where d: "dispatch demo_cx (OpenSent (demo_opensent False)) ManualStop SrcAdmin initial_world
      = (Ret st', w')"
    by (simp add: run_eval demo_cx_def demo_opensent_def)
  from manual_stop [OF d] d show ?thesis by (simp add: demo_opensent_def cease_on_stop_def initial_world_def)
qed



text \<open>
  C34: In OpenSent and OpenConfirm an error of the header or of an OPEN, reported for the session's own
  connection, ends the session: one message is sent, the notification that carries the error's
  numbers and data, and the retry is counted. The same error reported for a colliding connection changes nothing.
\<close>

theorem message_error_reported:
  assumes "dispatch cx st ev src w = (Ret st', w')" and "phase_of st \<in> {POpenSent, POpenConfirm}"
    and "ev = BGPHeaderErr e \<or> ev = BGPOpenMsgErr e"
  shows "if src = SrcBgp
    then phase_of st' = PIdle \<and>
      connect_retry_counter (get_attr st') = connect_retry_counter (get_attr st) + 1 \<and>
      (\<exists>tx. sent_messages (w_log w') = sent_messages (w_log w) @
         [(tx, MsgNotification \<lparr>error_code = ErrorCode_u8 (err_code e),
                 error_subcode = ErrorSubCode_u8 (err_subcode e), notification_data = err_data e\<rparr>)])
    else st' = st \<and> w' = w"
    (is "?P st' w'")
  by (rule dispatch_wp [where Q = ?P, OF assms(1)])
    (use assms(2,3) in \<open>auto simp: step_unfold run_simps NotificationMsg_from_error_def split: option.split\<close>)

lemma message_error_reported_witness:
  "\<exists>st' w'. dispatch demo_cx (OpenSent (demo_opensent False)) (BGPHeaderErr (new_header BadMessageType None))
       SrcBgp initial_world = (Ret st', w') \<and> phase_of st' = PIdle"
proof -
  obtain st' w' where d: "dispatch demo_cx (OpenSent (demo_opensent False))
      (BGPHeaderErr (new_header BadMessageType None)) SrcBgp initial_world = (Ret st', w')"
    by (simp add: run_eval demo_cx_def demo_opensent_def)
  from message_error_reported [OF d] d show ?thesis by simp
qed

section \<open>Connection tasks\<close>

text \<open>
  C29: The program itself never takes a session to Established, from whatever other state it is in: no
  sequence of events that the dispatcher, a connection attempt, the task of its connection, the task
  of a second connection or the timers send does, because a connection task drops the KEEPALIVE
  messages it decodes and nothing else sends the event.
\<close>

theorem program_events_never_establish:
  assumes "run cx st inputs w = (Ret st', w')" and "phase_of st \<noteq> PEstablished"
    and "\<forall>(src, received) \<in> set inputs. \<exists>ev. received = Some ev \<and> task_event chk ops bm peer_addr nbrs src ev"
  shows "phase_of st' \<noteq> PEstablished"
  using assms
proof (induction inputs arbitrary: st w)
  case (Cons i inputs)
  obtain src ev where i: "i = (src, Some ev)" and t: "task_event chk ops bm peer_addr nbrs src ev"
    using Cons.prems(3) by (cases i) auto
  from Cons.prems(1) i obtain st1 w1 where s: "step cx st src (Some ev) w = (Ret st1, w1)"
    and r: "run cx st1 inputs w1 = (Ret st', w')"
    by (auto simp: bindA_Ret)
  let ?ev = "if src = SrcAdmin then admin_event st ev else ev"
  from s have "dispatch cx st ?ev src w = (Ret st1, w1)" by (auto simp: step_def bindA_Ret unwrap_Ret)
  then have m: "machine_ok (get_attr st) (phase_of st) ?ev src (phase_of st1)" by (rule machine_dispatch)
  have "?ev \<noteq> EvKeepaliveMsg"
    using task_event_not_keepalive [OF t] by (auto simp: admin_event_def split: Event.split)
  with enters_Established [of "get_attr st" "phase_of st" ?ev src] m Cons.prems(2)
  have "phase_of st1 \<noteq> PEstablished" by metis
  with Cons.IH [OF r] Cons.prems(3) show ?case by simp
qed (simp add: retA_Ret)

lemma program_events_never_establish_witness:
  "\<exists>st' w'. run demo_cx (OpenConfirm demo_openconfirm)
       [(SrcTimer, Some KeepaliveTimerExpires), (SrcTcp, Some (tcp_event (Some (TcpStream 3))))] initial_world
       = (Ret st', w') \<and> phase_of st' = POpenConfirm \<and> phase_of st' \<noteq> PEstablished"
proof -
  let ?inputs = "[(SrcTimer, Some KeepaliveTimerExpires), (SrcTcp, Some (tcp_event (Some (TcpStream 3))))]
    :: (Source \<times> u8 list Event option) list"
  obtain st' w' where r: "run demo_cx (OpenConfirm demo_openconfirm) ?inputs initial_world = (Ret st', w')"
    and p: "phase_of st' = POpenConfirm"
    by (simp add: run_eval demo_cx_def demo_openconfirm_def tcp_event_def)
  have "KeepaliveTimerExpires \<in> set (snd (timer_task KKeepalive 3 [Elapsed] :: Duration \<times> u8 list Event list))"
    by (simp add: timer_task_step_def)
  then have "\<exists>k dur waits. (KeepaliveTimerExpires :: u8 list Event) \<in> set (snd (timer_task k dur waits))" by blast
  then have "\<forall>(src, received) \<in> set ?inputs. \<exists>ev. received = Some ev \<and>
      task_event True ref_octets ref_bytes (\<lambda>_. None) demo_neighbors src ev"
    by (auto simp: task_event_def)
  from program_events_never_establish [OF r _ this] r p show ?thesis by auto
qed

text \<open>
  C32: A header or OPEN error leaves its octets in the receive buffer, so the connection task meets
  the same error on every turn: \<open>n\<close> turns send the session \<open>n\<close> copies of one event, for any \<open>n\<close>, and the
  task reads nothing from the socket any more. This holds for any buffer crates that keep their contracts.
\<close>

theorem bad_message_repeats:
  assumes "codec ops cur bm"
    and "Message_decode chk ops bm (buffer conn) (conn_peer conn) = Some (Err e, buf)"
    and "error_event e = Some ev"
  shows "\<exists>conn'. process chk ops bm (\<lambda>_. True) remote_syn [] conn reads (replicate n FromPeer)
    = (replicate n ev, Running conn')"
proof -
  from codec.decode_ref [OF assms(1), of chk "buffer conn" "conn_peer conn"] assms(2)
  have "ref_decode chk (bm_slice bm (buffer conn)) (conn_peer conn) = Some (Err e, bm_slice bm buf)"
    by simp
  from codec.process_repeats_error [OF assms(1) this assms(3) refl, of remote_syn "[]" reads n]
  show ?thesis by simp
qed

lemma bad_message_repeats_witness:
  "\<exists>conn'. process True ref_octets ref_bytes (\<lambda>_. True) False []
       (demo_conn\<lparr>buffer := replicate 19 255\<rparr>) [] (replicate 5 FromPeer)
     = (replicate 5 (BGPHeaderErr (new_header ConnectionNotSync None)), Running conn')"
proof -
  have "MessageHeader_decode ref_octets (Cursor (replicate 19 255) 0) = Err (new_header ConnectionNotSync None)"
    by (rule header_decode_bad_marker) (simp_all add: replicate_eq_replicate)
  then have d: "Message_decode True ref_octets ref_bytes (buffer (demo_conn\<lparr>buffer := replicate 19 255\<rparr>))
      (conn_peer (demo_conn\<lparr>buffer := replicate 19 255\<rparr>))
      = Some (Err (new_header ConnectionNotSync None), replicate 19 255)"
    using ref_decode_bad_header [of "replicate 19 255" _ True] by (simp add: ref_decode_def)
  have e: "error_event (new_header ConnectionNotSync None)
      = Some (BGPHeaderErr (new_header ConnectionNotSync None) :: u8 list Event)"
    by (simp add: error_event_def error_defs)
  from bad_message_repeats [OF ref_codec.codec_axioms d e] show ?thesis .
qed

section \<open>The program as a whole\<close>

text \<open>
  C15: In every run of the program, whatever its peers send and in whichever order its tasks run, an
  event that reaches a session hands over a connection whose socket has sent a well-formed OPEN, and
  that OPEN; the session is the one of the configured neighbour with the socket's address and the
  OPEN's AS number, which is therefore below 65536.
\<close>

theorem program_handover:
  assumes "codec ops cur bm"
    and "(session, ev) \<in> set (pg_delivered (fst
      (main_loop chk ops bm peer_addr nbrs alive program_start acts)))"
  shows "\<exists>conn opn sock neigh. peer_addr (stream conn) = Some sock \<and> session = sock_ip sock \<and>
    nbrs session = Some neigh \<and> peer_as (neighbor_config neigh) = as_number opn \<and>
    unat (as_number opn) < 65536 \<and> conn_peer conn = Some opn \<and> open_wf opn \<and>
    (ev = TcpConnectionConfirmed conn \<or> ev = BGPOpen opn True)"
proof -
  from codec.program_inv_loop [OF assms(1) program_inv_start] assms(2)
  have "delivered_ok peer_addr (session_map nbrs) (session, ev)"
    by (fastforce simp: program_inv_def)
  then show ?thesis
    by (auto simp: delivered_ok_def forwarded_ok_def session_map_Some open_wf_def)
qed

lemma program_handover_witness:
  "\<exists>m. (sock_ip demo_peer, BGPOpen m True) \<in> set (pg_delivered (fst
      (main_loop True ref_octets ref_bytes (\<lambda>_. Some demo_peer) demo_neighbors receiver_alive
         program_start [Accepted (TcpStream 7) [ReadOk open_buffer], DispatcherRuns, DispatcherRuns]))) \<and>
    unat (as_number m) < 65536"
proof -
  let ?pg = "fst (main_loop True ref_octets ref_bytes (\<lambda>_. Some demo_peer) demo_neighbors receiver_alive
      program_start [Accepted (TcpStream 7) [ReadOk open_buffer], DispatcherRuns, DispatcherRuns])"
  obtain conn m where f: "process_passive True ref_octets ref_bytes True (TcpStream 7) [ReadOk open_buffer]
      = Forwarded conn m" and m: "as_number m = 65001"
    using accepted_open_forwarded by blast
  have d: "(sock_ip demo_peer, BGPOpen m True) \<in> set (pg_delivered ?pg)"
    by (simp add: program_eval f m demo_peer_def)
  from program_handover [OF ref_codec.codec_axioms d] d show ?thesis by auto
qed

text \<open>
  C16: What the program hands to a session is lost. A session's block owns its channel's receiver only
  until the runtime polls it, and then is complete with the session still to be run in it: in every
  run in which it has been polled, its channel is gone with whatever was sent before, nothing is ever
  sent to it again however the program goes on, and the next connection for it ends the dispatcher.
\<close>

theorem handed_over_is_lost:
  assumes "main chk ops bm peer_addr conf bound acts = (pg, Ret ())"
    and "SessionPolled session \<in> set acts" and "neighbors conf session = Some neigh"
  shows "pg_blocks pg session = Completed (initial_session session neigh, neigh) \<and>
    pg_channels pg session = [] \<and>
    (\<forall>later. events_for session (fst (main_loop chk ops bm peer_addr (neighbors conf) receiver_alive pg later))
       = events_for session pg) \<and>
    (\<forall>conn opn items sock. pg_dispatcher pg = Receiving \<and> pg_queue pg = (conn, opn) # items \<and>
       peer_addr (stream conn) = Some sock \<and> session_map (neighbors conf) (sock_ip sock, as_number opn) = Some session \<longrightarrow>
       pg_dispatcher (dispatcher_runs peer_addr (session_map (neighbors conf)) receiver_alive pg) = Ended UnwrapErr)"
proof -
  from assms(1) have "main_loop chk ops bm peer_addr (neighbors conf) receiver_alive program_start acts = (pg, Ret ())"
    by (simp add: main_def split: if_splits)
  from polled_over [OF assms(3) tasks_inv_start _ this] assms(2) have o: "over (neighbors conf) session pg"
    by blast
  then have "pg_blocks pg session = Completed (initial_session session neigh, neigh)" and "pg_channels pg session = []"
    using assms(3) by (auto simp: over_def)
  then show ?thesis using over_loop [OF o] dispatcher_over_ends [OF o] by blast
qed

lemma handed_over_is_lost_witness:
  "\<exists>pg conn m. main True ref_octets ref_bytes (\<lambda>_. Some demo_peer) (Bgp_new\<lparr>neighbors := demo_neighbors\<rparr>) True
       [Accepted (TcpStream 7) [ReadOk open_buffer], DispatcherRuns, DispatcherRuns, SessionPolled (sock_ip demo_peer),
        Accepted (TcpStream 7) [ReadOk open_buffer]] = (pg, Ret ()) \<and>
     events_for (sock_ip demo_peer) pg = [TcpConnectionConfirmed conn, BGPOpen m True] \<and>
     pg_channels pg (sock_ip demo_peer) = [] \<and>
     pg_dispatcher (dispatcher_runs (\<lambda>_. Some demo_peer) (session_map demo_neighbors) receiver_alive pg)
       = Ended UnwrapErr"
proof -
  let ?acts = "[Accepted (TcpStream 7) [ReadOk open_buffer], DispatcherRuns, DispatcherRuns,
    SessionPolled (sock_ip demo_peer), Accepted (TcpStream 7) [ReadOk open_buffer]]"
  obtain conn m where f: "process_passive True ref_octets ref_bytes True (TcpStream 7) [ReadOk open_buffer]
      = Forwarded conn m" and m: "as_number m = 65001"
    using accepted_open_forwarded by blast
  obtain pg where pg: "main True ref_octets ref_bytes (\<lambda>_. Some demo_peer) (Bgp_new\<lparr>neighbors := demo_neighbors\<rparr>) True
      ?acts = (pg, Ret ())"
    and q: "pg_queue pg = [(conn, m)]" "pg_dispatcher pg = Receiving"
    and del: "pg_delivered pg = [(sock_ip demo_peer, TcpConnectionConfirmed conn), (sock_ip demo_peer, BGPOpen m True)]"
    by (simp add: main_def program_eval f m demo_peer_def poll_session_def session_block_def)
  from del have e: "events_for (sock_ip demo_peer) pg = [TcpConnectionConfirmed conn, BGPOpen m True]"
    by (simp add: events_for_def)
  have n: "neighbors (Bgp_new\<lparr>neighbors := demo_neighbors\<rparr>) (sock_ip demo_peer) = Some demo_conf"
    by (simp add: demo_neighbors_def demo_peer_def)
  have "session_map demo_neighbors (sock_ip demo_peer, as_number m) = Some (sock_ip demo_peer)"
    by (simp add: session_map_Some demo_neighbors_def demo_peer_def demo_conf_def m)
  with handed_over_is_lost [OF pg _ n] pg q e show ?thesis by auto
qed

section \<open>Idle sessions\<close>

text \<open>
  C31: A session in Idle ignores every event but the four start events: it stays as it is and has no
  effect, for any sequence of events. Nothing in the program sends a start event, so no session leaves Idle.
\<close>

theorem idle_ignores:
  assumes "\<forall>(src, received) \<in> set inputs. \<exists>ev. received = Some ev \<and>
    ev \<notin> {ManualStart, AutomaticStart, ManualStartWithPassiveTcpEstablishment, AutomaticStartWithPassiveTcpEstablishment}"
  shows "run cx (Idle s) inputs w = (Ret (Idle s), w)"
  using assms
proof (induction inputs)
  case (Cons i inputs)
  obtain src received where i: "i = (src, received)" by force
  with Cons.prems obtain ev where ev: "received = Some ev"
    "ev \<notin> {ManualStart, AutomaticStart, ManualStartWithPassiveTcpEstablishment, AutomaticStartWithPassiveTcpEstablishment}"
    by auto
  then have "step cx (Idle s) src received w = (Ret (Idle s), w)"
    by (cases ev) (simp_all add: run_eval)
  with Cons i show ?case by (simp add: bindA_def)
qed (simp add: retA_def)

lemma idle_ignores_witness:
  "run demo_cx (Idle (Fsm_new demo_peer))
     [(SrcAdmin, Some (TcpConnectionConfirmed demo_conn)), (SrcAdmin, Some (BGPOpen demo_open True)),
      (SrcTimer, Some HoldTimerExpires)] initial_world = (Ret (Idle (Fsm_new demo_peer)), initial_world)"
  by (rule idle_ignores) simp

end
